(* ===== verification/Prelude.thy ===== *)
theory Prelude
  imports Complex_Main "HOL-Library.AList" "HOL-Library.Sublist"
begin

text \<open>
  The vocabulary the component theories share.

  Python values: \<open>pyval\<close> is the type of the data the gateway reads from outside (parsed YAML
  and JSON, JWT claims, tool arguments, upstream responses). The code never checks most of
  this data for its type, so the model keeps it dynamic and every Python operation the code
  applies to it (truth test, \<open>==\<close>, \<open>in\<close>, iteration, string methods) is a function that may
  raise. Dictionaries are association lists in insertion order, with string keys.
  Floats are exact rationals, strings are lists of code points below 256.

  Exceptions: \<open>exn\<close> has one constructor per exception class of the errors modules
  (\<open>governance/errors.py\<close>, \<open>identity/errors.py\<close>, \<open>masking/errors.py\<close>, \<open>pipeline/errors.py\<close>,
  \<open>proxy/errors.py\<close>, \<open>transport/errors.py\<close>, \<open>plugin_manager.py\<close>), the built-in exceptions the
  code raises or catches, and \<open>OtherException\<close> for a class of a third-party package.
  A computation that may raise returns \<open>'a res\<close>, a sum with the exception on the left; a
  method that also updates state has type \<open>('w, 'a) prog\<close> and returns the new state on
  both branches, since a raise does not undo earlier updates.
\<close>

named_theorems py_simps \<open>evaluation rules of the Python operations on values of a known shape\<close>
named_theorems res_simps \<open>computation rules of the result type\<close>

section \<open>Values\<close>

datatype pyval =
    PNone
  | PBool bool
  | PInt int
  | PFloat rat
  | PStr string
  | PList "pyval list"
  | PDict "(string \<times> pyval) list"

type_synonym pydict = "(string \<times> pyval) list"

section \<open>Exceptions and results\<close>

datatype (plugins only: size code) exn =
    ValueError string
  | TypeError string
  | AttributeError string
  | KeyError string
  | OSError string
  | FileNotFoundError string
  | PermissionError string
  | TimeoutError string
  | CancelledError
  | SystemExit int
  | GovernanceError string
  | PolicyFileError string string
  | PolicyValidationError string string
  | PolicyReferenceError string string string
  | PipelineError string
  | ShortCircuitError string bool
  | HookError string string string
  | IdentityError string
  | JWKSFetchError string string
  | TokenValidationError string string
  | TokenExpiredError string
  | TokenExchangeError string string
  | MaskingError string
  | MaskingEngineError string string
  | MaskingConfigError string string
  | ProxyError string string string
  | RoutingError string string string
  | UpstreamError string string string
  | ProxyTimeoutError string string string
  | TransportError string string string
  | TransportConnectionError string string string
  | TransportTimeoutError string string string
  | SessionError string string string
  | TransportClosedError string string string
  | ProcessError string string string
  | PluginLoadError string
  | OtherException string string

type_synonym 'a res = "exn + 'a"

type_synonym ('w, 'a) prog = "'w \<Rightarrow> 'a res \<times> 'w"

text \<open>
  \<open>isinstance\<close> tests against the base classes the code catches. \<open>except Exception\<close> does not
  catch \<open>asyncio.CancelledError\<close> and \<open>SystemExit\<close>; \<open>asyncio.TimeoutError\<close> is the built-in
  \<open>TimeoutError\<close>, a subclass of \<open>OSError\<close>.
\<close>

fun is_Exception :: "exn \<Rightarrow> bool" where
  "is_Exception CancelledError = False"
| "is_Exception (SystemExit _) = False"
| "is_Exception _ = True"

fun is_OSError :: "exn \<Rightarrow> bool" where
  "is_OSError (OSError _) = True"
| "is_OSError (FileNotFoundError _) = True"
| "is_OSError (PermissionError _) = True"
| "is_OSError (TimeoutError _) = True"
| "is_OSError _ = False"

fun is_ValueError :: "exn \<Rightarrow> bool" where
  "is_ValueError (ValueError _) = True"
| "is_ValueError _ = False"

fun is_GovernanceError :: "exn \<Rightarrow> bool" where
  "is_GovernanceError (GovernanceError _) = True"
| "is_GovernanceError (PolicyFileError _ _) = True"
| "is_GovernanceError (PolicyValidationError _ _) = True"
| "is_GovernanceError (PolicyReferenceError _ _ _) = True"
| "is_GovernanceError _ = False"

fun is_IdentityError :: "exn \<Rightarrow> bool" where
  "is_IdentityError (IdentityError _) = True"
| "is_IdentityError (JWKSFetchError _ _) = True"
| "is_IdentityError (TokenValidationError _ _) = True"
| "is_IdentityError (TokenExpiredError _) = True"
| "is_IdentityError (TokenExchangeError _ _) = True"
| "is_IdentityError _ = False"

text \<open>\<open>TokenExpiredError\<close> is a \<open>TokenValidationError\<close> whose reason is \<open>expired\<close>.\<close>

fun token_error_reason :: "exn \<Rightarrow> string option" where
  "token_error_reason (TokenValidationError _ r) = Some r"
| "token_error_reason (TokenExpiredError _) = Some ''expired''"
| "token_error_reason _ = None"

fun is_TransportError :: "exn \<Rightarrow> bool" where
  "is_TransportError (TransportError _ _ _) = True"
| "is_TransportError (TransportConnectionError _ _ _) = True"
| "is_TransportError (TransportTimeoutError _ _ _) = True"
| "is_TransportError (SessionError _ _ _) = True"
| "is_TransportError (TransportClosedError _ _ _) = True"
| "is_TransportError (ProcessError _ _ _) = True"
| "is_TransportError _ = False"

fun is_ProxyError :: "exn \<Rightarrow> bool" where
  "is_ProxyError (ProxyError _ _ _) = True"
| "is_ProxyError (RoutingError _ _ _) = True"
| "is_ProxyError (UpstreamError _ _ _) = True"
| "is_ProxyError (ProxyTimeoutError _ _ _) = True"
| "is_ProxyError _ = False"

text \<open>\<open>type(exc).__name__\<close> and \<open>str(exc)\<close>.\<close>

primrec exn_class :: "exn \<Rightarrow> string" where
  "exn_class (ValueError _) = ''ValueError''"
| "exn_class (TypeError _) = ''TypeError''"
| "exn_class (AttributeError _) = ''AttributeError''"
| "exn_class (KeyError _) = ''KeyError''"
| "exn_class (OSError _) = ''OSError''"
| "exn_class (FileNotFoundError _) = ''FileNotFoundError''"
| "exn_class (PermissionError _) = ''PermissionError''"
| "exn_class (TimeoutError _) = ''TimeoutError''"
| "exn_class CancelledError = ''CancelledError''"
| "exn_class (SystemExit _) = ''SystemExit''"
| "exn_class (GovernanceError _) = ''GovernanceError''"
| "exn_class (PolicyFileError _ _) = ''PolicyFileError''"
| "exn_class (PolicyValidationError _ _) = ''PolicyValidationError''"
| "exn_class (PolicyReferenceError _ _ _) = ''PolicyReferenceError''"
| "exn_class (PipelineError _) = ''PipelineError''"
| "exn_class (ShortCircuitError _ _) = ''ShortCircuitError''"
| "exn_class (HookError _ _ _) = ''HookError''"
| "exn_class (IdentityError _) = ''IdentityError''"
| "exn_class (JWKSFetchError _ _) = ''JWKSFetchError''"
| "exn_class (TokenValidationError _ _) = ''TokenValidationError''"
| "exn_class (TokenExpiredError _) = ''TokenExpiredError''"
| "exn_class (TokenExchangeError _ _) = ''TokenExchangeError''"
| "exn_class (MaskingError _) = ''MaskingError''"
| "exn_class (MaskingEngineError _ _) = ''MaskingEngineError''"
| "exn_class (MaskingConfigError _ _) = ''MaskingConfigError''"
| "exn_class (ProxyError _ _ _) = ''ProxyError''"
| "exn_class (RoutingError _ _ _) = ''RoutingError''"
| "exn_class (UpstreamError _ _ _) = ''UpstreamError''"
| "exn_class (ProxyTimeoutError _ _ _) = ''ProxyTimeoutError''"
| "exn_class (TransportError _ _ _) = ''TransportError''"
| "exn_class (TransportConnectionError _ _ _) = ''TransportConnectionError''"
| "exn_class (TransportTimeoutError _ _ _) = ''TransportTimeoutError''"
| "exn_class (SessionError _ _ _) = ''SessionError''"
| "exn_class (TransportClosedError _ _ _) = ''TransportClosedError''"
| "exn_class (ProcessError _ _ _) = ''ProcessError''"
| "exn_class (PluginLoadError _) = ''PluginLoadError''"
| "exn_class (OtherException c _) = c"

section \<open>Strings\<close>

definition lower_char :: "char \<Rightarrow> char" where
  "lower_char c =
     (let n = (of_char c :: nat)
      in if 65 \<le> n \<and> n \<le> 90 \<or> 192 \<le> n \<and> n \<le> 222 \<and> n \<noteq> 215 then char_of (n + 32) else c)"

definition lower :: "string \<Rightarrow> string" where
  "lower s = map lower_char s"

definition upper_char :: "char \<Rightarrow> char" where
  "upper_char c =
     (let n = (of_char c :: nat)
      in if 97 \<le> n \<and> n \<le> 122 \<or> 224 \<le> n \<and> n \<le> 254 \<and> n \<noteq> 247 then char_of (n - 32) else c)"

definition upper :: "string \<Rightarrow> string" where
  "upper s = map upper_char s"

definition is_space :: "char \<Rightarrow> bool" where
  "is_space c =
     (let n = (of_char c :: nat)
      in 9 \<le> n \<and> n \<le> 13 \<or> 28 \<le> n \<and> n \<le> 32 \<or> n = 133 \<or> n = 160)"

definition strip :: "string \<Rightarrow> string" where
  "strip s = rev (dropWhile is_space (rev (dropWhile is_space s)))"

text \<open>\<open>s.split(None, 1)\<close>: at most two fields, leading and separating white space dropped.\<close>

definition split_ws1 :: "string \<Rightarrow> string list" where
  "split_ws1 s =
     (let t = dropWhile is_space s;
          a = takeWhile (\<lambda>c. \<not> is_space c) t;
          b = dropWhile is_space (dropWhile (\<lambda>c. \<not> is_space c) t)
      in if t = [] then [] else if b = [] then [a] else [a, b])"

text \<open>\<open>s.split(sep, 1)\<close> with a non-empty separator: the text before and after its first
  occurrence, or the whole text.\<close>

fun split1 :: "string \<Rightarrow> string \<Rightarrow> string list" where
  "split1 sep [] = [[]]"
| "split1 sep (c # cs) =
     (if prefix sep (c # cs) then [[], drop (length sep) (c # cs)]
      else case split1 sep cs of
             [a] \<Rightarrow> [c # a]
           | a # rest \<Rightarrow> (c # a) # rest
           | [] \<Rightarrow> [])"

text \<open>\<open>s.rstrip("/")\<close>.\<close>

definition rstrip_char :: "char \<Rightarrow> string \<Rightarrow> string" where
  "rstrip_char c s = rev (dropWhile (\<lambda>d. d = c) (rev s))"

fun join :: "string \<Rightarrow> string list \<Rightarrow> string" where
  "join sep [] = []"
| "join sep [s] = s"
| "join sep (s # t # ss) = s @ sep @ join sep (t # ss)"

text \<open>A text between single quotes, as the messages of the code show it.\<close>

definition quoted :: "string \<Rightarrow> string" where
  "quoted s = CHR 0x27 # s @ [CHR 0x27]"

definition contains :: "string \<Rightarrow> string \<Rightarrow> bool" where
  "contains sub s = sublist sub s"

definition digit_char :: "nat \<Rightarrow> char" where
  "digit_char n = char_of (48 + n)"

fun nat_str :: "nat \<Rightarrow> string" where
  "nat_str n = (if n < 10 then [digit_char n] else nat_str (n div 10) @ [digit_char (n mod 10)])"

declare nat_str.simps [simp del]

definition int_str :: "int \<Rightarrow> string" where
  "int_str i = (if i < 0 then ''-'' @ nat_str (nat (- i)) else nat_str (nat i))"

text \<open>Decimal expansion of a float; at most seventeen digits after the point.\<close>

fun frac_digits :: "nat \<Rightarrow> rat \<Rightarrow> string" where
  "frac_digits 0 q = []"
| "frac_digits (Suc n) q =
     (if q = 0 then [] else digit_char (nat (floor (10 * q))) # frac_digits n (10 * q - of_int (floor (10 * q))))"

definition float_str :: "rat \<Rightarrow> string" where
  "float_str q =
     (let a = abs q; i = floor a; f = frac_digits 17 (a - of_int i)
      in (if q < 0 then ''-'' else []) @ int_str i @ ''.'' @ (if f = [] then ''0'' else f))"

definition hex_digit :: "nat \<Rightarrow> char" where
  "hex_digit n = (if n < 10 then char_of (48 + n) else char_of (87 + n))"

definition hex2 :: "char \<Rightarrow> string" where
  "hex2 c = (let n = (of_char c :: nat) in [hex_digit (n div 16), hex_digit (n mod 16)])"

end
