(* ===== verification/PyOps.thy ===== *)
theory PyOps
  imports Prelude
begin

text \<open>
  The Python operations the code applies to dynamic values, the combinators of the result
  type (sequencing, comprehensions and \<open>any\<close> whose body may raise, \<open>except ValueError\<close>), and
  the lemmas on them that the component proofs use. Each operation raises where CPython does,
  with CPython's message.
\<close>

section \<open>Results\<close>

definition res_bind :: "'a res \<Rightarrow> ('a \<Rightarrow> 'b res) \<Rightarrow> 'b res" where
  "res_bind m f = (case m of Inl e \<Rightarrow> Inl e | Inr x \<Rightarrow> f x)"

lemma res_bind_simps [simp, res_simps]:
  "res_bind (Inl e) f = Inl e"
  "res_bind (Inr x) f = f x"
  by (simp_all add: res_bind_def)

lemma res_bind_Inr [simp]: "res_bind m Inr = m"
  by (cases m) simp_all

lemma res_bind_eq_Inr [res_simps]:
  "res_bind m f = Inr y \<longleftrightarrow> (\<exists>x. m = Inr x \<and> f x = Inr y)"
  by (cases m) simp_all

lemma res_bind_eq_Inl [res_simps]:
  "res_bind m f = Inl e \<longleftrightarrow> m = Inl e \<or> (\<exists>x. m = Inr x \<and> f x = Inl e)"
  by (cases m) simp_all

lemma res_bind_cong [fundef_cong]:
  assumes "m = m'" and "\<And>x. m' = Inr x \<Longrightarrow> f x = f' x"
  shows "res_bind m f = res_bind m' f'"
  using assms by (cases m') simp_all

definition is_ok :: "'a res \<Rightarrow> bool" where
  "is_ok m = (case m of Inl _ \<Rightarrow> False | Inr _ \<Rightarrow> True)"

lemma is_ok_simps [simp, res_simps]: "is_ok (Inr x)" "\<not> is_ok (Inl e)"
  by (simp_all add: is_ok_def)

lemma is_ok_iff: "is_ok m \<longleftrightarrow> (\<exists>x. m = Inr x)"
  by (cases m) simp_all

text \<open>\<open>[f(x) for x in xs]\<close> and \<open>any(f(x) for x in xs)\<close>, left to right, where \<open>f\<close> may raise.\<close>

fun map_res :: "('a \<Rightarrow> 'b res) \<Rightarrow> 'a list \<Rightarrow> 'b list res" where
  "map_res f [] = Inr []"
| "map_res f (x # xs) = res_bind (f x) (\<lambda>y. res_bind (map_res f xs) (\<lambda>ys. Inr (y # ys)))"

fun any_res :: "('a \<Rightarrow> bool res) \<Rightarrow> 'a list \<Rightarrow> bool res" where
  "any_res f [] = Inr False"
| "any_res f (x # xs) = res_bind (f x) (\<lambda>b. if b then Inr True else any_res f xs)"

text \<open>The same comprehension over \<open>enumerate(xs)\<close>, counting from \<open>i\<close>.\<close>

fun map_res_enum :: "(nat \<Rightarrow> 'a \<Rightarrow> 'b res) \<Rightarrow> nat \<Rightarrow> 'a list \<Rightarrow> 'b list res" where
  "map_res_enum f i [] = Inr []"
| "map_res_enum f i (x # xs) =
     res_bind (f i x) (\<lambda>y. res_bind (map_res_enum f (Suc i) xs) (\<lambda>ys. Inr (y # ys)))"

text \<open>A loop that only checks: it raises at the first element whose check raises.\<close>

fun each_res :: "('a \<Rightarrow> unit res) \<Rightarrow> 'a list \<Rightarrow> unit res" where
  "each_res f [] = Inr ()"
| "each_res f (x # xs) = res_bind (f x) (\<lambda>_. each_res f xs)"

text \<open>\<open>try: m except ValueError as exc: raise h(exc)\<close>.\<close>

definition except_ValueError :: "'a res \<Rightarrow> (string \<Rightarrow> exn) \<Rightarrow> 'a res" where
  "except_ValueError m h = (case m of Inl (ValueError msg) \<Rightarrow> Inl (h msg) | _ \<Rightarrow> m)"

lemma except_ValueError_Inr [simp]:
  "except_ValueError (Inr x) h = Inr x"
  "except_ValueError (Inl (ValueError m)) h = Inl (h m)"
  by (simp_all add: except_ValueError_def)

lemma except_ValueError_eq_Inr [res_simps]: "except_ValueError m h = Inr x \<longleftrightarrow> m = Inr x"
  by (auto simp: except_ValueError_def split: sum.splits exn.splits)

lemma map_res_length: "map_res f xs = Inr ys \<Longrightarrow> length ys = length xs"
  by (induction xs arbitrary: ys) (auto simp: res_simps)

lemma map_res_ok: "(\<And>x. x \<in> set xs \<Longrightarrow> f x = Inr (g x)) \<Longrightarrow> map_res f xs = Inr (map g xs)"
  by (induction xs) auto

lemma map_res_Inr_set:
  "map_res f xs = Inr ys \<Longrightarrow> y \<in> set ys \<Longrightarrow> \<exists>x \<in> set xs. f x = Inr y"
  by (induction xs arbitrary: ys) (auto simp: res_simps)

lemma map_res_enum_set:
  "map_res_enum f i xs = Inr ys \<Longrightarrow> y \<in> set ys \<Longrightarrow> \<exists>j. \<exists>x \<in> set xs. f j x = Inr y"
  by (induction xs arbitrary: i ys) (auto simp: res_simps, blast+)

lemma any_res_ok:
  "(\<And>x. x \<in> set xs \<Longrightarrow> f x = Inr (g x)) \<Longrightarrow> any_res f xs = Inr (\<exists>x \<in> set xs. g x)"
  by (induction xs) auto

lemma each_res_ok: "each_res f xs = Inr () \<longleftrightarrow> (\<forall>x \<in> set xs. f x = Inr ())"
  by (induction xs) (auto simp: res_simps)

section \<open>Types, truth and equality\<close>

fun type_name :: "pyval \<Rightarrow> string" where
  "type_name PNone = ''NoneType''"
| "type_name (PBool _) = ''bool''"
| "type_name (PInt _) = ''int''"
| "type_name (PFloat _) = ''float''"
| "type_name (PStr _) = ''str''"
| "type_name (PList _) = ''list''"
| "type_name (PDict _) = ''dict''"

fun truthy :: "pyval \<Rightarrow> bool" where
  "truthy PNone = False"
| "truthy (PBool b) = b"
| "truthy (PInt i) = (i \<noteq> 0)"
| "truthy (PFloat q) = (q \<noteq> 0)"
| "truthy (PStr s) = (s \<noteq> [])"
| "truthy (PList xs) = (xs \<noteq> [])"
| "truthy (PDict d) = (d \<noteq> [])"

fun is_str :: "pyval \<Rightarrow> bool" where
  "is_str (PStr _) = True"
| "is_str _ = False"

fun is_list :: "pyval \<Rightarrow> bool" where
  "is_list (PList _) = True"
| "is_list _ = False"

fun is_dict :: "pyval \<Rightarrow> bool" where
  "is_dict (PDict _) = True"
| "is_dict _ = False"

text \<open>\<open>isinstance(v, int)\<close> also holds for booleans.\<close>

fun as_int :: "pyval \<Rightarrow> int option" where
  "as_int (PInt i) = Some i"
| "as_int (PBool b) = Some (if b then 1 else 0)"
| "as_int _ = None"

text \<open>Booleans, integers and floats compare by their numeric value.\<close>

fun num_val :: "pyval \<Rightarrow> rat option" where
  "num_val (PBool b) = Some (if b then 1 else 0)"
| "num_val (PInt i) = Some (of_int i)"
| "num_val (PFloat q) = Some q"
| "num_val _ = None"

text \<open>\<open>==\<close>: two dictionaries are equal when they have the same keys with equal values, in
  any order.\<close>

fun py_eq :: "pyval \<Rightarrow> pyval \<Rightarrow> bool" and
    py_eq_list :: "pyval list \<Rightarrow> pyval list \<Rightarrow> bool" and
    py_eq_dict :: "(string \<times> pyval) list \<Rightarrow> (string \<times> pyval) list \<Rightarrow> bool" where
  "py_eq (PStr s) v = (v = PStr s)"
| "py_eq PNone v = (v = PNone)"
| "py_eq (PList xs) v = (case v of PList ys \<Rightarrow> py_eq_list xs ys | _ \<Rightarrow> False)"
| "py_eq (PDict d) v =
     (case v of PDict e \<Rightarrow> length d = length e \<and> py_eq_dict d e | _ \<Rightarrow> False)"
| "py_eq (PBool b) v = (num_val v = Some (if b then 1 else 0))"
| "py_eq (PInt i) v = (num_val v = Some (of_int i))"
| "py_eq (PFloat q) v = (num_val v = Some q)"
| "py_eq_list [] ys = (ys = [])"
| "py_eq_list (x # xs) ys =
     (case ys of [] \<Rightarrow> False | y # ys' \<Rightarrow> py_eq x y \<and> py_eq_list xs ys')"
| "py_eq_dict [] e = True"
| "py_eq_dict ((k, x) # d) e =
     ((case map_of e k of None \<Rightarrow> False | Some y \<Rightarrow> py_eq x y) \<and> py_eq_dict d e)"

lemma py_eq_str [simp]: "py_eq (PStr s) (PStr t) \<longleftrightarrow> t = s"
  by simp

lemma py_eq_str_right [simp]: "py_eq v (PStr s) \<longleftrightarrow> v = PStr s"
  by (cases v) auto

section \<open>Membership, iteration, lookup\<close>

fun is_hashable :: "pyval \<Rightarrow> bool" where
  "is_hashable (PList _) = False"
| "is_hashable (PDict _) = False"
| "is_hashable _ = True"

definition unhashable :: "pyval \<Rightarrow> exn" where
  "unhashable v = TypeError (''unhashable type: '' @ quoted (type_name v))"

text \<open>\<open>x in c\<close>.\<close>

fun py_in :: "pyval \<Rightarrow> pyval \<Rightarrow> bool res" where
  "py_in x (PList ys) = Inr (\<exists>y \<in> set ys. py_eq x y)"
| "py_in x (PStr s) =
     (case x of
        PStr t \<Rightarrow> Inr (contains t s)
      | _ \<Rightarrow> Inl (TypeError (quoted ''in <string>'' @ '' requires string as left operand, not '' @ type_name x)))"
| "py_in x (PDict d) =
     (if is_hashable x
      then Inr (case x of PStr k \<Rightarrow> k \<in> fst ` set d | _ \<Rightarrow> False)
      else Inl (unhashable x))"
| "py_in x c = Inl (TypeError (''argument of type '' @ quoted (type_name c) @ '' is not iterable''))"

text \<open>\<open>for x in c\<close>: a string iterates over its one-character strings, a dictionary over
  its keys.\<close>

fun py_iter :: "pyval \<Rightarrow> pyval list res" where
  "py_iter (PList xs) = Inr xs"
| "py_iter (PStr s) = Inr (map (\<lambda>c. PStr [c]) s)"
| "py_iter (PDict d) = Inr (map (\<lambda>p. PStr (fst p)) d)"
| "py_iter v = Inl (TypeError (quoted (type_name v) @ '' object is not iterable''))"

text \<open>\<open>d.get(k, default)\<close> on a dictionary.\<close>

definition dict_get :: "pydict \<Rightarrow> string \<Rightarrow> pyval \<Rightarrow> pyval" where
  "dict_get d k dflt = (case map_of d k of None \<Rightarrow> dflt | Some v \<Rightarrow> v)"

text \<open>\<open>d.get(k)\<close> with a key that is itself dynamic.\<close>

definition dict_get_dyn :: "pydict \<Rightarrow> pyval \<Rightarrow> pyval \<Rightarrow> pyval res" where
  "dict_get_dyn d k dflt =
     (if is_hashable k then Inr (case k of PStr s \<Rightarrow> dict_get d s dflt | _ \<Rightarrow> dflt)
      else Inl (unhashable k))"

definition no_attribute :: "pyval \<Rightarrow> string \<Rightarrow> exn" where
  "no_attribute v m = AttributeError (quoted (type_name v) @ '' object has no attribute '' @ quoted m)"

text \<open>\<open>v.get(k, default)\<close> on a value that need not be a dictionary.\<close>

fun py_get :: "pyval \<Rightarrow> string \<Rightarrow> pyval \<Rightarrow> pyval res" where
  "py_get (PDict d) k dflt = Inr (dict_get d k dflt)"
| "py_get v k dflt = Inl (no_attribute v ''get'')"

text \<open>A string method on a value that need not be a string.\<close>

fun str_method :: "string \<Rightarrow> pyval \<Rightarrow> (string \<Rightarrow> 'a) \<Rightarrow> 'a res" where
  "str_method m (PStr s) f = Inr (f s)"
| "str_method m v f = Inl (no_attribute v m)"

text \<open>\<open>d[k] = v\<close> and \<open>{**d, k: v}\<close>: an existing key keeps its position.\<close>

definition dict_set :: "string \<Rightarrow> 'v \<Rightarrow> (string \<times> 'v) list \<Rightarrow> (string \<times> 'v) list" where
  "dict_set k v d = AList.update k v d"

lemma map_of_dict_set [simp]: "map_of (dict_set k v d) = (map_of d)(k \<mapsto> v)"
  by (simp add: dict_set_def update_conv')

lemma dict_get_dict_set [simp]:
  "dict_get (dict_set k v d) k' w = (if k' = k then v else dict_get d k' w)"
  by (simp add: dict_get_def)

lemma distinct_dict_set: "distinct (map fst d) \<Longrightarrow> distinct (map fst (dict_set k v d))"
  by (simp add: dict_set_def distinct_update)

section \<open>Rendering\<close>

definition repr_char :: "char \<Rightarrow> char \<Rightarrow> string" where
  "repr_char q c =
     (let n = (of_char c :: nat)
      in if c = q \<or> n = 92 then [CHR 0x5C, c]
         else if n = 10 then [CHR 0x5C, CHR ''n'']
         else if n = 13 then [CHR 0x5C, CHR ''r'']
         else if n = 9 then [CHR 0x5C, CHR ''t'']
         else if n < 32 \<or> 127 \<le> n \<and> n \<le> 160 \<or> n = 173 then [CHR 0x5C, CHR ''x''] @ hex2 c
         else [c])"

definition repr_str :: "string \<Rightarrow> string" where
  "repr_str s =
     (let q = (if CHR 0x27 \<in> set s \<and> CHR 0x22 \<notin> set s then CHR 0x22 else CHR 0x27)
      in q # concat (map (repr_char q) s) @ [q])"

fun py_repr :: "pyval \<Rightarrow> string" and
    repr_list :: "pyval list \<Rightarrow> string list" and
    repr_dict :: "(string \<times> pyval) list \<Rightarrow> string list" where
  "py_repr PNone = ''None''"
| "py_repr (PBool b) = (if b then ''True'' else ''False'')"
| "py_repr (PInt i) = int_str i"
| "py_repr (PFloat q) = float_str q"
| "py_repr (PStr s) = repr_str s"
| "py_repr (PList xs) = ''['' @ join '', '' (repr_list xs) @ '']''"
| "py_repr (PDict d) = ''{'' @ join '', '' (repr_dict d) @ ''}''"
| "repr_list [] = []"
| "repr_list (x # xs) = py_repr x # repr_list xs"
| "repr_dict [] = []"
| "repr_dict ((k, v) # d) = (repr_str k @ '': '' @ py_repr v) # repr_dict d"

text \<open>Induction over a value, its items and its entries.\<close>

lemmas pyval_split_induct =
  py_repr_repr_list_repr_dict.induct
    [case_names PNone PBool PInt PFloat PStr PList PDict list_nil list_cons dict_nil dict_cons]

text \<open>\<open>str(v)\<close> and the interpolation of \<open>v\<close> in an f-string.\<close>

definition py_str :: "pyval \<Rightarrow> string" where
  "py_str v = (case v of PStr s \<Rightarrow> s | _ \<Rightarrow> py_repr v)"

lemma py_str_PStr [simp]: "py_str (PStr s) = s"
  by (simp add: py_str_def)

text \<open>\<open>json.dumps(v)\<close> with its defaults: \<open>", "\<close> and \<open>": "\<close> separators and every character
  outside the printable ones of ASCII escaped.\<close>

definition json_char :: "char \<Rightarrow> string" where
  "json_char c =
     (let n = (of_char c :: nat)
      in if n = 34 \<or> n = 92 then [CHR 0x5C, c]
         else if n = 10 then [CHR 0x5C, CHR ''n'']
         else if n = 13 then [CHR 0x5C, CHR ''r'']
         else if n = 9 then [CHR 0x5C, CHR ''t'']
         else if n = 8 then [CHR 0x5C, CHR ''b'']
         else if n = 12 then [CHR 0x5C, CHR ''f'']
         else if n < 32 \<or> 127 \<le> n then [CHR 0x5C, CHR ''u'', CHR ''0'', CHR ''0''] @ hex2 c
         else [c])"

definition json_str :: "string \<Rightarrow> string" where
  "json_str s = CHR 0x22 # concat (map json_char s) @ [CHR 0x22]"

fun json_dumps :: "pyval \<Rightarrow> string" and
    json_list :: "pyval list \<Rightarrow> string list" and
    json_dict :: "(string \<times> pyval) list \<Rightarrow> string list" where
  "json_dumps PNone = ''null''"
| "json_dumps (PBool b) = (if b then ''true'' else ''false'')"
| "json_dumps (PInt i) = int_str i"
| "json_dumps (PFloat q) = float_str q"
| "json_dumps (PStr s) = json_str s"
| "json_dumps (PList xs) = ''['' @ join '', '' (json_list xs) @ '']''"
| "json_dumps (PDict d) = ''{'' @ join '', '' (json_dict d) @ ''}''"
| "json_list [] = []"
| "json_list (x # xs) = json_dumps x # json_list xs"
| "json_dict [] = []"
| "json_dict ((k, v) # d) = (json_str k @ '': '' @ json_dumps v) # json_dict d"

text \<open>\<open>str(exc)\<close>; a \<open>KeyError\<close> shows the representation of its key.\<close>

primrec exn_str :: "exn \<Rightarrow> string" where
  "exn_str (ValueError m) = m"
| "exn_str (TypeError m) = m"
| "exn_str (AttributeError m) = m"
| "exn_str (KeyError k) = repr_str k"
| "exn_str (OSError m) = m"
| "exn_str (FileNotFoundError m) = m"
| "exn_str (PermissionError m) = m"
| "exn_str (TimeoutError m) = m"
| "exn_str CancelledError = []"
| "exn_str (SystemExit n) = int_str n"
| "exn_str (GovernanceError m) = m"
| "exn_str (PolicyFileError m _) = m"
| "exn_str (PolicyValidationError m _) = m"
| "exn_str (PolicyReferenceError m _ _) = m"
| "exn_str (PipelineError m) = m"
| "exn_str (ShortCircuitError m _) = m"
| "exn_str (HookError m _ _) = m"
| "exn_str (IdentityError m) = m"
| "exn_str (JWKSFetchError m _) = m"
| "exn_str (TokenValidationError m _) = m"
| "exn_str (TokenExpiredError m) = m"
| "exn_str (TokenExchangeError m _) = m"
| "exn_str (MaskingError m) = m"
| "exn_str (MaskingEngineError m _) = m"
| "exn_str (MaskingConfigError m _) = m"
| "exn_str (ProxyError m _ _) = m"
| "exn_str (RoutingError m _ _) = m"
| "exn_str (UpstreamError m _ _) = m"
| "exn_str (ProxyTimeoutError m _ _) = m"
| "exn_str (TransportError m _ _) = m"
| "exn_str (TransportConnectionError m _ _) = m"
| "exn_str (TransportTimeoutError m _ _) = m"
| "exn_str (SessionError m _ _) = m"
| "exn_str (TransportClosedError m _ _) = m"
| "exn_str (ProcessError m _ _) = m"
| "exn_str (PluginLoadError m) = m"
| "exn_str (OtherException _ m) = m"

end
