(* ===== verification/Policy_Config.thy ===== *)
theory Policy_Config
  imports PyOps
begin

text \<open>
  The configuration dataclasses: \<open>governance/config.py\<close>, \<open>analytics/config.py\<close>,
  \<open>identity/config.py\<close> and \<open>url_validation.py\<close>. A dataclass is a record; its constructor,
  which runs \<open>__post_init__\<close>, is a \<open>make_\<close> function that may raise. The loader passes parsed
  values on without checking their type, so the fields that receive them are dynamic.
\<close>

section \<open>URL validation\<close>

definition require_https :: "pyval \<Rightarrow> string \<Rightarrow> unit res" where
  "require_https url field_name =
     res_bind (str_method ''lower'' url lower) (\<lambda>l.
       if prefix ''https://'' l then Inr ()
       else Inl (ValueError (field_name @ '' must use https:// (got '' @ py_repr url @
              ''). Set allow_insecure=True in the policy file, or set '' @
              ''MCP_SKIP_TLS_VALIDATION=true to permit http:// for local development.'')))"

definition is_https :: "pyval \<Rightarrow> bool" where
  "is_https url = (case url of PStr s \<Rightarrow> prefix ''https://'' (lower s) | _ \<Rightarrow> False)"

lemma require_https_ok: "require_https url f = Inr () \<longleftrightarrow> is_https url"
  by (cases url) (auto simp: require_https_def is_https_def)

section \<open>Effects\<close>

datatype policy_effect = ALLOW | DENY

fun effect_value :: "policy_effect \<Rightarrow> string" where
  "effect_value ALLOW = ''allow''"
| "effect_value DENY = ''deny''"

text \<open>\<open>PolicyEffect(v)\<close>: lookup of the enum member by value.\<close>

definition policy_effect_of :: "pyval \<Rightarrow> policy_effect res" where
  "policy_effect_of v =
     (if v = PStr ''allow'' then Inr ALLOW
      else if v = PStr ''deny'' then Inr DENY
      else Inl (ValueError (py_repr v @ '' is not a valid PolicyEffect'')))"

section \<open>Identity provider and server sections\<close>

record identity_provider_config =
  ipc_provider :: pyval
  ipc_issuer :: pyval
  ipc_audience :: pyval
  ipc_claim_mapping :: pyval
  ipc_allow_insecure :: pyval

definition make_identity_provider_config ::
    "pyval \<Rightarrow> pyval \<Rightarrow> pyval \<Rightarrow> pyval \<Rightarrow> pyval \<Rightarrow> identity_provider_config res" where
  "make_identity_provider_config provider issuer audience claim_mapping allow_insecure =
     (if \<not> truthy provider then Inl (ValueError ''identity.provider is required'')
      else if \<not> truthy issuer then Inl (ValueError ''identity.issuer is required'')
      else if \<not> truthy audience then Inl (ValueError ''identity.audience is required'')
      else res_bind (if \<not> truthy allow_insecure then require_https issuer ''identity.issuer''
                     else Inr ()) (\<lambda>_.
        Inr \<lparr>ipc_provider = provider, ipc_issuer = issuer, ipc_audience = audience,
             ipc_claim_mapping = claim_mapping, ipc_allow_insecure = allow_insecure\<rparr>))"

record server_definition =
  sd_name :: pyval
  sd_transport :: pyval
  sd_url :: pyval
  sd_command :: pyval
  sd_args :: pyval
  sd_env :: pyval
  sd_headers :: pyval
  sd_token_exchange :: pyval
  sd_target_audience :: pyval
  sd_required_scopes :: pyval
  sd_allow_insecure :: pyval

definition server_transports :: "pyval list" where
  "server_transports = [PStr ''http'', PStr ''sse'', PStr ''stdio'']"

definition make_server_definition :: "server_definition \<Rightarrow> server_definition res" where
  "make_server_definition s =
     (if \<not> truthy (sd_name s) then Inl (ValueError ''server.name is required'')
      else if sd_transport s \<notin> set server_transports then
        Inl (ValueError (''server '' @ quoted (py_str (sd_name s)) @ '' transport must be '' @
          quoted ''http'' @ '', '' @ quoted ''sse'' @ '', or '' @ quoted ''stdio'' @ '', got '' @
          quoted (py_str (sd_transport s))))
      else Inr s)"

section \<open>Rules\<close>

record policy_subjects =
  ps_users :: pyval
  ps_groups :: pyval

definition default_subjects :: policy_subjects where
  "default_subjects = \<lparr>ps_users = PList [], ps_groups = PList []\<rparr>"

record policy_server_access =
  psa_name :: pyval
  psa_tools :: pyval

definition make_policy_server_access :: "pyval \<Rightarrow> pyval \<Rightarrow> policy_server_access res" where
  "make_policy_server_access name tools =
     (if \<not> truthy name then Inl (ValueError ''policy mcp_server.name is required'')
      else Inr \<lparr>psa_name = name, psa_tools = tools\<rparr>)"

record policy_rule =
  pr_id :: pyval
  pr_description :: pyval
  pr_effect :: policy_effect
  pr_subjects :: policy_subjects
  pr_mcp_servers :: "policy_server_access list"

definition make_policy_rule :: "policy_rule \<Rightarrow> policy_rule res" where
  "make_policy_rule r =
     (if \<not> truthy (pr_id r) then Inl (ValueError ''policy.id is required'')
      else if \<not> truthy (pr_description r) then
        Inl (ValueError (''policy '' @ quoted (py_str (pr_id r)) @ '' description is required''))
      else Inr r)"

section \<open>Logging, masking, CORS, plugins\<close>

record logging_config =
  lc_level :: pyval
  lc_format :: pyval
  lc_include :: pyval

definition valid_levels :: "string list" where
  "valid_levels = [''CRITICAL'', ''DEBUG'', ''ERROR'', ''INFO'', ''WARNING'']"

definition valid_formats :: "string list" where
  "valid_formats = [''json'', ''text'']"

definition make_logging_config :: "pyval \<Rightarrow> pyval \<Rightarrow> pyval \<Rightarrow> logging_config res" where
  "make_logging_config level fmt include =
     res_bind (str_method ''upper'' level upper) (\<lambda>l.
       if l \<notin> set valid_levels then
         Inl (ValueError (''logging.level must be one of '' @
           py_repr (PList (map PStr valid_levels)) @ '', got '' @ quoted (py_str level)))
       else res_bind (str_method ''lower'' fmt lower) (\<lambda>f.
         if f \<notin> set valid_formats then
           Inl (ValueError (''logging.format must be one of '' @
             py_repr (PList (map PStr valid_formats)) @ '', got '' @ quoted (py_str fmt)))
         else Inr \<lparr>lc_level = level, lc_format = fmt, lc_include = include\<rparr>))"

definition default_logging_config :: logging_config where
  "default_logging_config =
     \<lparr>lc_level = PStr ''INFO'', lc_format = PStr ''json'', lc_include = PList []\<rparr>"

record presidio_config =
  pc_enabled :: pyval
  pc_entities :: pyval

definition default_presidio_config :: presidio_config where
  "default_presidio_config = \<lparr>pc_enabled = PBool False, pc_entities = PList []\<rparr>"

record cors_config =
  cc_allow_origins :: pyval
  cc_allow_methods :: pyval
  cc_allow_headers :: pyval
  cc_allow_credentials :: pyval
  cc_max_age :: int
  cc_expose_headers :: pyval

definition make_cors_config :: "cors_config \<Rightarrow> cors_config res" where
  "make_cors_config c =
     (if \<not> truthy (cc_allow_origins c) then
        Inl (ValueError ''cors.allow_origins must be a non-empty list'')
      else res_bind (py_in (PStr ''*'') (cc_allow_origins c)) (\<lambda>star.
        if star \<and> truthy (cc_allow_credentials c) then
          Inl (ValueError (''cors.allow_origins=['' @ quoted ''*'' @
                 ''] cannot be used with allow_credentials=True''))
        else if cc_max_age c < 0 then
          Inl (ValueError (''cors.max_age must be >= 0, got '' @ int_str (cc_max_age c)))
        else Inr c))"

record plugin_declaration =
  pd_name :: pyval
  pd_package :: pyval
  pd_config :: pyval
  pd_priority :: pyval

definition make_plugin_declaration :: "plugin_declaration \<Rightarrow> plugin_declaration res" where
  "make_plugin_declaration p =
     (if \<not> truthy (pd_name p) then Inl (ValueError ''plugin.name is required'') else Inr p)"

section \<open>Analytics\<close>

record redis_config =
  rc_url :: pyval
  rc_cluster :: pyval
  rc_tls :: pyval
  rc_password :: pyval
  rc_socket_timeout :: rat
  rc_retry_on_timeout :: pyval

definition default_redis_config :: redis_config where
  "default_redis_config =
     \<lparr>rc_url = PStr [], rc_cluster = PBool False, rc_tls = PBool False, rc_password = PNone,
      rc_socket_timeout = 5, rc_retry_on_timeout = PBool True\<rparr>"

record analytics_config =
  ac_redis :: redis_config
  ac_environment :: pyval
  ac_gateway_id :: pyval
  ac_key_prefix :: pyval
  ac_bucket_seconds :: int
  ac_retention_seconds :: int
  ac_heartbeat_seconds :: int
  ac_queue_size :: int
  ac_flush_interval :: rat

text \<open>An empty gateway id is replaced by the first eight hex digits of a fresh UUID.\<close>

definition make_analytics_config :: "string \<Rightarrow> analytics_config \<Rightarrow> analytics_config" where
  "make_analytics_config uuid_hex a =
     (if \<not> truthy (ac_gateway_id a) then a\<lparr>ac_gateway_id := PStr (take 8 uuid_hex)\<rparr> else a)"

definition analytics_enabled :: "analytics_config \<Rightarrow> bool" where
  "analytics_enabled a = truthy (rc_url (ac_redis a))"

section \<open>The root configuration\<close>

record policy_config =
  pol_version :: pyval
  pol_default :: policy_effect
  pol_identity :: "identity_provider_config option"
  pol_servers :: "server_definition list"
  pol_policies :: "policy_rule list"
  pol_logging :: logging_config
  pol_masking :: presidio_config
  pol_analytics :: "analytics_config option"
  pol_cors :: "cors_config option"
  pol_plugins :: "plugin_declaration list"

definition make_policy_config :: "policy_config \<Rightarrow> policy_config res" where
  "make_policy_config p =
     (if \<not> py_eq (pol_version p) (PInt 1) then
        Inl (ValueError (''policy version must be 1, got '' @ py_str (pol_version p)))
      else Inr p)"

text \<open>\<open>PolicyConfig(version=1)\<close>: every other field at its default.\<close>

definition default_policy_config :: policy_config where
  "default_policy_config =
     \<lparr>pol_version = PInt 1, pol_default = DENY, pol_identity = None, pol_servers = [],
      pol_policies = [], pol_logging = default_logging_config,
      pol_masking = default_presidio_config, pol_analytics = None, pol_cors = None,
      pol_plugins = []\<rparr>"

section \<open>Identity configuration\<close>

record claim_mapping =
  cm_user_id :: pyval
  cm_email :: pyval
  cm_groups :: pyval

definition default_claim_mapping :: claim_mapping where
  "default_claim_mapping =
     \<lparr>cm_user_id = PStr ''sub'', cm_email = PStr ''email'', cm_groups = PStr ''groups''\<rparr>"

record identity_config =
  ic_provider :: pyval
  ic_issuer :: pyval
  ic_audience :: pyval
  ic_jwks_cache_ttl :: int
  ic_claim_mapping :: claim_mapping
  ic_allow_insecure :: pyval

definition make_identity_config :: "identity_config \<Rightarrow> identity_config res" where
  "make_identity_config c =
     (if \<not> truthy (ic_issuer c) then Inl (ValueError ''issuer is required'')
      else if \<not> truthy (ic_audience c) then Inl (ValueError ''audience is required'')
      else res_bind (if \<not> truthy (ic_allow_insecure c) then require_https (ic_issuer c) ''issuer''
                     else Inr ()) (\<lambda>_. Inr c))"

section \<open>What the constructors guarantee\<close>

lemma make_identity_provider_config_ok:
  "make_identity_provider_config p i a m ins = Inr c \<Longrightarrow>
     truthy (ipc_provider c) \<and> truthy (ipc_issuer c) \<and> truthy (ipc_audience c) \<and>
     (truthy (ipc_allow_insecure c) \<or> is_https (ipc_issuer c))"
  by (auto simp: make_identity_provider_config_def res_simps require_https_ok split: if_splits)

lemma make_server_definition_ok:
  "make_server_definition s = Inr t \<longleftrightarrow>
     t = s \<and> truthy (sd_name s) \<and> sd_transport s \<in> set server_transports"
  by (auto simp: make_server_definition_def split: if_splits)

lemma make_policy_server_access_ok:
  "make_policy_server_access n ts = Inr a \<longleftrightarrow> truthy n \<and> a = \<lparr>psa_name = n, psa_tools = ts\<rparr>"
  by (auto simp: make_policy_server_access_def split: if_splits)

lemma make_policy_rule_ok:
  "make_policy_rule r = Inr r' \<longleftrightarrow> r' = r \<and> truthy (pr_id r) \<and> truthy (pr_description r)"
  by (auto simp: make_policy_rule_def split: if_splits)

lemma make_plugin_declaration_ok:
  "make_plugin_declaration p = Inr p' \<longleftrightarrow> p' = p \<and> truthy (pd_name p)"
  by (auto simp: make_plugin_declaration_def split: if_splits)

lemma make_policy_config_ok:
  "make_policy_config p = Inr p' \<longleftrightarrow> p' = p \<and> py_eq (pol_version p) (PInt 1)"
  by (auto simp: make_policy_config_def split: if_splits)

text \<open>A CORS configuration never combines the wildcard origin with credentials.\<close>

lemma make_cors_config_ok:
  "make_cors_config c = Inr c' \<longleftrightarrow>
     c' = c \<and> truthy (cc_allow_origins c) \<and> 0 \<le> cc_max_age c \<and>
     (\<exists>star. py_in (PStr ''*'') (cc_allow_origins c) = Inr star \<and>
             \<not> (star \<and> truthy (cc_allow_credentials c)))"
  by (auto simp: make_cors_config_def res_simps split: if_splits)

lemma make_analytics_config_gateway [simp]:
  "uuid \<noteq> [] \<Longrightarrow> truthy (ac_gateway_id (make_analytics_config uuid a))"
  by (cases uuid) (auto simp: make_analytics_config_def)

end
