(* ===== verification/Context.thy ===== *)
theory Context
  imports PyOps
begin

text \<open>
  \<open>context.py\<close>: the identity, the per-request context and the hook context that the pipeline
  threads through its hooks, and the masking events the hook context carries
  (\<open>masking/engine.py\<close>). The dataclasses are frozen, so \<open>HookContext.evolve\<close> is the record
  update. Identifiers drawn from \<open>uuid4\<close> and clock readings are arguments.
  The values that come from a token or a policy file keep their dynamic type.
\<close>

record user_identity =
  ui_user_id :: pyval
  ui_email :: pyval
  ui_groups :: "pyval list"

record request_context =
  correlation_id :: string
  trace_id :: "string option"
  identity :: "user_identity option"
  raw_token :: "string option"

definition new_request_context :: "string \<Rightarrow> request_context" where
  "new_request_context uuid =
     \<lparr>correlation_id = uuid, trace_id = None, identity = None, raw_token = None\<rparr>"

definition child_context :: "string \<Rightarrow> request_context \<Rightarrow> request_context" where
  "child_context uuid rc =
     \<lparr>correlation_id = uuid, trace_id = Some (correlation_id rc),
      identity = identity rc, raw_token = raw_token rc\<rparr>"

datatype policy_decision = D_PENDING | D_ALLOW | D_DENY

fun decision_value :: "policy_decision \<Rightarrow> string" where
  "decision_value D_PENDING = ''pending''"
| "decision_value D_ALLOW = ''allow''"
| "decision_value D_DENY = ''deny''"

record masking_event =
  me_entity_type :: string
  me_count :: int
  me_status :: string

record hook_context =
  request :: request_context
  request_payload :: pydict
  response_payload :: pydict
  server_name :: string
  tool_name :: string
  policy_decision :: policy_decision
  policy_rule_id :: pyval
  masking_applied :: bool
  masked_fields :: "string list"
  masking_events :: "masking_event list"
  output_masking_applied :: bool
  output_masked_fields :: "string list"
  masking_stage_completed :: bool
  short_circuited :: bool
  short_circuit_reason :: string
  started_at :: rat
  extras :: pydict
  transport :: string

text \<open>\<open>HookContext(request=...)\<close> with every other field at its default.\<close>

definition default_hook_context :: "request_context \<Rightarrow> rat \<Rightarrow> hook_context" where
  "default_hook_context rc now =
     \<lparr>request = rc, request_payload = [], response_payload = [], server_name = [],
      tool_name = [], policy_decision = D_PENDING, policy_rule_id = PStr [],
      masking_applied = False, masked_fields = [], masking_events = [],
      output_masking_applied = False, output_masked_fields = [],
      masking_stage_completed = False, short_circuited = False, short_circuit_reason = [],
      started_at = now, extras = [], transport = []\<rparr>"

text \<open>A child request is linked to its parent and acts for the same user.\<close>

lemma child_context_simps [simp]:
  "correlation_id (child_context u rc) = u"
  "trace_id (child_context u rc) = Some (correlation_id rc)"
  "identity (child_context u rc) = identity rc"
  "raw_token (child_context u rc) = raw_token rc"
  by (simp_all add: child_context_def)

end
