(* ===== verification/Effects.thy ===== *)
theory Effects
  imports PyOps
begin

text \<open>
  Stateful computations. A method that updates an object is a \<open>prog\<close> over the state of that
  object: it returns a value or raises, and returns the new state in both cases. \<open>zoom\<close> runs a
  method of a component inside a larger state.
\<close>

definition ret :: "'a \<Rightarrow> ('w, 'a) prog" where
  "ret x = (\<lambda>w. (Inr x, w))"

definition raise :: "exn \<Rightarrow> ('w, 'a) prog" where
  "raise e = (\<lambda>w. (Inl e, w))"

definition bind :: "('w, 'a) prog \<Rightarrow> ('a \<Rightarrow> ('w, 'b) prog) \<Rightarrow> ('w, 'b) prog" where
  "bind m f = (\<lambda>w. case m w of (Inl e, w') \<Rightarrow> (Inl e, w') | (Inr x, w') \<Rightarrow> f x w')"

definition lift_res :: "'a res \<Rightarrow> ('w, 'a) prog" where
  "lift_res r = (\<lambda>w. (r, w))"

definition gets :: "('w \<Rightarrow> 'a) \<Rightarrow> ('w, 'a) prog" where
  "gets f = (\<lambda>w. (Inr (f w), w))"

definition modify :: "('w \<Rightarrow> 'w) \<Rightarrow> ('w, unit) prog" where
  "modify f = (\<lambda>w. (Inr (), f w))"

text \<open>\<open>try: m except E as exc: h(exc)\<close>, where \<open>h\<close> re-raises what the code does not catch.\<close>

definition handle :: "('w, 'a) prog \<Rightarrow> (exn \<Rightarrow> ('w, 'a) prog) \<Rightarrow> ('w, 'a) prog" where
  "handle m h = (\<lambda>w. case m w of (Inl e, w') \<Rightarrow> h e w' | (Inr x, w') \<Rightarrow> (Inr x, w'))"

text \<open>\<open>except Exception: pass\<close>.\<close>

definition suppress :: "('w, unit) prog \<Rightarrow> ('w, unit) prog" where
  "suppress m = handle m (\<lambda>e. if is_Exception e then ret () else raise e)"

text \<open>\<open>try: m finally: c\<close>, also the end of \<open>async with\<close>.\<close>

definition finally_do :: "('w, 'a) prog \<Rightarrow> ('w, unit) prog \<Rightarrow> ('w, 'a) prog" where
  "finally_do m c = (\<lambda>w.
     case m w of (r, w1) \<Rightarrow>
       (case c w1 of (Inl e, w2) \<Rightarrow> (Inl e, w2) | (Inr _, w2) \<Rightarrow> (r, w2)))"

definition zoom :: "('w \<Rightarrow> 's) \<Rightarrow> ('s \<Rightarrow> 'w \<Rightarrow> 'w) \<Rightarrow> ('s, 'a) prog \<Rightarrow> ('w, 'a) prog" where
  "zoom get put m = (\<lambda>w. case m (get w) of (r, s) \<Rightarrow> (r, put s w))"

fun for_each :: "('a \<Rightarrow> ('w, unit) prog) \<Rightarrow> 'a list \<Rightarrow> ('w, unit) prog" where
  "for_each f [] = ret ()"
| "for_each f (x # xs) = bind (f x) (\<lambda>_. for_each f xs)"

fun map_prog :: "('a \<Rightarrow> ('w, 'b) prog) \<Rightarrow> 'a list \<Rightarrow> ('w, 'b list) prog" where
  "map_prog f [] = ret []"
| "map_prog f (x # xs) = bind (f x) (\<lambda>y. bind (map_prog f xs) (\<lambda>ys. ret (y # ys)))"

named_theorems prog_simps \<open>evaluation of the combinators on a state\<close>

lemma prog_apply [simp, prog_simps]:
  "ret x w = (Inr x, w)"
  "raise e w = (Inl e, w)"
  "lift_res r w = (r, w)"
  "gets f w = (Inr (f w), w)"
  "modify g w = (Inr (), g w)"
  by (simp_all add: ret_def raise_def lift_res_def gets_def modify_def)

lemma bind_apply [prog_simps]:
  "bind m f w = (case m w of (Inl e, w') \<Rightarrow> (Inl e, w') | (Inr x, w') \<Rightarrow> f x w')"
  by (simp add: bind_def)

lemma handle_apply [prog_simps]:
  "handle m h w = (case m w of (Inl e, w') \<Rightarrow> h e w' | (Inr x, w') \<Rightarrow> (Inr x, w'))"
  by (simp add: handle_def)

lemma suppress_apply [prog_simps]:
  "suppress m w =
     (case m w of (Inl e, w') \<Rightarrow> if is_Exception e then (Inr (), w') else (Inl e, w')
                | (Inr x, w') \<Rightarrow> (Inr x, w'))"
  by (auto simp: suppress_def handle_def split: prod.splits sum.splits)

lemma bind_simps [simp]:
  "bind (ret x) f = f x"
  "bind (raise e) f = raise e"
  "bind (lift_res (Inr x)) f = f x"
  "bind (lift_res (Inl e)) f = raise e"
  "bind m ret = m"
  by (auto simp: fun_eq_iff bind_def split: prod.splits sum.splits)

lemma handle_simps [simp]:
  "handle (ret x) h = ret x"
  "handle (raise e) h = h e"
  by (simp_all add: fun_eq_iff handle_def)

lemma bind_assoc: "bind (bind m f) g = bind m (\<lambda>x. bind (f x) g)"
  by (auto simp: fun_eq_iff bind_def split: prod.splits sum.splits)

lemma bind_cong [fundef_cong]:
  assumes "m = m'" and "\<And>x w. f x w = f' x w"
  shows "bind m f = bind m' f'"
  using assms by (auto simp: fun_eq_iff bind_def split: prod.splits sum.splits)

lemma bind_Inr_elim:
  assumes "bind m f w = (Inr y, w'')"
  obtains x w' where "m w = (Inr x, w')" and "f x w' = (Inr y, w'')"
  using assms by (auto simp: bind_def split: prod.splits sum.splits)

lemma suppress_ok:
  assumes "suppress m w = (Inl e, w')"
  shows "\<not> is_Exception e"
  using assms by (auto simp: suppress_apply split: prod.splits sum.splits if_splits)

text \<open>A predicate on the state that a computation keeps whether it returns or raises.\<close>

definition keeps :: "('w \<Rightarrow> bool) \<Rightarrow> ('w, 'a) prog \<Rightarrow> bool" where
  "keeps I m \<longleftrightarrow> (\<forall>w. I w \<longrightarrow> I (snd (m w)))"

lemma keepsI [intro?]: "(\<And>w. I w \<Longrightarrow> I (snd (m w))) \<Longrightarrow> keeps I m"
  by (simp add: keeps_def)

lemma keepsD: "keeps I m \<Longrightarrow> I w \<Longrightarrow> I (snd (m w))"
  by (simp add: keeps_def)

named_theorems keeps_intros \<open>computations that keep an invariant\<close>

lemma keeps_basic [simp, keeps_intros]:
  "keeps I (ret x)" "keeps I (raise e)" "keeps I (lift_res r)" "keeps I (gets f)"
  by (simp_all add: keeps_def)

lemma keeps_modify: "(\<And>w. I w \<Longrightarrow> I (g w)) \<Longrightarrow> keeps I (modify g)"
  by (simp add: keeps_def)

lemma keeps_bind [keeps_intros]:
  assumes "keeps I m" and "\<And>x. keeps I (f x)"
  shows "keeps I (bind m f)"
proof
  fix w assume "I w"
  then show "I (snd (bind m f w))"
    using assms(1) [unfolded keeps_def, rule_format, of w] assms(2) [THEN keepsD]
    by (auto simp: bind_def split: prod.splits sum.splits)
qed

lemma keeps_handle [keeps_intros]:
  assumes "keeps I m" and "\<And>e. keeps I (h e)"
  shows "keeps I (handle m h)"
proof
  fix w assume "I w"
  then show "I (snd (handle m h w))"
    using assms(1) [unfolded keeps_def, rule_format, of w] assms(2) [THEN keepsD]
    by (auto simp: handle_def split: prod.splits sum.splits)
qed

lemma keeps_suppress [keeps_intros]: "keeps I m \<Longrightarrow> keeps I (suppress m)"
  by (auto simp: suppress_def intro!: keeps_intros)

lemma keeps_for_each [keeps_intros]: "(\<And>x. keeps I (f x)) \<Longrightarrow> keeps I (for_each f xs)"
  by (induction xs) (auto intro!: keeps_intros)

lemma keeps_map_prog [keeps_intros]: "(\<And>x. keeps I (f x)) \<Longrightarrow> keeps I (map_prog f xs)"
  by (induction xs) (auto intro!: keeps_intros)

lemma keeps_if [keeps_intros]: "keeps I a \<Longrightarrow> keeps I b \<Longrightarrow> keeps I (if c then a else b)"
  by simp

end
