(* ===== verification/Hook_Pipeline.thy ===== *)
theory Hook_Pipeline
  imports Context Effects "HOL-Library.Product_Lexorder"
begin

text \<open>
  \<open>pipeline/\<close>: hook points, the lifecycle hook interface, the hook registry and the pipeline.
  A hook is a record of its name and its methods, each a \<open>prog\<close> over the state \<open>'w\<close> of the
  process the hooks share, so a hook may update any state and may raise. The base class
  methods do nothing. \<open>hooks_executed\<close> is the list the pipeline appends to, also when the hook
  raises. An exception outside \<open>Exception\<close> (a cancellation) escapes from \<open>execute\<close>.
\<close>

section \<open>Hook points and hooks\<close>

datatype hook_point =
    PRE_VALIDATION | POST_VALIDATION | PRE_MASKING | POST_MASKING | PRE_AUDIT | ON_ERROR

fun hook_point_value :: "hook_point \<Rightarrow> string" where
  "hook_point_value PRE_VALIDATION = ''pre_validation''"
| "hook_point_value POST_VALIDATION = ''post_validation''"
| "hook_point_value PRE_MASKING = ''pre_masking''"
| "hook_point_value POST_MASKING = ''post_masking''"
| "hook_point_value PRE_AUDIT = ''pre_audit''"
| "hook_point_value ON_ERROR = ''on_error''"

text \<open>The points are ordered as they occur in a request.\<close>

fun hook_point_index :: "hook_point \<Rightarrow> nat" where
  "hook_point_index PRE_VALIDATION = 0"
| "hook_point_index POST_VALIDATION = 1"
| "hook_point_index PRE_MASKING = 2"
| "hook_point_index POST_MASKING = 3"
| "hook_point_index PRE_AUDIT = 4"
| "hook_point_index ON_ERROR = 5"

lemma hook_point_index_inject: "hook_point_index p = hook_point_index q \<Longrightarrow> p = q"
  by (cases p; cases q) simp_all

instantiation hook_point :: linorder
begin

definition less_eq_hook_point :: "hook_point \<Rightarrow> hook_point \<Rightarrow> bool" where
  "p \<le> q \<longleftrightarrow> hook_point_index p \<le> hook_point_index q"

definition less_hook_point :: "hook_point \<Rightarrow> hook_point \<Rightarrow> bool" where
  "p < q \<longleftrightarrow> hook_point_index p < hook_point_index q"

instance
  by standard (auto simp: less_eq_hook_point_def less_hook_point_def intro: hook_point_index_inject)

end

record 'w hook =
  h_name :: string
  h_pre_validation :: "hook_context \<Rightarrow> ('w, hook_context) prog"
  h_post_validation :: "hook_context \<Rightarrow> ('w, hook_context) prog"
  h_pre_masking :: "hook_context \<Rightarrow> ('w, hook_context) prog"
  h_post_masking :: "hook_context \<Rightarrow> ('w, hook_context) prog"
  h_pre_audit :: "hook_context \<Rightarrow> ('w, hook_context) prog"
  h_on_error :: "hook_context \<Rightarrow> exn \<Rightarrow> ('w, unit) prog"

definition base_hook :: "string \<Rightarrow> 'w hook" where
  "base_hook class_name =
     \<lparr>h_name = class_name, h_pre_validation = ret, h_post_validation = ret,
      h_pre_masking = ret, h_post_masking = ret, h_pre_audit = ret,
      h_on_error = (\<lambda>_ _. ret ())\<rparr>"

text \<open>A hook whose state is a part of a larger state.\<close>

definition zoom_hook :: "('w \<Rightarrow> 's) \<Rightarrow> ('s \<Rightarrow> 'w \<Rightarrow> 'w) \<Rightarrow> 's hook \<Rightarrow> 'w hook" where
  "zoom_hook get put h =
     \<lparr>h_name = h_name h,
      h_pre_validation = (\<lambda>c. zoom get put (h_pre_validation h c)),
      h_post_validation = (\<lambda>c. zoom get put (h_post_validation h c)),
      h_pre_masking = (\<lambda>c. zoom get put (h_pre_masking h c)),
      h_post_masking = (\<lambda>c. zoom get put (h_post_masking h c)),
      h_pre_audit = (\<lambda>c. zoom get put (h_pre_audit h c)),
      h_on_error = (\<lambda>c e. zoom get put (h_on_error h c e))\<rparr>"

section \<open>The registry\<close>

record 'h registry =
  reg_entries :: "(int \<times> nat \<times> 'h) list"
  reg_frozen :: bool
  reg_insert_counter :: nat

definition new_registry :: "'h registry" where
  "new_registry = \<lparr>reg_entries = [], reg_frozen = False, reg_insert_counter = 0\<rparr>"

definition register :: "int \<Rightarrow> 'h \<Rightarrow> ('h registry, unit) prog" where
  "register priority hook reg =
     (if reg_frozen reg then (Inl (PipelineError ''Cannot register hooks after build()''), reg)
      else (Inr (),
            reg\<lparr>reg_entries := reg_entries reg @ [(priority, reg_insert_counter reg, hook)],
                reg_insert_counter := reg_insert_counter reg + 1\<rparr>))"

definition build :: "'h registry \<Rightarrow> 'h registry" where
  "build reg =
     reg\<lparr>reg_entries := sort_key (\<lambda>(p, c, _). (p, c)) (reg_entries reg), reg_frozen := True\<rparr>"

text \<open>The message of the code has a dash where this one has a hyphen.\<close>

definition get_hooks :: "'h registry \<Rightarrow> 'h list res" where
  "get_hooks reg =
     (if \<not> reg_frozen reg
      then Inl (PipelineError ''Registry must be built before use - call build()'')
      else Inr (map (\<lambda>(_, _, h). h) (reg_entries reg)))"

section \<open>The pipeline\<close>

record pipeline_result =
  plr_context :: hook_context
  plr_success :: bool
  plr_error :: "exn option"
  plr_duration_ms :: rat
  plr_hooks_executed :: "string list"

fun hook_method :: "hook_point \<Rightarrow> string option" where
  "hook_method PRE_VALIDATION = Some ''on_pre_validation''"
| "hook_method POST_VALIDATION = Some ''on_post_validation''"
| "hook_method PRE_MASKING = Some ''on_pre_masking''"
| "hook_method POST_MASKING = Some ''on_post_masking''"
| "hook_method PRE_AUDIT = Some ''on_pre_audit''"
| "hook_method ON_ERROR = None"

text \<open>\<open>getattr(hook, _HOOK_METHOD[point])\<close>; the lookup fails for \<open>ON_ERROR\<close> before this.\<close>

fun method_at :: "hook_point \<Rightarrow> 'w hook \<Rightarrow> hook_context \<Rightarrow> ('w, hook_context) prog" where
  "method_at PRE_VALIDATION h = h_pre_validation h"
| "method_at POST_VALIDATION h = h_post_validation h"
| "method_at PRE_MASKING h = h_pre_masking h"
| "method_at POST_MASKING h = h_post_masking h"
| "method_at PRE_AUDIT h = h_pre_audit h"
| "method_at ON_ERROR h = (\<lambda>_. raise (KeyError ''on_error''))"

definition hook_sequence :: "hook_point list" where
  "hook_sequence = [PRE_VALIDATION, POST_VALIDATION, PRE_MASKING, POST_MASKING, PRE_AUDIT]"

fun is_ShortCircuit :: "exn \<Rightarrow> bool" where
  "is_ShortCircuit (ShortCircuitError _ _) = True"
| "is_ShortCircuit _ = False"

text \<open>The loop over the hooks of one point. The list of executed methods grows by the method
  just run when it returns or raises an ordinary exception.\<close>

fun run_hooks ::
    "string \<Rightarrow> hook_point \<Rightarrow> 'w hook list \<Rightarrow> hook_context \<Rightarrow> string list \<Rightarrow> 'w \<Rightarrow>
     hook_context res \<times> string list \<times> 'w" where
  "run_hooks mname point [] ctx ex w = (Inr ctx, ex, w)"
| "run_hooks mname point (h # hs) ctx ex w =
     (let label = h_name h @ ''.'' @ mname in
      case method_at point h ctx w of
        (Inr ctx', w') \<Rightarrow> run_hooks mname point hs ctx' (ex @ [label]) w'
      | (Inl e, w') \<Rightarrow>
          if is_ShortCircuit e then (Inl e, ex @ [label], w')
          else if is_Exception e then
            (Inl (HookError (exn_str e) (h_name h) (hook_point_value point)), ex @ [label], w')
          else (Inl e, ex, w'))"

definition execute_hook_point_into ::
    "'w hook list \<Rightarrow> hook_point \<Rightarrow> hook_context \<Rightarrow> string list \<Rightarrow> 'w \<Rightarrow>
     hook_context res \<times> string list \<times> 'w" where
  "execute_hook_point_into hooks point ctx ex w =
     (case hook_method point of
        None \<Rightarrow> (Inl (KeyError (hook_point_value point)), ex, w)
      | Some mname \<Rightarrow> run_hooks mname point hooks ctx ex w)"

definition execute_hook_point ::
    "'w hook list \<Rightarrow> hook_point \<Rightarrow> hook_context \<Rightarrow> ('w, hook_context) prog" where
  "execute_hook_point hooks point ctx w =
     (case execute_hook_point_into hooks point ctx [] w of (r, _, w') \<Rightarrow> (r, w'))"

fun fire_error_hooks :: "'w hook list \<Rightarrow> hook_context \<Rightarrow> exn \<Rightarrow> ('w, unit) prog" where
  "fire_error_hooks [] ctx err = ret ()"
| "fire_error_hooks (h # hs) ctx err =
     bind (suppress (h_on_error h ctx err)) (\<lambda>_. fire_error_hooks hs ctx err)"

text \<open>The loop over the points inside the \<open>try\<close>: it returns the variable \<open>ctx\<close> as it stands when
  the loop ends, that is the context of the last completed point, and the exception, if any.\<close>

fun run_points ::
    "'w hook list \<Rightarrow> hook_point list \<Rightarrow> hook_context \<Rightarrow> string list \<Rightarrow> 'w \<Rightarrow>
     exn option \<times> hook_context \<times> string list \<times> 'w" where
  "run_points hooks [] ctx ex w = (None, ctx, ex, w)"
| "run_points hooks (p # ps) ctx ex w =
     (case execute_hook_point_into hooks p ctx ex w of
        (Inr ctx', ex', w') \<Rightarrow> run_points hooks ps ctx' ex' w'
      | (Inl e, ex', w') \<Rightarrow> (Some e, ctx, ex', w'))"

definition mark_short_circuit :: "string \<Rightarrow> bool \<Rightarrow> hook_context \<Rightarrow> hook_context" where
  "mark_short_circuit reason deny ctx =
     (let c = ctx\<lparr>short_circuited := True, short_circuit_reason := reason\<rparr>
      in if deny then c\<lparr>policy_decision := D_DENY\<rparr> else c)"

definition failed :: "('w \<Rightarrow> rat) \<Rightarrow> rat \<Rightarrow> 'w hook list \<Rightarrow> hook_context \<Rightarrow> exn \<Rightarrow> string list \<Rightarrow>
    ('w, pipeline_result) prog" where
  "failed now start hooks ctx err ex =
     bind (fire_error_hooks hooks ctx err) (\<lambda>_.
     bind (gets now) (\<lambda>t.
       ret \<lparr>plr_context = ctx, plr_success = False, plr_error = Some err,
            plr_duration_ms = (t - start) * 1000, plr_hooks_executed = ex\<rparr>))"

definition execute ::
    "('w \<Rightarrow> rat) \<Rightarrow> 'w hook list \<Rightarrow> hook_context \<Rightarrow> ('w, pipeline_result) prog" where
  "execute now hooks ctx0 w =
     (case run_points hooks hook_sequence ctx0 [] w of
        (None, ctx, ex, w') \<Rightarrow>
          (Inr \<lparr>plr_context = ctx, plr_success = True, plr_error = None,
                plr_duration_ms = (now w' - now w) * 1000, plr_hooks_executed = ex\<rparr>, w')
      | (Some (ShortCircuitError reason deny), ctx, ex, w') \<Rightarrow>
          failed now (now w) hooks (mark_short_circuit reason deny ctx)
            (ShortCircuitError reason deny) ex w'
      | (Some (HookError m n p), ctx, ex, w') \<Rightarrow>
          failed now (now w) hooks ctx (HookError m n p) ex w'
      | (Some e, ctx, ex, w') \<Rightarrow> (Inl e, w'))"


section \<open>The registry delivers the hooks in priority order\<close>

fun register_all :: "(int \<times> 'h) list \<Rightarrow> ('h registry, unit) prog" where
  "register_all [] = ret ()"
| "register_all ((p, h) # ps) = bind (register p h) (\<lambda>_. register_all ps)"

fun number_from :: "nat \<Rightarrow> (int \<times> 'h) list \<Rightarrow> (int \<times> nat \<times> 'h) list" where
  "number_from n [] = []"
| "number_from n ((p, h) # ps) = (p, n, h) # number_from (Suc n) ps"

abbreviation forget_counter :: "int \<times> nat \<times> 'h \<Rightarrow> int \<times> 'h" where
  "forget_counter \<equiv> \<lambda>(p, _, h). (p, h)"

lemma register_all_state:
  "\<not> reg_frozen reg \<Longrightarrow>
     register_all ps reg =
       (Inr (), reg\<lparr>reg_entries := reg_entries reg @ number_from (reg_insert_counter reg) ps,
                    reg_insert_counter := reg_insert_counter reg + length ps\<rparr>)"
  by (induction ps arbitrary: reg rule: list.induct)
    (auto simp: bind_apply register_def)

text \<open>Sorting by priority and insertion counter is the stable sort by priority.\<close>

lemma insort_counter:
  assumes "\<forall>(q, d, g) \<in> set es. c < d"
  shows "map forget_counter (insort_key (\<lambda>(p, c, _). (p, c)) (p, c, h) es) =
         insort_key fst (p, h) (map forget_counter es)"
  using assms by (induction es) (auto simp: less_eq_prod_def)

lemma number_from_counter: "(q, d, g) \<in> set (number_from n ps) \<Longrightarrow> n \<le> d"
  by (induction n ps rule: number_from.induct) auto

lemma sort_counter:
  "map forget_counter (sort_key (\<lambda>(p, c, _). (p, c)) (number_from n ps)) = sort_key fst ps"
proof (induction n ps rule: number_from.induct)
  case (2 n p h ps)
  have "\<forall>(q, d, g) \<in> set (sort_key (\<lambda>(p, c, _). (p, c)) (number_from (Suc n) ps)). n < d"
    using number_from_counter [of _ _ _ "Suc n" ps] by fastforce
  from insort_counter [OF this, of p h] 2 show ?case by simp
qed simp

lemma built_registry_hooks:
  assumes "register_all ps new_registry = (Inr (), reg)"
  shows "get_hooks (build reg) = Inr (map snd (sort_key fst ps))"
proof -
  have "reg_entries reg = number_from 0 ps"
    using assms register_all_state [of new_registry ps] by (auto simp: new_registry_def)
  moreover have "map (\<lambda>(_, _, h). h) es = map snd (map forget_counter es)"
    for es :: "(int \<times> nat \<times> 'a) list" by (auto split: prod.splits)
  ultimately show ?thesis
    using sort_counter [of 0 ps] by (simp only: get_hooks_def build_def) simp
qed

section \<open>What the pipeline runs\<close>

definition point_labels :: "'w hook list \<Rightarrow> hook_point \<Rightarrow> string list" where
  "point_labels hooks p =
     map (\<lambda>h. h_name h @ ''.'' @ the (hook_method p)) hooks"

fun is_HookError :: "exn \<Rightarrow> bool" where
  "is_HookError (HookError _ _ _) = True"
| "is_HookError _ = False"

lemma run_hooks_executed:
  assumes "run_hooks mname p hs ctx ex w = (r, ex', w')"
  shows "\<exists>zs. prefix zs (map (\<lambda>h. h_name h @ ''.'' @ mname) hs) \<and> ex' = ex @ zs \<and>
           (is_ok r \<longrightarrow> zs = map (\<lambda>h. h_name h @ ''.'' @ mname) hs)"
  using assms
proof (induction hs arbitrary: ctx ex w)
  case Nil
  then show ?case by auto
next
  case (Cons h hs)
  show ?case
  proof (cases "method_at p h ctx w")
    case (Pair r1 w1)
    show ?thesis
    proof (cases r1)
      case (Inl e)
      with Pair Cons.prems show ?thesis by (fastforce simp: Let_def split: if_splits)
    next
      case (Inr c1)
      with Pair Cons.prems
      have "run_hooks mname p hs c1 (ex @ [h_name h @ ''.'' @ mname]) w1 = (r, ex', w')"
        by (simp add: Let_def)
      from Cons.IH [OF this] show ?thesis by auto
    qed
  qed
qed

lemma run_hooks_error:
  assumes "run_hooks mname p hs ctx ex w = (Inl e, ex', w')"
  shows "is_ShortCircuit e \<or> is_HookError e \<or> \<not> is_Exception e"
  using assms
  by (induction hs arbitrary: ctx ex w)
    (auto simp: Let_def split: prod.splits sum.splits if_splits)

lemma hook_method_sequence: "p \<in> set hook_sequence \<Longrightarrow> \<exists>n. hook_method p = Some n"
  by (cases p) (auto simp: hook_sequence_def)

lemma execute_into_executed:
  assumes "execute_hook_point_into hooks p ctx ex w = (r, ex', w')" and "p \<in> set hook_sequence"
  shows "\<exists>zs. prefix zs (point_labels hooks p) \<and> ex' = ex @ zs \<and>
           (is_ok r \<longrightarrow> zs = point_labels hooks p)"
proof -
  from assms(2) obtain n where "hook_method p = Some n" using hook_method_sequence by blast
  with run_hooks_executed [of n p hooks ctx ex w r ex' w'] assms(1) show ?thesis
    by (simp add: execute_hook_point_into_def point_labels_def)
qed

lemma execute_into_error:
  assumes "execute_hook_point_into hooks p ctx ex w = (Inl e, ex', w')" and "p \<in> set hook_sequence"
  shows "is_ShortCircuit e \<or> is_HookError e \<or> \<not> is_Exception e"
  using assms hook_method_sequence [OF assms(2)]
  by (auto simp: execute_hook_point_into_def dest: run_hooks_error)

lemma run_points_executed:
  assumes "run_points hooks ps ctx ex w = (err, ctx', ex', w')" and "set ps \<subseteq> set hook_sequence"
  shows "\<exists>zs. prefix zs (concat (map (point_labels hooks) ps)) \<and> ex' = ex @ zs \<and>
           (err = None \<longrightarrow> zs = concat (map (point_labels hooks) ps))"
  using assms
proof (induction ps arbitrary: ctx ex w)
  case Nil
  then show ?case by simp
next
  case (Cons p ps)
  obtain r ex1 w1 where step: "execute_hook_point_into hooks p ctx ex w = (r, ex1, w1)"
    by (cases "execute_hook_point_into hooks p ctx ex w") auto
  from execute_into_executed [OF step] Cons.prems(2) obtain zs where
      zs: "prefix zs (point_labels hooks p)" "ex1 = ex @ zs"
          "is_ok r \<longrightarrow> zs = point_labels hooks p" by auto
  show ?case
  proof (cases r)
    case (Inl e)
    with step Cons.prems(1) zs show ?thesis by (auto intro: prefix_prefix)
  next
    case (Inr c1)
    with step Cons.prems(1) have "run_points hooks ps c1 ex1 w1 = (err, ctx', ex', w')" by simp
    from Cons.IH [OF this] Cons.prems(2) zs Inr show ?thesis by auto
  qed
qed

lemma run_points_error:
  assumes "run_points hooks ps ctx ex w = (Some e, ctx', ex', w')" and "set ps \<subseteq> set hook_sequence"
  shows "is_ShortCircuit e \<or> is_HookError e \<or> \<not> is_Exception e"
  using assms
  by (induction ps arbitrary: ctx ex w)
    (auto split: prod.splits sum.splits dest: execute_into_error)

lemma hook_sequence_facts:
  "sorted hook_sequence" "distinct hook_sequence" "set hook_sequence = - {ON_ERROR}"
proof -
  show "sorted hook_sequence" "distinct hook_sequence"
    by (simp_all add: hook_sequence_def less_eq_hook_point_def)
  have "p \<in> set hook_sequence \<longleftrightarrow> p \<noteq> ON_ERROR" for p
    by (cases p) (simp_all add: hook_sequence_def)
  then show "set hook_sequence = - {ON_ERROR}" by blast
qed

text \<open>The final context and error of a run, by the way the loop over the points ended.\<close>

lemma execute_cases [consumes 1, case_names completed short_circuit hook_error]:
  assumes "execute now hooks ctx w = (Inr r, w')"
  obtains ex where "run_points hooks hook_sequence ctx [] w = (None, plr_context r, ex, w')"
      and "plr_success r" and "plr_error r = None" and "plr_hooks_executed r = ex"
    | reason deny c ex w1
      where "run_points hooks hook_sequence ctx [] w = (Some (ShortCircuitError reason deny), c, ex, w1)"
      and "\<not> plr_success r" and "plr_error r = Some (ShortCircuitError reason deny)"
      and "plr_context r = mark_short_circuit reason deny c" and "plr_hooks_executed r = ex"
      and "fire_error_hooks hooks (plr_context r) (ShortCircuitError reason deny) w1 = (Inr (), w')"
    | m n p ex w1
      where "run_points hooks hook_sequence ctx [] w = (Some (HookError m n p), plr_context r, ex, w1)"
      and "\<not> plr_success r" and "plr_error r = Some (HookError m n p)"
      and "plr_hooks_executed r = ex"
      and "fire_error_hooks hooks (plr_context r) (HookError m n p) w1 = (Inr (), w')"
proof -
  obtain err c ex w1 where run: "run_points hooks hook_sequence ctx [] w = (err, c, ex, w1)"
    by (cases "run_points hooks hook_sequence ctx [] w") auto
  show ?thesis
  proof (cases err)
    case None
    with run assms that(1) show ?thesis by (auto simp: execute_def)
  next
    case (Some e)
    from run_points_error [OF run [unfolded Some]]
    have "is_ShortCircuit e \<or> is_HookError e \<or> \<not> is_Exception e" by simp
    then show ?thesis
    proof (elim disjE)
      assume "is_ShortCircuit e"
      then obtain reason deny where "e = ShortCircuitError reason deny" by (cases e) auto
      with run Some assms that(2) show ?thesis
        by (auto simp: execute_def failed_def bind_apply split: prod.splits sum.splits)
    next
      assume "is_HookError e"
      then obtain m n p where "e = HookError m n p" by (cases e) auto
      with run Some assms that(3) show ?thesis
        by (auto simp: execute_def failed_def bind_apply split: prod.splits sum.splits)
    next
      assume "\<not> is_Exception e"
      with run Some assms show ?thesis by (cases e) (auto simp: execute_def)
    qed
  qed
qed

lemma fire_error_hooks_escape:
  "fire_error_hooks hooks ctx err w = (Inl e, w') \<Longrightarrow> \<not> is_Exception e"
  by (induction hooks arbitrary: w)
    (auto simp: bind_apply dest: suppress_ok split: prod.splits sum.splits)

text \<open>What \<open>on_error\<close> does to the state, whether it returns or raises.\<close>

definition ordinary :: "('w, 'a) prog \<Rightarrow> bool" where
  "ordinary m \<longleftrightarrow> (\<forall>w e w'. m w = (Inl e, w') \<longrightarrow> is_Exception e)"

lemma fire_error_hooks_fold:
  assumes "\<forall>h \<in> set hooks. ordinary (h_on_error h ctx err)"
  shows "fire_error_hooks hooks ctx err w =
           (Inr (), fold (\<lambda>h. snd \<circ> h_on_error h ctx err) hooks w)"
  using assms
  by (induction hooks arbitrary: w)
    (auto simp: ordinary_def bind_apply suppress_apply split: prod.splits sum.splits)

section \<open>The contract of a list of hooks\<close>

text \<open>
  What the hooks of a gateway keep: \<open>I\<close> of the shared state, and between the context a hook
  receives and the one it returns the relation \<open>R\<close>. The pipeline then keeps both, for any
  hooks, orders and failures; and a run that succeeds has run every hook at every point.
\<close>

locale hook_contract =
  fixes hooks :: "'w hook list"
    and I :: "'w \<Rightarrow> bool"
    and R :: "hook_context \<Rightarrow> hook_context \<Rightarrow> bool"
  assumes refl_R: "R c c"
    and trans_R: "R c c' \<Longrightarrow> R c' c'' \<Longrightarrow> R c c''"
    and mark_R: "R c (mark_short_circuit reason deny c)"
    and method_I: "h \<in> set hooks \<Longrightarrow> I w \<Longrightarrow> method_at p h c w = (r, w') \<Longrightarrow> I w'"
    and method_R: "h \<in> set hooks \<Longrightarrow> I w \<Longrightarrow> method_at p h c w = (Inr c', w') \<Longrightarrow> R c c'"
    and on_error_I: "h \<in> set hooks \<Longrightarrow> I w \<Longrightarrow> h_on_error h c e w = (r', w') \<Longrightarrow> I w'"
begin

lemma run_hooks_keeps:
  assumes "run_hooks n p hs c ex w = (r, ex', w')" and "set hs \<subseteq> set hooks" and "I w"
  shows "I w' \<and> (\<forall>c'. r = Inr c' \<longrightarrow> R c c' \<and>
           (\<forall>h \<in> set hs. \<exists>c1 w1 c2 w2. R c c1 \<and> I w1 \<and> method_at p h c1 w1 = (Inr c2, w2) \<and> R c2 c'))"
  using assms
proof (induction hs arbitrary: c ex w)
  case Nil
  then show ?case by (auto intro: refl_R)
next
  case (Cons h hs)
  obtain r1 w1 where m: "method_at p h c w = (r1, w1)" by fastforce
  have I1: "I w1" using Cons.prems(2,3) m by (auto intro: method_I)
  show ?case
  proof (cases r1)
    case (Inl e)
    with m Cons.prems(1) I1 show ?thesis by (auto simp: Let_def split: if_splits)
  next
    case (Inr c1)
    have R1: "R c c1" using Cons.prems(2,3) m Inr by (auto intro: method_R)
    from m Inr Cons.prems(1)
    have "run_hooks n p hs c1 (ex @ [h_name h @ ''.'' @ n]) w1 = (r, ex', w')" by (simp add: Let_def)
    from Cons.IH [OF this _ I1] Cons.prems(2)
    have rest: "I w'" "\<And>c'. r = Inr c' \<Longrightarrow> R c1 c'"
      "\<And>c' g. r = Inr c' \<Longrightarrow> g \<in> set hs \<Longrightarrow>
         \<exists>c1' w1 c2 w2. R c1 c1' \<and> I w1 \<and> method_at p g c1' w1 = (Inr c2, w2) \<and> R c2 c'"
      by auto
    show ?thesis
    proof (intro conjI allI impI ballI)
      show "I w'" by (rule rest)
    next
      fix c' assume "r = Inr c'"
      with rest(2) R1 show "R c c'" by (blast intro: trans_R)
    next
      fix c' g assume r: "r = Inr c'" and g: "g \<in> set (h # hs)"
      show "\<exists>c1 w1 c2 w2. R c c1 \<and> I w1 \<and> method_at p g c1 w1 = (Inr c2, w2) \<and> R c2 c'"
      proof (cases "g = h")
        case True
        with m Inr rest(2) [OF r] Cons.prems(3) show ?thesis by (blast intro: refl_R)
      next
        case False
        with g rest(3) [OF r] R1 show ?thesis by (auto intro: trans_R) (metis trans_R)
      qed
    qed
  qed
qed

lemma run_points_keeps:
  assumes "run_points hooks ps c ex w = (err, c', ex', w')" and "I w"
  shows "I w' \<and> R c c' \<and>
    (err = None \<longrightarrow> (\<forall>p \<in> set ps. \<forall>h \<in> set hooks.
       \<exists>c1 w1 c2 w2. R c c1 \<and> I w1 \<and> method_at p h c1 w1 = (Inr c2, w2) \<and> R c2 c'))"
  using assms
proof (induction ps arbitrary: c ex w)
  case Nil
  then show ?case by (auto intro: refl_R)
next
  case (Cons p ps)
  obtain r1 ex1 w1 where step: "execute_hook_point_into hooks p c ex w = (r1, ex1, w1)"
    by (cases "execute_hook_point_into hooks p c ex w") auto
  have first: "I w1 \<and> (\<forall>c1. r1 = Inr c1 \<longrightarrow> R c c1 \<and> (\<forall>h \<in> set hooks.
      \<exists>c2 w2 c3 w3. R c c2 \<and> I w2 \<and> method_at p h c2 w2 = (Inr c3, w3) \<and> R c3 c1))"
    using step run_hooks_keeps [OF _ subset_refl Cons.prems(2)] Cons.prems(2)
    by (auto simp: execute_hook_point_into_def split: option.splits)
  show ?case
  proof (cases r1)
    case (Inl e)
    with step Cons.prems(1) first show ?thesis by (auto intro: refl_R)
  next
    case (Inr c1)
    with step Cons.prems(1) have "run_points hooks ps c1 ex1 w1 = (err, c', ex', w')" by simp
    from Cons.IH [OF this] first
    have IH: "I w'" "R c1 c'" "err = None \<Longrightarrow> q \<in> set ps \<Longrightarrow> h \<in> set hooks \<Longrightarrow>
       \<exists>c2 w2 c3 w3. R c1 c2 \<and> I w2 \<and> method_at q h c2 w2 = (Inr c3, w3) \<and> R c3 c'" for q h
      by auto
    from first Inr have R1: "R c c1"
      and at_p: "\<And>h. h \<in> set hooks \<Longrightarrow>
        \<exists>c2 w2 c3 w3. R c c2 \<and> I w2 \<and> method_at p h c2 w2 = (Inr c3, w3) \<and> R c3 c1" by auto
    show ?thesis
    proof (intro conjI impI ballI)
      show "I w'" "R c c'" using IH R1 by (auto intro: trans_R)
    next
      fix q h assume "err = None" "q \<in> set (p # ps)" "h \<in> set hooks"
      then consider "q = p" | "q \<in> set ps" by auto
      then show "\<exists>c1 w1 c2 w2. R c c1 \<and> I w1 \<and> method_at q h c1 w1 = (Inr c2, w2) \<and> R c2 c'"
        using at_p [OF \<open>h \<in> set hooks\<close>] IH(2) IH(3) [OF \<open>err = None\<close> _ \<open>h \<in> set hooks\<close>] R1
        by cases (metis trans_R)+
    qed
  qed
qed

lemma fire_error_hooks_I:
  assumes "fire_error_hooks hs c e w = (r, w')" and "set hs \<subseteq> set hooks" and "I w"
  shows "I w'"
  using assms
proof (induction hs arbitrary: w)
  case Nil
  then show ?case by simp
next
  case (Cons h hs)
  obtain r1 w1 where m: "h_on_error h c e w = (r1, w1)" by fastforce
  have "I w1" using Cons.prems m by (auto intro: on_error_I)
  with Cons m show ?case
    by (auto simp: bind_apply suppress_apply split: sum.splits if_splits)
qed

lemma keeps_fire_error_hooks: "keeps I (fire_error_hooks hooks c e)"
proof
  fix w assume "I w"
  then show "I (snd (fire_error_hooks hooks c e w))"
    using fire_error_hooks_I [OF surjective_pairing subset_refl] by blast
qed

text \<open>However a run ends, also by an exception that escapes from it, the state keeps \<open>I\<close>.\<close>

lemma keeps_execute: "keeps I (execute now hooks c)"
proof
  fix w assume I: "I w"
  obtain err c1 ex w1 where run: "run_points hooks hook_sequence c [] w = (err, c1, ex, w1)"
    by (cases "run_points hooks hook_sequence c [] w") auto
  from run_points_keeps [OF run I] have I1: "I w1" by blast
  have "keeps I (failed now t hooks c' e ex)" for t c' e
    unfolding failed_def by (intro keeps_intros keeps_fire_error_hooks)
  note failed = keepsD [OF this I1]
  show "I (snd (execute now hooks c w))"
  proof (cases err)
    case None
    with run I1 show ?thesis by (simp add: execute_def)
  next
    case (Some e)
    with run I1 failed show ?thesis by (cases e) (simp_all add: execute_def)
  qed
qed

lemma keeps_execute_hook_point: "keeps I (execute_hook_point hooks p c)"
proof
  fix w assume I: "I w"
  obtain r ex w' where run: "execute_hook_point_into hooks p c [] w = (r, ex, w')"
    by (cases "execute_hook_point_into hooks p c [] w") auto
  with I have "I w'"
    by (auto simp: execute_hook_point_into_def dest: run_hooks_keeps [OF _ subset_refl] split: option.splits)
  with run show "I (snd (execute_hook_point hooks p c w))" by (simp add: execute_hook_point_def)
qed

theorem execute_keeps:
  assumes "execute now hooks c w = (Inr r, w')" and "I w"
  shows "I w' \<and> R c (plr_context r)"
  using assms(1)
proof (cases rule: execute_cases)
  case (completed ex)
  with run_points_keeps assms(2) show ?thesis by blast
next
  case (short_circuit reason deny c1 ex w1)
  with run_points_keeps [OF short_circuit(1) assms(2)] show ?thesis
    by (auto intro: trans_R mark_R fire_error_hooks_I)
next
  case (hook_error m n p ex w1)
  with run_points_keeps [OF hook_error(1) assms(2)] show ?thesis
    by (auto intro: fire_error_hooks_I)
qed

theorem success_runs_every_hook:
  assumes "execute now hooks c w = (Inr r, w')" and "plr_success r" and "I w"
    and "p \<in> set hook_sequence" and "h \<in> set hooks"
  shows "\<exists>c1 w1 c2 w2. R c c1 \<and> I w1 \<and> method_at p h c1 w1 = (Inr c2, w2) \<and> R c2 (plr_context r)"
  using assms(1)
proof (cases rule: execute_cases)
  case (completed ex)
  with run_points_keeps [OF completed(1) assms(3)] assms(4,5) show ?thesis by auto
qed (use assms(2) in auto)

end

section \<open>Properties\<close>

text \<open>A hook that counts its error notifications, and a hook that refuses every request.\<close>

definition counting_hook :: "nat hook" where
  "counting_hook = (base_hook ''Counting'')\<lparr>h_on_error := (\<lambda>_ _. modify Suc)\<rparr>"

definition refusing_hook :: "nat hook" where
  "refusing_hook = (base_hook ''Refusing'')
     \<lparr>h_post_validation := (\<lambda>_. raise (ShortCircuitError ''no'' True)),
      h_on_error := (\<lambda>_ _ n. (Inl (ValueError ''broken''), n + 10))\<rparr>"

definition sample_context :: hook_context where
  "sample_context = default_hook_context (new_request_context ''c-1'') 0"

lemma sample_run:
  "execute (\<lambda>_. 0) [counting_hook, refusing_hook, counting_hook] sample_context 0 =
     (Inr \<lparr>plr_context = mark_short_circuit ''no'' True sample_context, plr_success = False,
           plr_error = Some (ShortCircuitError ''no'' True), plr_duration_ms = 0,
           plr_hooks_executed = [''Counting.on_pre_validation'', ''Refusing.on_pre_validation'',
             ''Counting.on_pre_validation'', ''Counting.on_post_validation'',
             ''Refusing.on_post_validation'']\<rparr>, 12)"
  by (simp add: execute_def hook_sequence_def execute_hook_point_into_def counting_hook_def
      refusing_hook_def base_hook_def failed_def bind_apply suppress_apply Let_def)

text \<open>C27: the registry hands out the registered hooks by ascending priority, hooks of equal
  priority in the order of registration, and refuses every registration after \<open>build\<close>.\<close>

theorem registry_priority_order:
  "\<exists>reg. register_all ps new_registry = (Inr (), reg) \<and>
         get_hooks (build reg) = Inr (map snd (sort_key fst ps)) \<and>
         register p h (build reg) =
           (Inl (PipelineError ''Cannot register hooks after build()''), build reg)"
proof -
  obtain reg where reg: "register_all ps new_registry = (Inr (), reg)"
    using register_all_state [of new_registry ps] by (simp add: new_registry_def)
  with built_registry_hooks [OF reg] show ?thesis
    by (auto simp: register_def build_def)
qed

text \<open>C26: the methods that ran are an initial part of the full schedule (the five points in
  order, at each point the hooks in registry order), and all of it when the run succeeds:
  after a failure no later hook and no later point runs.\<close>

theorem hooks_executed_in_sequence:
  assumes "execute now hooks ctx w = (Inr r, w')"
  shows "prefix (plr_hooks_executed r) (concat (map (point_labels hooks) hook_sequence)) \<and>
         (plr_success r \<longrightarrow>
            plr_hooks_executed r = concat (map (point_labels hooks) hook_sequence))"
  using assms
  by (cases rule: execute_cases) (auto dest!: run_points_executed)

theorem hooks_executed_in_sequence_witness:
  "prefix [''Counting.on_pre_validation'', ''Refusing.on_pre_validation'',
           ''Counting.on_pre_validation'', ''Counting.on_post_validation'',
           ''Refusing.on_post_validation'']
     (concat (map (point_labels [counting_hook, refusing_hook, counting_hook]) hook_sequence))"
  using hooks_executed_in_sequence [OF sample_run] by simp

text \<open>C28: a run reports success exactly when it carries no error; a short circuit is recorded in
  the context with its reason, and as a denial when the hook asked for one; every other
  exception of a hook is reported as a \<open>HookError\<close>.\<close>

theorem pipeline_failure_is_recorded:
  assumes "execute now hooks ctx w = (Inr r, w')"
  shows "(plr_success r \<longleftrightarrow> plr_error r = None) \<and>
    (\<forall>e. plr_error r = Some e \<longrightarrow> is_HookError e \<or>
       (\<exists>reason deny. e = ShortCircuitError reason deny \<and> short_circuited (plr_context r) \<and>
          short_circuit_reason (plr_context r) = reason \<and>
          (deny \<longrightarrow> policy_decision (plr_context r) = D_DENY)))"
  using assms
  by (cases rule: execute_cases) (auto simp: mark_short_circuit_def Let_def)

theorem pipeline_failure_is_recorded_witness:
  "policy_decision (mark_short_circuit ''no'' True sample_context) = D_DENY"
  using pipeline_failure_is_recorded [OF sample_run] by auto

text \<open>Error notification is isolated: every hook's \<open>on_error\<close> runs once, in order, on the same
  context and error, also after another one raised.\<close>

theorem error_hooks_isolated:
  assumes "\<forall>h \<in> set hooks. ordinary (h_on_error h ctx err)"
  shows "fire_error_hooks hooks ctx err w =
           (Inr (), fold (\<lambda>h. snd \<circ> h_on_error h ctx err) hooks w)"
  using assms by (rule fire_error_hooks_fold)

theorem error_hooks_isolated_witness:
  "fire_error_hooks [counting_hook, refusing_hook, counting_hook] sample_context CancelledError 0 =
     (Inr (), 12)"
  by (subst error_hooks_isolated)
    (auto simp: ordinary_def counting_hook_def refusing_hook_def base_hook_def)

lemma run_points_ordinary:
  assumes "\<forall>h \<in> set hooks. \<forall>p c. ordinary (method_at p h c)"
    and "run_points hooks ps ctx ex w = (Some e, ctx', ex', w')" and "set ps \<subseteq> set hook_sequence"
  shows "is_Exception e"
proof -
  have one: "is_Exception e" if "run_hooks n p hs c ex w = (Inl e, ex', w')"
      and "set hs \<subseteq> set hooks" for n p hs c ex w e ex' w'
    using that assms(1)
  proof (induction hs arbitrary: c ex w)
    case (Cons h hs)
    then have "ordinary (method_at p h c)" by simp
    then have raised: "\<And>e w'. method_at p h c w = (Inl e, w') \<Longrightarrow> is_Exception e"
      unfolding ordinary_def by blast
    obtain r1 w1 where m: "method_at p h c w = (r1, w1)" by fastforce
    show ?case
    proof (cases r1)
      case (Inl e1)
      with m Cons.prems(1) raised [of e1 w1] show ?thesis by (auto simp: Let_def split: if_splits)
    next
      case (Inr c1)
      with m Cons show ?thesis by (auto simp: Let_def)
    qed
  qed simp
  from assms(2,3) show ?thesis
  proof (induction ps arbitrary: ctx ex w)
    case (Cons p ps)
    then obtain n where "hook_method p = Some n" using hook_method_sequence [of p] by auto
    with Cons show ?case
      by (auto simp: execute_hook_point_into_def dest: one split: prod.splits sum.splits)
  qed simp
qed

text \<open>Hooks that raise ordinary exceptions only never make \<open>execute\<close> raise: every request
  gets a result.\<close>

theorem execute_always_returns:
  assumes "\<forall>h \<in> set hooks. \<forall>p c. ordinary (method_at p h c)"
    and "\<forall>h \<in> set hooks. \<forall>c e. ordinary (h_on_error h c e)"
  shows "\<exists>r w'. execute now hooks ctx w = (Inr r, w')"
proof -
  obtain err c ex w1 where run: "run_points hooks hook_sequence ctx [] w = (err, c, ex, w1)"
    by (cases "run_points hooks hook_sequence ctx [] w") auto
  have fail: "\<exists>r w'. failed now s hooks c e ex w1 = (Inr r, w')" for s c e
    using fire_error_hooks_fold [of hooks c e w1] assms(2) by (simp add: failed_def bind_apply)
  show ?thesis
  proof (cases err)
    case (Some e)
    from run_points_error [OF run [unfolded Some]] run_points_ordinary [OF assms(1) run [unfolded Some]]
    have "is_ShortCircuit e \<or> is_HookError e" by auto
    then show ?thesis using fail run Some by (cases e) (auto simp: execute_def)
  qed (use run in \<open>simp add: execute_def\<close>)
qed

theorem execute_always_returns_witness:
  "\<exists>r w'. execute (\<lambda>_. 0) [counting_hook, refusing_hook] sample_context 0 = (Inr r, w')"
proof (rule execute_always_returns)
  have "ordinary (method_at p counting_hook c)" "ordinary (method_at p refusing_hook c)" for p c
    by (cases p; simp add: ordinary_def counting_hook_def refusing_hook_def base_hook_def)+
  then show "\<forall>h \<in> set [counting_hook, refusing_hook]. \<forall>p c. ordinary (method_at p h c)" by simp
qed (simp add: ordinary_def counting_hook_def refusing_hook_def base_hook_def)

end
