(* ===== verification/Identity.thy ===== *)
theory Identity
  imports Policy_Config Hook_Pipeline
begin

text \<open>
  \<open>identity/\<close>: the JWKS client with its key cache (\<open>jwks.py\<close>), the token validator with its
  key-rotation retry (\<open>jwt.py\<close>) and the identity hook (\<open>hook.py\<close>).
  The identity provider, \<open>PyJWK\<close> and \<open>pyjwt.decode\<close> are the fields of \<open>idp_env\<close>; \<open>'n\<close> is the
  state of the world outside (network, clocks), \<open>'k\<close> the type of a signing key. An exception of
  the \<open>jwt\<close> package is an \<open>OtherException\<close> of its class name. The lock of the client is modelled
  by an argument \<open>wait\<close>: the change other requests made to the client while this one waited.
\<close>

section \<open>The JWKS client\<close>

record ('n, 'k) idp_env =
  ie_get_json :: "pyval \<Rightarrow> ('n, pyval) prog"
  ie_make_key :: "pyval \<Rightarrow> 'k res"
  ie_decode :: "'n \<Rightarrow> string \<Rightarrow> 'k \<Rightarrow> pyval \<Rightarrow> pyval \<Rightarrow> pydict res"
  ie_is_pyjwt_error :: "exn \<Rightarrow> bool"
  ie_monotonic :: "'n \<Rightarrow> rat"

record ('n, 'k) jwks_state =
  js_uri :: "pyval option"
  js_keys :: "'k list"
  js_last_fetch :: rat
  js_net :: 'n

definition new_jwks_state :: "'n \<Rightarrow> ('n, 'k) jwks_state" where
  "new_jwks_state n = \<lparr>js_uri = None, js_keys = [], js_last_fetch = 0, js_net = n\<rparr>"

definition is_cache_valid :: "('n, 'k) idp_env \<Rightarrow> identity_config \<Rightarrow> ('n, 'k) jwks_state \<Rightarrow> bool" where
  "is_cache_valid env cfg s =
     (if js_keys s = [] \<or> js_last_fetch s = 0 then False
      else ie_monotonic env (js_net s) - js_last_fetch s < of_int (ic_jwks_cache_ttl cfg))"

definition get_json ::
    "('n, 'k) idp_env \<Rightarrow> (string \<Rightarrow> exn) \<Rightarrow> pyval \<Rightarrow> (('n, 'k) jwks_state, pyval) prog" where
  "get_json env wrap url =
     handle (zoom js_net (\<lambda>n s. s\<lparr>js_net := n\<rparr>) (ie_get_json env url))
       (\<lambda>e. if is_Exception e then raise (wrap (exn_str e)) else raise e)"

definition discover_jwks_uri ::
    "('n, 'k) idp_env \<Rightarrow> string \<Rightarrow> (('n, 'k) jwks_state, pyval) prog" where
  "discover_jwks_uri env issuer =
     (let url = issuer @ ''/.well-known/openid-configuration'' in
      bind (get_json env
              (\<lambda>m. JWKSFetchError (''Failed to fetch OIDC discovery from '' @ url @ '': '' @ m) issuer)
              (PStr url)) (\<lambda>config.
      bind (lift_res (py_get config ''jwks_uri'' PNone)) (\<lambda>uri.
        if \<not> truthy uri
        then raise (JWKSFetchError (''No jwks_uri in OIDC discovery response from '' @ url) issuer)
        else ret uri)))"

definition fetch_keys ::
    "('n, 'k) idp_env \<Rightarrow> identity_config \<Rightarrow> (('n, 'k) jwks_state, unit) prog" where
  "fetch_keys env cfg =
     bind (lift_res (str_method ''rstrip'' (ic_issuer cfg) (rstrip_char (CHR ''/'')))) (\<lambda>issuer.
     bind (bind (gets js_uri) (\<lambda>known. case known of
             Some uri \<Rightarrow> ret uri
           | None \<Rightarrow> bind (discover_jwks_uri env issuer) (\<lambda>uri.
                      bind (modify (\<lambda>s. s\<lparr>js_uri := Some uri\<rparr>)) (\<lambda>_. ret uri)))) (\<lambda>uri.
     bind (get_json env
             (\<lambda>m. JWKSFetchError (''Failed to fetch JWKS from '' @ py_str uri @ '': '' @ m) issuer)
             uri) (\<lambda>jwks_data.
     bind (lift_res (py_get jwks_data ''keys'' (PList []))) (\<lambda>raw_keys.
       if \<not> truthy raw_keys
       then raise (JWKSFetchError (''No keys found in JWKS response from '' @ py_str uri) issuer)
       else
         bind (lift_res (res_bind (py_iter raw_keys) (map_res (ie_make_key env)))) (\<lambda>keys.
         bind (modify (\<lambda>s. s\<lparr>js_keys := keys\<rparr>)) (\<lambda>_.
           modify (\<lambda>s. s\<lparr>js_last_fetch := ie_monotonic env (js_net s)\<rparr>)))))))"

definition get_signing_keys ::
    "('n, 'k) idp_env \<Rightarrow> identity_config \<Rightarrow> (('n, 'k) jwks_state \<Rightarrow> ('n, 'k) jwks_state) \<Rightarrow> bool \<Rightarrow>
     (('n, 'k) jwks_state, 'k list) prog" where
  "get_signing_keys env cfg wait force_refresh =
     bind (gets (is_cache_valid env cfg)) (\<lambda>fresh.
       if \<not> force_refresh \<and> fresh then gets js_keys
       else
         bind (modify wait) (\<lambda>_.
         bind (gets (is_cache_valid env cfg)) (\<lambda>fresh'.
           if \<not> force_refresh \<and> fresh' then gets js_keys
           else bind (fetch_keys env cfg) (\<lambda>_. gets js_keys))))"

section \<open>The token validator\<close>

record token_claims =
  tc_user_id :: pyval
  tc_email :: pyval
  tc_groups :: "pyval list"
  tc_raw_claims :: pydict

definition extract_claims :: "identity_config \<Rightarrow> pydict \<Rightarrow> token_claims res" where
  "extract_claims cfg claims =
     (let m = ic_claim_mapping cfg in
      res_bind (dict_get_dyn claims (cm_user_id m) PNone) (\<lambda>user_id.
        if \<not> truthy user_id then
          Inl (TokenValidationError
                 (''Required claim '' @ quoted (py_str (cm_user_id m)) @ '' is missing or empty'')
                 ''missing_claim'')
        else
          res_bind (dict_get_dyn claims (cm_email m) PNone) (\<lambda>email.
          res_bind (dict_get_dyn claims (cm_groups m) (PList [])) (\<lambda>groups_raw.
            Inr \<lparr>tc_user_id = user_id, tc_email = email,
                 tc_groups = (case groups_raw of PList gs \<Rightarrow> gs | _ \<Rightarrow> []),
                 tc_raw_claims = claims\<rparr>))))"

text \<open>The \<open>except\<close> clauses after \<open>pyjwt.decode\<close>, in their order: the exception the loop raises, or
  \<open>None\<close> when it continues with the next key.\<close>

definition translate_decode_error :: "(exn \<Rightarrow> bool) \<Rightarrow> exn \<Rightarrow> exn option" where
  "translate_decode_error is_pyjwt e =
     (let c = exn_class e; m = exn_str e in
      if \<not> is_pyjwt e then Some e
      else if c = ''ExpiredSignatureError'' then Some (TokenExpiredError ''Token has expired'')
      else if c = ''ImmatureSignatureError'' then
        Some (TokenValidationError (''Token is not yet valid (nbf): '' @ m) ''not_yet_valid'')
      else if c = ''InvalidIssuerError'' then
        Some (TokenValidationError (''Invalid issuer: '' @ m) ''invalid_issuer'')
      else if c = ''InvalidAudienceError'' then
        Some (TokenValidationError (''Invalid audience: '' @ m) ''invalid_audience'')
      else if c = ''MissingRequiredClaimError'' then
        Some (TokenValidationError (''Missing required claim: '' @ m) ''missing_claim'')
      else if c = ''InvalidSignatureError'' then None
      else Some (TokenValidationError (''Token validation failed: '' @ m) ''invalid_token''))"

fun decode_loop ::
    "('n, 'k) idp_env \<Rightarrow> identity_config \<Rightarrow> 'n \<Rightarrow> string \<Rightarrow> 'k list \<Rightarrow> exn option \<Rightarrow> token_claims res"
  where
  "decode_loop env cfg n token [] last_error =
     Inl (TokenValidationError
            (''No matching signing key found: '' @
             (case last_error of None \<Rightarrow> ''None'' | Some e \<Rightarrow> exn_str e))
            ''invalid_signature'')"
| "decode_loop env cfg n token (key # keys) last_error =
     (case res_bind (ie_decode env n token key (ic_issuer cfg) (ic_audience cfg))
             (extract_claims cfg) of
        Inr claims \<Rightarrow> Inr claims
      | Inl e \<Rightarrow>
          (case translate_decode_error (ie_is_pyjwt_error env) e of
             Some e' \<Rightarrow> Inl e'
           | None \<Rightarrow> decode_loop env cfg n token keys (Some e)))"

definition decode_with_keys ::
    "('n, 'k) idp_env \<Rightarrow> identity_config \<Rightarrow> string \<Rightarrow> 'k list \<Rightarrow> (('n, 'k) jwks_state, token_claims) prog"
  where
  "decode_with_keys env cfg token keys =
     (\<lambda>s. (decode_loop env cfg (js_net s) token keys None, s))"

definition validate_token ::
    "('n, 'k) idp_env \<Rightarrow> identity_config \<Rightarrow> (('n, 'k) jwks_state \<Rightarrow> ('n, 'k) jwks_state) \<Rightarrow> string \<Rightarrow>
     (('n, 'k) jwks_state, token_claims) prog" where
  "validate_token env cfg wait token =
     bind (get_signing_keys env cfg wait False) (\<lambda>keys.
       handle (decode_with_keys env cfg token keys) (\<lambda>e.
         if token_error_reason e \<noteq> Some ''invalid_signature'' then raise e
         else bind (get_signing_keys env cfg wait True) (decode_with_keys env cfg token)))"

section \<open>The hook\<close>

definition parse_bearer :: "string \<Rightarrow> string option" where
  "parse_bearer header =
     (case split_ws1 header of
        [scheme, token] \<Rightarrow> if lower scheme \<noteq> ''bearer'' then None else Some token
      | _ \<Rightarrow> None)"

definition identity_pre_validation ::
    "(string \<Rightarrow> ('s, token_claims) prog) \<Rightarrow> hook_context \<Rightarrow> ('s, hook_context) prog" where
  "identity_pre_validation validate ctx =
     (let auth_header = dict_get (extras ctx) ''authorization'' (PStr []) in
      if \<not> truthy auth_header then
        raise (ShortCircuitError ''Missing Authorization header'' True)
      else
        bind (lift_res (str_method ''split'' auth_header parse_bearer)) (\<lambda>parsed. case parsed of
          None \<Rightarrow> raise (ShortCircuitError ''Malformed Authorization header'' True)
        | Some token \<Rightarrow>
            bind (handle (validate token) (\<lambda>e.
                    if is_IdentityError e
                    then raise (ShortCircuitError (''Authentication failed: '' @ exn_str e) True)
                    else raise e)) (\<lambda>claims.
            ret (ctx\<lparr>request := (request ctx)\<lparr>
                       identity := Some \<lparr>ui_user_id = tc_user_id claims,
                                         ui_email = tc_email claims,
                                         ui_groups = tc_groups claims\<rparr>,
                       raw_token := Some token\<rparr>\<rparr>))))"

definition identity_hook :: "(string \<Rightarrow> ('s, token_claims) prog) \<Rightarrow> 's hook" where
  "identity_hook validate =
     (base_hook ''IdentityHook'')\<lparr>h_pre_validation := identity_pre_validation validate\<rparr>"

section \<open>Claims come from a decoded token\<close>

lemma extract_claims_ok:
  assumes "extract_claims cfg d = Inr c"
  shows "truthy (tc_user_id c) \<and> tc_raw_claims c = d \<and>
         dict_get_dyn d (cm_user_id (ic_claim_mapping cfg)) PNone = Inr (tc_user_id c)"
  using assms by (auto simp: extract_claims_def Let_def res_simps split: if_splits)

text \<open>A token that the keys of the identity provider vouch for: some key decodes it, with the
  configured issuer and audience.\<close>

definition vouched ::
    "('n, 'k) idp_env \<Rightarrow> identity_config \<Rightarrow> 'n \<Rightarrow> 'k list \<Rightarrow> string \<Rightarrow> token_claims \<Rightarrow> bool" where
  "vouched env cfg n keys token c \<longleftrightarrow>
     (\<exists>key \<in> set keys. ie_decode env n token key (ic_issuer cfg) (ic_audience cfg) =
         Inr (tc_raw_claims c)) \<and> extract_claims cfg (tc_raw_claims c) = Inr c"

lemma decode_loop_vouched:
  "decode_loop env cfg n token keys le = Inr c \<Longrightarrow> vouched env cfg n keys token c"
proof (induction keys arbitrary: le)
  case Nil
  then show ?case by simp
next
  case (Cons key keys)
  show ?case
  proof (cases "res_bind (ie_decode env n token key (ic_issuer cfg) (ic_audience cfg))
                  (extract_claims cfg)")
    case (Inl e)
    with Cons show ?thesis by (auto simp: vouched_def split: option.splits)
  next
    case (Inr c')
    with Cons.prems have "c' = c" by simp
    with Inr obtain d where "ie_decode env n token key (ic_issuer cfg) (ic_audience cfg) = Inr d"
      and "extract_claims cfg d = Inr c" by (auto simp: res_simps)
    with extract_claims_ok [of cfg d c] show ?thesis by (auto simp: vouched_def)
  qed
qed

lemma get_signing_keys_current:
  assumes "get_signing_keys env cfg wait force s = (Inr keys, s')"
  shows "keys = js_keys s'"
  using assms by (auto simp: get_signing_keys_def bind_apply split: prod.splits sum.splits if_splits)

lemma validate_token_vouched:
  assumes "validate_token env cfg wait token s = (Inr c, s')"
  shows "vouched env cfg (js_net s') (js_keys s') token c"
proof -
  obtain keys s1 where k: "get_signing_keys env cfg wait False s = (Inr keys, s1)"
    and rest: "handle (decode_with_keys env cfg token keys) (\<lambda>e.
         if token_error_reason e \<noteq> Some ''invalid_signature'' then raise e
         else bind (get_signing_keys env cfg wait True) (decode_with_keys env cfg token)) s1
       = (Inr c, s')"
    using assms unfolding validate_token_def by (rule bind_Inr_elim)
  show ?thesis
  proof (cases "decode_loop env cfg (js_net s1) token keys None")
    case (Inr c')
    with rest have "c' = c" "s' = s1" by (auto simp: handle_apply decode_with_keys_def)
    with Inr get_signing_keys_current [OF k] decode_loop_vouched [OF Inr] show ?thesis by simp
  next
    case (Inl e)
    with rest have "bind (get_signing_keys env cfg wait True) (decode_with_keys env cfg token) s1 =
        (Inr c, s')"
      by (auto simp: handle_apply decode_with_keys_def split: if_splits)
    then obtain keys2 s2 where k2: "get_signing_keys env cfg wait True s1 = (Inr keys2, s2)"
      and d: "decode_with_keys env cfg token keys2 s2 = (Inr c, s')"
      by (rule bind_Inr_elim)
    from d have "s' = s2" "decode_loop env cfg (js_net s2) token keys2 None = Inr c"
      by (auto simp: decode_with_keys_def)
    with get_signing_keys_current [OF k2] decode_loop_vouched show ?thesis by metis
  qed
qed

section \<open>Requests to the identity provider\<close>

text \<open>A count of the requests made to the outside world, and how many a computation adds at most.\<close>

definition adds_at_most :: "nat \<Rightarrow> ('s \<Rightarrow> nat) \<Rightarrow> ('s, 'a) prog \<Rightarrow> bool" where
  "adds_at_most k cnt m \<longleftrightarrow> (\<forall>s. cnt (snd (m s)) \<le> cnt s + k)"

lemma adds_at_mostD: "adds_at_most k cnt m \<Longrightarrow> m s = (r, s') \<Longrightarrow> cnt s' \<le> cnt s + k"
  unfolding adds_at_most_def by (metis snd_conv)

lemma adds_bind:
  assumes "adds_at_most j cnt m" and "\<And>x. adds_at_most k cnt (f x)"
  shows "adds_at_most (j + k) cnt (bind m f)"
  unfolding adds_at_most_def
proof
  fix s
  obtain r s1 where m: "m s = (r, s1)" by fastforce
  show "cnt (snd (bind m f s)) \<le> cnt s + (j + k)"
  proof (cases r)
    case (Inl e)
    with m adds_at_mostD [OF assms(1) m] show ?thesis by (simp add: bind_apply)
  next
    case (Inr x)
    obtain r2 s2 where f: "f x s1 = (r2, s2)" by fastforce
    from adds_at_mostD [OF assms(1) m] adds_at_mostD [OF assms(2) f] m Inr f
    show ?thesis by (simp add: bind_apply)
  qed
qed

lemma adds_bind0:
  "adds_at_most k cnt m \<Longrightarrow> (\<And>x. adds_at_most 0 cnt (f x)) \<Longrightarrow> adds_at_most k cnt (bind m f)"
  using adds_bind [of k cnt m 0 f] by simp

lemma adds_0bind:
  "adds_at_most 0 cnt m \<Longrightarrow> (\<And>x. adds_at_most k cnt (f x)) \<Longrightarrow> adds_at_most k cnt (bind m f)"
  using adds_bind [of 0 cnt m k f] by simp

lemma adds_pure [simp]:
  "adds_at_most k cnt (ret x)" "adds_at_most k cnt (raise e)"
  "adds_at_most k cnt (lift_res r)" "adds_at_most k cnt (gets f)"
  by (simp_all add: adds_at_most_def)

lemma adds_handle_reraise:
  "adds_at_most k cnt m \<Longrightarrow>
     adds_at_most k cnt (handle m (\<lambda>e. if P e then raise (f e) else raise e))"
  by (auto simp: adds_at_most_def handle_apply split: prod.splits sum.splits) (metis snd_conv)+

locale counted_requests =
  fixes env :: "('n, 'k) idp_env"
    and wait :: "('n, 'k) jwks_state \<Rightarrow> ('n, 'k) jwks_state"
    and cnt :: "'n \<Rightarrow> nat"
  assumes get_counts: "cnt (snd (ie_get_json env url n)) = cnt n + 1"
    and wait_counts: "cnt (js_net (wait s)) = cnt (js_net s)"
    and wait_uri: "js_uri s \<noteq> None \<Longrightarrow> js_uri (wait s) \<noteq> None"
begin

abbreviation requests :: "('n, 'k) jwks_state \<Rightarrow> nat" where
  "requests s \<equiv> cnt (js_net s)"

lemma adds_get_json: "adds_at_most 1 requests (get_json env wrap url)"
  unfolding get_json_def
proof (rule adds_handle_reraise)
  show "adds_at_most 1 requests (zoom js_net (\<lambda>n s. s\<lparr>js_net := n\<rparr>) (ie_get_json env url))"
    unfolding adds_at_most_def
  proof
    fix s
    show "requests (snd (zoom js_net (\<lambda>n s. s\<lparr>js_net := n\<rparr>) (ie_get_json env url) s)) \<le> requests s + 1"
      using get_counts [of url "js_net s"]
      by (cases "ie_get_json env url (js_net s)") (simp add: zoom_def)
  qed
qed

lemma adds_discover: "adds_at_most 1 requests (discover_jwks_uri env issuer)"
  unfolding discover_jwks_uri_def Let_def
  by (rule adds_bind0 [OF adds_get_json]) (auto intro!: adds_bind0)

lemma adds_modify: "(\<And>s. js_net (f s) = js_net s) \<Longrightarrow> adds_at_most k requests (modify f)"
  by (simp add: adds_at_most_def)

text \<open>Everything after the JWKS address is known: one request.\<close>

lemma adds_fetch_tail:
  "adds_at_most 1 requests
     (bind (get_json env wrap uri) (\<lambda>jwks_data.
      bind (lift_res (py_get jwks_data ''keys'' (PList []))) (\<lambda>raw_keys.
        if \<not> truthy raw_keys then raise e
        else bind (lift_res (g raw_keys)) (\<lambda>keys.
             bind (modify (\<lambda>s. s\<lparr>js_keys := keys\<rparr>)) (\<lambda>_.
               modify (\<lambda>s. s\<lparr>js_last_fetch := ie_monotonic env (js_net s)\<rparr>))))))"
  by (rule adds_bind0 [OF adds_get_json]) (auto intro!: adds_0bind adds_modify)

lemma adds_fetch_keys: "adds_at_most 2 requests (fetch_keys env cfg)"
proof -
  have uri: "adds_at_most 1 requests
     (bind (gets js_uri) (\<lambda>known. case known of
             Some uri \<Rightarrow> ret uri
           | None \<Rightarrow> bind (discover_jwks_uri env issuer) (\<lambda>uri.
                      bind (modify (\<lambda>s. s\<lparr>js_uri := Some uri\<rparr>)) (\<lambda>_. ret uri))))" for issuer
    by (intro adds_0bind)
      (auto split: option.splits intro!: adds_bind0 adds_discover adds_modify simp del: One_nat_def)
  have "adds_at_most (1 + 1) requests (fetch_keys env cfg)"
    unfolding fetch_keys_def by (intro adds_0bind adds_bind [OF uri] adds_fetch_tail) simp
  moreover have "(1::nat) + 1 = 2" by simp
  ultimately show ?thesis by (simp only:)
qed

lemma fetch_keys_known:
  assumes "js_uri s \<noteq> None"
  shows "requests (snd (fetch_keys env cfg s)) \<le> requests s + 1"
proof (cases "str_method ''rstrip'' (ic_issuer cfg) (rstrip_char (CHR ''/''))")
  case (Inl e)
  then show ?thesis by (simp add: fetch_keys_def)
next
  case (Inr issuer)
  from assms obtain uri where uri: "js_uri s = Some uri" by auto
  show ?thesis
    using adds_fetch_tail [unfolded adds_at_most_def, rule_format, of _ _ _ _ s]
    by (simp add: fetch_keys_def Inr bind_apply [of _ _ s] uri)
qed

lemma get_json_uri: "get_json env wrap url s = (r, s') \<Longrightarrow> js_uri s' = js_uri s"
  by (auto simp: get_json_def handle_apply zoom_def split: prod.splits sum.splits if_splits)

lemma fetch_keys_uri: "fetch_keys env cfg s = (Inr x, s') \<Longrightarrow> js_uri s' \<noteq> None"
  by (auto simp: fetch_keys_def bind_apply discover_jwks_uri_def Let_def
      split: prod.splits sum.splits option.splits if_splits dest!: get_json_uri)

lemma get_signing_keys_requests:
  assumes "get_signing_keys env cfg wait force s = (r, s')"
  shows "requests s' \<le> requests s + (if js_uri s = None then 2 else 1) \<and>
         (is_ok r \<longrightarrow> s' = s \<or> js_uri s' \<noteq> None \<or> requests s' = requests s)"
proof -
  consider (cached) "s' = s" | (waited) "s' = wait s"
    | (fetched) x where "fetch_keys env cfg (wait s) = (x, s')" "is_ok r \<longrightarrow> is_ok x"
    using assms
    by (auto simp: get_signing_keys_def bind_apply split: prod.splits sum.splits if_splits)
  then show ?thesis
  proof cases
    case (fetched x)
    have "requests s' \<le> requests (wait s) + 2"
      using adds_at_mostD [OF adds_fetch_keys fetched(1)] by simp
    moreover have "requests s' \<le> requests (wait s) + 1" if "js_uri s \<noteq> None"
      using fetch_keys_known [OF wait_uri [OF that], of cfg] fetched(1) by simp
    moreover have "js_uri s' \<noteq> None" if "is_ok r"
      using that fetched fetch_keys_uri by (auto simp: is_ok_iff)
    ultimately show ?thesis using wait_counts [of s] by auto
  qed (simp_all add: wait_counts)
qed

lemma validate_token_requests:
  "requests (snd (validate_token env cfg wait token s)) \<le> requests s + 3"
proof -
  obtain r1 s1 where k1: "get_signing_keys env cfg wait False s = (r1, s1)" by fastforce
  note b1 = get_signing_keys_requests [OF k1]
  obtain r2 s2 where k2: "get_signing_keys env cfg wait True s1 = (r2, s2)" by fastforce
  note b2 = get_signing_keys_requests [OF k2]
  have final: "snd (validate_token env cfg wait token s) = s1 \<or>
      is_ok r1 \<and> snd (validate_token env cfg wait token s) = s2"
    using k1 k2
    by (auto simp: validate_token_def bind_apply handle_apply decode_with_keys_def
        split: sum.splits prod.splits)
  with b1 b2 show ?thesis by (auto split: if_splits)
qed

end

section \<open>Properties\<close>

text \<open>An identity provider with one key whose state counts the requests it received; tokens are
  signed by the key named after them.\<close>

definition sample_idp :: "(nat, string) idp_env" where
  "sample_idp =
     \<lparr>ie_get_json = (\<lambda>url n.
        (Inr (PDict (if url = PStr ''https://idp.example/keys''
                     then [(''keys'', PList [PStr ''k2''])]
                     else [(''jwks_uri'', PStr ''https://idp.example/keys'')])), n + 1)),
      ie_make_key = (\<lambda>v. case v of PStr k \<Rightarrow> Inr k | _ \<Rightarrow> Inl (TypeError ''key'')),
      ie_decode = (\<lambda>n token key iss aud.
        if token = ''token-by-'' @ key then Inr [(''sub'', PStr ''ann''), (''groups'', PList [PStr ''devs''])]
        else Inl (OtherException ''InvalidSignatureError'' ''bad signature'')),
      ie_is_pyjwt_error = (\<lambda>e. case e of OtherException _ _ \<Rightarrow> True | _ \<Rightarrow> False),
      ie_monotonic = (\<lambda>n. of_nat n + 1)\<rparr>"

definition sample_identity_config :: identity_config where
  "sample_identity_config =
     \<lparr>ic_provider = PStr ''okta'', ic_issuer = PStr ''https://idp.example/'',
      ic_audience = PStr ''gateway'', ic_jwks_cache_ttl = 3600,
      ic_claim_mapping = default_claim_mapping, ic_allow_insecure = PBool False\<rparr>"

definition rotated_state :: "(nat, string) jwks_state" where
  "rotated_state = \<lparr>js_uri = Some (PStr ''https://idp.example/keys''), js_keys = [''k1''],
                    js_last_fetch = 1, js_net = 5\<rparr>"

definition bearer_context :: hook_context where
  "bearer_context =
     sample_context\<lparr>extras := [(''authorization'', PStr ''Bearer token-by-k2'')]\<rparr>"

definition sample_identity_hook :: "(nat, string) jwks_state hook" where
  "sample_identity_hook =
     identity_hook (validate_token sample_idp sample_identity_config id)"

lemma identity_pass:
  assumes "h_pre_validation (identity_hook (validate_token env cfg wait)) ctx s = (Inr ctx', s')"
  shows "\<exists>header token c.
     dict_get (extras ctx) ''authorization'' (PStr []) = PStr header \<and>
     parse_bearer header = Some token \<and>
     vouched env cfg (js_net s') (js_keys s') token c \<and> truthy (tc_user_id c) \<and>
     ctx' = ctx\<lparr>request := (request ctx)\<lparr>
              identity := Some \<lparr>ui_user_id = tc_user_id c, ui_email = tc_email c,
                                ui_groups = tc_groups c\<rparr>,
              raw_token := Some token\<rparr>\<rparr>"
proof -
  from assms obtain header token c where h:
      "dict_get (extras ctx) ''authorization'' (PStr []) = PStr header"
      "parse_bearer header = Some token"
      "validate_token env cfg wait token s = (Inr c, s')"
      "ctx' = ctx\<lparr>request := (request ctx)\<lparr>
              identity := Some \<lparr>ui_user_id = tc_user_id c, ui_email = tc_email c,
                                ui_groups = tc_groups c\<rparr>,
              raw_token := Some token\<rparr>\<rparr>"
    by (cases "dict_get (extras ctx) ''authorization'' (PStr [])")
      (auto simp: identity_hook_def identity_pre_validation_def Let_def bind_apply handle_apply
        split: if_splits option.splits prod.splits sum.splits)
  have v: "vouched env cfg (js_net s') (js_keys s') token c"
    using h(3) by (rule validate_token_vouched)
  then have "truthy (tc_user_id c)" by (auto simp: vouched_def dest: extract_claims_ok)
  with h v show ?thesis by blast
qed

text \<open>C7: authentication. When the identity hook lets a request pass, the request carried a bearer
  token that a current key of the identity provider decodes for the configured issuer and
  audience, the user id is a non-empty claim of that token, and the identity of the request is
  what the claims say; nothing else in the context changes.\<close>

theorem identity_only_from_vouched_token:
  assumes "h_pre_validation (identity_hook (validate_token env cfg wait)) ctx s = (Inr ctx', s')"
  shows "\<exists>header token c.
     dict_get (extras ctx) ''authorization'' (PStr []) = PStr header \<and>
     parse_bearer header = Some token \<and>
     vouched env cfg (js_net s') (js_keys s') token c \<and> truthy (tc_user_id c) \<and>
     ctx' = ctx\<lparr>request := (request ctx)\<lparr>
              identity := Some \<lparr>ui_user_id = tc_user_id c, ui_email = tc_email c,
                                ui_groups = tc_groups c\<rparr>,
              raw_token := Some token\<rparr>\<rparr>"
  using assms by (rule identity_pass)

lemma sample_identity_run:
  "h_pre_validation sample_identity_hook bearer_context rotated_state =
     (Inr (bearer_context\<lparr>request := (request bearer_context)\<lparr>
              identity := Some \<lparr>ui_user_id = PStr ''ann'', ui_email = PNone,
                                ui_groups = [PStr ''devs'']\<rparr>,
              raw_token := Some ''token-by-k2''\<rparr>\<rparr>),
      \<lparr>js_uri = Some (PStr ''https://idp.example/keys''), js_keys = [''k2''],
       js_last_fetch = 7, js_net = 6\<rparr>)"
  by code_simp

theorem identity_only_from_vouched_token_witness:
  "\<exists>token c. vouched sample_idp sample_identity_config 6 [''k2''] token c"
  using identity_only_from_vouched_token [OF sample_identity_run [unfolded sample_identity_hook_def]]
  by auto

text \<open>A request without a valid token is denied. A missing or malformed header and every
  \<open>IdentityError\<close> of the validator become a short circuit that asks for a denial; only an
  exception of another class passes through unchanged.\<close>

theorem identity_failure_denies:
  assumes "dict_get (extras ctx) ''authorization'' (PStr []) = PStr header"
  shows "(case parse_bearer header of
       None \<Rightarrow> \<exists>reason. identity_pre_validation validate ctx s = (Inl (ShortCircuitError reason True), s)
     | Some token \<Rightarrow>
         (case validate token s of
            (Inl e, s') \<Rightarrow> identity_pre_validation validate ctx s =
              (Inl (if is_IdentityError e
                    then ShortCircuitError (''Authentication failed: '' @ exn_str e) True else e), s')
          | (Inr c, s') \<Rightarrow> is_ok (fst (identity_pre_validation validate ctx s))))"
proof (cases "header = []")
  case True
  then have "parse_bearer header = None" by (simp add: parse_bearer_def split_ws1_def)
  with assms True show ?thesis by (simp add: identity_pre_validation_def)
next
  case False
  with assms show ?thesis
    by (auto simp: identity_pre_validation_def Let_def bind_apply handle_apply
        split: option.splits prod.splits sum.splits)
qed

theorem identity_failure_denies_witness:
  "fst (identity_pre_validation (validate_token sample_idp sample_identity_config id)
          (sample_context\<lparr>extras := [(''authorization'', PStr ''Basic abc'')]\<rparr>) rotated_state) =
     Inl (ShortCircuitError ''Malformed Authorization header'' True)"
proof -
  let ?ctx = "sample_context\<lparr>extras := [(''authorization'', PStr ''Basic abc'')]\<rparr>"
  have "dict_get (extras ?ctx) ''authorization'' (PStr []) = PStr ''Basic abc''"
    by (simp add: dict_get_def)
  moreover have "parse_bearer ''Basic abc'' = None" by code_simp
  ultimately have "\<exists>reason. identity_pre_validation (validate_token sample_idp sample_identity_config id)
        ?ctx rotated_state = (Inl (ShortCircuitError reason True), rotated_state)"
    using identity_failure_denies [of ?ctx "''Basic abc''"
        "validate_token sample_idp sample_identity_config id" rotated_state] by simp
  then show ?thesis
    using \<open>parse_bearer ''Basic abc'' = None\<close>
    by (simp add: identity_pre_validation_def dict_get_def)
qed

text \<open>Any environment, with its requests counted beside its own state.\<close>

definition counting_env :: "('n, 'k) idp_env \<Rightarrow> ('n \<times> nat, 'k) idp_env" where
  "counting_env env =
     \<lparr>ie_get_json = (\<lambda>url (n, k). case ie_get_json env url n of (r, n') \<Rightarrow> (r, (n', k + 1))),
      ie_make_key = ie_make_key env, ie_decode = (\<lambda>(n, k). ie_decode env n),
      ie_is_pyjwt_error = ie_is_pyjwt_error env, ie_monotonic = (\<lambda>(n, k). ie_monotonic env n)\<rparr>"

interpretation counted: counted_requests "counting_env env" id snd for env :: "('n, 'k) idp_env"
  by unfold_locales (auto simp: counting_env_def split: prod.splits)

text \<open>Key rotation costs at most one forced refresh: however often the keys fail to verify
  the token, one validation makes at most three requests to the identity provider (discovery,
  the keys, and the keys again).\<close>

theorem validation_request_bound:
  fixes cnt :: "'n \<Rightarrow> nat"
  assumes "\<And>url n. cnt (snd (ie_get_json env url n)) = cnt n + 1"
    and "\<And>s. cnt (js_net (wait s)) = cnt (js_net s)"
    and "\<And>s. js_uri s \<noteq> None \<Longrightarrow> js_uri (wait s) \<noteq> None"
  shows "cnt (js_net (snd (validate_token env cfg wait token s))) \<le> cnt (js_net s) + 3"
proof -
  have "counted_requests env wait cnt" using assms by unfold_locales
  then show ?thesis by (rule counted_requests.validate_token_requests)
qed

theorem validation_request_bound_witness:
  "js_net (snd (validate_token sample_idp sample_identity_config id ''forged'' (new_jwks_state 0))) \<le> 3"
  using validation_request_bound [of id sample_idp id sample_identity_config "''forged''" "new_jwks_state 0"]
  by (simp add: sample_idp_def new_jwks_state_def)

end
