(* ===== verification/Policy_Engine.thy ===== *)
theory Policy_Engine
  imports Policy_Config "HOL-Library.Multiset"
begin

text \<open>
  \<open>governance/engine.py\<close>. The first part translates the engine: pattern matching, subject,
  server and tool matching, the scan over the rules with its two candidates, and \<open>evaluate\<close>,
  which turns every exception into a denial. Since the policy's fields are dynamic, matching
  may raise. The second part is the abstract specification, on policies whose fields have the
  types the dataclasses declare (strings and lists of strings); the engine refines it. The
  locale \<open>policy_decider\<close> is the contract the callers of the engine rely on.
\<close>

section \<open>Inputs and results\<close>

record policy_input =
  pi_user_id :: pyval
  pi_groups :: "pyval list"
  pi_mcp_server :: string
  pi_tool :: string

record evaluation_result =
  er_effect :: policy_effect
  er_policy_id :: pyval
  er_reason :: pyval

section \<open>Matching\<close>

definition matches_pattern :: "pyval \<Rightarrow> string \<Rightarrow> bool res" where
  "matches_pattern pattern v =
     (if py_eq pattern (PStr ''*'') then Inr True
      else case pattern of
        PStr p \<Rightarrow>
          if suffix ''*'' p then Inr (prefix (butlast p) v)
          else if prefix ''*'' p then Inr (suffix (tl p) v)
          else Inr (p = v)
      | _ \<Rightarrow> Inl (no_attribute pattern ''endswith''))"

definition tools_match :: "pyval \<Rightarrow> string \<Rightarrow> bool res" where
  "tools_match tool_patterns tool =
     (if \<not> truthy tool_patterns then Inr True
      else res_bind (py_iter tool_patterns) (any_res (\<lambda>p. matches_pattern p tool)))"

text \<open>\<open>set(xs)\<close>: every element must be hashable.\<close>

fun py_set :: "pyval list \<Rightarrow> pyval list res" where
  "py_set [] = Inr []"
| "py_set (x # xs) =
     (if is_hashable x then res_bind (py_set xs) (\<lambda>ys. Inr (x # ys)) else Inl (unhashable x))"

definition subjects_match :: "policy_subjects \<Rightarrow> policy_input \<Rightarrow> bool res" where
  "subjects_match s inp =
     (if \<not> truthy (ps_users s) \<and> \<not> truthy (ps_groups s) then Inr True
      else res_bind (py_in (pi_user_id inp) (ps_users s)) (\<lambda>direct.
        if direct then Inr True
        else res_bind (py_in (PStr ''*'') (ps_groups s)) (\<lambda>any_group.
          if any_group then Inr True
          else res_bind (py_set (pi_groups inp)) (\<lambda>gs.
               res_bind (res_bind (py_iter (ps_groups s)) py_set) (\<lambda>hs.
                 Inr (\<exists>g \<in> set gs. \<exists>h \<in> set hs. py_eq g h))))))"

fun servers_match :: "policy_server_access list \<Rightarrow> policy_input \<Rightarrow> bool res" where
  "servers_match [] inp = Inr False"
| "servers_match (access # rest) inp =
     res_bind (matches_pattern (psa_name access) (pi_mcp_server inp)) (\<lambda>b.
       if b
       then res_bind (tools_match (psa_tools access) (pi_tool inp)) (\<lambda>t.
              if t then Inr True else servers_match rest inp)
       else servers_match rest inp)"

definition rule_matches :: "policy_rule \<Rightarrow> policy_input \<Rightarrow> bool res" where
  "rule_matches rule inp =
     res_bind (subjects_match (pr_subjects rule) inp) (\<lambda>b.
       if \<not> b then Inr False else servers_match (pr_mcp_servers rule) inp)"

section \<open>Evaluation\<close>

text \<open>The loop of \<open>_evaluate_rules\<close>, with \<open>first_deny\<close> and \<open>first_allow\<close> as its state.\<close>

fun scan_rules ::
    "policy_input \<Rightarrow> policy_rule list \<Rightarrow> policy_rule option \<Rightarrow> policy_rule option \<Rightarrow>
     (policy_rule option \<times> policy_rule option) res" where
  "scan_rules inp [] first_deny first_allow = Inr (first_deny, first_allow)"
| "scan_rules inp (rule # rest) first_deny first_allow =
     res_bind (rule_matches rule inp) (\<lambda>b.
       if \<not> b then scan_rules inp rest first_deny first_allow
       else if pr_effect rule = DENY \<and> first_deny = None
            then scan_rules inp rest (Some rule) first_allow
       else if pr_effect rule = ALLOW \<and> first_allow = None
            then scan_rules inp rest first_deny (Some rule)
       else scan_rules inp rest first_deny first_allow)"

definition evaluate_rules :: "policy_config \<Rightarrow> policy_input \<Rightarrow> evaluation_result res" where
  "evaluate_rules policy inp =
     res_bind (scan_rules inp (pol_policies policy) None None) (\<lambda>(first_deny, first_allow).
       Inr (case first_deny of
              Some r \<Rightarrow> \<lparr>er_effect = DENY, er_policy_id = pr_id r, er_reason = pr_description r\<rparr>
            | None \<Rightarrow>
               (case first_allow of
                  Some r \<Rightarrow> \<lparr>er_effect = ALLOW, er_policy_id = pr_id r, er_reason = PNone\<rparr>
                | None \<Rightarrow>
                    \<lparr>er_effect = pol_default policy, er_policy_id = PNone,
                     er_reason = (if pol_default policy = DENY
                                  then PStr ''No matching policy; default is deny''
                                  else PNone)\<rparr>)))"

definition evaluate :: "policy_config \<Rightarrow> policy_input \<Rightarrow> evaluation_result res" where
  "evaluate policy inp =
     (case evaluate_rules policy inp of
        Inr r \<Rightarrow> Inr r
      | Inl e \<Rightarrow>
          if is_Exception e
          then Inr \<lparr>er_effect = DENY, er_policy_id = PNone,
                    er_reason = PStr (''Evaluation error: '' @ exn_str e)\<rparr>
          else Inl e)"

section \<open>Matching raises only ordinary exceptions\<close>

definition plain :: "'a res \<Rightarrow> bool" where
  "plain m = (case m of Inl e \<Rightarrow> is_Exception e | Inr _ \<Rightarrow> True)"

named_theorems plain_intros \<open>computations that raise ordinary exceptions only\<close>

lemma plain_simps [simp]: "plain (Inr x)" "plain (Inl e) \<longleftrightarrow> is_Exception e"
  by (simp_all add: plain_def)

lemma plain_bind [plain_intros]:
  "plain m \<Longrightarrow> (\<And>x. m = Inr x \<Longrightarrow> plain (f x)) \<Longrightarrow> plain (res_bind m f)"
  by (cases m) simp_all

lemma plain_any [plain_intros]: "(\<And>x. plain (f x)) \<Longrightarrow> plain (any_res f xs)"
  by (induction xs) (auto intro!: plain_intros)

lemma plain_ops [simp]:
  "plain (py_in x c)" "plain (py_iter c)" "plain (py_set xs)" "plain (matches_pattern p v)"
proof -
  show "plain (py_in x c)"
    by (cases c) (simp_all add: unhashable_def split: pyval.split)
  show "plain (py_iter c)" by (cases c) simp_all
  show "plain (py_set xs)"
    by (induction xs) (auto simp: unhashable_def intro!: plain_intros)
  show "plain (matches_pattern p v)"
    by (cases p) (simp_all add: matches_pattern_def no_attribute_def)
qed

lemma plain_tools_match [simp]: "plain (tools_match ps t)"
  by (auto simp: tools_match_def intro!: plain_intros)

lemma plain_subjects_match [simp]: "plain (subjects_match s inp)"
  by (auto simp: subjects_match_def intro!: plain_intros)

lemma plain_servers_match [simp]: "plain (servers_match as inp)"
  by (induction as) (auto intro!: plain_intros)

lemma plain_rule_matches [simp]: "plain (rule_matches r inp)"
  by (auto simp: rule_matches_def intro!: plain_intros)

lemma plain_scan_rules [simp]: "plain (scan_rules inp rs d a)"
  by (induction rs arbitrary: d a) (auto intro!: plain_intros)

lemma plain_evaluate_rules [simp]: "plain (evaluate_rules pol inp)"
  by (auto simp: evaluate_rules_def intro!: plain_intros)

text \<open>So \<open>evaluate\<close> always returns: its decision is a total function of policy and input.\<close>

definition decide :: "policy_config \<Rightarrow> policy_input \<Rightarrow> evaluation_result" where
  "decide policy inp =
     (case evaluate_rules policy inp of
        Inr r \<Rightarrow> r
      | Inl e \<Rightarrow> \<lparr>er_effect = DENY, er_policy_id = PNone,
                  er_reason = PStr (''Evaluation error: '' @ exn_str e)\<rparr>)"

lemma evaluate_decide: "evaluate policy inp = Inr (decide policy inp)"
  using plain_evaluate_rules [of policy inp]
  by (cases "evaluate_rules policy inp") (simp_all add: evaluate_def decide_def plain_def)

section \<open>What the scan finds\<close>

text \<open>The outcome of a match that does not raise.\<close>

definition hits :: "policy_input \<Rightarrow> policy_rule \<Rightarrow> bool" where
  "hits inp r = (rule_matches r inp = Inr True)"

definition clean :: "policy_input \<Rightarrow> policy_rule \<Rightarrow> bool" where
  "clean inp r = is_ok (rule_matches r inp)"

abbreviation or_else :: "'a option \<Rightarrow> 'a option \<Rightarrow> 'a option" where
  "or_else a b \<equiv> (case a of None \<Rightarrow> b | Some x \<Rightarrow> Some x)"

lemma scan_rules_find:
  assumes "\<forall>r \<in> set rs. clean inp r"
  shows "scan_rules inp rs d a =
    Inr (or_else d (find (\<lambda>r. hits inp r \<and> pr_effect r = DENY) rs),
         or_else a (find (\<lambda>r. hits inp r \<and> pr_effect r = ALLOW) rs))"
  using assms
proof (induction rs arbitrary: d a)
  case Nil
  then show ?case by (simp split: option.splits)
next
  case (Cons r rs)
  from Cons.prems obtain b where b: "rule_matches r inp = Inr b"
    by (auto simp: clean_def is_ok_iff)
  with Cons show ?case
    by (cases "pr_effect r") (auto simp: hits_def split: option.splits)
qed

lemma scan_rules_raises:
  assumes "\<not> (\<forall>r \<in> set rs. clean inp r)"
  shows "\<exists>e. scan_rules inp rs d a = Inl e"
  using assms
proof (induction rs arbitrary: d a)
  case Nil
  then show ?case by simp
next
  case (Cons r rs)
  show ?case
  proof (cases "rule_matches r inp")
    case (Inl e)
    then show ?thesis by simp
  next
    case (Inr b)
    with Cons.prems have "\<not> (\<forall>r \<in> set rs. clean inp r)" by (auto simp: clean_def)
    from Cons.IH [OF this] Inr show ?thesis by auto
  qed
qed

lemma Bex_find: "(\<exists>x \<in> set xs. P x) \<longleftrightarrow> find P xs \<noteq> None"
  by (auto simp: find_None_iff)

text \<open>The decision in closed form: the three ways to deny and the two ways to allow.\<close>

lemma decide_effect:
  "er_effect (decide pol inp) = ALLOW \<longleftrightarrow>
     (\<forall>r \<in> set (pol_policies pol). clean inp r) \<and>
     \<not> (\<exists>r \<in> set (pol_policies pol). hits inp r \<and> pr_effect r = DENY) \<and>
     ((\<exists>r \<in> set (pol_policies pol). hits inp r \<and> pr_effect r = ALLOW) \<or>
      pol_default pol = ALLOW)"
proof (cases "\<forall>r \<in> set (pol_policies pol). clean inp r")
  case True
  show ?thesis
    unfolding Bex_find
    using True
    by (auto simp: decide_def evaluate_rules_def scan_rules_find [OF True] split: option.splits)
next
  case False
  from scan_rules_raises [OF False] obtain e
    where "scan_rules inp (pol_policies pol) None None = Inl e" by blast
  with False show ?thesis by (auto simp: decide_def evaluate_rules_def)
qed

section \<open>The contract of the callers\<close>

text \<open>
  \<open>GovernanceHook\<close> and \<open>ProxyServer\<close> hold a \<open>PolicyEngine\<close> and call \<open>evaluate\<close>. What they rely
  on is that it always returns a decision: an exception would reach the pipeline as a
  \<open>HookError\<close>, which is not a denial.
\<close>

locale policy_decider =
  fixes decider :: "policy_input \<Rightarrow> evaluation_result res"
  assumes returns: "\<exists>r. decider inp = Inr r"
begin

definition permits :: "policy_input \<Rightarrow> bool" where
  "permits inp = (\<exists>r. decider inp = Inr r \<and> er_effect r = ALLOW)"

lemma decider_cases:
  obtains (allow) r where "decider inp = Inr r" "er_effect r = ALLOW" "permits inp"
        | (deny) r where "decider inp = Inr r" "er_effect r = DENY" "\<not> permits inp"
proof -
  obtain r where r: "decider inp = Inr r" using returns by blast
  then show ?thesis
    by (cases "er_effect r") (auto simp: permits_def intro: allow deny)
qed

end

interpretation engine: policy_decider "evaluate policy" for policy
  by unfold_locales (simp add: evaluate_decide)

section \<open>Abstract specification: typed policies\<close>

text \<open>
  A policy whose fields have the declared types. A pattern denotes a set of names, a rule
  applies when its subjects and one of its server entries do, and the decision is read off
  the first applicable deny rule, else the first applicable allow rule, else the default.
\<close>

record typed_rule =
  tr_id :: string
  tr_description :: string
  tr_effect :: policy_effect
  tr_users :: "string list"
  tr_groups :: "string list"
  tr_access :: "(string \<times> string list) list"

record typed_input =
  ti_user :: string
  ti_groups :: "string list"
  ti_server :: string
  ti_tool :: string

definition glob_matches :: "string \<Rightarrow> string \<Rightarrow> bool" where
  "glob_matches p v \<longleftrightarrow>
     p = ''*'' \<or> (\<exists>q. p = q @ ''*'' \<and> prefix q v) \<or>
     (\<not> suffix ''*'' p \<and> (\<exists>q. p = ''*'' @ q \<and> suffix q v)) \<or> p = v"

definition subject_applies :: "typed_rule \<Rightarrow> typed_input \<Rightarrow> bool" where
  "subject_applies r ti \<longleftrightarrow>
     tr_users r = [] \<and> tr_groups r = [] \<or> ti_user ti \<in> set (tr_users r) \<or>
     ''*'' \<in> set (tr_groups r) \<or> set (ti_groups ti) \<inter> set (tr_groups r) \<noteq> {}"

definition access_applies :: "typed_rule \<Rightarrow> typed_input \<Rightarrow> bool" where
  "access_applies r ti \<longleftrightarrow>
     (\<exists>(n, ts) \<in> set (tr_access r). glob_matches n (ti_server ti) \<and>
        (ts = [] \<or> (\<exists>t \<in> set ts. glob_matches t (ti_tool ti))))"

definition rule_applies :: "typed_rule \<Rightarrow> typed_input \<Rightarrow> bool" where
  "rule_applies r ti \<longleftrightarrow> subject_applies r ti \<and> access_applies r ti"

definition spec_decision :: "policy_effect \<Rightarrow> typed_rule list \<Rightarrow> typed_input \<Rightarrow> evaluation_result" where
  "spec_decision dflt rules ti =
     (case find (\<lambda>r. rule_applies r ti \<and> tr_effect r = DENY) rules of
        Some r \<Rightarrow> \<lparr>er_effect = DENY, er_policy_id = PStr (tr_id r),
                   er_reason = PStr (tr_description r)\<rparr>
      | None \<Rightarrow>
         (case find (\<lambda>r. rule_applies r ti \<and> tr_effect r = ALLOW) rules of
            Some r \<Rightarrow> \<lparr>er_effect = ALLOW, er_policy_id = PStr (tr_id r), er_reason = PNone\<rparr>
          | None \<Rightarrow>
             \<lparr>er_effect = dflt, er_policy_id = PNone,
              er_reason = (if dflt = DENY then PStr ''No matching policy; default is deny''
                           else PNone)\<rparr>))"

text \<open>The dynamic representation of typed data.\<close>

definition embed_strs :: "string list \<Rightarrow> pyval" where
  "embed_strs ss = PList (map PStr ss)"

definition embed_rule :: "typed_rule \<Rightarrow> policy_rule" where
  "embed_rule r =
     \<lparr>pr_id = PStr (tr_id r), pr_description = PStr (tr_description r),
      pr_effect = tr_effect r,
      pr_subjects = \<lparr>ps_users = embed_strs (tr_users r), ps_groups = embed_strs (tr_groups r)\<rparr>,
      pr_mcp_servers =
        map (\<lambda>(n, ts). \<lparr>psa_name = PStr n, psa_tools = embed_strs ts\<rparr>) (tr_access r)\<rparr>"

definition embed_input :: "typed_input \<Rightarrow> policy_input" where
  "embed_input ti =
     \<lparr>pi_user_id = PStr (ti_user ti), pi_groups = map PStr (ti_groups ti),
      pi_mcp_server = ti_server ti, pi_tool = ti_tool ti\<rparr>"

definition embed_policy ::
    "policy_config \<Rightarrow> policy_effect \<Rightarrow> typed_rule list \<Rightarrow> policy_config" where
  "embed_policy base dflt rules =
     base\<lparr>pol_default := dflt, pol_policies := map embed_rule rules\<rparr>"

section \<open>The engine refines the specification\<close>

lemma suffix_singleton: "suffix [c] p \<longleftrightarrow> (\<exists>q. p = q @ [c])"
  by (auto simp: suffix_def)

lemma prefix_singleton: "prefix [c] p \<longleftrightarrow> (\<exists>q. p = c # q)"
  by (auto simp: prefix_def)

lemma matches_pattern_str: "matches_pattern (PStr p) v = Inr (glob_matches p v)"
proof (cases "suffix ''*'' p")
  case True
  then obtain q where "p = q @ ''*''" by (auto simp: suffix_singleton)
  then show ?thesis by (auto simp: matches_pattern_def glob_matches_def)
next
  case False
  then show ?thesis
    by (cases p) (auto simp: matches_pattern_def glob_matches_def prefix_singleton suffix_def)
qed

lemma tools_match_strs:
  "tools_match (embed_strs ts) tool = Inr (ts = [] \<or> (\<exists>t \<in> set ts. glob_matches t tool))"
proof (cases "ts = []")
  case False
  have "any_res (\<lambda>p. matches_pattern p tool) (map PStr ts) =
      Inr (\<exists>t \<in> set ts. glob_matches t tool)"
    by (induction ts) (auto simp: matches_pattern_str)
  with False show ?thesis by (simp add: tools_match_def embed_strs_def)
qed (simp add: tools_match_def embed_strs_def)

lemma servers_match_strs:
  "servers_match (map (\<lambda>(n, ts). \<lparr>psa_name = PStr n, psa_tools = embed_strs ts\<rparr>) as) inp =
     Inr (\<exists>(n, ts) \<in> set as. glob_matches n (pi_mcp_server inp) \<and>
            (ts = [] \<or> (\<exists>t \<in> set ts. glob_matches t (pi_tool inp))))"
  by (induction as) (auto simp: matches_pattern_str tools_match_strs)

lemma py_set_strs: "py_set (map PStr ss) = Inr (map PStr ss)"
  by (induction ss) auto

lemma subjects_match_strs:
  "subjects_match \<lparr>ps_users = embed_strs us, ps_groups = embed_strs gs\<rparr> (embed_input ti) =
     Inr (us = [] \<and> gs = [] \<or> ti_user ti \<in> set us \<or> ''*'' \<in> set gs \<or>
          set (ti_groups ti) \<inter> set gs \<noteq> {})"
  by (auto simp: subjects_match_def embed_strs_def embed_input_def py_set_strs)

lemma embed_input_simps [simp]:
  "pi_mcp_server (embed_input ti) = ti_server ti"
  "pi_tool (embed_input ti) = ti_tool ti"
  by (simp_all add: embed_input_def)

lemma rule_matches_embed:
  "rule_matches (embed_rule r) (embed_input ti) = Inr (rule_applies r ti)"
  by (auto simp: rule_matches_def embed_rule_def subjects_match_strs servers_match_strs
        rule_applies_def subject_applies_def access_applies_def)

lemma hits_embed [simp]: "hits (embed_input ti) (embed_rule r) \<longleftrightarrow> rule_applies r ti"
  by (simp add: hits_def rule_matches_embed)

lemma clean_embed [simp]: "clean (embed_input ti) (embed_rule r)"
  by (simp add: clean_def rule_matches_embed)

lemma embed_rule_simps [simp]:
  "pr_effect (embed_rule r) = tr_effect r"
  "pr_id (embed_rule r) = PStr (tr_id r)"
  "pr_description (embed_rule r) = PStr (tr_description r)"
  by (simp_all add: embed_rule_def)

lemma find_map: "find P (map f xs) = map_option f (find (P \<circ> f) xs)"
  by (induction xs) auto

lemma evaluate_embed:
  "evaluate (embed_policy base dflt rules) (embed_input ti) = Inr (spec_decision dflt rules ti)"
proof -
  have "scan_rules (embed_input ti) (map embed_rule rules) None None =
      Inr (map_option embed_rule (find (\<lambda>r. rule_applies r ti \<and> tr_effect r = DENY) rules),
           map_option embed_rule (find (\<lambda>r. rule_applies r ti \<and> tr_effect r = ALLOW) rules))"
    by (subst scan_rules_find) (auto simp: find_map comp_def)
  then show ?thesis
    by (auto simp: evaluate_decide decide_def evaluate_rules_def embed_policy_def
          spec_decision_def split: option.splits)
qed

text \<open>C4: refinement. On every policy whose fields have the declared types, \<open>evaluate\<close> returns
  exactly the specified decision, rule id and reason: deny overrides allow whatever the order,
  the first rule in file order is the one reported, and the default applies only when no rule
  does.\<close>

theorem evaluate_refines_spec:
  "evaluate (embed_policy base dflt rules) (embed_input ti) = Inr (spec_decision dflt rules ti)"
  by (rule evaluate_embed)

text \<open>C5: fail closed. Whatever values the policy file and the token supplied, \<open>evaluate\<close>
  returns a decision, and it is \<open>allow\<close> exactly when no rule raised while it was matched, no
  matching rule denies, and either some matching rule allows or the default is \<open>allow\<close>.\<close>

theorem evaluate_fails_closed:
  "\<exists>r. evaluate pol inp = Inr r \<and>
     (er_effect r = ALLOW \<longleftrightarrow>
        (\<forall>rule \<in> set (pol_policies pol). is_ok (rule_matches rule inp)) \<and>
        \<not> (\<exists>rule \<in> set (pol_policies pol).
              rule_matches rule inp = Inr True \<and> pr_effect rule = DENY) \<and>
        ((\<exists>rule \<in> set (pol_policies pol).
              rule_matches rule inp = Inr True \<and> pr_effect rule = ALLOW) \<or>
         pol_default pol = ALLOW))"
  using decide_effect [of pol inp] by (auto simp: evaluate_decide hits_def clean_def)

text \<open>The decision does not depend on the order of the rules in the file.\<close>

theorem evaluate_order_independent:
  assumes "mset (pol_policies p) = mset (pol_policies q)"
    and "pol_default p = pol_default q"
    and "evaluate p inp = Inr r" and "evaluate q inp = Inr s"
  shows "er_effect r = er_effect s"
proof -
  from assms(1) have sets: "set (pol_policies p) = set (pol_policies q)"
    by (metis set_mset_mset)
  have "er_effect (decide p inp) = ALLOW \<longleftrightarrow> er_effect (decide q inp) = ALLOW"
    by (simp add: decide_effect sets assms(2))
  with assms(3,4) show ?thesis
    by (metis Inr_inject evaluate_decide policy_effect.exhaust)
qed

definition sample_rules :: "typed_rule list" where
  "sample_rules =
     [\<lparr>tr_id = ''allow-devs'', tr_description = ''devs may read'', tr_effect = ALLOW,
       tr_users = [], tr_groups = [''developers''],
       tr_access = [(''files'', [''read_*'', ''*_file''])]\<rparr>,
      \<lparr>tr_id = ''no-delete'', tr_description = ''nobody deletes'', tr_effect = DENY,
       tr_users = [], tr_groups = [], tr_access = [(''*'', [''delete_*''])]\<rparr>]"

definition sample_input :: "string \<Rightarrow> typed_input" where
  "sample_input tool =
     \<lparr>ti_user = ''ann'', ti_groups = [''developers''], ti_server = ''files'', ti_tool = tool\<rparr>"

theorem evaluate_order_independent_witness:
  "er_effect (decide (embed_policy default_policy_config DENY sample_rules)
                (embed_input (sample_input ''delete_file''))) =
   er_effect (decide (embed_policy default_policy_config DENY (rev sample_rules))
                (embed_input (sample_input ''delete_file'')))"
  by (rule evaluate_order_independent [OF _ _ evaluate_decide evaluate_decide])
     (simp_all add: embed_policy_def rev_map [symmetric])

theorem evaluate_fails_closed_witness:
  "\<exists>r. evaluate (embed_policy default_policy_config ALLOW sample_rules)
          (embed_input (sample_input ''delete_file'')) = Inr r \<and> er_effect r \<noteq> ALLOW"
proof -
  let ?pol = "embed_policy default_policy_config ALLOW sample_rules"
  let ?inp = "embed_input (sample_input ''delete_file'')" and ?rule = "embed_rule (sample_rules ! 1)"
  have "?rule \<in> set (pol_policies ?pol)" by (simp add: embed_policy_def sample_rules_def)
  moreover have "rule_matches ?rule ?inp = Inr True \<and> pr_effect ?rule = DENY" by code_simp
  ultimately show ?thesis using evaluate_fails_closed [of ?pol ?inp] by blast
qed

text \<open>A policy file that gives \<open>tools\<close> as one string instead of a list is read as the list
  of its characters, so a pattern such as \<open>read_*\<close> written as a scalar matches every tool.\<close>

theorem scalar_tools_match_everything:
  assumes "CHR ''*'' \<in> set s"
  shows "tools_match (PStr s) tool = Inr True"
proof -
  have "any_res (\<lambda>p. matches_pattern p tool) (map (\<lambda>c. PStr [c]) s) =
      Inr (\<exists>c \<in> set s. glob_matches [c] tool)"
    by (induction s) (auto simp: matches_pattern_str)
  moreover have "glob_matches ''*'' tool" by (simp add: glob_matches_def)
  ultimately show ?thesis using assms by (auto simp: tools_match_def)
qed

theorem scalar_tools_match_everything_witness:
  "CHR ''*'' \<in> set ''read_*'' \<and> tools_match (PStr ''read_*'') ''delete_repository'' = Inr True"
  using scalar_tools_match_everything [of "''read_*''" "''delete_repository''"] by simp

end
