(* ===== verification/Governance_Hook.thy ===== *)
theory Governance_Hook
  imports Policy_Engine Hook_Pipeline
begin

text \<open>
  \<open>governance/hook.py\<close>: the hook that asks the policy engine at \<open>POST_VALIDATION\<close>. It is written
  over the engine's \<open>evaluate\<close> as an argument; its correctness is proved in the context of the
  contract \<open>policy_decider\<close> and holds for the engine of the model by its interpretation. Log
  records are not modelled. A reason that is not a string is rendered as one.
\<close>

definition or_str :: "pyval \<Rightarrow> string \<Rightarrow> pyval" where
  "or_str v s = (if truthy v then v else PStr s)"

definition governance_input :: "hook_context \<Rightarrow> policy_input" where
  "governance_input ctx =
     (case identity (request ctx) of
        Some u \<Rightarrow> \<lparr>pi_user_id = ui_user_id u, pi_groups = ui_groups u,
                   pi_mcp_server = server_name ctx, pi_tool = tool_name ctx\<rparr>
      | None \<Rightarrow> \<lparr>pi_user_id = PStr ''anonymous'', pi_groups = [],
                 pi_mcp_server = server_name ctx, pi_tool = tool_name ctx\<rparr>)"

definition governance_post_validation ::
    "(policy_input \<Rightarrow> evaluation_result res) \<Rightarrow> bool \<Rightarrow> hook_context \<Rightarrow> hook_context res" where
  "governance_post_validation decider identity_required ctx =
     (if identity (request ctx) = None \<and> identity_required then
        Inl (ShortCircuitError ''No authenticated identity'' True)
      else res_bind (decider (governance_input ctx)) (\<lambda>result.
        if er_effect result = ALLOW then
          Inr (ctx\<lparr>policy_decision := D_ALLOW,
                   policy_rule_id := or_str (er_policy_id result) []\<rparr>)
        else
          Inl (ShortCircuitError (py_str (or_str (er_reason result) ''Denied by policy'')) True)))"

definition governance_hook ::
    "(policy_input \<Rightarrow> evaluation_result res) \<Rightarrow> bool \<Rightarrow> 'w hook" where
  "governance_hook decider identity_required =
     (base_hook ''GovernanceHook'')
       \<lparr>h_post_validation := (\<lambda>ctx. lift_res (governance_post_validation decider identity_required ctx))\<rparr>"

section \<open>The hook over any decider that returns\<close>

context policy_decider
begin

definition admits :: "bool \<Rightarrow> hook_context \<Rightarrow> bool" where
  "admits identity_required ctx \<longleftrightarrow>
     (identity (request ctx) = None \<longrightarrow> \<not> identity_required) \<and> permits (governance_input ctx)"

text \<open>The hook lets a request pass exactly when it is admitted, and denies it otherwise; it never
  fails in another way.\<close>

lemma post_validation_disj:
  "admits req ctx \<and> (\<exists>rule. governance_post_validation decider req ctx =
     Inr (ctx\<lparr>policy_decision := D_ALLOW, policy_rule_id := rule\<rparr>)) \<or>
   \<not> admits req ctx \<and> (\<exists>reason. governance_post_validation decider req ctx =
     Inl (ShortCircuitError reason True))"
  by (cases rule: decider_cases [of "governance_input ctx"])
    (auto simp: admits_def governance_post_validation_def)

lemma post_validation_cases:
  obtains (admitted) rule where "admits req ctx"
      and "governance_post_validation decider req ctx =
             Inr (ctx\<lparr>policy_decision := D_ALLOW, policy_rule_id := rule\<rparr>)"
    | (denied) reason where "\<not> admits req ctx"
      and "governance_post_validation decider req ctx = Inl (ShortCircuitError reason True)"
  using post_validation_disj [of req ctx] by blast

lemma governance_method:
  assumes "method_at p (governance_hook decider req) ctx w = (r, w')"
  shows "w' = w \<and>
    (case r of
       Inr ctx' \<Rightarrow>
         (if p = POST_VALIDATION
          then admits req ctx \<and> (\<exists>rule. ctx' = ctx\<lparr>policy_decision := D_ALLOW, policy_rule_id := rule\<rparr>)
          else ctx' = ctx)
     | Inl e \<Rightarrow> p = ON_ERROR \<or>
         p = POST_VALIDATION \<and> \<not> admits req ctx \<and> (\<exists>reason. e = ShortCircuitError reason True))"
proof (cases "p = POST_VALIDATION")
  case True
  with assms have "r = governance_post_validation decider req ctx" "w' = w"
    by (auto simp: governance_hook_def)
  with True post_validation_disj [of req ctx] show ?thesis by auto
next
  case False
  with assms show ?thesis by (cases p) (auto simp: governance_hook_def base_hook_def)
qed

text \<open>The gate: in a pipeline that contains the hook, whose other hooks never change the server
  and the tool of a request and never overwrite an \<open>allow\<close>, a run that succeeds was admitted.\<close>

lemma success_was_admitted:
  fixes hooks :: "'w hook list"
  assumes "hook_contract hooks I R"
    and "execute now hooks ctx w = (Inr r, w')" and "plr_success r" and "I w"
    and "governance_hook decider req \<in> set hooks"
  shows "\<exists>c c' rule. R ctx c \<and> admits req c \<and>
           c' = c\<lparr>policy_decision := D_ALLOW, policy_rule_id := rule\<rparr> \<and> R c' (plr_context r)"
proof -
  have "POST_VALIDATION \<in> set hook_sequence" by (simp add: hook_sequence_def)
  from hook_contract.success_runs_every_hook [OF assms(1-4) this assms(5)]
  obtain c1 c2 and w1 w2 :: 'w where R: "R ctx c1" "R c2 (plr_context r)"
    and m: "method_at POST_VALIDATION (governance_hook decider req) c1 w1 = (Inr c2, w2)"
    by blast
  from governance_method [OF m] R show ?thesis by auto
qed

end

lemma admits_iff:
  "engine.admits pol req ctx \<longleftrightarrow>
     (identity (request ctx) = None \<longrightarrow> \<not> req) \<and> er_effect (decide pol (governance_input ctx)) = ALLOW"
  by (simp add: engine.admits_def engine.permits_def evaluate_decide)

section \<open>Properties\<close>

text \<open>C6: the hook fails closed. With the policy engine it either lets the request pass, marked
  \<open>allow\<close> and otherwise unchanged, exactly when an identity is present where one is required
  and the engine decides \<open>allow\<close>; or it raises a short circuit that asks for a denial.\<close>

theorem governance_hook_fails_closed:
  "(if (identity (request ctx) = None \<longrightarrow> \<not> req) \<and>
       er_effect (decide pol (governance_input ctx)) = ALLOW
    then \<exists>rule. governance_post_validation (evaluate pol) req ctx =
           Inr (ctx\<lparr>policy_decision := D_ALLOW, policy_rule_id := rule\<rparr>)
    else \<exists>reason. governance_post_validation (evaluate pol) req ctx =
           Inl (ShortCircuitError reason True))"
  using admits_iff [of pol req ctx]
  by (cases rule: engine.post_validation_cases [of pol req ctx]) auto

definition anonymous_context :: hook_context where
  "anonymous_context = default_hook_context (new_request_context ''c-1'') 0"

theorem governance_hook_fails_closed_witness:
  "\<exists>reason. governance_post_validation
       (evaluate (embed_policy default_policy_config ALLOW sample_rules)) True anonymous_context =
     Inl (ShortCircuitError reason True)"
proof -
  have "identity (request anonymous_context) = None"
    by (simp add: anonymous_context_def default_hook_context_def new_request_context_def)
  with governance_hook_fails_closed [of anonymous_context True
      "embed_policy default_policy_config ALLOW sample_rules"]
  show ?thesis by simp
qed

end
