(* ===== verification/Audit_Trail.thy ===== *)
theory Audit_Trail
  imports Policy_Config Hook_Pipeline
begin

text \<open>
  \<open>audit/\<close> and \<open>events/\<close>: audit events and their JSON form (\<open>event.py\<close>), the audit hook
  (\<open>hook.py\<close>) and the event bus (\<open>bus.py\<close>, \<open>handler.py\<close>). A handler is a record of its name and
  its \<open>handle_event\<close>, over the state \<open>'w\<close> of the handlers; the audit hook's own state adds the
  retained events and the audit lines written to the log. The clocks read from \<open>'w\<close>.
\<close>

section \<open>Audit events\<close>

datatype audit_event_type = TOOL_INVOCATION | POLICY_DECISION | MASKING_EVENT | AUDIT_ERROR

fun audit_event_type_value :: "audit_event_type \<Rightarrow> string" where
  "audit_event_type_value TOOL_INVOCATION = ''mcp_tool_invocation''"
| "audit_event_type_value POLICY_DECISION = ''policy_decision''"
| "audit_event_type_value MASKING_EVENT = ''masking_event''"
| "audit_event_type_value AUDIT_ERROR = ''error''"

record masking_summary =
  ms_applied :: bool
  ms_entity_types :: "string list"
  ms_entity_counts :: "(string \<times> int) list"
  ms_masked_field_count :: nat
  ms_masked_fields :: "string list"
  ms_failure_count :: nat
  ms_masking_stage_completed :: bool

record audit_event =
  ae_event_type :: audit_event_type
  ae_correlation_id :: string
  ae_trace_id :: "string option"
  ae_user_id :: pyval
  ae_user_groups :: "pyval list"
  ae_server_name :: string
  ae_tool_name :: string
  ae_policy_decision :: string
  ae_policy_rule_id :: pyval
  ae_short_circuited :: bool
  ae_short_circuit_reason :: string
  ae_input_masking :: masking_summary
  ae_output_masking :: masking_summary
  ae_duration_ms :: rat
  ae_error_type :: string
  ae_error_message :: string
  ae_timestamp :: string
  ae_transport :: string
  ae_masking_events :: "masking_event list"
  ae_request_size_bytes :: nat
  ae_response_size_bytes :: nat

definition always_included :: "string list" where
  "always_included = [''event_type'', ''timestamp'', ''correlation_id'']"

definition all_fields :: "audit_event \<Rightarrow> pydict" where
  "all_fields e =
     [(''event_type'', PStr (audit_event_type_value (ae_event_type e))),
      (''timestamp'', PStr (ae_timestamp e)),
      (''correlation_id'', PStr (ae_correlation_id e)),
      (''trace_id'', (case ae_trace_id e of None \<Rightarrow> PNone | Some t \<Rightarrow> PStr t)),
      (''user'', PDict [(''user_id'', ae_user_id e), (''groups'', PList (ae_user_groups e))]),
      (''server_name'', PStr (ae_server_name e)),
      (''tool_name'', PStr (ae_tool_name e)),
      (''transport'', PStr (ae_transport e)),
      (''policy_decision'', PStr (ae_policy_decision e)),
      (''policy_rule_id'', ae_policy_rule_id e),
      (''short_circuited'', PBool (ae_short_circuited e)),
      (''short_circuit_reason'', PStr (ae_short_circuit_reason e)),
      (''duration_ms'', PFloat (ae_duration_ms e)),
      (''request_size_bytes'', PInt (int (ae_request_size_bytes e))),
      (''response_size_bytes'', PInt (int (ae_response_size_bytes e))),
      (''masking_events'', PList (map (\<lambda>m. PDict [(''entity_type'', PStr (me_entity_type m)),
         (''count'', PInt (me_count m)), (''status'', PStr (me_status m))]) (ae_masking_events e))),
      (''error_type'', PStr (ae_error_type e)),
      (''error_message'', PStr (ae_error_message e))]"

definition to_json_dict :: "pyval list option \<Rightarrow> audit_event \<Rightarrow> pydict res" where
  "to_json_dict include e =
     (case include of
        None \<Rightarrow> Inr (all_fields e)
      | Some inc \<Rightarrow>
          (case find (\<lambda>v. \<not> is_hashable v) inc of
             Some v \<Rightarrow> Inl (unhashable v)
           | None \<Rightarrow>
               Inr (filter (\<lambda>(k, _). PStr k \<in> set inc \<or> k \<in> set always_included) (all_fields e))))"

section \<open>The event bus\<close>

record 'w event_handler =
  eh_name :: string
  eh_handle_event :: "audit_event \<Rightarrow> ('w, unit) prog"

text \<open>\<open>register\<close>: an object that does not satisfy the protocol is given by its type name.\<close>

definition bus_register :: "string + 'w event_handler \<Rightarrow> ('w event_handler list, unit) prog" where
  "bus_register h handlers =
     (case h of
        Inl ty \<Rightarrow> (Inl (TypeError (''Expected an EventHandler, got '' @ ty @
                      ''. Event handlers must have a '' @ quoted ''name'' @
                      '' property and an async '' @ quoted ''handle_event'' @ '' method.'')), handlers)
      | Inr handler \<Rightarrow> (Inr (), handlers @ [handler]))"

definition bus_emit :: "'w event_handler list \<Rightarrow> audit_event \<Rightarrow> ('w, unit) prog" where
  "bus_emit handlers event = for_each (\<lambda>h. suppress (eh_handle_event h event)) handlers"

definition handler_count :: "'w event_handler list \<Rightarrow> nat" where
  "handler_count handlers = length handlers"

section \<open>The audit hook\<close>

record 'w audit_config =
  ah_maxlen :: "nat option"
  ah_include :: "pyval list option"
  ah_bus :: "'w event_handler list option"
  ah_monotonic :: "'w \<Rightarrow> rat"
  ah_utc_now :: "'w \<Rightarrow> string"

record 'w audit_state =
  as_events :: "audit_event list"
  as_log :: "string list"
  as_rest :: 'w

text \<open>The constructor: \<open>max_events or None\<close>, and the include list when it is not empty.\<close>

definition make_audit_config ::
    "logging_config option \<Rightarrow> nat \<Rightarrow> 'w event_handler list option \<Rightarrow> ('w \<Rightarrow> rat) \<Rightarrow> ('w \<Rightarrow> string) \<Rightarrow>
     'w audit_config res" where
  "make_audit_config logging max_events bus monotonic utc =
     res_bind (case logging of
                 None \<Rightarrow> Inr None
               | Some lc \<Rightarrow> if truthy (lc_include lc)
                            then res_bind (py_iter (lc_include lc)) (\<lambda>xs. Inr (Some xs))
                            else Inr None) (\<lambda>inc.
       Inr \<lparr>ah_maxlen = (if max_events = 0 then None else Some max_events), ah_include = inc,
            ah_bus = bus, ah_monotonic = monotonic, ah_utc_now = utc\<rparr>)"

definition deque_append :: "nat option \<Rightarrow> 'a \<Rightarrow> 'a list \<Rightarrow> 'a list" where
  "deque_append maxlen x xs =
     (case maxlen of None \<Rightarrow> xs @ [x] | Some n \<Rightarrow> drop (length xs + 1 - n) (xs @ [x]))"

fun summarize :: "masking_event list \<Rightarrow> (string \<times> int) list \<Rightarrow> string list \<Rightarrow> nat \<Rightarrow>
      (string \<times> int) list \<times> string list \<times> nat" where
  "summarize [] counts types failures = (counts, types, failures)"
| "summarize (e # es) counts types failures =
     summarize es
       (dict_set (me_entity_type e)
          ((case map_of counts (me_entity_type e) of None \<Rightarrow> 0 | Some n \<Rightarrow> n) + me_count e) counts)
       (if me_entity_type e \<in> set types then types else types @ [me_entity_type e])
       (if me_status e = ''failed'' then failures + 1 else failures)"

definition build_masking_summary ::
    "bool \<Rightarrow> string list \<Rightarrow> masking_event list \<Rightarrow> bool \<Rightarrow> masking_summary" where
  "build_masking_summary applied flds evs completed =
     (case summarize evs [] [] 0 of (counts, types, failures) \<Rightarrow>
        \<lparr>ms_applied = applied, ms_entity_types = types, ms_entity_counts = counts,
         ms_masked_field_count = length flds, ms_masked_fields = flds,
         ms_failure_count = failures, ms_masking_stage_completed = completed\<rparr>)"

definition build_masking_event_summaries :: "masking_event list \<Rightarrow> masking_event list" where
  "build_masking_event_summaries evs =
     map (\<lambda>e. \<lparr>me_entity_type = me_entity_type e, me_count = me_count e,
               me_status = (if me_status e \<noteq> ''failed'' then ''success'' else ''failed'')\<rparr>) evs"

definition measure_size :: "pydict \<Rightarrow> nat" where
  "measure_size payload = (if payload = [] then 0 else length (json_dumps (PDict payload)))"

definition build_event ::
    "rat \<Rightarrow> string \<Rightarrow> hook_context \<Rightarrow> audit_event_type \<Rightarrow> audit_event" where
  "build_event monotonic utc ctx ty =
     \<lparr>ae_event_type = ty,
      ae_correlation_id = correlation_id (request ctx),
      ae_trace_id = trace_id (request ctx),
      ae_user_id = (case identity (request ctx) of None \<Rightarrow> PStr [] | Some u \<Rightarrow> ui_user_id u),
      ae_user_groups = (case identity (request ctx) of None \<Rightarrow> [] | Some u \<Rightarrow> ui_groups u),
      ae_server_name = server_name ctx, ae_tool_name = tool_name ctx,
      ae_policy_decision = decision_value (policy_decision ctx),
      ae_policy_rule_id = policy_rule_id ctx,
      ae_short_circuited = short_circuited ctx,
      ae_short_circuit_reason = short_circuit_reason ctx,
      ae_input_masking = build_masking_summary (masking_applied ctx) (masked_fields ctx)
                           (masking_events ctx) (masking_stage_completed ctx),
      ae_output_masking = build_masking_summary (output_masking_applied ctx)
                            (output_masked_fields ctx) [] (masking_stage_completed ctx),
      ae_duration_ms = (monotonic - started_at ctx) * 1000,
      ae_error_type = [], ae_error_message = [],
      ae_timestamp = utc, ae_transport = transport ctx,
      ae_masking_events = build_masking_event_summaries (masking_events ctx),
      ae_request_size_bytes = measure_size (request_payload ctx),
      ae_response_size_bytes = measure_size (response_payload ctx)\<rparr>"

definition audit_emit :: "'w audit_config \<Rightarrow> audit_event \<Rightarrow> ('w audit_state, unit) prog" where
  "audit_emit cfg event =
     bind (modify (\<lambda>s. s\<lparr>as_events := deque_append (ah_maxlen cfg) event (as_events s)\<rparr>)) (\<lambda>_.
     bind (lift_res (to_json_dict
              (case ah_include cfg of Some [] \<Rightarrow> None | inc \<Rightarrow> inc) event)) (\<lambda>d.
     bind (modify (\<lambda>s. s\<lparr>as_log := as_log s @ [json_dumps (PDict d)]\<rparr>)) (\<lambda>_.
       case ah_bus cfg of
         None \<Rightarrow> ret ()
       | Some handlers \<Rightarrow>
           zoom as_rest (\<lambda>w s. s\<lparr>as_rest := w\<rparr>) (bus_emit handlers event))))"

definition build_event_now ::
    "'w audit_config \<Rightarrow> hook_context \<Rightarrow> audit_event_type \<Rightarrow> ('w audit_state, audit_event) prog" where
  "build_event_now cfg ctx ty =
     gets (\<lambda>s. build_event (ah_monotonic cfg (as_rest s)) (ah_utc_now cfg (as_rest s)) ctx ty)"

definition audit_pre_audit ::
    "'w audit_config \<Rightarrow> hook_context \<Rightarrow> ('w audit_state, hook_context) prog" where
  "audit_pre_audit cfg ctx =
     bind (build_event_now cfg ctx TOOL_INVOCATION) (\<lambda>ev.
     bind (audit_emit cfg ev) (\<lambda>_.
     bind (if masking_applied ctx \<or> output_masking_applied ctx
           then bind (build_event_now cfg ctx MASKING_EVENT) (audit_emit cfg)
           else ret ()) (\<lambda>_.
       ret ctx)))"

definition audit_error_type :: "exn \<Rightarrow> audit_event_type" where
  "audit_error_type err =
     (case err of ShortCircuitError _ deny \<Rightarrow> if deny then POLICY_DECISION else AUDIT_ERROR
      | _ \<Rightarrow> AUDIT_ERROR)"

definition audit_on_error :: "'w audit_config \<Rightarrow> hook_context \<Rightarrow> exn \<Rightarrow> ('w audit_state, unit) prog" where
  "audit_on_error cfg ctx err =
     bind (build_event_now cfg ctx (audit_error_type err)) (\<lambda>ev.
       audit_emit cfg (ev\<lparr>ae_error_type := exn_class err, ae_error_message := exn_str err\<rparr>))"

definition audit_hook :: "'w audit_config \<Rightarrow> 'w audit_state hook" where
  "audit_hook cfg =
     (base_hook ''AuditHook'')
       \<lparr>h_pre_audit := audit_pre_audit cfg, h_on_error := audit_on_error cfg\<rparr>"

section \<open>Retention\<close>

lemma deque_append_length:
  "length xs \<le> n \<Longrightarrow> 0 < n \<Longrightarrow> length (deque_append (Some n) x xs) \<le> n"
  by (simp add: deque_append_def)

definition bounded :: "nat \<Rightarrow> 'w audit_state \<Rightarrow> bool" where
  "bounded n s \<longleftrightarrow> length (as_events s) \<le> n"

lemma keeps_zoom_rest: "keeps (bounded n) (zoom as_rest (\<lambda>w s. s\<lparr>as_rest := w\<rparr>) m)"
  by (auto simp: keeps_def zoom_def bounded_def split: prod.splits)

lemma audit_emit_bounded:
  assumes "ah_maxlen cfg = Some n" and "0 < n"
  shows "keeps (bounded n) (audit_emit cfg ev)"
  unfolding audit_emit_def
  using assms
  by (intro keeps_bind keeps_modify)
    (auto simp: bounded_def keeps_zoom_rest deque_append_length split: option.splits)

lemma audit_hook_bounded:
  assumes "ah_maxlen cfg = Some n" and "0 < n"
  shows "keeps (bounded n) (audit_pre_audit cfg ctx)" and "keeps (bounded n) (audit_on_error cfg ctx err)"
  unfolding audit_pre_audit_def audit_on_error_def build_event_now_def
  by (intro keeps_bind keeps_if audit_emit_bounded [OF assms] keeps_basic)+

lemma bus_emit_fold:
  assumes "\<forall>h \<in> set handlers. ordinary (eh_handle_event h ev)"
  shows "bus_emit handlers ev w = (Inr (), fold (\<lambda>h. snd \<circ> eh_handle_event h ev) handlers w)"
  using assms unfolding bus_emit_def
  by (induction handlers arbitrary: w)
    (auto simp: ordinary_def bind_apply suppress_apply split: prod.splits sum.splits)

lemma audit_emit_ok:
  assumes "ah_include cfg = None"
    and "\<forall>handlers. ah_bus cfg = Some handlers \<longrightarrow> (\<forall>h \<in> set handlers. ordinary (eh_handle_event h ev))"
  shows "\<exists>w'. audit_emit cfg ev s =
     (Inr (), s\<lparr>as_events := deque_append (ah_maxlen cfg) ev (as_events s),
                as_log := as_log s @ [json_dumps (PDict (all_fields ev))], as_rest := w'\<rparr>)"
proof (cases "ah_bus cfg")
  case None
  with assms(1) show ?thesis
    by (intro exI [of _ "as_rest s"]) (simp add: audit_emit_def bind_apply to_json_dict_def)
next
  case (Some handlers)
  with assms bus_emit_fold [of handlers ev] show ?thesis
    by (simp add: audit_emit_def bind_apply to_json_dict_def zoom_def) blast
qed

section \<open>Summaries\<close>

lemma summarize_invariant:
  assumes "summarize es counts types failures = (counts', types', failures')"
    and "distinct (map fst counts)" and "distinct types" and "set types = fst ` set counts"
  shows "distinct (map fst counts') \<and> distinct types' \<and> set types' = fst ` set counts' \<and>
         set types' = set types \<union> me_entity_type ` set es \<and>
         failures' = failures + length (filter (\<lambda>e. me_status e = ''failed'') es) \<and>
         (\<forall>k. (case map_of counts' k of None \<Rightarrow> 0 | Some n \<Rightarrow> n) =
              (case map_of counts k of None \<Rightarrow> 0 | Some n \<Rightarrow> n) +
              sum_list (map me_count (filter (\<lambda>e. me_entity_type e = k) es)))"
  using assms
proof (induction es arbitrary: counts types failures)
  case Nil
  then show ?case by simp
next
  case (Cons e es)
  let ?k = "me_entity_type e"
  let ?counts = "dict_set ?k ((case map_of counts ?k of None \<Rightarrow> 0 | Some n \<Rightarrow> n) + me_count e) counts"
  let ?types = "if ?k \<in> set types then types else types @ [?k]"
  let ?failures = "if me_status e = ''failed'' then failures + 1 else failures"
  from Cons.prems(1) have "summarize es ?counts ?types ?failures = (counts', types', failures')"
    by simp
  moreover have "distinct (map fst ?counts)" using Cons.prems(2) by (rule distinct_dict_set)
  moreover have "distinct ?types" using Cons.prems(3) by simp
  moreover have "set ?types = fst ` set ?counts"
  proof -
    have "fst ` set ?counts = insert ?k (fst ` set counts)"
      by (simp add: dict_set_def dom_map_of_conv_image_fst [symmetric] update_conv')
    with Cons.prems(4) show ?thesis by auto
  qed
  ultimately have IH: "distinct (map fst counts') \<and> distinct types' \<and> set types' = fst ` set counts' \<and>
         set types' = set ?types \<union> me_entity_type ` set es \<and>
         failures' = ?failures + length (filter (\<lambda>e. me_status e = ''failed'') es) \<and>
         (\<forall>k. (case map_of counts' k of None \<Rightarrow> 0 | Some n \<Rightarrow> n) =
              (case map_of ?counts k of None \<Rightarrow> 0 | Some n \<Rightarrow> n) +
              sum_list (map me_count (filter (\<lambda>e. me_entity_type e = k) es)))"
    by (rule Cons.IH)
  moreover have "set ?types = insert ?k (set types)" by auto
  ultimately show ?case by (simp only:) auto
qed

section \<open>Properties\<close>

definition quiet_audit :: "unit audit_config" where
  "quiet_audit =
     \<lparr>ah_maxlen = Some 1, ah_include = Some [PStr ''tool_name''], ah_bus = None,
      ah_monotonic = (\<lambda>_. 2), ah_utc_now = (\<lambda>_. ''2025-01-01T00:00:00+00:00'')\<rparr>"

definition empty_audit :: "unit audit_state" where
  "empty_audit = \<lparr>as_events = [], as_log = [], as_rest = ()\<rparr>"

text \<open>C35: audit events carry no payload. Two contexts that differ only in payloads whose JSON texts
  have the same length give the same event: an event reveals the sizes and nothing else.\<close>

theorem audit_event_payload_free:
  assumes "measure_size p = measure_size (request_payload ctx)"
    and "measure_size q = measure_size (response_payload ctx)"
  shows "build_event clock utc (ctx\<lparr>request_payload := p, response_payload := q\<rparr>) ty =
         build_event clock utc ctx ty"
  using assms by (simp add: build_event_def)

theorem audit_event_payload_free_witness:
  "build_event 1 ''now'' (sample_context\<lparr>request_payload := [(''pw'', PStr ''abc'')], response_payload := []\<rparr>)
     TOOL_INVOCATION =
   build_event 1 ''now'' (sample_context\<lparr>request_payload := [(''pw'', PStr ''xyz'')]\<rparr>) TOOL_INVOCATION"
proof -
  have "measure_size [(''pw'', PStr ''abc'')] = measure_size [(''pw'', PStr ''xyz'')]"
    by code_simp
  then show ?thesis
    using audit_event_payload_free [of "[(''pw'', PStr ''abc'')]"
        "sample_context\<lparr>request_payload := [(''pw'', PStr ''xyz'')]\<rparr>" "[]" 1 "''now''" TOOL_INVOCATION]
    by (simp add: sample_context_def default_hook_context_def)
qed

text \<open>Memory is bounded. With a positive \<open>max_events\<close> no call of the hook, whether it returns
  or raises, ever retains more than that many events.\<close>

theorem audit_retention_bounded:
  assumes "make_audit_config logging n bus clock utc = Inr cfg" and "0 < n"
    and "length (as_events s) \<le> n"
  shows "length (as_events (snd (audit_pre_audit cfg ctx s))) \<le> n \<and>
         length (as_events (snd (audit_on_error cfg ctx err s))) \<le> n"
proof -
  from assms(1,2) have max: "ah_maxlen cfg = Some n"
    by (auto simp: make_audit_config_def res_simps)
  show ?thesis
    using keepsD [OF audit_hook_bounded(1) [OF max assms(2), of ctx], of s]
      keepsD [OF audit_hook_bounded(2) [OF max assms(2), of ctx err], of s] assms(3)
    by (simp add: bounded_def)
qed

theorem audit_retention_bounded_witness:
  "length (as_events (snd (audit_on_error
      (projr (make_audit_config None 1 None (\<lambda>_::unit. 2) (\<lambda>_. ''now''))) sample_context
      (ValueError ''x'') (snd (audit_pre_audit
         (projr (make_audit_config None 1 None (\<lambda>_::unit. 2) (\<lambda>_. ''now''))) sample_context empty_audit))))) \<le> 1"
proof -
  let ?cfg = "projr (make_audit_config None 1 None (\<lambda>_::unit. 2) (\<lambda>_. ''now''))"
  have c: "make_audit_config None 1 None (\<lambda>_::unit. 2) (\<lambda>_. ''now'') = Inr ?cfg"
    by (simp add: make_audit_config_def)
  have "length (as_events (snd (audit_pre_audit ?cfg sample_context empty_audit))) \<le> 1"
    using audit_retention_bounded [OF c, of empty_audit sample_context CancelledError]
    by (simp add: empty_audit_def)
  then show ?thesis
    using audit_retention_bounded [OF c, of "snd (audit_pre_audit ?cfg sample_context empty_audit)"
        sample_context "ValueError ''x''"] by simp
qed

text \<open>\<open>max_events=0\<close> does not disable retention: the hook then keeps every event for ever.\<close>

theorem zero_max_events_retains_everything:
  assumes "make_audit_config None 0 bus clock utc = Inr cfg"
    and "audit_emit cfg ev s = (r, s')"
  shows "as_events s' = as_events s @ [ev]"
  using assms
  by (auto simp: make_audit_config_def audit_emit_def bind_apply to_json_dict_def zoom_def
      deque_append_def split: option.splits prod.splits)

theorem zero_max_events_retains_everything_witness:
  "as_events (snd (audit_emit (projr (make_audit_config None 0 None (\<lambda>_::unit. 2) (\<lambda>_. ''now'')))
       (build_event 1 ''now'' sample_context TOOL_INVOCATION) empty_audit)) =
     [build_event 1 ''now'' sample_context TOOL_INVOCATION]"
proof -
  let ?cfg = "projr (make_audit_config None 0 None (\<lambda>_::unit. 2) (\<lambda>_. ''now''))"
  have "make_audit_config None 0 None (\<lambda>_::unit. 2) (\<lambda>_. ''now'') = Inr ?cfg"
    by (simp add: make_audit_config_def)
  from zero_max_events_retains_everything [OF this surjective_pairing,
      of "build_event 1 ''now'' sample_context TOOL_INVOCATION" empty_audit]
  show ?thesis by (simp add: empty_audit_def)
qed

text \<open>The include filter. The JSON form keeps the order of the fields, keeps the values, has
  exactly the requested fields and always the event type, the timestamp and the correlation id.\<close>

theorem include_filter_exact:
  assumes "to_json_dict (Some inc) e = Inr d"
  shows "subseq d (all_fields e) \<and>
    (\<forall>k v. (k, v) \<in> set d \<longleftrightarrow>
       (k, v) \<in> set (all_fields e) \<and> (PStr k \<in> set inc \<or> k \<in> set always_included)) \<and>
    set always_included \<subseteq> fst ` set d"
proof -
  from assms have d: "d = filter (\<lambda>(k, _). PStr k \<in> set inc \<or> k \<in> set always_included) (all_fields e)"
    by (auto simp: to_json_dict_def split: option.splits)
  have "set always_included \<subseteq> fst ` set d"
    by (auto simp: d always_included_def all_fields_def)
  with d show ?thesis by auto
qed

theorem include_filter_exact_witness:
  "set always_included \<subseteq> fst ` set (projr (to_json_dict (Some [PStr ''tool_name''])
     (build_event 1 ''now'' sample_context TOOL_INVOCATION)))"
proof -
  have "to_json_dict (Some [PStr ''tool_name'']) (build_event 1 ''now'' sample_context TOOL_INVOCATION) =
    Inr (projr (to_json_dict (Some [PStr ''tool_name''])
     (build_event 1 ''now'' sample_context TOOL_INVOCATION)))" by (simp add: to_json_dict_def)
  from include_filter_exact [OF this] show ?thesis by simp
qed

text \<open>Masking summaries count exactly: the count of an entity type is the sum over its events,
  the listed types are the types that occur, once each, and every failed event is counted.\<close>

theorem masking_summary_exact:
  "(\<forall>k. (case map_of (ms_entity_counts (build_masking_summary applied flds evs completed)) k of
           None \<Rightarrow> 0 | Some n \<Rightarrow> n) =
        sum_list (map me_count (filter (\<lambda>e. me_entity_type e = k) evs))) \<and>
   distinct (ms_entity_types (build_masking_summary applied flds evs completed)) \<and>
   set (ms_entity_types (build_masking_summary applied flds evs completed)) = me_entity_type ` set evs \<and>
   ms_failure_count (build_masking_summary applied flds evs completed) =
     length (filter (\<lambda>e. me_status e = ''failed'') evs)"
proof -
  obtain counts types failures where s: "summarize evs [] [] 0 = (counts, types, failures)"
    by (cases "summarize evs [] [] 0") auto
  from summarize_invariant [OF s] s show ?thesis by (auto simp: build_masking_summary_def)
qed



text \<open>The event bus isolates its handlers: each one gets the event once, in registration order,
  also after another one raised.\<close>

theorem event_bus_isolation:
  assumes "\<forall>h \<in> set handlers. ordinary (eh_handle_event h ev)"
  shows "bus_emit handlers ev w = (Inr (), fold (\<lambda>h. snd \<circ> eh_handle_event h ev) handlers w)"
  using assms by (rule bus_emit_fold)

theorem event_bus_isolation_witness:
  "bus_emit [\<lparr>eh_name = ''a'', eh_handle_event = (\<lambda>_ n. (Inl (ValueError ''x''), n + 1))\<rparr>,
             \<lparr>eh_name = ''b'', eh_handle_event = (\<lambda>_. modify ((*) 2))\<rparr>]
     (build_event 1 ''now'' sample_context TOOL_INVOCATION) (3 :: nat) = (Inr (), 8)"
  by (subst event_bus_isolation) (auto simp: ordinary_def)

end
