(* ===== verification/Analytics.thy ===== *)
theory Analytics
  imports Policy_Config Hook_Pipeline Audit_Trail
begin

text \<open>
  \<open>analytics/\<close>: the key builder (\<open>keys.py\<close>), the Redis client (\<open>client.py\<close>), the collector with
  its bounded queue (\<open>collector.py\<close>) and the lifecycle hook (\<open>hook.py\<close>). Redis is not in the
  repository: connecting, a pipeline of commands and closing are the fields of \<open>redis_env\<close>. The
  two background loops are modelled by one pass of their body.
\<close>

section \<open>Keys\<close>

record key_builder =
  kb_prefix :: string
  kb_env :: string
  kb_gw :: string

definition gateway_base :: "key_builder \<Rightarrow> string" where
  "gateway_base kb = kb_prefix kb @ '':gw:'' @ kb_env kb @ '':'' @ kb_gw kb"

definition trunc_rat :: "rat \<Rightarrow> int" where
  "trunc_rat q = (if 0 \<le> q then floor q else ceiling q)"

definition bucket_id :: "int \<Rightarrow> rat \<Rightarrow> int res" where
  "bucket_id bucket_seconds epoch =
     (if bucket_seconds = 0
      then Inl (OtherException ''ZeroDivisionError'' ''integer division or modulo by zero'')
      else Inr (trunc_rat epoch div bucket_seconds))"

definition key_builder_of :: "analytics_config \<Rightarrow> key_builder" where
  "key_builder_of cfg =
     \<lparr>kb_prefix = py_str (ac_key_prefix cfg), kb_env = py_str (ac_environment cfg),
      kb_gw = py_str (ac_gateway_id cfg)\<rparr>"

definition bucket_key :: "key_builder \<Rightarrow> string \<Rightarrow> string \<Rightarrow> int \<Rightarrow> string" where
  "bucket_key kb category dimension bid =
     gateway_base kb @ '':b:'' @ int_str bid @ '':'' @ category @ '':'' @ dimension"

definition registry_key :: "key_builder \<Rightarrow> string" where
  "registry_key kb = kb_prefix kb @ '':registry''"

definition info_key :: "key_builder \<Rightarrow> string" where
  "info_key kb = gateway_base kb @ '':info''"

definition idx_envs_key :: "key_builder \<Rightarrow> string" where
  "idx_envs_key kb = kb_prefix kb @ '':idx:envs''"

definition idx_gateways_key :: "key_builder \<Rightarrow> string" where
  "idx_gateways_key kb = kb_prefix kb @ '':idx:gw:'' @ kb_env kb"

definition registry_member :: "key_builder \<Rightarrow> string" where
  "registry_member kb = kb_env kb @ '':'' @ kb_gw kb"

section \<open>The Redis client\<close>

datatype redis_op =
    HINCRBY string pyval int
  | EXPIRE string int
  | ZADD string "(string \<times> rat) list"
  | HSET string "pyval list"
  | SADD string pyval

record 'n redis_env =
  re_import :: "unit res"
  re_connect :: "redis_config \<Rightarrow> ('n, unit) prog"
  re_pipeline :: "redis_op list \<Rightarrow> ('n, unit) prog"
  re_close :: "('n, unit) prog"

record 'n redis_state =
  rs_connected :: bool
  rs_net :: 'n

definition in_redis :: "('n, 'a) prog \<Rightarrow> ('n redis_state, 'a) prog" where
  "in_redis m = zoom rs_net (\<lambda>n s. s\<lparr>rs_net := n\<rparr>) m"

definition redis_connect :: "'n redis_env \<Rightarrow> redis_config \<Rightarrow> ('n redis_state, unit) prog" where
  "redis_connect env cfg =
     bind (lift_res (re_import env)) (\<lambda>_.
       handle (bind (in_redis (re_connect env cfg)) (\<lambda>_. modify (\<lambda>s. s\<lparr>rs_connected := True\<rparr>)))
         (\<lambda>e. if is_Exception e then modify (\<lambda>s. s\<lparr>rs_connected := False\<rparr>)
              else bind (modify (\<lambda>s. s\<lparr>rs_connected := True\<rparr>)) (\<lambda>_. raise e)))"

definition redis_disconnect :: "'n redis_env \<Rightarrow> ('n redis_state, unit) prog" where
  "redis_disconnect env =
     bind (gets rs_connected) (\<lambda>c.
       if \<not> c then ret ()
       else
         bind (handle (bind (suppress (in_redis (re_close env))) (\<lambda>_. ret None)) (\<lambda>e. ret (Some e)))
           (\<lambda>failure. bind (modify (\<lambda>s. s\<lparr>rs_connected := False\<rparr>)) (\<lambda>_.
             case failure of None \<Rightarrow> ret () | Some e \<Rightarrow> raise e)))"

definition try_reconnect :: "'n redis_env \<Rightarrow> redis_config \<Rightarrow> ('n redis_state, unit) prog" where
  "try_reconnect env cfg =
     suppress (bind (redis_disconnect env) (\<lambda>_. redis_connect env cfg))"

definition execute_pipeline ::
    "'n redis_env \<Rightarrow> redis_config \<Rightarrow> redis_op list \<Rightarrow> ('n redis_state, unit) prog" where
  "execute_pipeline env cfg ops =
     bind (gets rs_connected) (\<lambda>c.
       if \<not> c \<or> ops = [] then ret ()
       else handle (in_redis (re_pipeline env ops))
              (\<lambda>e. if is_Exception e then try_reconnect env cfg else raise e))"

section \<open>Events\<close>

datatype event_type = TOOL_CALL | DENIAL | REDACTION | OUTPUT_REDACTION | MASKING_FAILURE | ERROR_EVENT

record analytics_event =
  an_event_type :: event_type
  an_server :: string
  an_tool :: string
  an_user_id :: pyval
  an_rule_id :: pyval
  an_entity_type :: string
  an_count :: int
  an_duration_ms :: rat
  an_request_bytes :: int
  an_response_bytes :: int
  an_transport :: string
  an_reason :: string
  an_direction :: string
  an_timestamp :: rat

definition new_event :: "event_type \<Rightarrow> string \<Rightarrow> string \<Rightarrow> rat \<Rightarrow> analytics_event" where
  "new_event ty srv tool now =
     \<lparr>an_event_type = ty, an_server = srv, an_tool = tool, an_user_id = PStr [], an_rule_id = PStr [],
      an_entity_type = [], an_count = 1, an_duration_ms = 0, an_request_bytes = 0,
      an_response_bytes = 0, an_transport = [], an_reason = [], an_direction = [],
      an_timestamp = now\<rparr>"

section \<open>The collector\<close>

record 'n collector =
  co_queue :: "analytics_event list"
  co_drop_count :: nat
  co_running :: bool
  co_started_at :: rat
  co_client :: "'n redis_state"

definition new_collector :: "rat \<Rightarrow> 'n \<Rightarrow> 'n collector" where
  "new_collector now n =
     \<lparr>co_queue = [], co_drop_count = 0, co_running = False, co_started_at = now,
      co_client = \<lparr>rs_connected = False, rs_net = n\<rparr>\<rparr>"

definition enqueue :: "int \<Rightarrow> analytics_event \<Rightarrow> 'n collector \<Rightarrow> 'n collector" where
  "enqueue maxsize ev co =
     (if 0 < maxsize \<and> maxsize \<le> int (length (co_queue co))
      then co\<lparr>co_drop_count := co_drop_count co + 1\<rparr>
      else co\<lparr>co_queue := co_queue co @ [ev]\<rparr>)"

definition tool_field :: "analytics_event \<Rightarrow> string" where
  "tool_field ev = an_server ev @ ''::'' @ an_tool ev"

text \<open>The calls of \<open>_hincrby\<close> for one event, in order: category, dimension, field, increment.\<close>

definition tool_call_increments :: "analytics_event \<Rightarrow> (string \<times> string \<times> pyval \<times> int) list" where
  "tool_call_increments ev =
     (let tf = PStr (tool_field ev) in
      [(''calls'', ''tool'', tf, 1), (''calls'', ''server'', PStr (an_server ev), 1)] @
      (if truthy (an_user_id ev) then [(''calls'', ''user'', an_user_id ev, 1)] else []) @
      (if an_transport ev \<noteq> [] then [(''calls'', ''transport'', PStr (an_transport ev), 1)] else []) @
      (if 0 < an_duration_ms ev
       then [(''latency'', ''sum'', tf, trunc_rat (an_duration_ms ev)), (''latency'', ''count'', tf, 1)]
       else []) @
      (if 0 < an_request_bytes ev then [(''sizes'', ''request'', tf, an_request_bytes ev)] else []) @
      (if 0 < an_response_bytes ev then [(''sizes'', ''response'', tf, an_response_bytes ev)] else []))"

definition denial_increments :: "analytics_event \<Rightarrow> (string \<times> string \<times> pyval \<times> int) list" where
  "denial_increments ev =
     [(''denials'', ''tool'', PStr (tool_field ev), 1)] @
     (if truthy (an_rule_id ev) then [(''denials'', ''rule'', an_rule_id ev, 1)] else []) @
     (if truthy (an_user_id ev) then [(''denials'', ''user'', an_user_id ev, 1)] else []) @
     (if an_reason ev \<noteq> [] then [(''denials'', ''reason'', PStr (an_reason ev), 1)] else [])"

definition event_increments :: "analytics_event \<Rightarrow> (string \<times> string \<times> pyval \<times> int) list" where
  "event_increments ev =
     (let tf = PStr (tool_field ev) in
      case an_event_type ev of
        TOOL_CALL \<Rightarrow> tool_call_increments ev
      | DENIAL \<Rightarrow> denial_increments ev
      | REDACTION \<Rightarrow>
          [(''redactions'', ''input'', PStr (an_entity_type ev), an_count ev),
           (''redactions'', ''tool'', tf, an_count ev)]
      | OUTPUT_REDACTION \<Rightarrow>
          [(''redactions'', ''output'', PStr (an_entity_type ev), an_count ev),
           (''redactions'', ''tool'', tf, an_count ev)]
      | MASKING_FAILURE \<Rightarrow> [(''redactions'', ''fail'', PStr (an_direction ev), 1)]
      | ERROR_EVENT \<Rightarrow> [(''errors'', ''tool'', tf, 1)])"

lemmas increments_def = event_increments_def tool_call_increments_def denial_increments_def

record batch =
  ba_ops :: "redis_op list"
  ba_keys_seen :: "string list"
  ba_latency_maxes :: "((string \<times> string) \<times> int) list"

definition expire_once :: "string \<Rightarrow> int \<Rightarrow> batch \<Rightarrow> batch" where
  "expire_once key ttl b =
     (if key \<in> set (ba_keys_seen b) then b
      else b\<lparr>ba_keys_seen := ba_keys_seen b @ [key], ba_ops := ba_ops b @ [EXPIRE key ttl]\<rparr>)"

definition hincrby ::
    "key_builder \<Rightarrow> int \<Rightarrow> int \<Rightarrow> (string \<times> string \<times> pyval \<times> int) \<Rightarrow> batch \<Rightarrow> batch" where
  "hincrby kb ttl bid inc b =
     (case inc of (category, dimension, fname, n) \<Rightarrow>
        let key = bucket_key kb category dimension bid in
        expire_once key ttl (b\<lparr>ba_ops := ba_ops b @ [HINCRBY key fname n]\<rparr>))"

definition note_latency :: "key_builder \<Rightarrow> int \<Rightarrow> analytics_event \<Rightarrow> batch \<Rightarrow> batch" where
  "note_latency kb bid ev b =
     (if an_event_type ev = TOOL_CALL \<and> 0 < an_duration_ms ev then
        let k = (bucket_key kb ''latency'' ''max'' bid, tool_field ev);
            d = trunc_rat (an_duration_ms ev);
            existing = (case map_of (ba_latency_maxes b) k of Some m \<Rightarrow> m | None \<Rightarrow> 0)
        in if existing < d then b\<lparr>ba_latency_maxes := AList.update k d (ba_latency_maxes b)\<rparr> else b
      else b)"

fun add_events ::
    "key_builder \<Rightarrow> int \<Rightarrow> int \<Rightarrow> analytics_event list \<Rightarrow> batch \<Rightarrow> batch res" where
  "add_events kb ttl bucket_seconds [] b = Inr b"
| "add_events kb ttl bucket_seconds (ev # evs) b =
     res_bind (bucket_id bucket_seconds (an_timestamp ev)) (\<lambda>bid.
       add_events kb ttl bucket_seconds evs
         (note_latency kb bid ev (fold (hincrby kb ttl bid) (event_increments ev) b)))"

definition add_max :: "int \<Rightarrow> ((string \<times> string) \<times> int) \<Rightarrow> batch \<Rightarrow> batch" where
  "add_max ttl m b =
     (case m of ((key, fname), v) \<Rightarrow>
        expire_once key ttl (b\<lparr>ba_ops := ba_ops b @ [HSET key [PStr fname, PStr (int_str v)]]\<rparr>))"

definition build_operations ::
    "key_builder \<Rightarrow> analytics_config \<Rightarrow> analytics_event list \<Rightarrow> redis_op list res" where
  "build_operations kb cfg events =
     res_bind (add_events kb (ac_retention_seconds cfg) (ac_bucket_seconds cfg) events
                \<lparr>ba_ops = [], ba_keys_seen = [], ba_latency_maxes = []\<rparr>) (\<lambda>b.
       Inr (ba_ops (fold (add_max (ac_retention_seconds cfg)) (ba_latency_maxes b) b)))"

abbreviation in_client :: "('n redis_state, 'a) prog \<Rightarrow> ('n collector, 'a) prog" where
  "in_client m \<equiv> zoom co_client (\<lambda>c co. co\<lparr>co_client := c\<rparr>) m"

definition flush ::
    "'n redis_env \<Rightarrow> key_builder \<Rightarrow> analytics_config \<Rightarrow> ('n collector, unit) prog" where
  "flush env kb cfg =
     bind (gets co_queue) (\<lambda>events.
     bind (modify (\<lambda>co. co\<lparr>co_queue := []\<rparr>)) (\<lambda>_.
       if events = [] then ret ()
       else bind (lift_res (build_operations kb cfg events)) (\<lambda>ops.
              in_client (execute_pipeline env (ac_redis cfg) ops))))"

definition flush_pass ::
    "'n redis_env \<Rightarrow> key_builder \<Rightarrow> analytics_config \<Rightarrow> ('n collector, unit) prog" where
  "flush_pass env kb cfg = suppress (flush env kb cfg)"

definition heartbeat_ops ::
    "key_builder \<Rightarrow> analytics_config \<Rightarrow> string \<Rightarrow> string \<Rightarrow> rat \<Rightarrow> rat \<Rightarrow> redis_op list" where
  "heartbeat_ops kb cfg host port started now =
     [ZADD (registry_key kb) [(registry_member kb, now)],
      HSET (info_key kb)
        [PStr ''host'', PStr host, PStr ''port'', PStr port,
         PStr ''environment'', ac_environment cfg, PStr ''gateway_id'', ac_gateway_id cfg,
         PStr ''started_at'', PStr (int_str (trunc_rat started)),
         PStr ''last_heartbeat'', PStr (int_str (trunc_rat now)), PStr ''key_prefix'', ac_key_prefix cfg],
      EXPIRE (info_key kb) (ac_heartbeat_seconds cfg * 3),
      SADD (idx_envs_key kb) (ac_environment cfg), SADD (idx_gateways_key kb) (ac_gateway_id cfg)]"

definition write_heartbeat ::
    "'n redis_env \<Rightarrow> key_builder \<Rightarrow> analytics_config \<Rightarrow> string \<Rightarrow> string \<Rightarrow> rat \<Rightarrow>
     ('n collector, unit) prog" where
  "write_heartbeat env kb cfg host port now =
     bind (gets co_started_at) (\<lambda>started.
       in_client (execute_pipeline env (ac_redis cfg) (heartbeat_ops kb cfg host port started now)))"

text \<open>One turn of \<open>_heartbeat_loop\<close>; the value tells whether it came to the pause.\<close>

definition heartbeat_pass ::
    "'n redis_env \<Rightarrow> key_builder \<Rightarrow> analytics_config \<Rightarrow> string \<Rightarrow> string \<Rightarrow> rat \<Rightarrow>
     ('n collector, bool) prog" where
  "heartbeat_pass env kb cfg host port now =
     handle (bind (write_heartbeat env kb cfg host port now) (\<lambda>_. ret True))
       (\<lambda>e. if is_Exception e then ret False else raise e)"

definition collector_start ::
    "'n redis_env \<Rightarrow> analytics_config \<Rightarrow> rat \<Rightarrow> ('n collector, unit) prog" where
  "collector_start env cfg now =
     bind (gets co_running) (\<lambda>r.
       if r then ret ()
       else bind (modify (\<lambda>co. co\<lparr>co_running := True, co_started_at := now\<rparr>)) (\<lambda>_.
              in_client (redis_connect env (ac_redis cfg))))"

definition collector_stop ::
    "'n redis_env \<Rightarrow> key_builder \<Rightarrow> analytics_config \<Rightarrow> ('n collector, unit) prog" where
  "collector_stop env kb cfg =
     bind (gets co_running) (\<lambda>r.
       if \<not> r then ret ()
       else bind (modify (\<lambda>co. co\<lparr>co_running := False\<rparr>)) (\<lambda>_.
            bind (flush env kb cfg) (\<lambda>_. in_client (redis_disconnect env))))"

text \<open>The public recording methods; the time is that of the creation of the event.\<close>

definition record_tool_call ::
    "int \<Rightarrow> ('n collector \<Rightarrow> rat) \<Rightarrow> string \<Rightarrow> string \<Rightarrow> pyval \<Rightarrow> rat \<Rightarrow> int \<Rightarrow> int \<Rightarrow> string \<Rightarrow>
     ('n collector, unit) prog" where
  "record_tool_call maxsize time server tool user_id duration_ms request_bytes response_bytes via =
     modify (\<lambda>co. enqueue maxsize
       ((new_event TOOL_CALL server tool (time co))
          \<lparr>an_user_id := user_id, an_duration_ms := duration_ms, an_request_bytes := request_bytes,
           an_response_bytes := response_bytes, an_transport := via\<rparr>) co)"

definition record_denial ::
    "int \<Rightarrow> ('n collector \<Rightarrow> rat) \<Rightarrow> string \<Rightarrow> string \<Rightarrow> pyval \<Rightarrow> pyval \<Rightarrow> string \<Rightarrow>
     ('n collector, unit) prog" where
  "record_denial maxsize time server tool user_id rule_id reason =
     modify (\<lambda>co. enqueue maxsize
       ((new_event DENIAL server tool (time co))
          \<lparr>an_user_id := user_id, an_rule_id := rule_id, an_reason := reason\<rparr>) co)"

definition record_redaction ::
    "int \<Rightarrow> ('n collector \<Rightarrow> rat) \<Rightarrow> string \<Rightarrow> string \<Rightarrow> string \<Rightarrow> int \<Rightarrow> ('n collector, unit) prog" where
  "record_redaction maxsize time server tool entity_type count =
     modify (\<lambda>co. enqueue maxsize
       ((new_event REDACTION server tool (time co))
          \<lparr>an_entity_type := entity_type, an_count := count\<rparr>) co)"

definition record_output_redaction ::
    "int \<Rightarrow> ('n collector \<Rightarrow> rat) \<Rightarrow> string \<Rightarrow> string \<Rightarrow> string \<Rightarrow> int \<Rightarrow> ('n collector, unit) prog" where
  "record_output_redaction maxsize time server tool entity_type count =
     modify (\<lambda>co. enqueue maxsize
       ((new_event OUTPUT_REDACTION server tool (time co))
          \<lparr>an_entity_type := entity_type, an_count := count\<rparr>) co)"

definition record_masking_failure ::
    "int \<Rightarrow> ('n collector \<Rightarrow> rat) \<Rightarrow> string \<Rightarrow> string \<Rightarrow> string \<Rightarrow> ('n collector, unit) prog" where
  "record_masking_failure maxsize time server tool direction =
     modify (\<lambda>co. enqueue maxsize
       ((new_event MASKING_FAILURE server tool (time co))\<lparr>an_direction := direction\<rparr>) co)"

definition record_error ::
    "int \<Rightarrow> ('n collector \<Rightarrow> rat) \<Rightarrow> string \<Rightarrow> string \<Rightarrow> ('n collector, unit) prog" where
  "record_error maxsize time server tool =
     modify (\<lambda>co. enqueue maxsize (new_event ERROR_EVENT server tool (time co)) co)"

lemmas record_defs = record_tool_call_def record_denial_def record_redaction_def
  record_output_redaction_def record_masking_failure_def record_error_def

section \<open>The hook\<close>

definition event_user :: "hook_context \<Rightarrow> pyval" where
  "event_user ctx =
     (case identity (request ctx) of None \<Rightarrow> PStr [] | Some u \<Rightarrow> ui_user_id u)"

definition record_masking ::
    "int \<Rightarrow> ('n collector \<Rightarrow> rat) \<Rightarrow> hook_context \<Rightarrow> masking_event \<Rightarrow> ('n collector, unit) prog" where
  "record_masking maxsize time ctx e =
     (if me_status e = ''failed''
      then record_masking_failure maxsize time (server_name ctx) (tool_name ctx) ''input''
      else record_redaction maxsize time (server_name ctx) (tool_name ctx) (me_entity_type e) (me_count e))"

definition analytics_pre_audit ::
    "int \<Rightarrow> ('n collector \<Rightarrow> rat) \<Rightarrow> ('n collector \<Rightarrow> rat) \<Rightarrow> hook_context \<Rightarrow>
     ('n collector, hook_context) prog" where
  "analytics_pre_audit maxsize monotonic time ctx =
     bind (gets monotonic) (\<lambda>now.
     bind (record_tool_call maxsize time (server_name ctx) (tool_name ctx) (event_user ctx)
             ((now - started_at ctx) * 1000) (int (measure_size (request_payload ctx)))
             (int (measure_size (response_payload ctx))) (transport ctx)) (\<lambda>_.
     bind (for_each (record_masking maxsize time ctx) (masking_events ctx)) (\<lambda>_.
     bind (if output_masking_applied ctx
           then record_output_redaction maxsize time (server_name ctx) (tool_name ctx) ''_aggregate''
                  (int (length (output_masked_fields ctx)))
           else ret ()) (\<lambda>_.
       ret ctx))))"

definition categorize_denial :: "hook_context \<Rightarrow> exn \<Rightarrow> string" where
  "categorize_denial ctx err =
     (let text = lower (if short_circuit_reason ctx \<noteq> [] then short_circuit_reason ctx else exn_str err)
      in if contains ''identity'' text \<or> contains ''token'' text \<or> contains ''authen'' text
         then ''no_identity''
         else if contains ''mask'' text then ''masking_failed''
         else ''policy_deny'')"

definition analytics_on_error ::
    "int \<Rightarrow> ('n collector \<Rightarrow> rat) \<Rightarrow> hook_context \<Rightarrow> exn \<Rightarrow> ('n collector, unit) prog" where
  "analytics_on_error maxsize time ctx err =
     (case err of
        ShortCircuitError _ True \<Rightarrow>
          record_denial maxsize time (server_name ctx) (tool_name ctx) (event_user ctx)
            (policy_rule_id ctx) (categorize_denial ctx err)
      | _ \<Rightarrow> record_error maxsize time (server_name ctx) (tool_name ctx))"

definition analytics_hook ::
    "int \<Rightarrow> ('n collector \<Rightarrow> rat) \<Rightarrow> ('n collector \<Rightarrow> rat) \<Rightarrow> 'n collector hook" where
  "analytics_hook maxsize monotonic time =
     (base_hook ''AnalyticsHook'')
       \<lparr>h_pre_audit := analytics_pre_audit maxsize monotonic time,
        h_on_error := analytics_on_error maxsize time\<rparr>"

section \<open>The batch is exact\<close>

text \<open>What a list of Redis operations adds to the counter of a field.\<close>

definition added :: "string \<Rightarrow> pyval \<Rightarrow> redis_op list \<Rightarrow> int" where
  "added key fname ops =
     (\<Sum>op \<leftarrow> ops. case op of HINCRBY k f n \<Rightarrow> if k = key \<and> f = fname then n else 0 | _ \<Rightarrow> 0)"

lemma added_simps [simp]:
  "added key fname [] = 0"
  "added key fname (ops @ ops') = added key fname ops + added key fname ops'"
  "added key fname [HINCRBY k f n] = (if k = key \<and> f = fname then n else 0)"
  "added key fname [EXPIRE k ttl] = 0"
  "added key fname [HSET k vs] = 0"
  by (simp_all add: added_def)

definition wanted :: "key_builder \<Rightarrow> int \<Rightarrow> string \<Rightarrow> pyval \<Rightarrow> analytics_event \<Rightarrow> int" where
  "wanted kb bid key fname ev =
     (\<Sum>(c, d, f, n) \<leftarrow> event_increments ev. if bucket_key kb c d bid = key \<and> f = fname then n else 0)"

lemma expire_once_added [simp]: "added key fname (ba_ops (expire_once k ttl b)) = added key fname (ba_ops b)"
  by (simp add: expire_once_def)

lemma hincrby_added:
  "added key fname (ba_ops (fold (hincrby kb ttl bid) incs b)) = added key fname (ba_ops b) +
     (\<Sum>(c, d, f, n) \<leftarrow> incs. if bucket_key kb c d bid = key \<and> f = fname then n else 0)"
  by (induction incs arbitrary: b) (auto simp: hincrby_def Let_def)

lemma note_latency_ops [simp]:
  "ba_ops (note_latency kb bid ev b) = ba_ops b" "ba_keys_seen (note_latency kb bid ev b) = ba_keys_seen b"
  by (simp_all add: note_latency_def Let_def)

abbreviation bucket_of :: "int \<Rightarrow> analytics_event \<Rightarrow> int" where
  "bucket_of bucket_seconds ev \<equiv> trunc_rat (an_timestamp ev) div bucket_seconds"

lemma add_events_added:
  "add_events kb ttl bs evs b = Inr b' \<Longrightarrow>
     added key fname (ba_ops b') = added key fname (ba_ops b) +
       (\<Sum>ev \<leftarrow> evs. wanted kb (bucket_of bs ev) key fname ev)"
  by (induction evs arbitrary: b) (auto simp: bucket_id_def hincrby_added wanted_def split: if_splits)

lemma add_max_added: "added key fname (ba_ops (fold (add_max ttl) ms b)) = added key fname (ba_ops b)"
  by (induction ms arbitrary: b) (auto simp: add_max_def split: prod.splits)

text \<open>Every key that is written is expired, exactly once.\<close>

fun written_key :: "redis_op \<Rightarrow> string option" where
  "written_key (HINCRBY k _ _) = Some k"
| "written_key (HSET k _) = Some k"
| "written_key _ = None"

definition written :: "redis_op list \<Rightarrow> string set" where
  "written ops = {k. \<exists>op \<in> set ops. written_key op = Some k}"

fun expired_key :: "redis_op \<Rightarrow> string option" where
  "expired_key (EXPIRE k _) = Some k"
| "expired_key _ = None"

definition expired :: "redis_op list \<Rightarrow> string list" where
  "expired ops = List.map_filter expired_key ops"

definition batch_ok :: "int \<Rightarrow> batch \<Rightarrow> bool" where
  "batch_ok ttl b \<longleftrightarrow>
     expired (ba_ops b) = ba_keys_seen b \<and> distinct (ba_keys_seen b) \<and>
     set (ba_keys_seen b) = written (ba_ops b) \<and> (\<forall>k t. EXPIRE k t \<in> set (ba_ops b) \<longrightarrow> t = ttl)"

lemma expired_written_simps [simp]:
  "expired (ops @ ops') = expired ops @ expired ops'" "expired [] = []"
  "expired (op # ops) = (case expired_key op of None \<Rightarrow> [] | Some k \<Rightarrow> [k]) @ expired ops"
  "written (ops @ ops') = written ops \<union> written ops'" "written [] = {}"
  "written (op # ops) = set_option (written_key op) \<union> written ops"
  by (auto simp: expired_def written_def List.map_filter_def split: option.splits)

lemma write_ok:
  assumes "batch_ok ttl b" and "written_key op = Some key"
  shows "batch_ok ttl (expire_once key ttl (b\<lparr>ba_ops := ba_ops b @ [op]\<rparr>))"
proof -
  have "expired_key op = None" "\<forall>k t. op \<noteq> EXPIRE k t"
    using assms(2) by (cases op; auto)+
  with assms show ?thesis by (auto simp: batch_ok_def expire_once_def)
qed

lemma hincrby_ok: "batch_ok ttl b \<Longrightarrow> batch_ok ttl (hincrby kb ttl bid inc b)"
  by (cases inc) (simp add: hincrby_def Let_def write_ok)

lemma add_max_ok: "batch_ok ttl b \<Longrightarrow> batch_ok ttl (add_max ttl m b)"
  by (cases m) (auto simp: add_max_def write_ok split: prod.splits)

lemma fold_ok: "(\<And>x b. P b \<Longrightarrow> P (f x b)) \<Longrightarrow> P b \<Longrightarrow> P (fold f xs b)"
  by (induction xs arbitrary: b) auto

lemma note_latency_ok: "batch_ok ttl b \<Longrightarrow> batch_ok ttl (note_latency kb bid ev b)"
  by (simp add: batch_ok_def)

lemma add_events_ok:
  "add_events kb ttl bs evs b = Inr b' \<Longrightarrow> batch_ok ttl b \<Longrightarrow> batch_ok ttl b'"
proof (induction evs arbitrary: b)
  case (Cons ev evs)
  from Cons.prems(1) obtain bid where
    "add_events kb ttl bs evs (note_latency kb bid ev (fold (hincrby kb ttl bid) (event_increments ev) b)) =
       Inr b'" by (auto simp: res_simps)
  moreover have "batch_ok ttl (fold (hincrby kb ttl bid) (event_increments ev) b)"
    by (rule fold_ok [where P = "batch_ok ttl"]) (rule hincrby_ok, assumption, rule Cons.prems(2))
  ultimately show ?case using Cons.IH note_latency_ok by blast
qed simp

lemma build_operations_ok:
  assumes "build_operations kb cfg evs = Inr ops"
  shows "\<exists>b. ops = ba_ops b \<and> batch_ok (ac_retention_seconds cfg) b"
proof -
  let ?ttl = "ac_retention_seconds cfg"
  from assms obtain b where b: "add_events kb ?ttl (ac_bucket_seconds cfg) evs
      \<lparr>ba_ops = [], ba_keys_seen = [], ba_latency_maxes = []\<rparr> = Inr b"
    and ops: "ops = ba_ops (fold (add_max ?ttl) (ba_latency_maxes b) b)"
    by (auto simp: build_operations_def res_simps)
  have "batch_ok ?ttl \<lparr>ba_ops = [], ba_keys_seen = [], ba_latency_maxes = []\<rparr>"
    by (simp add: batch_ok_def expired_def written_def)
  from add_events_ok [OF b this] have "batch_ok ?ttl (fold (add_max ?ttl) (ba_latency_maxes b) b)"
    by (intro fold_ok [where P = "batch_ok ?ttl"] add_max_ok)
  with ops show ?thesis by blast
qed

section \<open>Keys are unambiguous\<close>

lemma of_digit_char: "i < 10 \<Longrightarrow> of_char (digit_char i) = 48 + i"
  by (simp add: digit_char_def take_bit_eq_mod)

lemma digit_char_inj: "i < 10 \<Longrightarrow> j < 10 \<Longrightarrow> digit_char i = digit_char j \<Longrightarrow> i = j"
  using of_digit_char by (metis add_left_cancel)

lemma digit_char_neq:
  "i < 10 \<Longrightarrow> digit_char i \<noteq> CHR '':''" "i < 10 \<Longrightarrow> digit_char i \<noteq> CHR ''-''"
  using of_digit_char [of i] by auto

lemma nat_str_digits: "c \<in> set (nat_str n) \<Longrightarrow> \<exists>i < 10. c = digit_char i"
proof (induction n rule: nat_str.induct)
  case (1 n)
  have "nat_str n = (if n < 10 then [digit_char n] else nat_str (n div 10) @ [digit_char (n mod 10)])"
    by (rule nat_str.simps)
  with 1 have "n < 10 \<and> c = digit_char n \<or> \<not> n < 10 \<and> c = digit_char (n mod 10) \<or>
      \<not> n < 10 \<and> c \<in> set (nat_str (n div 10))"
    by (auto split: if_splits)
  moreover have "n mod 10 < 10" by simp
  ultimately show ?case using "1.IH" by blast
qed

lemma nat_str_Nil [simp]: "nat_str n \<noteq> []"
  by (subst nat_str.simps) simp

lemma nat_str_inj: "nat_str m = nat_str n \<Longrightarrow> m = n"
proof (induction m arbitrary: n rule: nat_str.induct)
  case (1 m)
  have "nat_str k = (if k < 10 then [digit_char k] else nat_str (k div 10) @ [digit_char (k mod 10)])" for k
    by (rule nat_str.simps)
  with "1.prems" have eq: "(if m < 10 then [digit_char m] else nat_str (m div 10) @ [digit_char (m mod 10)]) =
      (if n < 10 then [digit_char n] else nat_str (n div 10) @ [digit_char (n mod 10)])" by metis
  show ?case
  proof (cases "m < 10")
    case True
    with eq show ?thesis by (auto split: if_splits dest: digit_char_inj simp: append_eq_Cons_conv Cons_eq_append_conv)
  next
    case False
    with eq have "\<not> n < 10" and "nat_str (m div 10) = nat_str (n div 10)"
        and "digit_char (m mod 10) = digit_char (n mod 10)"
      by (auto split: if_splits simp: append_eq_Cons_conv Cons_eq_append_conv)
    then have "m mod 10 = n mod 10" by (intro digit_char_inj) simp_all
    with "1.IH" [OF False \<open>nat_str (m div 10) = nat_str (n div 10)\<close>] show ?thesis
      by (metis div_mult_mod_eq)
  qed
qed

lemma int_str_no_colon: "CHR '':'' \<notin> set (int_str i)"
  using nat_str_digits by (auto simp: int_str_def) (metis digit_char_neq(1))+

lemma int_str_inj: "int_str i = int_str j \<Longrightarrow> i = j"
proof -
  assume eq: "int_str i = int_str j"
  have hd: "hd (nat_str n) \<noteq> CHR ''-''" for n
    using nat_str_digits [OF hd_in_set [OF nat_str_Nil], of n] digit_char_neq(2) by metis
  show "i = j"
  proof (cases "i < 0"; cases "j < 0")
    assume "i < 0" "j < 0"
    with eq show ?thesis by (auto simp: int_str_def dest!: nat_str_inj)
  next
    assume "\<not> i < 0" "\<not> j < 0"
    with eq show ?thesis by (auto simp: int_str_def dest!: nat_str_inj)
  next
    assume "i < 0" "\<not> j < 0"
    with eq hd show ?thesis by (auto simp: int_str_def) (metis list.sel(1))
  next
    assume "\<not> i < 0" "j < 0"
    with eq hd show ?thesis by (auto simp: int_str_def) (metis list.sel(1))
  qed
qed

lemma split_at_first:
  "x \<notin> set xs \<Longrightarrow> x \<notin> set ys \<Longrightarrow> xs @ x # zs = ys @ x # us \<Longrightarrow> xs = ys \<and> zs = us"
proof (induction xs arbitrary: ys)
  case Nil
  then show ?case by (cases ys) auto
next
  case (Cons a xs)
  then show ?case by (cases ys) auto
qed

lemma bucket_key_inj:
  assumes "bucket_key kb c d b = bucket_key kb c' d' b'"
    and "CHR '':'' \<notin> set c" and "CHR '':'' \<notin> set c'"
  shows "c = c' \<and> d = d' \<and> b = b'"
proof -
  from assms(1) have "int_str b @ CHR '':'' # c @ CHR '':'' # d = int_str b' @ CHR '':'' # c' @ CHR '':'' # d'"
    by (simp add: bucket_key_def)
  then have "int_str b = int_str b' \<and> c @ CHR '':'' # d = c' @ CHR '':'' # d'"
    by (rule split_at_first [OF int_str_no_colon int_str_no_colon])
  then have "int_str b = int_str b'" and rest: "c @ CHR '':'' # d = c' @ CHR '':'' # d'"
    by simp_all
  from this(1) split_at_first [OF assms(2,3) rest] show ?thesis by (simp add: int_str_inj)
qed

text \<open>Each event contributes one to the counter of calls of its tool in its bucket, if it is a call.\<close>

lemma wanted_calls:
  "wanted kb bid (bucket_key kb ''calls'' ''tool'' b) (PStr tf) ev =
     (if an_event_type ev = TOOL_CALL \<and> bid = b \<and> tool_field ev = tf then 1 else 0)"
proof -
  have key: "bucket_key kb c d bid = bucket_key kb ''calls'' ''tool'' b \<longleftrightarrow>
      c = ''calls'' \<and> d = ''tool'' \<and> bid = b" if "CHR '':'' \<notin> set c" for c d
    using that bucket_key_inj [of kb c d bid "''calls''" "''tool''" b] by auto
  show ?thesis
    by (cases "an_event_type ev") (auto simp: wanted_def increments_def Let_def key)
qed

lemma wanted_denials:
  "wanted kb bid (bucket_key kb ''denials'' ''tool'' b) (PStr tf) ev =
     (if an_event_type ev = DENIAL \<and> bid = b \<and> tool_field ev = tf then 1 else 0)"
proof -
  have key: "bucket_key kb c d bid = bucket_key kb ''denials'' ''tool'' b \<longleftrightarrow>
      c = ''denials'' \<and> d = ''tool'' \<and> bid = b" if "CHR '':'' \<notin> set c" for c d
    using that bucket_key_inj [of kb c d bid "''denials''" "''tool''" b] by auto
  show ?thesis
    by (cases "an_event_type ev") (auto simp: wanted_def increments_def Let_def key)
qed

lemma sum_list_count: "(\<Sum>x \<leftarrow> xs. if P x then 1 else 0) = int (length (filter P xs))"
  by (induction xs) auto

section \<open>The hook never interferes\<close>

lemma analytics_on_error_quiet: "fst (analytics_on_error maxsize time ctx err co) = Inr ()"
  by (cases err) (simp_all add: analytics_on_error_def record_defs split: bool.split)

lemma for_each_records: "\<exists>co'. for_each (record_masking maxsize time ctx) es co = (Inr (), co')"
  by (induction es arbitrary: co) (auto simp: bind_apply record_masking_def record_defs)

lemma analytics_pre_audit_same:
  "\<exists>co'. analytics_pre_audit maxsize monotonic time ctx co = (Inr ctx, co')"
proof -
  obtain co1 where "record_tool_call maxsize time (server_name ctx) (tool_name ctx) (event_user ctx)
      ((monotonic co - started_at ctx) * 1000) (int (measure_size (request_payload ctx)))
      (int (measure_size (response_payload ctx))) (transport ctx) co = (Inr (), co1)"
    by (simp add: record_defs)
  moreover obtain co2 where "for_each (record_masking maxsize time ctx) (masking_events ctx) co1 = (Inr (), co2)"
    using for_each_records by blast
  ultimately show ?thesis by (simp add: analytics_pre_audit_def bind_apply record_defs)
qed

text \<open>The heartbeat. \<open>pipe.hset(*args)\<close> is called with the key and fourteen more arguments; redis-py
  takes a name, a key, a value, a mapping and a list of items, and raises a \<open>TypeError\<close> for more
  (\<open>hset_arity\<close>). Then the pipeline is never sent: the pass only connects again.\<close>

definition hset_arity :: "'n redis_env \<Rightarrow> bool" where
  "hset_arity env \<longleftrightarrow> (\<forall>ops n k args. HSET k args \<in> set ops \<longrightarrow> 4 < length args \<longrightarrow>
     (\<exists>m. re_pipeline env ops n = (Inl (TypeError m), n)))"

lemma try_reconnect_Exception: "try_reconnect env cfg s = (Inl e, s') \<Longrightarrow> \<not> is_Exception e"
  unfolding try_reconnect_def by (rule suppress_ok)

lemma heartbeat_pauses:
  assumes "heartbeat_pass env kb cfg host port now co = (Inr paused, co')"
  shows "paused"
proof (rule ccontr)
  assume "\<not> paused"
  with assms obtain e s s' where "execute_pipeline env (ac_redis cfg)
      (heartbeat_ops kb cfg host port (co_started_at co) now) s = (Inl e, s')" and e: "is_Exception e"
    by (auto simp: heartbeat_pass_def write_heartbeat_def bind_apply handle_apply zoom_def
        split: prod.splits sum.splits if_splits)
  then show False
    by (auto simp: execute_pipeline_def bind_apply handle_apply split: prod.splits sum.splits if_splits
        dest: try_reconnect_Exception)
qed

theorem heartbeat_is_never_written:
  assumes "hset_arity env" and "rs_connected (co_client co)"
  shows "write_heartbeat env kb cfg host port now co = in_client (try_reconnect env (ac_redis cfg)) co"
proof -
  let ?ops = "heartbeat_ops kb cfg host port (co_started_at co) now"
  have ops: "?ops \<noteq> []" "\<exists>k args. HSET k args \<in> set ?ops \<and> 4 < length args"
    by (auto simp: heartbeat_ops_def)
  then obtain m where "re_pipeline env ?ops (rs_net (co_client co)) = (Inl (TypeError m), rs_net (co_client co))"
    using assms(1) unfolding hset_arity_def by meson
  then have "execute_pipeline env (ac_redis cfg) ?ops (co_client co) =
      try_reconnect env (ac_redis cfg) (co_client co)"
    using assms(2) ops(1) by (simp add: execute_pipeline_def bind_apply handle_apply in_redis_def zoom_def)
  then show ?thesis by (simp add: write_heartbeat_def bind_apply zoom_def)
qed

section \<open>Properties\<close>

definition sample_analytics :: analytics_config where
  "sample_analytics =
     \<lparr>ac_redis = default_redis_config, ac_environment = PStr ''prod'', ac_gateway_id = PStr ''east'',
      ac_key_prefix = PStr ''mcpgw'', ac_bucket_seconds = 60, ac_retention_seconds = 3600,
      ac_heartbeat_seconds = 30, ac_queue_size = 2, ac_flush_interval = 1\<rparr>"

definition sample_events :: "analytics_event list" where
  "sample_events =
     [new_event TOOL_CALL ''files'' ''read'' 61, new_event DENIAL ''files'' ''read'' 70,
      new_event TOOL_CALL ''files'' ''read'' 119, new_event TOOL_CALL ''files'' ''read'' 120]"

definition sample_ops :: "redis_op list" where
  "sample_ops = projr (build_operations (key_builder_of sample_analytics) sample_analytics sample_events)"

lemma build_operations_total:
  assumes "ac_bucket_seconds cfg \<noteq> 0"
  shows "\<exists>ops. build_operations kb cfg evs = Inr ops"
proof -
  have "\<exists>b'. add_events kb ttl (ac_bucket_seconds cfg) evs b = Inr b'" for ttl b
    using assms by (induction evs arbitrary: b) (simp_all add: bucket_id_def)
  from this [of "ac_retention_seconds cfg" "\<lparr>ba_ops = [], ba_keys_seen = [], ba_latency_maxes = []\<rparr>"]
  show ?thesis by (auto simp: build_operations_def)
qed

lemma sample_ops_built:
  "build_operations (key_builder_of sample_analytics) sample_analytics sample_events = Inr sample_ops"
  using build_operations_total [of sample_analytics "key_builder_of sample_analytics" sample_events]
  by (auto simp: sample_ops_def sample_analytics_def)

text \<open>C34: no call and no denial is lost or counted twice. The operations built from a batch of events
  add to the counter of a tool in a time bucket exactly the number of the events of that kind, tool
  and bucket.\<close>

theorem analytics_counters_exact:
  assumes "build_operations kb cfg evs = Inr ops"
  shows "added (bucket_key kb ''calls'' ''tool'' b) (PStr tf) ops =
      int (length (filter (\<lambda>ev. an_event_type ev = TOOL_CALL \<and>
        bucket_of (ac_bucket_seconds cfg) ev = b \<and> tool_field ev = tf) evs)) \<and>
    added (bucket_key kb ''denials'' ''tool'' b) (PStr tf) ops =
      int (length (filter (\<lambda>ev. an_event_type ev = DENIAL \<and>
        bucket_of (ac_bucket_seconds cfg) ev = b \<and> tool_field ev = tf) evs))"
proof -
  from assms obtain batch where b: "add_events kb (ac_retention_seconds cfg) (ac_bucket_seconds cfg) evs
      \<lparr>ba_ops = [], ba_keys_seen = [], ba_latency_maxes = []\<rparr> = Inr batch"
    and ops: "ops = ba_ops (fold (add_max (ac_retention_seconds cfg)) (ba_latency_maxes batch) batch)"
    by (auto simp: build_operations_def res_simps)
  show ?thesis
    unfolding ops add_max_added add_events_added [OF b] by (simp add: wanted_calls wanted_denials sum_list_count)
qed

theorem analytics_counters_exact_witness:
  "added ''mcpgw:gw:prod:east:b:1:calls:tool'' (PStr ''files::read'') sample_ops = 2"
proof -
  have "bucket_key (key_builder_of sample_analytics) ''calls'' ''tool'' 1 = ''mcpgw:gw:prod:east:b:1:calls:tool''"
    by code_simp
  moreover have "length (filter (\<lambda>ev. an_event_type ev = TOOL_CALL \<and>
        bucket_of (ac_bucket_seconds sample_analytics) ev = 1 \<and> tool_field ev = ''files::read'') sample_events) = 2"
    by (simp add: sample_events_def sample_analytics_def new_event_def trunc_rat_def tool_field_def)
  ultimately show ?thesis
    using analytics_counters_exact [OF sample_ops_built, of 1 "''files::read''"] by simp
qed

text \<open>Every key has a time to live. In a batch, each key that is incremented or set is expired
  exactly once, with the configured retention, and no other key is.\<close>

theorem analytics_keys_expire:
  assumes "build_operations kb cfg evs = Inr ops"
  shows "distinct (expired ops) \<and> set (expired ops) = written ops \<and>
    (\<forall>k t. EXPIRE k t \<in> set ops \<longrightarrow> t = ac_retention_seconds cfg)"
  using build_operations_ok [OF assms] by (auto simp: batch_ok_def)

theorem analytics_keys_expire_witness:
  "distinct (expired sample_ops) \<and> set (expired sample_ops) = written sample_ops \<and>
   (\<forall>k t. EXPIRE k t \<in> set sample_ops \<longrightarrow> t = 3600)"
  using analytics_keys_expire [OF sample_ops_built] by (simp add: sample_analytics_def)

text \<open>The queue is bounded and the drop counter honest. Whatever events are recorded on a new
  collector, it keeps the first ones up to its size, in order, and counts all the others.\<close>

theorem analytics_queue_bounded:
  assumes "0 < maxsize"
  shows "co_queue (fold (enqueue maxsize) evs (new_collector now n)) = take (nat maxsize) evs \<and>
    co_drop_count (fold (enqueue maxsize) evs (new_collector now n)) = length evs - nat maxsize"
proof -
  have "co_queue (fold (enqueue maxsize) evs co) =
          co_queue co @ take (nat maxsize - length (co_queue co)) evs \<and>
        co_drop_count (fold (enqueue maxsize) evs co) =
          co_drop_count co + (length evs - (nat maxsize - length (co_queue co)))"
    if "length (co_queue co) \<le> nat maxsize" for co :: "'a collector"
    using that
  proof (induction evs arbitrary: co)
    case (Cons ev evs)
    show ?case
    proof (cases "maxsize \<le> int (length (co_queue co))")
      case True
      with Cons.prems have "nat maxsize = length (co_queue co)" by simp
      with True assms Cons.IH [of "enqueue maxsize ev co"] show ?thesis by (simp add: enqueue_def)
    next
      case False
      then have "Suc (length (co_queue co)) \<le> nat maxsize" by simp
      then obtain k where k: "nat maxsize - length (co_queue co) = Suc k"
          "nat maxsize - Suc (length (co_queue co)) = k" by (metis Suc_diff_Suc Suc_le_eq)
      from False Cons.IH [of "enqueue maxsize ev co"] \<open>Suc _ \<le> _\<close> k show ?thesis
        by (simp add: enqueue_def)
    qed
  qed simp
  from this [of "new_collector now n"] show ?thesis by (simp add: new_collector_def)
qed

theorem analytics_queue_bounded_witness:
  "length (co_queue (fold (enqueue 2) sample_events (new_collector 0 ()))) = 2 \<and>
   co_drop_count (fold (enqueue 2) sample_events (new_collector 0 ())) = 2"
  using analytics_queue_bounded [of 2 sample_events 0 "()"] by (simp add: sample_events_def)

definition wide_hset :: "redis_op \<Rightarrow> bool" where
  "wide_hset op' = (case op' of HSET _ args \<Rightarrow> 4 < length args | _ \<Rightarrow> False)"

definition strict_redis :: "redis_op list redis_env" where
  "strict_redis =
     \<lparr>re_import = Inr (), re_connect = (\<lambda>_. ret ()),
      re_pipeline = (\<lambda>ops n. if list_ex wide_hset ops then (Inl (TypeError ''hset() takes from 2 to 6 arguments''), n)
                            else (Inr (), n @ ops)),
      re_close = ret ()\<rparr>"

definition connected_collector :: "redis_op list collector" where
  "connected_collector = (new_collector 0 [])\<lparr>co_client := \<lparr>rs_connected = True, rs_net = []\<rparr>\<rparr>"

theorem heartbeat_is_never_written_witness:
  "rs_net (co_client (snd (write_heartbeat strict_redis (key_builder_of sample_analytics) sample_analytics
     ''0.0.0.0'' ''8080'' 90 connected_collector))) = []"
proof -
  have "hset_arity strict_redis"
    by (auto simp: hset_arity_def strict_redis_def list_ex_iff wide_hset_def split: redis_op.split)
  moreover have "rs_connected (co_client connected_collector)" by (simp add: connected_collector_def)
  ultimately show ?thesis
    using heartbeat_is_never_written [of strict_redis connected_collector "key_builder_of sample_analytics"
        sample_analytics "''0.0.0.0''" "''8080''" 90]
    by (simp add: connected_collector_def strict_redis_def try_reconnect_def redis_disconnect_def
        redis_connect_def prog_simps zoom_def in_redis_def sample_analytics_def)
qed

end
