(* ===== verification/Masking.thy ===== *)
theory Masking
  imports Policy_Config Hook_Pipeline "HOL-Library.List_Lexorder" "HOL-Library.Char_ord"
begin

text \<open>
  \<open>masking/\<close>: the masking hook with its two recursive walkers (\<open>hook.py\<close>), the interface of a
  masking engine (\<open>engine.py\<close>) as a locale, and the Presidio engine with its lazy
  initialisation (\<open>presidio.py\<close>), which interprets the locale. The Presidio packages are the
  fields of \<open>presidio_env\<close>. The walkers thread the lists of masked fields and of events.
\<close>

section \<open>The hook\<close>

record masking_result =
  mr_masked_text :: string
  mr_events :: "masking_event list"
  mr_has_masked :: bool

type_synonym 'w mask_text = "string \<Rightarrow> pyval \<Rightarrow> string \<Rightarrow> ('w, masking_result) prog"

definition child_path :: "string \<Rightarrow> string \<Rightarrow> string" where
  "child_path path key = (if path \<noteq> [] then path @ ''.'' @ key else key)"

definition item_path :: "string \<Rightarrow> nat \<Rightarrow> string" where
  "item_path path i = path @ ''['' @ nat_str i @ '']''"

text \<open>\<open>_walk_and_mask\<close>: request payloads.\<close>

fun walk_and_mask :: "'w mask_text \<Rightarrow> pyval \<Rightarrow> pyval \<Rightarrow> string list \<Rightarrow> masking_event list \<Rightarrow> string \<Rightarrow>
      ('w, pyval \<times> string list \<times> masking_event list) prog"
  and walk_items :: "'w mask_text \<Rightarrow> pyval \<Rightarrow> pyval list \<Rightarrow> nat \<Rightarrow> string list \<Rightarrow> masking_event list \<Rightarrow>
      string \<Rightarrow> ('w, pyval list \<times> string list \<times> masking_event list) prog"
  and walk_entries :: "'w mask_text \<Rightarrow> pyval \<Rightarrow> (string \<times> pyval) list \<Rightarrow> string list \<Rightarrow>
      masking_event list \<Rightarrow> string \<Rightarrow>
      ('w, (string \<times> pyval) list \<times> string list \<times> masking_event list) prog" where
  "walk_and_mask eng ents (PStr s) flds evs path =
     bind (eng s ents ''request'') (\<lambda>r.
       if mr_has_masked r
       then ret (PStr (mr_masked_text r), flds @ [if path = [] then ''<root>'' else path],
                 evs @ mr_events r)
       else ret (PStr s, flds, evs))"
| "walk_and_mask eng ents (PDict d) flds evs path =
     bind (walk_entries eng ents d flds evs path) (\<lambda>(d', fs, es). ret (PDict d', fs, es))"
| "walk_and_mask eng ents (PList xs) flds evs path =
     bind (walk_items eng ents xs 0 flds evs path) (\<lambda>(xs', fs, es). ret (PList xs', fs, es))"
| "walk_and_mask eng ents v flds evs path = ret (v, flds, evs)"
| "walk_items eng ents [] i flds evs path = ret ([], flds, evs)"
| "walk_items eng ents (x # xs) i flds evs path =
     bind (walk_and_mask eng ents x flds evs (item_path path i)) (\<lambda>(x', fs, es).
     bind (walk_items eng ents xs (Suc i) fs es path) (\<lambda>(xs', fs', es').
       ret (x' # xs', fs', es')))"
| "walk_entries eng ents [] flds evs path = ret ([], flds, evs)"
| "walk_entries eng ents ((k, v) # d) flds evs path =
     bind (walk_and_mask eng ents v flds evs (child_path path k)) (\<lambda>(v', fs, es).
     bind (walk_entries eng ents d fs es path) (\<lambda>(d', fs', es').
       ret ((k, v') # d', fs', es')))"

text \<open>\<open>_mask_recursive\<close>: response payloads.\<close>

fun mask_recursive :: "'w mask_text \<Rightarrow> pyval \<Rightarrow> pyval \<Rightarrow> string \<Rightarrow> string list \<Rightarrow>
      ('w, pyval \<times> string list) prog"
  and mask_items :: "'w mask_text \<Rightarrow> pyval \<Rightarrow> pyval list \<Rightarrow> nat \<Rightarrow> string \<Rightarrow> string list \<Rightarrow>
      ('w, pyval list \<times> string list) prog"
  and mask_entries :: "'w mask_text \<Rightarrow> pyval \<Rightarrow> (string \<times> pyval) list \<Rightarrow> string \<Rightarrow> string list \<Rightarrow>
      ('w, (string \<times> pyval) list \<times> string list) prog" where
  "mask_recursive eng ents (PStr s) path flds =
     bind (eng s ents ''response'') (\<lambda>r.
       if mr_has_masked r then ret (PStr (mr_masked_text r), flds @ [path])
       else ret (PStr s, flds))"
| "mask_recursive eng ents (PDict d) path flds =
     bind (mask_entries eng ents d path flds) (\<lambda>(d', fs). ret (PDict d', fs))"
| "mask_recursive eng ents (PList xs) path flds =
     bind (mask_items eng ents xs 0 path flds) (\<lambda>(xs', fs). ret (PList xs', fs))"
| "mask_recursive eng ents v path flds = ret (v, flds)"
| "mask_items eng ents [] i path flds = ret ([], flds)"
| "mask_items eng ents (x # xs) i path flds =
     bind (mask_recursive eng ents x (item_path path i) flds) (\<lambda>(x', fs).
     bind (mask_items eng ents xs (Suc i) path fs) (\<lambda>(xs', fs'). ret (x' # xs', fs')))"
| "mask_entries eng ents [] path flds = ret ([], flds)"
| "mask_entries eng ents ((k, v) # d) path flds =
     bind (mask_recursive eng ents v (child_path path k) flds) (\<lambda>(v', fs).
     bind (mask_entries eng ents d path fs) (\<lambda>(d', fs'). ret ((k, v') # d', fs')))"

fun is_MaskingEngineError :: "exn \<Rightarrow> bool" where
  "is_MaskingEngineError (MaskingEngineError _ _) = True"
| "is_MaskingEngineError _ = False"

definition deny_engine_failure :: "string \<Rightarrow> ('w, 'a) prog \<Rightarrow> ('w, 'a) prog" where
  "deny_engine_failure msg m =
     handle m (\<lambda>e. if is_MaskingEngineError e
                   then raise (ShortCircuitError (msg @ exn_str e) True) else raise e)"

definition on_pre_masking ::
    "'w mask_text \<Rightarrow> presidio_config \<Rightarrow> hook_context \<Rightarrow> ('w, hook_context) prog" where
  "on_pre_masking eng cfg ctx =
     (if \<not> truthy (pc_enabled cfg) then ret ctx
      else if request_payload ctx = [] then ret (ctx\<lparr>masking_stage_completed := True\<rparr>)
      else
        bind (deny_engine_failure ''Masking failure: ''
                (walk_entries eng (pc_entities cfg) (request_payload ctx) [] [] []))
          (\<lambda>(new_payload, flds, evs).
             if flds \<noteq> [] then
               ret (ctx\<lparr>request_payload := new_payload, masking_applied := True,
                        masked_fields := flds, masking_events := evs,
                        masking_stage_completed := True\<rparr>)
             else ret (ctx\<lparr>masking_stage_completed := True\<rparr>)))"

definition on_post_masking ::
    "'w mask_text \<Rightarrow> presidio_config \<Rightarrow> hook_context \<Rightarrow> ('w, hook_context) prog" where
  "on_post_masking eng cfg ctx =
     (if \<not> truthy (pc_enabled cfg) then ret ctx
      else if response_payload ctx = [] then ret (ctx\<lparr>masking_stage_completed := True\<rparr>)
      else
        bind (deny_engine_failure ''Output masking failed: ''
                (mask_entries eng (pc_entities cfg) (response_payload ctx) [] []))
          (\<lambda>(new_payload, flds).
             if flds \<noteq> [] then
               ret (ctx\<lparr>response_payload := new_payload, output_masking_applied := True,
                        output_masked_fields := flds, masking_stage_completed := True\<rparr>)
             else ret (ctx\<lparr>masking_stage_completed := True\<rparr>)))"

definition masking_hook :: "'w mask_text \<Rightarrow> presidio_config \<Rightarrow> 'w hook" where
  "masking_hook eng cfg =
     (base_hook ''MaskingHook'')
       \<lparr>h_pre_masking := on_pre_masking eng cfg, h_post_masking := on_post_masking eng cfg\<rparr>"

section \<open>The Presidio engine\<close>

record ('a, 'b, 'r) presidio_env =
  pe_import :: "unit res"
  pe_new_analyzer :: "'a res"
  pe_new_anonymizer :: "'b res"
  pe_analyze :: "'a \<Rightarrow> string \<Rightarrow> pyval \<Rightarrow> 'r list res"
  pe_entity_type :: "'r \<Rightarrow> string"
  pe_anonymize :: "'b \<Rightarrow> string \<Rightarrow> 'r list \<Rightarrow> (string \<times> string) list \<Rightarrow> string res"

record ('a, 'b) presidio_state =
  pst_analyzer :: "'a option"
  pst_anonymizer :: "'b option"

definition new_presidio :: "('a, 'b) presidio_state" where
  "new_presidio = \<lparr>pst_analyzer = None, pst_anonymizer = None\<rparr>"

text \<open>\<open>ImportError\<close> is an exception of class \<open>ImportError\<close>; the analyzer the environment returns
  has the two custom recognizers registered.\<close>

definition ensure_initialized ::
    "('a, 'b, 'r) presidio_env \<Rightarrow> (('a, 'b) presidio_state, unit) prog" where
  "ensure_initialized env =
     bind (gets pst_analyzer) (\<lambda>a.
       if a \<noteq> None then ret ()
       else
         bind (handle (lift_res (pe_import env)) (\<lambda>e.
                 if exn_class e = ''ImportError''
                 then raise (MaskingEngineError
                        ''presidio-analyzer and presidio-anonymizer must be installed'' ''presidio'')
                 else raise e)) (\<lambda>_.
         handle
           (bind (lift_res (pe_new_analyzer env)) (\<lambda>an.
            bind (modify (\<lambda>s. s\<lparr>pst_analyzer := Some an\<rparr>)) (\<lambda>_.
            bind (lift_res (pe_new_anonymizer env)) (\<lambda>anon.
              modify (\<lambda>s. s\<lparr>pst_anonymizer := Some anon\<rparr>)))))
           (\<lambda>e. if is_Exception e
                then raise (MaskingEngineError
                       (''Failed to initialise Presidio engines: '' @ exn_str e) ''presidio'')
                else raise e)))"

text \<open>The counter of detections per entity type, in order of first detection.\<close>

fun count_entities :: "string list \<Rightarrow> (string \<times> int) list \<Rightarrow> (string \<times> int) list" where
  "count_entities [] counts = counts"
| "count_entities (t # ts) counts =
     count_entities ts (dict_set t (case map_of counts t of None \<Rightarrow> 1 | Some n \<Rightarrow> n + 1) counts)"

definition operators :: "(string \<times> int) list \<Rightarrow> (string \<times> string) list" where
  "operators counts =
     fold (\<lambda>(t, _) ops. dict_set t (''<'' @ t @ ''>'') ops) counts [(''DEFAULT'', ''<MASKED>'')]"

definition anonymizer_missing :: exn where
  "anonymizer_missing = no_attribute PNone ''anonymize''"

definition presidio_mask_text ::
    "('a, 'b, 'r) presidio_env \<Rightarrow> ('a, 'b) presidio_state mask_text" where
  "presidio_mask_text env text entities direction =
     (if text = [] then ret \<lparr>mr_masked_text = text, mr_events = [], mr_has_masked = False\<rparr>
      else
        bind (ensure_initialized env) (\<lambda>_.
        bind (gets pst_analyzer) (\<lambda>an.
        bind (gets pst_anonymizer) (\<lambda>anon.
        bind (lift_res (case an of
                Some a \<Rightarrow> pe_analyze env a text entities
              | None \<Rightarrow> Inl (no_attribute PNone ''analyze''))) (\<lambda>results.
          if results = [] then ret \<lparr>mr_masked_text = text, mr_events = [], mr_has_masked = False\<rparr>
          else
            (let counts = count_entities (map (pe_entity_type env) results) [] in
             bind (lift_res (case anon of
                     Some b \<Rightarrow> pe_anonymize env b text results (operators counts)
                   | None \<Rightarrow> Inl anonymizer_missing)) (\<lambda>masked.
             ret \<lparr>mr_masked_text = masked,
                  mr_events = map (\<lambda>(t, c). \<lparr>me_entity_type = t, me_count = c, me_status = ''masked''\<rparr>)
                                (sort counts),
                  mr_has_masked = True\<rparr>)))))))"

definition validate_config ::
    "('a, 'b, 'r) presidio_env \<Rightarrow> presidio_config \<Rightarrow> (('a, 'b) presidio_state, bool) prog" where
  "validate_config env cfg =
     (if \<not> truthy (pc_entities cfg) then
        raise (MaskingConfigError ''presidio.entities must not be empty when enabled''
                 ''masking.presidio.entities'')
      else bind (ensure_initialized env) (\<lambda>_. ret True))"

section \<open>What the hook does to a payload, over any engine\<close>

text \<open>Two values of the same shape whose strings are pairwise related: dictionary keys and all
  values that are not strings are equal.\<close>

fun leaves_rel :: "(string \<Rightarrow> string \<Rightarrow> bool) \<Rightarrow> pyval \<Rightarrow> pyval \<Rightarrow> bool"
  and leaves_rel_list :: "(string \<Rightarrow> string \<Rightarrow> bool) \<Rightarrow> pyval list \<Rightarrow> pyval list \<Rightarrow> bool"
  and leaves_rel_dict :: "(string \<Rightarrow> string \<Rightarrow> bool) \<Rightarrow> (string \<times> pyval) list \<Rightarrow> (string \<times> pyval) list \<Rightarrow> bool"
where
  "leaves_rel M (PStr s) v = (\<exists>t. v = PStr t \<and> M s t)"
| "leaves_rel M (PList xs) v = (\<exists>ys. v = PList ys \<and> leaves_rel_list M xs ys)"
| "leaves_rel M (PDict d) v = (\<exists>e. v = PDict e \<and> leaves_rel_dict M d e)"
| "leaves_rel M u v = (v = u)"
| "leaves_rel_list M [] ys = (ys = [])"
| "leaves_rel_list M (x # xs) ys = (\<exists>y ys'. ys = y # ys' \<and> leaves_rel M x y \<and> leaves_rel_list M xs ys')"
| "leaves_rel_dict M [] e = (e = [])"
| "leaves_rel_dict M ((k, v) # d) e =
     (\<exists>w e'. e = (k, w) # e' \<and> leaves_rel M v w \<and> leaves_rel_dict M d e')"

text \<open>
  The contract of an engine: \<open>outcome t t'\<close> says that \<open>t'\<close> may be passed on in the place of the
  text \<open>t\<close>; it is what the caller gets from \<open>mask_text\<close>, be it the masked text or, when nothing
  was masked, the original.
\<close>

locale masking_engine =
  fixes eng :: "'w mask_text"
    and outcome :: "pyval \<Rightarrow> string \<Rightarrow> string \<Rightarrow> bool"
  assumes mask_outcome:
    "eng t ents dir w = (Inr r, w') \<Longrightarrow>
       outcome ents t (if mr_has_masked r then mr_masked_text r else t)"
begin

lemma walk_outcome:
  "walk_and_mask eng ents v fs es path w = (Inr (v', fs', es'), w') \<Longrightarrow>
     leaves_rel (outcome ents) v v' \<and> (\<exists>zs. fs' = fs @ zs \<and> (zs = [] \<longrightarrow> v' = v))"
  "walk_items eng ents xs i fs es path w = (Inr (xs', fs', es'), w') \<Longrightarrow>
     leaves_rel_list (outcome ents) xs xs' \<and> (\<exists>zs. fs' = fs @ zs \<and> (zs = [] \<longrightarrow> xs' = xs))"
  "walk_entries eng ents d fs es path w = (Inr (d', fs', es'), w') \<Longrightarrow>
     leaves_rel_dict (outcome ents) d d' \<and> (\<exists>zs. fs' = fs @ zs \<and> (zs = [] \<longrightarrow> d' = d))"
proof (induction v and xs and d
    arbitrary: fs es path w v' fs' es' w' and i fs es path w xs' fs' es' w'
      and fs es path w d' fs' es' w' rule: pyval_split_induct)
  case (PStr s)
  then obtain r where "eng s ents ''request'' w = (Inr r, w')"
    by (auto elim!: bind_Inr_elim split: if_splits)
  from mask_outcome [OF this] this PStr show ?case
    by (auto simp: bind_apply split: if_splits)
next
  case (PList xs)
  from PList.prems obtain xs' where "walk_items eng ents xs 0 fs es path w = (Inr (xs', fs', es'), w')"
    and "v' = PList xs'" by (auto elim!: bind_Inr_elim)
  with PList.IH show ?case by fastforce
next
  case (PDict d)
  from PDict.prems obtain d' where "walk_entries eng ents d fs es path w = (Inr (d', fs', es'), w')"
    and "v' = PDict d'" by (auto elim!: bind_Inr_elim)
  with PDict.IH show ?case by fastforce
next
  case (list_cons x xs)
  from list_cons.prems obtain x1 fs1 es1 w1 xs1 where
      x: "walk_and_mask eng ents x fs es (item_path path i) w = (Inr (x1, fs1, es1), w1)"
      and xs: "walk_items eng ents xs (Suc i) fs1 es1 path w1 = (Inr (xs1, fs', es'), w')"
      and "xs' = x1 # xs1"
    by (auto elim!: bind_Inr_elim)
  with list_cons.IH(1) [OF x] list_cons.IH(2) [OF xs] show ?case by auto
next
  case (dict_cons k x d)
  from dict_cons.prems obtain x1 fs1 es1 w1 d1 where
      x: "walk_and_mask eng ents x fs es (child_path path k) w = (Inr (x1, fs1, es1), w1)"
      and d: "walk_entries eng ents d fs1 es1 path w1 = (Inr (d1, fs', es'), w')"
      and "d' = (k, x1) # d1"
    by (auto elim!: bind_Inr_elim)
  with dict_cons.IH(1) [OF x] dict_cons.IH(2) [OF d] show ?case by auto
qed simp_all

lemma mask_recursive_outcome:
  "mask_recursive eng ents v path fs w = (Inr (v', fs'), w') \<Longrightarrow>
     leaves_rel (outcome ents) v v' \<and> (\<exists>zs. fs' = fs @ zs \<and> (zs = [] \<longrightarrow> v' = v))"
  "mask_items eng ents xs i path fs w = (Inr (xs', fs'), w') \<Longrightarrow>
     leaves_rel_list (outcome ents) xs xs' \<and> (\<exists>zs. fs' = fs @ zs \<and> (zs = [] \<longrightarrow> xs' = xs))"
  "mask_entries eng ents d path fs w = (Inr (d', fs'), w') \<Longrightarrow>
     leaves_rel_dict (outcome ents) d d' \<and> (\<exists>zs. fs' = fs @ zs \<and> (zs = [] \<longrightarrow> d' = d))"
proof (induction v and xs and d
    arbitrary: fs path w v' fs' w' and i fs path w xs' fs' w' and fs path w d' fs' w'
    rule: pyval_split_induct)
  case (PStr s)
  then obtain r where "eng s ents ''response'' w = (Inr r, w')"
    by (auto elim!: bind_Inr_elim split: if_splits)
  from mask_outcome [OF this] this PStr show ?case
    by (auto simp: bind_apply split: if_splits)
next
  case (PList xs)
  from PList.prems obtain xs' where "mask_items eng ents xs 0 path fs w = (Inr (xs', fs'), w')"
    and "v' = PList xs'" by (auto elim!: bind_Inr_elim)
  with PList.IH show ?case by fastforce
next
  case (PDict d)
  from PDict.prems obtain d' where "mask_entries eng ents d path fs w = (Inr (d', fs'), w')"
    and "v' = PDict d'" by (auto elim!: bind_Inr_elim)
  with PDict.IH show ?case by fastforce
next
  case (list_cons x xs)
  from list_cons.prems obtain x1 fs1 w1 xs1 where
      x: "mask_recursive eng ents x (item_path path i) fs w = (Inr (x1, fs1), w1)"
      and xs: "mask_items eng ents xs (Suc i) path fs1 w1 = (Inr (xs1, fs'), w')"
      and "xs' = x1 # xs1"
    by (auto elim!: bind_Inr_elim)
  with list_cons.IH(1) [OF x] list_cons.IH(2) [OF xs] show ?case by auto
next
  case (dict_cons k x d)
  from dict_cons.prems obtain x1 fs1 w1 d1 where
      x: "mask_recursive eng ents x (child_path path k) fs w = (Inr (x1, fs1), w1)"
      and d: "mask_entries eng ents d path fs1 w1 = (Inr (d1, fs'), w')"
      and "d' = (k, x1) # d1"
    by (auto elim!: bind_Inr_elim)
  with dict_cons.IH(1) [OF x] dict_cons.IH(2) [OF d] show ?case by auto
qed simp_all

lemma handled_ok: "deny_engine_failure m p w = (Inr x, w') \<Longrightarrow> p w = (Inr x, w')"
  by (auto simp: deny_engine_failure_def handle_apply split: prod.splits sum.splits if_splits)

lemma pre_masking_outcome:
  assumes "on_pre_masking eng cfg ctx w = (Inr ctx', w')" and "truthy (pc_enabled cfg)"
  shows "leaves_rel_dict (outcome (pc_entities cfg)) (request_payload ctx) (request_payload ctx') \<and>
         masking_stage_completed ctx' \<and> response_payload ctx' = response_payload ctx"
proof (cases "request_payload ctx = []")
  case True
  with assms show ?thesis by (auto simp: on_pre_masking_def)
next
  case False
  with assms obtain d fs es w1 where
      d: "walk_entries eng (pc_entities cfg) (request_payload ctx) [] [] [] w = (Inr (d, fs, es), w1)"
      and c: "ctx' = (if fs \<noteq> [] then ctx\<lparr>request_payload := d, masking_applied := True,
                        masked_fields := fs, masking_events := es, masking_stage_completed := True\<rparr>
                      else ctx\<lparr>masking_stage_completed := True\<rparr>)"
    by (auto simp: on_pre_masking_def elim!: bind_Inr_elim dest!: handled_ok split: if_splits)
  from walk_outcome(3) [OF d] c show ?thesis by auto
qed

lemma post_masking_outcome:
  assumes "on_post_masking eng cfg ctx w = (Inr ctx', w')" and "truthy (pc_enabled cfg)"
  shows "leaves_rel_dict (outcome (pc_entities cfg)) (response_payload ctx) (response_payload ctx') \<and>
         masking_stage_completed ctx' \<and> request_payload ctx' = request_payload ctx"
proof (cases "response_payload ctx = []")
  case True
  with assms show ?thesis by (auto simp: on_post_masking_def)
next
  case False
  with assms obtain d fs w1 where
      d: "mask_entries eng (pc_entities cfg) (response_payload ctx) [] [] w = (Inr (d, fs), w1)"
      and c: "ctx' = (if fs \<noteq> [] then ctx\<lparr>response_payload := d, output_masking_applied := True,
                        output_masked_fields := fs, masking_stage_completed := True\<rparr>
                      else ctx\<lparr>masking_stage_completed := True\<rparr>)"
    by (auto simp: on_post_masking_def elim!: bind_Inr_elim dest!: handled_ok split: if_splits)
  from mask_recursive_outcome(3) [OF d] c show ?thesis by auto
qed

end

section \<open>The Presidio engine keeps the contract\<close>

text \<open>What Presidio lets pass: an empty text, a text in which the analyzer finds none of the
  configured entities, or the anonymizer's output for a text in which it finds some.\<close>

definition presidio_outcome ::
    "('a, 'b, 'r) presidio_env \<Rightarrow> pyval \<Rightarrow> string \<Rightarrow> string \<Rightarrow> bool" where
  "presidio_outcome env ents t t' \<longleftrightarrow>
     t = [] \<and> t' = t \<or>
     (\<exists>a. pe_analyze env a t ents = Inr []) \<and> t' = t \<or>
     (\<exists>a b results ops. pe_analyze env a t ents = Inr results \<and> results \<noteq> [] \<and>
        pe_anonymize env b t results ops = Inr t')"

lemma presidio_mask_outcome:
  assumes "presidio_mask_text env t ents dir w = (Inr r, w')"
  shows "presidio_outcome env ents t (if mr_has_masked r then mr_masked_text r else t)"
proof (cases "t = []")
  case True
  with assms show ?thesis by (auto simp: presidio_mask_text_def presidio_outcome_def)
next
  case False
  with assms obtain a results where a: "pe_analyze env a t ents = Inr results"
    and r: "results = [] \<and> \<not> mr_has_masked r \<or>
            results \<noteq> [] \<and> mr_has_masked r \<and>
              (\<exists>b ops. pe_anonymize env b t results ops = Inr (mr_masked_text r))"
    by (auto simp: presidio_mask_text_def Let_def elim!: bind_Inr_elim
        split: option.splits if_splits) blast
  from r show ?thesis
  proof (elim disjE conjE exE)
    assume "results = []" and "\<not> mr_has_masked r"
    with a show ?thesis by (auto simp: presidio_outcome_def)
  next
    fix b ops
    assume "results \<noteq> []" and m: "mr_has_masked r"
      and "pe_anonymize env b t results ops = Inr (mr_masked_text r)"
    with a have "\<exists>a b results ops. pe_analyze env a t ents = Inr results \<and> results \<noteq> [] \<and>
        pe_anonymize env b t results ops = Inr (mr_masked_text r)" by blast
    with m show ?thesis by (simp add: presidio_outcome_def)
  qed
qed

interpretation presidio: masking_engine "presidio_mask_text env" "presidio_outcome env" for env
  by unfold_locales (rule presidio_mask_outcome)

section \<open>Properties\<close>

text \<open>A small Presidio: the analyzer finds a text that contains a secret.\<close>

definition toy_presidio :: "(unit, unit, string) presidio_env" where
  "toy_presidio =
     \<lparr>pe_import = Inr (), pe_new_analyzer = Inr (), pe_new_anonymizer = Inr (),
      pe_analyze = (\<lambda>_ t _. Inr (if t = ''s3cret'' then [''PASSWORD''] else [])),
      pe_entity_type = id,
      pe_anonymize = (\<lambda>_ t rs ops. Inr (case map_of ops (hd rs) of Some v \<Rightarrow> v | None \<Rightarrow> t))\<rparr>"

definition masking_on :: presidio_config where
  "masking_on = \<lparr>pc_enabled = PBool True, pc_entities = PList [PStr ''PASSWORD'']\<rparr>"

definition secret_payload :: pydict where
  "secret_payload = [(''user'', PStr ''ann''), (''args'', PList [PInt 1, PDict [(''pw'', PStr ''s3cret'')]])]"

lemma toy_pre_masking:
  "on_pre_masking (presidio_mask_text toy_presidio) masking_on
     (sample_context\<lparr>request_payload := secret_payload\<rparr>) new_presidio =
   (Inr (sample_context\<lparr>request_payload :=
           [(''user'', PStr ''ann''), (''args'', PList [PInt 1, PDict [(''pw'', PStr ''<PASSWORD>'')]])],
         masking_applied := True, masked_fields := [''args[1].pw''],
         masking_events := [\<lparr>me_entity_type = ''PASSWORD'', me_count = 1, me_status = ''masked''\<rparr>],
         masking_stage_completed := True\<rparr>),
    \<lparr>pst_analyzer = Some (), pst_anonymizer = Some ()\<rparr>)"
  by code_simp

lemma toy_post_masking:
  "on_post_masking (presidio_mask_text toy_presidio) masking_on
     (sample_context\<lparr>response_payload := secret_payload\<rparr>) new_presidio =
   (Inr (sample_context\<lparr>response_payload :=
           [(''user'', PStr ''ann''), (''args'', PList [PInt 1, PDict [(''pw'', PStr ''<PASSWORD>'')]])],
         output_masking_applied := True, output_masked_fields := [''args[1].pw''],
         masking_stage_completed := True\<rparr>),
    \<lparr>pst_analyzer = Some (), pst_anonymizer = Some ()\<rparr>)"
  by code_simp

text \<open>C29: input masking. After the masking hook, the request payload has the shape, the keys and
  the non-string values of the original, and each of its strings, at any depth, is one that
  Presidio lets pass for the original string.\<close>

theorem request_masking_covers_every_string:
  assumes "on_pre_masking (presidio_mask_text env) cfg ctx w = (Inr ctx', w')"
    and "truthy (pc_enabled cfg)"
  shows "leaves_rel_dict (presidio_outcome env (pc_entities cfg))
           (request_payload ctx) (request_payload ctx') \<and> masking_stage_completed ctx'"
  using presidio.pre_masking_outcome [OF assms] by simp

theorem request_masking_covers_every_string_witness:
  "leaves_rel_dict (presidio_outcome toy_presidio (PList [PStr ''PASSWORD''])) secret_payload
     [(''user'', PStr ''ann''), (''args'', PList [PInt 1, PDict [(''pw'', PStr ''<PASSWORD>'')]])]"
  using request_masking_covers_every_string [OF toy_pre_masking] by (simp add: masking_on_def)

text \<open>Output masking. The same for the response payload that goes back to the client.\<close>

theorem response_masking_covers_every_string:
  assumes "on_post_masking (presidio_mask_text env) cfg ctx w = (Inr ctx', w')"
    and "truthy (pc_enabled cfg)"
  shows "leaves_rel_dict (presidio_outcome env (pc_entities cfg))
           (response_payload ctx) (response_payload ctx') \<and> masking_stage_completed ctx'"
  using presidio.post_masking_outcome [OF assms] by simp

theorem response_masking_covers_every_string_witness:
  "leaves_rel_dict (presidio_outcome toy_presidio (PList [PStr ''PASSWORD''])) secret_payload
     [(''user'', PStr ''ann''), (''args'', PList [PInt 1, PDict [(''pw'', PStr ''<PASSWORD>'')]])]"
  using response_masking_covers_every_string [OF toy_post_masking] by (simp add: masking_on_def)

text \<open>Fail closed. When a walker raises a \<open>MaskingEngineError\<close>, both hook points turn it into a
  short circuit that asks for a denial; no \<open>MaskingEngineError\<close> leaves the hook.\<close>

theorem masking_engine_failure_denies:
  assumes "m = on_pre_masking eng cfg ctx \<or> m = on_post_masking eng cfg ctx"
    and "m w = (Inl e, w')"
  shows "\<not> is_MaskingEngineError e \<and>
    (m = on_pre_masking eng cfg ctx \<longrightarrow>
       (\<forall>e0. walk_entries eng (pc_entities cfg) (request_payload ctx) [] [] [] w = (Inl e0, w') \<longrightarrow>
          is_MaskingEngineError e0 \<longrightarrow> truthy (pc_enabled cfg) \<longrightarrow> request_payload ctx \<noteq> [] \<longrightarrow>
          e = ShortCircuitError (''Masking failure: '' @ exn_str e0) True))"
  using assms
  by (auto simp: on_pre_masking_def on_post_masking_def deny_engine_failure_def bind_apply
      handle_apply split: prod.splits sum.splits if_splits)

definition broken_presidio :: "(unit, unit, string) presidio_env" where
  "broken_presidio = toy_presidio\<lparr>pe_new_anonymizer := Inl (OSError ''no model'')\<rparr>"

lemma broken_run:
  "on_pre_masking (presidio_mask_text broken_presidio) masking_on
     (sample_context\<lparr>request_payload := secret_payload\<rparr>) new_presidio =
   (Inl (ShortCircuitError ''Masking failure: Failed to initialise Presidio engines: no model'' True),
    \<lparr>pst_analyzer = Some (), pst_anonymizer = None\<rparr>)"
  by code_simp

theorem masking_engine_failure_denies_witness:
  "\<not> is_MaskingEngineError
     (ShortCircuitError ''Masking failure: Failed to initialise Presidio engines: no model'' True)"
  using masking_engine_failure_denies [OF disjI1 [OF refl] broken_run] by simp

text \<open>A failed start is not retried. When the anonymizer cannot be created, the engine keeps the
  analyzer it had already stored, so it takes itself for initialised: from then on every text
  with a detection raises an \<open>AttributeError\<close>, which the hook does not turn into a denial.\<close>

theorem half_initialised_engine_stays_broken:
  assumes "pe_import env = Inr ()" and "pe_new_analyzer env = Inr a"
    and "pe_new_anonymizer env = Inl e" and "is_Exception e"
    and "pe_analyze env a t ents = Inr (r # rs)" and "t \<noteq> []"
  shows "\<exists>s m. presidio_mask_text env t ents dir new_presidio = (Inl (MaskingEngineError m ''presidio''), s) \<and>
           presidio_mask_text env t ents dir s = (Inl anonymizer_missing, s)"
  using assms
  by (simp add: presidio_mask_text_def ensure_initialized_def new_presidio_def bind_apply
      handle_apply Let_def)

theorem half_initialised_engine_stays_broken_witness:
  "\<exists>s m. presidio_mask_text broken_presidio ''s3cret'' (PList []) ''request'' new_presidio =
           (Inl (MaskingEngineError m ''presidio''), s) \<and>
         presidio_mask_text broken_presidio ''s3cret'' (PList []) ''request'' s =
           (Inl (AttributeError (quoted ''NoneType'' @ '' object has no attribute '' @ quoted ''anonymize'')), s)"
  using half_initialised_engine_stays_broken [of broken_presidio "()" "OSError ''no model''" "''s3cret''"
      "PList []" "''PASSWORD''" "[]" "''request''"]
  by (simp add: broken_presidio_def toy_presidio_def anonymizer_missing_def no_attribute_def)

end
