(* ===== verification/Policy_Loader.thy ===== *)
theory Policy_Loader
  imports Policy_Engine
begin

text \<open>
  \<open>governance/loader.py\<close>: reading, parsing, building and validating a policy file. Every builder
  follows its function in the source, check by check, over the dynamic value the parser
  returned. The file system, \<open>yaml.safe_load\<close> and \<open>json.loads\<close> are the fields of \<open>loader_env\<close>;
  a \<open>YAMLError\<close> or \<open>JSONDecodeError\<close> of a parser is an \<open>OtherException\<close> of that class name.
  The lemmas show what a policy that loads is guaranteed to satisfy.
\<close>

section \<open>Numbers from configuration values\<close>

definition digit_of :: "char \<Rightarrow> nat option" where
  "digit_of c =
     (let n = (of_char c :: nat) in if 48 \<le> n \<and> n \<le> 57 then Some (n - 48) else None)"

text \<open>Digits with single underscores between them.\<close>

fun parse_digits :: "bool \<Rightarrow> nat \<Rightarrow> string \<Rightarrow> nat option" where
  "parse_digits ok acc [] = (if ok then Some acc else None)"
| "parse_digits ok acc (c # cs) =
     (if c = CHR ''_'' then (if ok then parse_digits False acc cs else None)
      else case digit_of c of None \<Rightarrow> None | Some d \<Rightarrow> parse_digits True (10 * acc + d) cs)"

definition split_sign :: "string \<Rightarrow> bool \<times> string" where
  "split_sign s =
     (case s of [] \<Rightarrow> (False, [])
      | c # cs \<Rightarrow> if c = CHR ''-'' then (True, cs) else if c = CHR ''+'' then (False, cs)
                  else (False, c # cs))"

definition parse_signed :: "string \<Rightarrow> int option" where
  "parse_signed s =
     (case split_sign s of (neg, ds) \<Rightarrow>
        map_option (\<lambda>n. if neg then - int n else int n) (parse_digits False 0 ds))"

definition parse_int :: "string \<Rightarrow> int option" where
  "parse_int s = parse_signed (strip s)"

definition parse_part :: "string \<Rightarrow> nat option" where
  "parse_part s = (if s = [] then Some 0 else parse_digits False 0 s)"

text \<open>Decimal notation with an optional exponent; the words \<open>inf\<close> and \<open>nan\<close> have no rational
  value and are rejected.\<close>

definition parse_float :: "string \<Rightarrow> rat option" where
  "parse_float s =
     (case split_sign (strip s) of (neg, t) \<Rightarrow>
       (let m = takeWhile (\<lambda>c. c \<noteq> CHR ''e'' \<and> c \<noteq> CHR ''E'') t;
            x = dropWhile (\<lambda>c. c \<noteq> CHR ''e'' \<and> c \<noteq> CHR ''E'') t;
            ip = takeWhile (\<lambda>c. c \<noteq> CHR ''.'') m;
            fp = tl (dropWhile (\<lambda>c. c \<noteq> CHR ''.'') m);
            k = length (filter (\<lambda>c. c \<noteq> CHR ''_'') fp)
        in if ip = [] \<and> fp = [] then None
           else case (parse_part ip, parse_part fp,
                      if x = [] then Some 0 else parse_signed (tl x)) of
                  (Some a, Some b, Some e) \<Rightarrow>
                    (let q = (of_nat a + of_nat b / 10 ^ k) *
                             (if 0 \<le> e then 10 ^ nat e else 1 / 10 ^ nat (- e))
                     in Some (if neg then - q else q))
                | _ \<Rightarrow> None))"

definition number_type_error :: "string \<Rightarrow> pyval \<Rightarrow> exn" where
  "number_type_error f v =
     TypeError (f @ ''() argument must be a string or a real number, not '' @
                quoted (type_name v))"

fun py_int :: "pyval \<Rightarrow> int res" where
  "py_int (PInt i) = Inr i"
| "py_int (PBool b) = Inr (if b then 1 else 0)"
| "py_int (PFloat q) = Inr (if 0 \<le> q then floor q else ceiling q)"
| "py_int (PStr s) =
     (case parse_int s of
        Some i \<Rightarrow> Inr i
      | None \<Rightarrow> Inl (ValueError (''invalid literal for int() with base 10: '' @ repr_str s)))"
| "py_int v = Inl (number_type_error ''int'' v)"

fun py_float :: "pyval \<Rightarrow> rat res" where
  "py_float (PInt i) = Inr (of_int i)"
| "py_float (PBool b) = Inr (if b then 1 else 0)"
| "py_float (PFloat q) = Inr q"
| "py_float (PStr s) =
     (case parse_float s of
        Some q \<Rightarrow> Inr q
      | None \<Rightarrow> Inl (ValueError (''could not convert string to float: '' @ repr_str s)))"
| "py_float v = Inl (number_type_error ''float'' v)"

section \<open>Reading and parsing\<close>

record loader_env =
  le_exists :: "string \<Rightarrow> bool"
  le_read_text :: "string \<Rightarrow> string res"
  le_yaml_load :: "string \<Rightarrow> pyval res"
  le_json_loads :: "string \<Rightarrow> pyval res"
  le_uuid_hex :: string

text \<open>\<open>Path(p).suffix\<close>: the part of the last path component from its last dot, unless the
  component begins or ends with that dot.\<close>

definition path_suffix :: "string \<Rightarrow> string" where
  "path_suffix p =
     (let name_rev = takeWhile (\<lambda>c. c \<noteq> CHR ''/'') (dropWhile (\<lambda>c. c = CHR ''/'') (rev p));
          ext_rev = takeWhile (\<lambda>c. c \<noteq> CHR ''.'') name_rev;
          stem_rev = drop (Suc (length ext_rev)) name_rev
      in if ext_rev = [] \<or> stem_rev = [] then [] else CHR ''.'' # rev ext_rev)"

definition parse_content :: "loader_env \<Rightarrow> string \<Rightarrow> string \<Rightarrow> pydict res" where
  "parse_content env content path =
     (let sfx = lower (path_suffix path);
          parsed =
            (if sfx = ''.yaml'' \<or> sfx = ''.yml'' then le_yaml_load env content
             else if sfx = ''.json'' then le_json_loads env content
             else Inl (PolicyFileError (''Unsupported policy file extension '' @ quoted sfx @
                         '' (expected .yaml, .yml, or .json)'') path))
      in case parsed of
           Inl (OtherException c m) \<Rightarrow>
             if c = ''YAMLError'' then
               Inl (PolicyFileError (''Failed to parse YAML: '' @ m) path)
             else if c = ''JSONDecodeError'' then
               Inl (PolicyFileError (''Failed to parse JSON: '' @ m) path)
             else Inl (OtherException c m)
         | Inl e \<Rightarrow> Inl e
         | Inr (PDict d) \<Rightarrow> Inr d
         | Inr _ \<Rightarrow> Inl (PolicyFileError ''Policy file must contain a mapping at the top level'' path))"

section \<open>Builders\<close>

definition indexed :: "string \<Rightarrow> nat \<Rightarrow> string" where
  "indexed f i = f @ ''['' @ nat_str i @ '']''"

definition build_identity :: "pyval \<Rightarrow> identity_provider_config res" where
  "build_identity v =
     (case v of
        PDict d \<Rightarrow>
          except_ValueError
            (make_identity_provider_config (dict_get d ''provider'' (PStr []))
               (dict_get d ''issuer'' (PStr [])) (dict_get d ''audience'' (PStr []))
               (dict_get d ''claim_mapping'' (PDict [])) (dict_get d ''allow_insecure'' (PBool False)))
            (\<lambda>m. PolicyValidationError m ''identity'')
      | _ \<Rightarrow> Inl (PolicyValidationError ''identity must be a mapping'' ''identity''))"

definition build_server :: "nat \<Rightarrow> pyval \<Rightarrow> server_definition res" where
  "build_server i v =
     (case v of
        PDict d \<Rightarrow>
          except_ValueError
            (make_server_definition
               \<lparr>sd_name = dict_get d ''name'' (PStr []),
                sd_transport = dict_get d ''transport'' (PStr []),
                sd_url = dict_get d ''url'' PNone,
                sd_command = dict_get d ''command'' PNone,
                sd_args = dict_get d ''args'' (PList []),
                sd_env = dict_get d ''env'' (PDict []),
                sd_headers = dict_get d ''headers'' (PDict []),
                sd_token_exchange = dict_get d ''token_exchange'' (PBool False),
                sd_target_audience = dict_get d ''target_audience'' PNone,
                sd_required_scopes = dict_get d ''required_scopes'' (PList []),
                sd_allow_insecure = dict_get d ''allow_insecure'' (PBool False)\<rparr>)
            (\<lambda>m. PolicyValidationError m (indexed ''servers'' i))
      | _ \<Rightarrow> Inl (PolicyValidationError (indexed ''servers'' i @ '' must be a mapping'') ''servers''))"

definition build_subjects :: "nat \<Rightarrow> pydict \<Rightarrow> policy_subjects res" where
  "build_subjects i d =
     (case map_of d ''subjects'' of
        None \<Rightarrow> Inr default_subjects
      | Some (PDict s) \<Rightarrow>
          Inr \<lparr>ps_users = dict_get s ''users'' (PList []), ps_groups = dict_get s ''groups'' (PList [])\<rparr>
      | Some _ \<Rightarrow>
          Inl (PolicyValidationError (indexed ''policies'' i @ ''.subjects must be a mapping'')
                 (indexed ''policies'' i @ ''.subjects'')))"

definition build_access :: "nat \<Rightarrow> nat \<Rightarrow> pyval \<Rightarrow> policy_server_access res" where
  "build_access i j v =
     (let f = indexed ''policies'' i @ ''.'' @ indexed ''mcp_servers'' j in
      case v of
        PDict ms \<Rightarrow>
          except_ValueError
            (make_policy_server_access (dict_get ms ''name'' (PStr []))
               (dict_get ms ''tools'' (PList [])))
            (\<lambda>m. PolicyValidationError m f)
      | _ \<Rightarrow> Inl (PolicyValidationError (f @ '' must be a mapping'') f))"

definition build_policy_rule :: "nat \<Rightarrow> pyval \<Rightarrow> policy_rule res" where
  "build_policy_rule i v =
     (case v of
        PDict d \<Rightarrow>
          (let effect_raw = dict_get d ''effect'' (PStr ''allow'') in
           res_bind
             (except_ValueError (policy_effect_of effect_raw)
                (\<lambda>_. PolicyValidationError
                       (indexed ''policies'' i @ ''.effect must be '' @ quoted ''allow'' @ '' or '' @
                        quoted ''deny'' @ '', got '' @ quoted (py_str effect_raw))
                       (indexed ''policies'' i @ ''.effect'')))
             (\<lambda>effect.
           res_bind (build_subjects i d) (\<lambda>subjects.
           res_bind
             (case dict_get d ''mcp_servers'' (PList []) of
                PList raw \<Rightarrow> map_res_enum (build_access i) 0 raw
              | _ \<Rightarrow> Inl (PolicyValidationError
                           (indexed ''policies'' i @ ''.mcp_servers must be a list'')
                           (indexed ''policies'' i @ ''.mcp_servers'')))
             (\<lambda>mcp_servers.
           except_ValueError
             (make_policy_rule
                \<lparr>pr_id = dict_get d ''id'' (PStr []),
                 pr_description = dict_get d ''description'' (PStr []),
                 pr_effect = effect, pr_subjects = subjects, pr_mcp_servers = mcp_servers\<rparr>)
             (\<lambda>m. PolicyValidationError m (indexed ''policies'' i))))))
      | _ \<Rightarrow> Inl (PolicyValidationError (indexed ''policies'' i @ '' must be a mapping'') ''policies''))"

definition build_logging :: "pyval \<Rightarrow> logging_config res" where
  "build_logging v =
     (case v of
        PDict d \<Rightarrow>
          except_ValueError
            (make_logging_config (dict_get d ''level'' (PStr ''INFO''))
               (dict_get d ''format'' (PStr ''json'')) (dict_get d ''include'' (PList [])))
            (\<lambda>m. PolicyValidationError m ''logging'')
      | _ \<Rightarrow> Inl (PolicyValidationError ''logging must be a mapping'' ''logging''))"

definition build_masking :: "pyval \<Rightarrow> presidio_config res" where
  "build_masking v =
     (case v of
        PDict d \<Rightarrow>
          (case map_of d ''presidio'' of
             None \<Rightarrow> Inr default_presidio_config
           | Some (PDict p) \<Rightarrow>
               Inr \<lparr>pc_enabled = dict_get p ''enabled'' (PBool False),
                    pc_entities = dict_get p ''entities'' (PList [])\<rparr>
           | Some _ \<Rightarrow>
               Inl (PolicyValidationError ''masking.presidio must be a mapping'' ''masking.presidio''))
      | _ \<Rightarrow> Inl (PolicyValidationError ''masking must be a mapping'' ''masking''))"

definition build_redis :: "pydict \<Rightarrow> redis_config res" where
  "build_redis d =
     (case map_of d ''redis'' of
        None \<Rightarrow> Inr default_redis_config
      | Some (PDict r) \<Rightarrow>
          res_bind (py_float (dict_get r ''socket_timeout'' (PFloat 5))) (\<lambda>timeout.
            Inr \<lparr>rc_url = dict_get r ''url'' (PStr []),
                 rc_cluster = dict_get r ''cluster'' (PBool False),
                 rc_tls = dict_get r ''tls'' (PBool False),
                 rc_password = dict_get r ''password'' PNone,
                 rc_socket_timeout = timeout,
                 rc_retry_on_timeout = dict_get r ''retry_on_timeout'' (PBool True)\<rparr>)
      | Some _ \<Rightarrow>
          Inl (PolicyValidationError ''analytics.redis must be a mapping'' ''analytics.redis''))"

definition build_analytics :: "string \<Rightarrow> pyval \<Rightarrow> analytics_config res" where
  "build_analytics uuid_hex v =
     (case v of
        PDict d \<Rightarrow>
          res_bind (build_redis d) (\<lambda>redis.
          res_bind (py_int (dict_get d ''bucket_seconds'' (PInt 60))) (\<lambda>bucket.
          res_bind (py_int (dict_get d ''retention_seconds'' (PInt 3600))) (\<lambda>retention.
          res_bind (py_int (dict_get d ''heartbeat_seconds'' (PInt 30))) (\<lambda>heartbeat.
          res_bind (py_int (dict_get d ''queue_size'' (PInt 10000))) (\<lambda>qsize.
          res_bind (py_float (dict_get d ''flush_interval'' (PFloat 1))) (\<lambda>flush.
            Inr (make_analytics_config uuid_hex
              \<lparr>ac_redis = redis,
               ac_environment = dict_get d ''environment'' (PStr ''default''),
               ac_gateway_id = dict_get d ''gateway_id'' (PStr []),
               ac_key_prefix = dict_get d ''key_prefix'' (PStr ''mcpgw''),
               ac_bucket_seconds = bucket, ac_retention_seconds = retention,
               ac_heartbeat_seconds = heartbeat, ac_queue_size = qsize,
               ac_flush_interval = flush\<rparr>)))))))
      | _ \<Rightarrow> Inl (PolicyValidationError ''analytics must be a mapping'' ''analytics''))"

definition build_cors :: "pyval \<Rightarrow> cors_config res" where
  "build_cors v =
     (case v of
        PDict d \<Rightarrow>
          except_ValueError
            (res_bind (py_int (dict_get d ''max_age'' (PInt 600))) (\<lambda>max_age.
               make_cors_config
                 \<lparr>cc_allow_origins = dict_get d ''allow_origins'' (PList []),
                  cc_allow_methods =
                    dict_get d ''allow_methods'' (PList [PStr ''GET'', PStr ''POST'', PStr ''OPTIONS'']),
                  cc_allow_headers =
                    dict_get d ''allow_headers'' (PList [PStr ''Authorization'', PStr ''Content-Type'']),
                  cc_allow_credentials = dict_get d ''allow_credentials'' (PBool False),
                  cc_max_age = max_age,
                  cc_expose_headers = dict_get d ''expose_headers'' (PList [])\<rparr>))
            (\<lambda>m. PolicyValidationError m ''cors'')
      | _ \<Rightarrow> Inl (PolicyValidationError ''cors must be a mapping'' ''cors''))"

text \<open>\<open>x in seen\<close> on a set of names.\<close>

definition in_seen :: "pyval \<Rightarrow> pyval list \<Rightarrow> bool res" where
  "in_seen x seen =
     (if is_hashable x then Inr (\<exists>y \<in> set seen. py_eq x y) else Inl (unhashable x))"

fun build_plugins_from ::
    "nat \<Rightarrow> pyval list \<Rightarrow> pyval list \<Rightarrow> plugin_declaration list res" where
  "build_plugins_from i seen [] = Inr []"
| "build_plugins_from i seen (item # rest) =
     (case item of
        PDict d \<Rightarrow>
          res_bind
            (except_ValueError
               (make_plugin_declaration
                  \<lparr>pd_name = dict_get d ''name'' (PStr []),
                   pd_package = dict_get d ''package'' (dict_get d ''name'' (PStr [])),
                   pd_config = dict_get d ''config'' (PDict []),
                   pd_priority = dict_get d ''priority'' PNone\<rparr>)
               (\<lambda>m. PolicyValidationError m (indexed ''plugins'' i)))
            (\<lambda>decl.
          res_bind (in_seen (pd_name decl) seen) (\<lambda>dup.
            if dup then Inl (PolicyValidationError
                      (''Duplicate plugin name: '' @ quoted (py_str (pd_name decl))) ''plugins'')
            else res_bind (build_plugins_from (Suc i) (pd_name decl # seen) rest)
                   (\<lambda>decls. Inr (decl # decls))))
      | _ \<Rightarrow> Inl (PolicyValidationError (indexed ''plugins'' i @ '' must be a mapping'')
                   (indexed ''plugins'' i)))"

definition build_plugins :: "pyval \<Rightarrow> plugin_declaration list res" where
  "build_plugins v =
     (case v of
        PList items \<Rightarrow> build_plugins_from 0 [] items
      | _ \<Rightarrow> Inl (PolicyValidationError ''plugins must be a list'' ''plugins''))"

text \<open>The loop that rejects a repeated name.\<close>

fun check_unique :: "(pyval \<Rightarrow> exn) \<Rightarrow> pyval list \<Rightarrow> pyval list \<Rightarrow> unit res" where
  "check_unique dup seen [] = Inr ()"
| "check_unique dup seen (n # ns) =
     res_bind (in_seen n seen) (\<lambda>b.
       if b then Inl (dup n) else check_unique dup (n # seen) ns)"

text \<open>An optional section: the default when the key is missing.\<close>

definition optional_section :: "pydict \<Rightarrow> string \<Rightarrow> 'a \<Rightarrow> (pyval \<Rightarrow> 'a res) \<Rightarrow> 'a res" where
  "optional_section d k dflt build =
     (case map_of d k of None \<Rightarrow> Inr dflt | Some v \<Rightarrow> build v)"

definition list_section ::
    "pydict \<Rightarrow> string \<Rightarrow> (nat \<Rightarrow> pyval \<Rightarrow> 'a res) \<Rightarrow> 'a list res" where
  "list_section d k build =
     (case dict_get d k (PList []) of
        PList raw \<Rightarrow> map_res_enum build 0 raw
      | _ \<Rightarrow> Inl (PolicyValidationError (k @ '' must be a list'') k))"

definition build_policy_config :: "string \<Rightarrow> pydict \<Rightarrow> policy_config res" where
  "build_policy_config uuid_hex data =
     (case map_of data ''version'' of
        None \<Rightarrow> Inl (PolicyValidationError ''Missing required field: version'' ''version'')
      | Some version \<Rightarrow>
          if as_int version = None then
            Inl (PolicyValidationError (''version must be an integer, got '' @ type_name version)
                   ''version'')
          else
          (let default_raw = dict_get data ''default'' (PStr ''deny'') in
           res_bind (except_ValueError (policy_effect_of default_raw)
             (\<lambda>_. PolicyValidationError (''default must be '' @ quoted ''allow'' @ '' or '' @
                     quoted ''deny'' @ '', got '' @ quoted (py_str default_raw)) ''default''))
             (\<lambda>dflt.
           res_bind (optional_section data ''identity'' None
                       (\<lambda>v. res_bind (build_identity v) (\<lambda>c. Inr (Some c)))) (\<lambda>ident.
           res_bind (list_section data ''servers'' build_server) (\<lambda>servers.
           res_bind (check_unique
                       (\<lambda>n. PolicyValidationError
                              (''Duplicate server name: '' @ quoted (py_str n)) ''servers'')
                       [] (map sd_name servers)) (\<lambda>_.
           res_bind (list_section data ''policies'' build_policy_rule) (\<lambda>rules.
           res_bind (check_unique
                       (\<lambda>n. PolicyValidationError
                              (''Duplicate policy id: '' @ quoted (py_str n)) ''policies'')
                       [] (map pr_id rules)) (\<lambda>_.
           res_bind (optional_section data ''logging'' default_logging_config build_logging)
             (\<lambda>logging.
           res_bind (optional_section data ''masking'' default_presidio_config build_masking)
             (\<lambda>masking.
           res_bind (optional_section data ''analytics'' None
                       (\<lambda>v. res_bind (build_analytics uuid_hex v) (\<lambda>c. Inr (Some c))))
             (\<lambda>analytics.
           res_bind (optional_section data ''cors'' None
                       (\<lambda>v. res_bind (build_cors v) (\<lambda>c. Inr (Some c)))) (\<lambda>cors.
           res_bind (optional_section data ''plugins'' [] build_plugins) (\<lambda>plugins.
           except_ValueError
             (make_policy_config
                \<lparr>pol_version = version, pol_default = dflt, pol_identity = ident,
                 pol_servers = servers, pol_policies = rules, pol_logging = logging,
                 pol_masking = masking, pol_analytics = analytics, pol_cors = cors,
                 pol_plugins = plugins\<rparr>)
             (\<lambda>m. PolicyValidationError m ''version''))))))))))))))"

section \<open>Validation across sections\<close>

definition check_access_name :: "pyval list \<Rightarrow> policy_rule \<Rightarrow> policy_server_access \<Rightarrow> unit res" where
  "check_access_name names rule access =
     res_bind (py_in (PStr ''*'') (psa_name access)) (\<lambda>wild.
       if wild then Inr ()
       else res_bind (in_seen (psa_name access) names) (\<lambda>known.
         if known then Inr ()
         else Inl (PolicyReferenceError
                (''Policy '' @ quoted (py_str (pr_id rule)) @ '' references unknown server '' @
                 quoted (py_str (psa_name access)))
                (''policies.'' @ py_str (pr_id rule) @ ''.mcp_servers'')
                (py_str (psa_name access)))))"

definition validate_cross_references :: "policy_config \<Rightarrow> unit res" where
  "validate_cross_references pol =
     res_bind (py_set (map sd_name (pol_servers pol))) (\<lambda>names.
       each_res (\<lambda>rule. each_res (check_access_name names rule) (pr_mcp_servers rule))
         (pol_policies pol))"

definition word_char :: "char \<Rightarrow> bool" where
  "word_char c =
     (let n = (of_char c :: nat)
      in 97 \<le> n \<and> n \<le> 122 \<or> 65 \<le> n \<and> n \<le> 90 \<or> 48 \<le> n \<and> n \<le> 57 \<or> n = 95)"

text \<open>The three alternatives of \<open>_VALID_WILDCARD_RE\<close>; in Python \<open>$\<close> also matches before a final
  newline.\<close>

definition wildcard_core :: "string \<Rightarrow> bool" where
  "wildcard_core s \<longleftrightarrow>
     s = ''*'' \<or>
     (s \<noteq> [] \<and> hd s = CHR ''*'' \<and> tl s \<noteq> [] \<and> list_all word_char (tl s)) \<or>
     (s \<noteq> [] \<and> last s = CHR ''*'' \<and> butlast s \<noteq> [] \<and> list_all word_char (butlast s))"

definition valid_wildcard :: "string \<Rightarrow> bool" where
  "valid_wildcard s \<longleftrightarrow>
     wildcard_core s \<or> (s \<noteq> [] \<and> last s = CHR 0x0A \<and> wildcard_core (butlast s))"

definition check_tool_pattern ::
    "policy_rule \<Rightarrow> policy_server_access \<Rightarrow> pyval \<Rightarrow> unit res" where
  "check_tool_pattern rule access tool =
     res_bind (py_in (PStr ''*'') tool) (\<lambda>wild.
       if \<not> wild then Inr ()
       else case tool of
         PStr t \<Rightarrow>
           if valid_wildcard t then Inr ()
           else Inl (PolicyValidationError
                  (''Invalid tool wildcard pattern '' @ quoted t @ '' in policy '' @
                   quoted (py_str (pr_id rule)) @ '' for server '' @
                   quoted (py_str (psa_name access)) @ ''. Wildcards must be standalone '' @
                   quoted ''*'' @ '', prefix '' @ quoted ''*suffix'' @ '', or suffix '' @
                   quoted ''prefix*'' @ ''.'')
                  (''policies.'' @ py_str (pr_id rule) @ ''.mcp_servers.'' @
                   py_str (psa_name access) @ ''.tools''))
       | _ \<Rightarrow> Inl (TypeError (''expected string or bytes-like object, got '' @
                quoted (type_name tool))))"

definition validate_tool_patterns :: "policy_config \<Rightarrow> unit res" where
  "validate_tool_patterns pol =
     each_res (\<lambda>rule.
       each_res (\<lambda>access.
         res_bind (py_iter (psa_tools access)) (each_res (check_tool_pattern rule access)))
         (pr_mcp_servers rule))
       (pol_policies pol)"

section \<open>Entry points\<close>

definition load_policy_file :: "loader_env \<Rightarrow> string \<Rightarrow> policy_config res" where
  "load_policy_file env path =
     (if \<not> le_exists env path then
        Inl (PolicyFileError (''Policy file not found: '' @ path) path)
      else
        res_bind
          (case le_read_text env path of
             Inl e \<Rightarrow>
               if is_OSError e
               then Inl (PolicyFileError (''Failed to read policy file: '' @ exn_str e) path)
               else Inl e
           | Inr content \<Rightarrow> Inr content) (\<lambda>content.
        res_bind (parse_content env content path) (\<lambda>data.
        res_bind (build_policy_config (le_uuid_hex env) data) (\<lambda>policy.
        res_bind (validate_cross_references policy) (\<lambda>_.
        res_bind (validate_tool_patterns policy) (\<lambda>_. Inr policy))))))"

definition convert_to_identity_config :: "policy_config \<Rightarrow> identity_config option res" where
  "convert_to_identity_config pol =
     (case pol_identity pol of
        None \<Rightarrow> Inr None
      | Some c \<Rightarrow>
          res_bind (py_get (ipc_claim_mapping c) ''user_id'' (PStr ''sub'')) (\<lambda>u.
          res_bind (py_get (ipc_claim_mapping c) ''email'' (PStr ''email'')) (\<lambda>m.
          res_bind (py_get (ipc_claim_mapping c) ''groups'' (PStr ''groups'')) (\<lambda>g.
          res_bind (make_identity_config
             \<lparr>ic_provider = ipc_provider c, ic_issuer = ipc_issuer c,
              ic_audience = ipc_audience c, ic_jwks_cache_ttl = 3600,
              ic_claim_mapping = \<lparr>cm_user_id = u, cm_email = m, cm_groups = g\<rparr>,
              ic_allow_insecure = ipc_allow_insecure c\<rparr>) (\<lambda>ic. Inr (Some ic))))))"

section \<open>What the builders guarantee\<close>

lemma check_unique_ok:
  "check_unique dup seen ns = Inr () \<longleftrightarrow>
     (\<forall>n \<in> set ns. is_hashable n) \<and> (\<forall>n \<in> set ns. \<forall>m \<in> set seen. \<not> py_eq n m) \<and>
     sorted_wrt (\<lambda>x y. \<not> py_eq y x) ns"
  by (induction ns arbitrary: seen) (auto simp: res_simps in_seen_def)

lemma map_res_enum_all:
  assumes "map_res_enum f i xs = Inr ys" and "\<And>j x y. f j x = Inr y \<Longrightarrow> P y"
  shows "\<forall>y \<in> set ys. P y"
  using assms(1) by (induction xs arbitrary: i ys) (auto simp: res_simps dest: assms(2))

lemma list_section_all:
  assumes "list_section d k f = Inr ys" and "\<And>j x y. f j x = Inr y \<Longrightarrow> P y"
  shows "\<forall>y \<in> set ys. P y"
proof -
  obtain raw where "map_res_enum f 0 raw = Inr ys"
    using assms(1) by (auto simp: list_section_def split: pyval.splits)
  then show ?thesis by (rule map_res_enum_all) (rule assms(2))
qed

definition wf_server :: "server_definition \<Rightarrow> bool" where
  "wf_server s \<longleftrightarrow> truthy (sd_name s) \<and> sd_transport s \<in> set server_transports"

lemma build_server_wf: "build_server i v = Inr s \<Longrightarrow> wf_server s"
  by (cases v) (auto simp: build_server_def wf_server_def make_server_definition_ok except_ValueError_eq_Inr)

lemma build_access_wf: "build_access i j v = Inr a \<Longrightarrow> truthy (psa_name a)"
  by (cases v) (auto simp: build_access_def Let_def make_policy_server_access_ok except_ValueError_eq_Inr)

definition wf_rule :: "policy_rule \<Rightarrow> bool" where
  "wf_rule r \<longleftrightarrow> truthy (pr_id r) \<and> truthy (pr_description r) \<and>
     (\<forall>a \<in> set (pr_mcp_servers r). truthy (psa_name a))"

lemma build_policy_rule_wf: "build_policy_rule i v = Inr r \<Longrightarrow> wf_rule r"
  by (auto simp: build_policy_rule_def wf_rule_def Let_def res_simps make_policy_rule_ok
      dest: map_res_enum_all [where P = "\<lambda>a. truthy (psa_name a)", OF _ build_access_wf]
      split: pyval.splits)

definition wf_identity :: "identity_provider_config \<Rightarrow> bool" where
  "wf_identity c \<longleftrightarrow>
     truthy (ipc_provider c) \<and> truthy (ipc_issuer c) \<and> truthy (ipc_audience c) \<and>
     (truthy (ipc_allow_insecure c) \<or> is_https (ipc_issuer c))"

lemma build_identity_wf: "build_identity v = Inr c \<Longrightarrow> wf_identity c"
  by (auto simp: build_identity_def wf_identity_def res_simps
      dest: make_identity_provider_config_ok split: pyval.splits)

definition wf_cors :: "cors_config \<Rightarrow> bool" where
  "wf_cors c \<longleftrightarrow>
     truthy (cc_allow_origins c) \<and> 0 \<le> cc_max_age c \<and>
     \<not> (py_in (PStr ''*'') (cc_allow_origins c) = Inr True \<and> truthy (cc_allow_credentials c))"

lemma build_cors_wf: "build_cors v = Inr c \<Longrightarrow> wf_cors c"
  by (auto simp: build_cors_def wf_cors_def res_simps make_cors_config_ok split: pyval.splits)

lemma build_plugins_from_wf:
  "build_plugins_from i seen items = Inr ds \<Longrightarrow>
     (\<forall>d \<in> set ds. truthy (pd_name d) \<and> (\<forall>m \<in> set seen. \<not> py_eq (pd_name d) m)) \<and>
     sorted_wrt (\<lambda>x y. \<not> py_eq y x) (map pd_name ds)"
proof (induction i seen items arbitrary: ds rule: build_plugins_from.induct)
  case (1 i seen)
  then show ?case by simp
next
  case (2 i seen item rest)
  from "2.prems" obtain d decl decls where
      "item = PDict d" and decl: "truthy (pd_name decl)"
      and fresh: "\<forall>m \<in> set seen. \<not> py_eq (pd_name decl) m"
      and rest: "build_plugins_from (Suc i) (pd_name decl # seen) rest = Inr decls"
      and ds: "ds = decl # decls"
      and step: "except_ValueError (make_plugin_declaration
                  \<lparr>pd_name = dict_get d ''name'' (PStr []),
                   pd_package = dict_get d ''package'' (dict_get d ''name'' (PStr [])),
                   pd_config = dict_get d ''config'' (PDict []),
                   pd_priority = dict_get d ''priority'' PNone\<rparr>)
               (\<lambda>m. PolicyValidationError m (indexed ''plugins'' i)) = Inr decl"
      and dup: "in_seen (pd_name decl) seen = Inr False"
    by (auto simp: res_simps make_plugin_declaration_ok in_seen_def
        split: pyval.splits if_splits)
  have "(\<forall>e \<in> set decls. truthy (pd_name e) \<and>
          (\<forall>m \<in> set (pd_name decl # seen). \<not> py_eq (pd_name e) m)) \<and>
        sorted_wrt (\<lambda>x y. \<not> py_eq y x) (map pd_name decls)"
    using "2.IH" \<open>item = PDict d\<close> step dup rest by blast
  with decl fresh ds show ?case by auto
qed

section \<open>Well-formed policies\<close>

definition wf_tool_pattern :: "pyval \<Rightarrow> bool" where
  "wf_tool_pattern t \<longleftrightarrow>
     py_in (PStr ''*'') t = Inr False \<or> (\<exists>s. t = PStr s \<and> valid_wildcard s)"

definition wf_access :: "pyval list \<Rightarrow> policy_server_access \<Rightarrow> bool" where
  "wf_access names a \<longleftrightarrow>
     (py_in (PStr ''*'') (psa_name a) = Inr True \<or> (\<exists>n \<in> set names. py_eq (psa_name a) n)) \<and>
     (\<exists>ts. py_iter (psa_tools a) = Inr ts \<and> (\<forall>t \<in> set ts. wf_tool_pattern t))"

definition wf_policy :: "policy_config \<Rightarrow> bool" where
  "wf_policy pol \<longleftrightarrow>
     py_eq (pol_version pol) (PInt 1) \<and>
     (\<forall>s \<in> set (pol_servers pol). wf_server s) \<and>
     sorted_wrt (\<lambda>x y. \<not> py_eq y x) (map sd_name (pol_servers pol)) \<and>
     (\<forall>r \<in> set (pol_policies pol). wf_rule r) \<and>
     sorted_wrt (\<lambda>x y. \<not> py_eq y x) (map pr_id (pol_policies pol)) \<and>
     (\<forall>r \<in> set (pol_policies pol). \<forall>a \<in> set (pr_mcp_servers r).
        wf_access (map sd_name (pol_servers pol)) a) \<and>
     (\<forall>c. pol_identity pol = Some c \<longrightarrow> wf_identity c) \<and>
     (\<forall>c. pol_cors pol = Some c \<longrightarrow> wf_cors c) \<and>
     sorted_wrt (\<lambda>x y. \<not> py_eq y x) (map pd_name (pol_plugins pol))"

lemma optional_section_Some:
  assumes "optional_section d k None (\<lambda>v. res_bind (f v) (\<lambda>c. Inr (Some c))) = Inr (Some c)"
  shows "\<exists>v. f v = Inr c"
  using assms by (auto simp: optional_section_def res_simps split: option.splits)

lemma py_set_eq_Inr: "py_set xs = Inr ys \<Longrightarrow> ys = xs"
  by (induction xs arbitrary: ys) (auto simp: res_simps split: if_splits)

lemma check_tool_pattern_ok:
  "check_tool_pattern rule a t = Inr () \<Longrightarrow> wf_tool_pattern t"
  by (auto simp: check_tool_pattern_def wf_tool_pattern_def res_simps
      split: if_splits pyval.splits)

lemma validated_access_wf:
  assumes "validate_cross_references pol = Inr ()" and "validate_tool_patterns pol = Inr ()"
    and "r \<in> set (pol_policies pol)" and "a \<in> set (pr_mcp_servers r)"
  shows "wf_access (map sd_name (pol_servers pol)) a"
proof -
  from assms(1) obtain names where "py_set (map sd_name (pol_servers pol)) = Inr names"
    and chk: "each_res (\<lambda>rule. each_res (check_access_name names rule) (pr_mcp_servers rule))
         (pol_policies pol) = Inr ()"
    by (auto simp: validate_cross_references_def res_simps)
  then have names: "names = map sd_name (pol_servers pol)" by (simp add: py_set_eq_Inr)
  from chk assms(3,4) have "check_access_name names r a = Inr ()"
    by (auto simp: each_res_ok)
  then have name: "py_in (PStr ''*'') (psa_name a) = Inr True \<or>
      (\<exists>n \<in> set names. py_eq (psa_name a) n)"
    by (auto simp: check_access_name_def res_simps in_seen_def split: if_splits)
  from assms(2-4) have "res_bind (py_iter (psa_tools a)) (each_res (check_tool_pattern r a)) = Inr ()"
    by (auto simp: validate_tool_patterns_def each_res_ok)
  then have "\<exists>ts. py_iter (psa_tools a) = Inr ts \<and> (\<forall>t \<in> set ts. wf_tool_pattern t)"
    by (auto simp: res_simps each_res_ok dest: check_tool_pattern_ok)
  with name names show ?thesis by (simp add: wf_access_def)
qed

lemma build_policy_config_parts:
  assumes "build_policy_config u data = Inr pol"
  shows "py_eq (pol_version pol) (PInt 1)"
    and "optional_section data ''identity'' None
           (\<lambda>v. res_bind (build_identity v) (\<lambda>c. Inr (Some c))) = Inr (pol_identity pol)"
    and "list_section data ''servers'' build_server = Inr (pol_servers pol)"
    and "sorted_wrt (\<lambda>x y. \<not> py_eq y x) (map sd_name (pol_servers pol))"
    and "list_section data ''policies'' build_policy_rule = Inr (pol_policies pol)"
    and "sorted_wrt (\<lambda>x y. \<not> py_eq y x) (map pr_id (pol_policies pol))"
    and "optional_section data ''cors'' None
           (\<lambda>v. res_bind (build_cors v) (\<lambda>c. Inr (Some c))) = Inr (pol_cors pol)"
    and "optional_section data ''plugins'' [] build_plugins = Inr (pol_plugins pol)"
    and "policy_effect_of (dict_get data ''default'' (PStr ''deny'')) = Inr (pol_default pol)"
  using assms
  by (auto simp: build_policy_config_def Let_def res_simps make_policy_config_ok check_unique_ok
      split: option.splits if_splits)

lemma build_policy_config_wf:
  assumes "build_policy_config u data = Inr pol"
    and "validate_cross_references pol = Inr ()" and "validate_tool_patterns pol = Inr ()"
  shows "wf_policy pol"
proof -
  note parts = build_policy_config_parts [OF assms(1)]
  have "sorted_wrt (\<lambda>x y. \<not> py_eq y x) (map pd_name (pol_plugins pol))"
    using parts(8) build_plugins_from_wf
    by (auto simp: optional_section_def build_plugins_def split: option.splits pyval.splits)
  moreover have "\<forall>c. pol_identity pol = Some c \<longrightarrow> wf_identity c"
    using parts(2) by (auto dest!: optional_section_Some build_identity_wf)
  moreover have "\<forall>c. pol_cors pol = Some c \<longrightarrow> wf_cors c"
    using parts(7) by (auto dest!: optional_section_Some build_cors_wf)
  moreover have "\<forall>s \<in> set (pol_servers pol). wf_server s"
    using parts(3) build_server_wf by (rule list_section_all)
  moreover have "\<forall>r \<in> set (pol_policies pol). wf_rule r"
    using parts(5) build_policy_rule_wf by (rule list_section_all)
  ultimately show ?thesis
    using parts(1,4,6) validated_access_wf [OF assms(2,3)] by (auto simp: wf_policy_def)
qed

lemma load_policy_file_parts:
  assumes "load_policy_file env path = Inr pol"
  obtains data where "build_policy_config (le_uuid_hex env) data = Inr pol"
    and "validate_cross_references pol = Inr ()" and "validate_tool_patterns pol = Inr ()"
  using assms by (auto simp: load_policy_file_def res_simps split: if_splits)

text \<open>A small policy file, as its parser returns it.\<close>

definition sample_policy_data :: pydict where
  "sample_policy_data =
     [(''version'', PInt 1),
      (''servers'', PList [PDict [(''name'', PStr ''files''), (''transport'', PStr ''stdio''),
                                  (''command'', PStr ''files-mcp'')]]),
      (''policies'', PList [PDict
         [(''id'', PStr ''read''), (''description'', PStr ''devs may read''),
          (''subjects'', PDict [(''groups'', PList [PStr ''devs''])]),
          (''mcp_servers'', PList [PDict [(''name'', PStr ''files''),
                                          (''tools'', PList [PStr ''read_*''])]])]]),
      (''identity'', PDict [(''provider'', PStr ''okta''),
                            (''issuer'', PStr ''https://idp.example''),
                            (''audience'', PStr ''gateway'')])]"

definition sample_loader_env :: loader_env where
  "sample_loader_env =
     \<lparr>le_exists = (\<lambda>p. p = ''policy.yaml''), le_read_text = (\<lambda>_. Inr ''...''),
      le_yaml_load = (\<lambda>_. Inr (PDict sample_policy_data)),
      le_json_loads = (\<lambda>_. Inl (OtherException ''JSONDecodeError'' ''no json'')),
      le_uuid_hex = ''0123456789abcdef''\<rparr>"

definition loaded_sample :: policy_config where
  "loaded_sample = projr (load_policy_file sample_loader_env ''policy.yaml'')"

lemma load_sample: "load_policy_file sample_loader_env ''policy.yaml'' = Inr loaded_sample"
  by code_simp



text \<open>The default effect is \<open>allow\<close> only when the file says so: a missing \<open>default\<close> key is
  \<open>deny\<close> and any other value is refused.\<close>

theorem default_effect_is_explicit:
  assumes "build_policy_config u data = Inr pol"
  shows "pol_default pol =
      (if map_of data ''default'' = Some (PStr ''allow'') then ALLOW else DENY) \<and>
    map_of data ''default'' \<in> {None, Some (PStr ''allow''), Some (PStr ''deny'')}"
  using build_policy_config_parts(9) [OF assms]
  by (auto simp: policy_effect_of_def dict_get_def split: if_splits option.splits)

theorem default_effect_is_explicit_witness:
  "pol_default loaded_sample = DENY \<and>
   (build_policy_config ''u'' sample_policy_data = Inr (projr (build_policy_config ''u'' sample_policy_data)))"
proof -
  have b: "build_policy_config ''u'' sample_policy_data =
      Inr (projr (build_policy_config ''u'' sample_policy_data))" by code_simp
  have "pol_default (projr (build_policy_config ''u'' sample_policy_data)) = DENY"
    using default_effect_is_explicit [OF b] by (simp add: sample_policy_data_def)
  moreover have "loaded_sample = projr (build_policy_config ''u'' sample_policy_data)"
    by code_simp
  ultimately show ?thesis using b by simp
qed

end
