(* ===== verification/Plugins.thy ===== *)
theory Plugins
  imports Masking Hook_Pipeline Policy_Loader Audit_Trail
begin

text \<open>
  \<open>plugin.py\<close>, \<open>plugin_manager.py\<close> and \<open>plugins/presidio_masking.py\<close>: the plugins of a policy
  file are looked up among the installed entry points, created, configured and given the hook
  registry and the event bus. Entry points are code that is not in the repository, so what they
  load, and the plugin objects it creates, are values of the model; \<open>'w\<close> is the state of these
  objects, \<open>'h\<close> the hooks and \<open>'e\<close> the event handlers.
\<close>

section \<open>Plugins and entry points\<close>

record ('w, 'h, 'e) plugin =
  pn_name :: string
  pn_configure :: "pyval \<Rightarrow> ('w, unit) prog"
  pn_register :: "('w \<times> 'h registry, unit) prog"
  pn_event_handlers :: "('w \<times> 'e list, unit) prog option"
  pn_teardown :: "('w, unit) prog"

text \<open>\<open>BasePlugin\<close>: every method does nothing.\<close>

definition base_plugin :: "string \<Rightarrow> ('w, 'h, 'e) plugin" where
  "base_plugin class_name =
     \<lparr>pn_name = class_name, pn_configure = (\<lambda>_. ret ()), pn_register = ret (),
      pn_event_handlers = Some (ret ()), pn_teardown = ret ()\<rparr>"

text \<open>\<open>load()\<close> yields a factory; the factory yields an object, which is a plugin or has only a type
  name, when it does not satisfy the protocol.\<close>

type_synonym ('w, 'h, 'e) entry_point =
  "('w, ('w, string + ('w, 'h, 'e) plugin) prog) prog"

record ('w, 'h, 'e) plugin_world =
  pw_objects :: 'w
  pw_registry :: "'h registry"
  pw_bus :: "'e list"
  pw_plugins :: "('w, 'h, 'e) plugin list"

definition discover ::
    "(string \<times> ('w, 'h, 'e) entry_point) list \<Rightarrow> (string \<times> ('w, 'h, 'e) entry_point) list" where
  "discover eps = fold (\<lambda>(name, ep) d. dict_set name ep d) eps []"

definition available_plugins :: "(string \<times> ('w, 'h, 'e) entry_point) list \<Rightarrow> string list" where
  "available_plugins available = sort (map fst available)"

section \<open>Loading\<close>

definition wrap_load_error :: "string \<Rightarrow> ('w, 'a) prog \<Rightarrow> ('w, 'a) prog" where
  "wrap_load_error msg m =
     handle m (\<lambda>e. if is_Exception e then raise (PluginLoadError (msg @ exn_str e)) else raise e)"

definition not_available :: "plugin_declaration \<Rightarrow> pyval \<Rightarrow> string list \<Rightarrow> exn" where
  "not_available d ep_name names =
     PluginLoadError (''Plugin '' @ quoted (py_str (pd_name d)) @ '' (package '' @
       quoted (py_str ep_name) @ '') not found in '' @ quoted ''mcp_zero.plugins'' @
       '' entry points. Available: '' @ (if names = [] then ''(none)'' else join '', '' names))"

text \<open>What \<open>_load_one\<close> does with the object the factory made.\<close>

definition accept_plugin ::
    "plugin_declaration \<Rightarrow> string + ('w, 'h, 'e) plugin \<Rightarrow> ('w, ('w, 'h, 'e) plugin) prog" where
  "accept_plugin d obj =
     (case obj of
        Inl ty \<Rightarrow> raise (PluginLoadError (''Plugin '' @ quoted (py_str (pd_name d)) @
          '' does not satisfy the Plugin protocol (got '' @ ty @ '')''))
      | Inr plugin \<Rightarrow>
          bind (wrap_load_error (''Plugin '' @ quoted (py_str (pd_name d)) @ '' configure() failed: '')
                  (pn_configure plugin (pd_config d))) (\<lambda>_. ret plugin))"

definition entry_point_name :: "plugin_declaration \<Rightarrow> pyval" where
  "entry_point_name d = (if truthy (pd_package d) then pd_package d else pd_name d)"

definition load_one ::
    "(string \<times> ('w, 'h, 'e) entry_point) list \<Rightarrow> plugin_declaration \<Rightarrow>
     ('w, ('w, 'h, 'e) plugin) prog" where
  "load_one available d =
     (let ep_name = entry_point_name d;
          named = ''plugin '' @ quoted (py_str (pd_name d))
      in if \<not> is_hashable ep_name then raise (unhashable ep_name)
         else case (case ep_name of PStr s \<Rightarrow> map_of available s | _ \<Rightarrow> None) of
           None \<Rightarrow> raise (not_available d ep_name (available_plugins available))
         | Some ep \<Rightarrow>
             bind (wrap_load_error (''Failed to load entry point for '' @ named @ '': '') ep) (\<lambda>factory.
             bind (wrap_load_error (''Factory for '' @ named @ '' raised: '') factory)
               (accept_plugin d)))"

abbreviation in_objects :: "('w, 'a) prog \<Rightarrow> (('w, 'h, 'e) plugin_world, 'a) prog" where
  "in_objects m \<equiv> zoom pw_objects (\<lambda>o' w. w\<lparr>pw_objects := o'\<rparr>) m"

abbreviation with_registry :: "('w \<times> 'h registry, 'a) prog \<Rightarrow> (('w, 'h, 'e) plugin_world, 'a) prog" where
  "with_registry m \<equiv>
     zoom (\<lambda>w. (pw_objects w, pw_registry w)) (\<lambda>(o', r) w. w\<lparr>pw_objects := o', pw_registry := r\<rparr>) m"

abbreviation with_bus :: "('w \<times> 'e list, 'a) prog \<Rightarrow> (('w, 'h, 'e) plugin_world, 'a) prog" where
  "with_bus m \<equiv>
     zoom (\<lambda>w. (pw_objects w, pw_bus w)) (\<lambda>(o', b) w. w\<lparr>pw_objects := o', pw_bus := b\<rparr>) m"

definition load_and_register ::
    "(string \<times> ('w, 'h, 'e) entry_point) list \<Rightarrow> plugin_declaration \<Rightarrow>
     (('w, 'h, 'e) plugin_world, unit) prog" where
  "load_and_register available d =
     bind (in_objects (load_one available d)) (\<lambda>plugin.
     bind (with_registry (pn_register plugin)) (\<lambda>_.
     bind (case pn_event_handlers plugin of None \<Rightarrow> ret () | Some f \<Rightarrow> with_bus f) (\<lambda>_.
       modify (\<lambda>w. w\<lparr>pw_plugins := pw_plugins w @ [plugin]\<rparr>))))"

definition load_plugins ::
    "(string \<times> ('w, 'h, 'e) entry_point) list \<Rightarrow> plugin_declaration list \<Rightarrow>
     (('w, 'h, 'e) plugin_world, unit) prog" where
  "load_plugins available decls = for_each (load_and_register available) decls"

definition teardown_all :: "(('w, 'h, 'e) plugin_world, unit) prog" where
  "teardown_all =
     bind (gets pw_plugins) (\<lambda>ps. for_each (\<lambda>p. suppress (in_objects (pn_teardown p))) (rev ps))"

section \<open>The Presidio masking plugin\<close>

record presidio_plugin_state =
  pps_entities :: pyval
  pps_priority :: int

definition default_priority :: int where
  "default_priority = 75"

definition new_presidio_plugin :: presidio_plugin_state where
  "new_presidio_plugin = \<lparr>pps_entities = PList [], pps_priority = default_priority\<rparr>"

definition presidio_configure :: "pyval \<Rightarrow> (presidio_plugin_state, unit) prog" where
  "presidio_configure config =
     bind (lift_res (py_get config ''entities'' (PList []))) (\<lambda>entities.
     bind (modify (\<lambda>s. s\<lparr>pps_entities := entities\<rparr>)) (\<lambda>_.
       if \<not> truthy entities then
         raise (ValueError (''presidio-masking plugin requires a non-empty '' @ quoted ''entities'' @
                  '' list in config''))
       else
         (case config of
            PDict d \<Rightarrow>
              (case map_of d ''priority'' of
                 None \<Rightarrow> ret ()
               | Some p \<Rightarrow> bind (lift_res (py_int p)) (\<lambda>n. modify (\<lambda>s. s\<lparr>pps_priority := n\<rparr>)))
          | _ \<Rightarrow> ret ())))"

text \<open>\<open>', '.join(self._entities)\<close> in the log call needs strings.\<close>

definition join_check :: "pyval \<Rightarrow> unit res" where
  "join_check v =
     res_bind (py_iter v) (\<lambda>xs.
       case find (\<lambda>(i, x). \<not> is_str x) (enumerate 0 xs) of
         None \<Rightarrow> Inr ()
       | Some (i, x) \<Rightarrow> Inl (TypeError (''sequence item '' @ nat_str i @
                             '': expected str instance, '' @ type_name x @ '' found'')))"

text \<open>\<open>mk\<close> makes the hook of a new engine from the configuration.\<close>

definition presidio_register ::
    "(presidio_config \<Rightarrow> 'h) \<Rightarrow> (presidio_plugin_state \<times> 'h registry, unit) prog" where
  "presidio_register mk =
     bind (gets fst) (\<lambda>s.
     bind (zoom snd (\<lambda>r w. (fst w, r))
             (register (pps_priority s) (mk \<lparr>pc_enabled = PBool True, pc_entities = pps_entities s\<rparr>))) (\<lambda>_.
       lift_res (join_check (pps_entities s))))"

definition presidio_masking_plugin ::
    "(presidio_config \<Rightarrow> 'h) \<Rightarrow> (presidio_plugin_state, 'h, 'e) plugin" where
  "presidio_masking_plugin mk =
     (base_plugin ''PresidioMaskingPlugin'')
       \<lparr>pn_name := ''presidio-masking'', pn_configure := presidio_configure,
        pn_register := presidio_register mk\<rparr>"

section \<open>What loading establishes\<close>

text \<open>The plugin is the one the declared entry point made, and it accepted its configuration.\<close>

definition loaded_from ::
    "(string \<times> ('w, 'h, 'e) entry_point) list \<Rightarrow> plugin_declaration \<Rightarrow> ('w, 'h, 'e) plugin \<Rightarrow> bool" where
  "loaded_from available d p \<longleftrightarrow>
     (\<exists>name ep o1 factory o2 o3 o4.
        entry_point_name d = PStr name \<and> map_of available name = Some ep \<and>
        ep o1 = (Inr factory, o2) \<and> factory o2 = (Inr (Inr p), o3) \<and>
        pn_configure p (pd_config d) o3 = (Inr (), o4))"

lemma wrap_load_error_cases:
  assumes "wrap_load_error msg m w = (r, w')"
  shows "(\<exists>x. r = Inr x \<and> m w = (Inr x, w')) \<or>
         (\<exists>e. m w = (Inl e, w') \<and> r = Inl (if is_Exception e then PluginLoadError (msg @ exn_str e) else e))"
  using assms by (auto simp: wrap_load_error_def handle_apply split: prod.splits sum.splits if_splits)

lemma wrap_load_error_ok: "wrap_load_error msg m w = (Inr x, w') \<Longrightarrow> m w = (Inr x, w')"
  using wrap_load_error_cases [of msg m w "Inr x" w'] by auto

lemma accept_plugin_ok:
  assumes "accept_plugin d obj w = (Inr p, w')"
  shows "obj = Inr p \<and> pn_configure p (pd_config d) w = (Inr (), w')"
proof (cases obj)
  case (Inr q)
  with assms have "bind (wrap_load_error (''Plugin '' @ quoted (py_str (pd_name d)) @
      '' configure() failed: '') (pn_configure q (pd_config d))) (\<lambda>_. ret q) w = (Inr p, w')"
    by (simp add: accept_plugin_def)
  then show ?thesis by (rule bind_Inr_elim) (use Inr in \<open>auto dest: wrap_load_error_ok\<close>)
qed (use assms in \<open>simp add: accept_plugin_def\<close>)

lemma load_one_ok:
  assumes "load_one available d w = (Inr p, w')"
  shows "loaded_from available d p"
proof -
  from assms obtain name ep where ep: "entry_point_name d = PStr name" "map_of available name = Some ep"
    by (auto simp: load_one_def Let_def split: if_splits option.splits pyval.splits)
  with assms obtain m1 m2 where
      "bind (wrap_load_error m1 ep) (\<lambda>factory. bind (wrap_load_error m2 factory) (accept_plugin d)) w =
         (Inr p, w')"
    by (simp add: load_one_def Let_def)
  then obtain factory obj w1 w2 where
      "wrap_load_error m1 ep w = (Inr factory, w1)" "wrap_load_error m2 factory w1 = (Inr obj, w2)"
      "accept_plugin d obj w2 = (Inr p, w')"
    by (elim bind_Inr_elim)
  then have "ep w = (Inr factory, w1)" "factory w1 = (Inr (Inr p), w2)"
      "pn_configure p (pd_config d) w2 = (Inr (), w')"
    by (auto dest: wrap_load_error_ok accept_plugin_ok)
  with ep show ?thesis unfolding loaded_from_def by blast
qed

lemma load_and_register_ok:
  assumes "load_and_register available d w = (Inr (), w')"
  shows "\<exists>p. loaded_from available d p \<and> pw_plugins w' = pw_plugins w @ [p]"
proof -
  from assms obtain p w1 w2 w3 where
      "in_objects (load_one available d) w = (Inr p, w1)"
      "with_registry (pn_register p) w1 = (Inr (), w2)"
      "(case pn_event_handlers p of None \<Rightarrow> ret () | Some f \<Rightarrow> with_bus f) w2 = (Inr (), w3)"
      "w' = w3\<lparr>pw_plugins := pw_plugins w3 @ [p]\<rparr>"
    unfolding load_and_register_def by (elim bind_Inr_elim) auto
  then show ?thesis
    by (auto simp: zoom_def dest!: load_one_ok split: prod.splits option.splits)
qed

section \<open>Properties\<close>

text \<open>Loading is all or error. When loading the plugins of a policy file returns, every declared
  plugin, in the order of the file, was made by the discovered entry point it names, accepted its
  configuration and is in the manager's list; so one that was not discovered stops the start.\<close>

theorem plugin_loading_is_complete:
  assumes "load_plugins available decls w = (Inr (), w')"
  shows "\<exists>ps. pw_plugins w' = pw_plugins w @ ps \<and> list_all2 (loaded_from available) decls ps"
  using assms unfolding load_plugins_def
proof (induction decls arbitrary: w)
  case (Cons d decls)
  then obtain w1 where one: "load_and_register available d w = (Inr (), w1)"
    and rest: "for_each (load_and_register available) decls w1 = (Inr (), w')"
    by (auto elim!: bind_Inr_elim)
  from load_and_register_ok [OF one] Cons.IH [OF rest] obtain p ps where
    "loaded_from available d p" "pw_plugins w' = pw_plugins w @ p # ps"
    "list_all2 (loaded_from available) decls ps" by auto
  then show ?case by (intro exI [of _ "p # ps"]) simp
qed simp

definition presidio_available ::
    "(string \<times> (presidio_plugin_state, presidio_config, unit) entry_point) list" where
  "presidio_available = discover
     [(''presidio-masking'', (\<lambda>_. (Inr (ret (Inr (presidio_masking_plugin id))), new_presidio_plugin)))]"

definition presidio_declaration :: "pyval \<Rightarrow> plugin_declaration" where
  "presidio_declaration entities =
     \<lparr>pd_name = PStr ''presidio-masking'', pd_package = PStr [],
      pd_config = PDict [(''entities'', entities)], pd_priority = PNone\<rparr>"

definition empty_plugin_world :: "(presidio_plugin_state, presidio_config, unit) plugin_world" where
  "empty_plugin_world =
     \<lparr>pw_objects = new_presidio_plugin, pw_registry = new_registry, pw_bus = [], pw_plugins = []\<rparr>"

definition presidio_loaded :: "unit res \<times> (presidio_plugin_state, presidio_config, unit) plugin_world" where
  "presidio_loaded =
     load_plugins presidio_available [presidio_declaration (PList [PStr ''PERSON''])] empty_plugin_world"

theorem plugin_loading_is_complete_witness:
  "\<exists>ps. pw_plugins (snd presidio_loaded) = ps \<and>
     list_all2 (loaded_from presidio_available) [presidio_declaration (PList [PStr ''PERSON''])] ps \<and>
     get_hooks (build (pw_registry (snd presidio_loaded))) =
       Inr [\<lparr>pc_enabled = PBool True, pc_entities = PList [PStr ''PERSON'']\<rparr>]"
proof -
  have "fst presidio_loaded = Inr ()" by code_simp
  then have "load_plugins presidio_available [presidio_declaration (PList [PStr ''PERSON''])]
      empty_plugin_world = (Inr (), snd presidio_loaded)"
    unfolding presidio_loaded_def by (metis prod.collapse)
  from plugin_loading_is_complete [OF this] obtain ps where
    "pw_plugins (snd presidio_loaded) = ps"
    "list_all2 (loaded_from presidio_available) [presidio_declaration (PList [PStr ''PERSON''])] ps"
    by (auto simp: empty_plugin_world_def)
  moreover have "get_hooks (build (pw_registry (snd presidio_loaded))) =
      Inr [\<lparr>pc_enabled = PBool True, pc_entities = PList [PStr ''PERSON'']\<rparr>]" by code_simp
  ultimately show ?thesis by blast
qed

text \<open>Tear-down is best effort, in reverse order of loading: every loaded plugin is torn down,
  also after another one raised.\<close>

theorem plugins_torn_down_in_reverse:
  assumes "\<forall>p \<in> set (pw_plugins w). ordinary (pn_teardown p)"
  shows "teardown_all w =
    (Inr (), w\<lparr>pw_objects := fold (\<lambda>p. snd \<circ> pn_teardown p) (rev (pw_plugins w)) (pw_objects w)\<rparr>)"
proof -
  have "for_each (\<lambda>p. suppress (in_objects (pn_teardown p))) ps v =
      (Inr (), v\<lparr>pw_objects := fold (\<lambda>p. snd \<circ> pn_teardown p) ps (pw_objects v)\<rparr>)"
    if "\<forall>p \<in> set ps. ordinary (pn_teardown p)" for ps and v :: "('a, 'b, 'c) plugin_world"
    using that
  proof (induction ps arbitrary: v)
    case (Cons p ps)
    obtain r o' where p: "pn_teardown p (pw_objects v) = (r, o')" by fastforce
    have "suppress (in_objects (pn_teardown p)) v = (Inr (), v\<lparr>pw_objects := o'\<rparr>)"
      using p Cons.prems
      by (auto simp: suppress_apply zoom_def ordinary_def split: sum.splits)
    with Cons p show ?case by (simp add: bind_apply)
  qed simp
  from this [of "rev (pw_plugins w)" w] assms show ?thesis
    by (simp add: teardown_all_def bind_apply)
qed

definition noisy_plugin :: "nat \<Rightarrow> (nat list, unit, unit) plugin" where
  "noisy_plugin k = (base_plugin ''Noisy'')\<lparr>pn_teardown := (\<lambda>ks. (Inl (ValueError ''boom''), ks @ [k]))\<rparr>"

theorem plugins_torn_down_in_reverse_witness:
  "pw_objects (snd (teardown_all \<lparr>pw_objects = [], pw_registry = new_registry, pw_bus = [],
      pw_plugins = [noisy_plugin 1, noisy_plugin 2]\<rparr>)) = [2, 1]"
  by (subst plugins_torn_down_in_reverse) (simp_all add: noisy_plugin_def base_plugin_def ordinary_def)

end
