(* ===== verification/Transport_Config.thy ===== *)
theory Transport_Config
  imports Policy_Loader
begin

text \<open>
  \<open>transport/config.py\<close> and the loader's \<open>convert_to_server_configs\<close>: the configuration of an
  upstream server, the checks of its constructor and the expansion of \<open>${VAR}\<close> references in
  header values. \<open>os.environ\<close> is a function argument. The fields filled from the policy file
  keep their dynamic type.
\<close>

datatype transport_type = T_HTTP | T_SSE | T_STDIO

fun transport_value :: "transport_type \<Rightarrow> string" where
  "transport_value T_HTTP = ''http''"
| "transport_value T_SSE = ''sse''"
| "transport_value T_STDIO = ''stdio''"

definition transport_type_of :: "pyval \<Rightarrow> transport_type res" where
  "transport_type_of v =
     (if v = PStr ''http'' then Inr T_HTTP
      else if v = PStr ''sse'' then Inr T_SSE
      else if v = PStr ''stdio'' then Inr T_STDIO
      else Inl (ValueError (py_repr v @ '' is not a valid TransportType'')))"

record server_config =
  sc_name :: pyval
  sc_transport :: transport_type
  sc_url :: pyval
  sc_command :: pyval
  sc_args :: "pyval list"
  sc_env :: pydict
  sc_max_restarts :: nat
  sc_restart_delay :: rat
  sc_timeout_seconds :: rat
  sc_max_retries :: nat
  sc_retry_delay_seconds :: rat
  sc_token_exchange :: pyval
  sc_target_audience :: pyval
  sc_required_scopes :: "pyval list"
  sc_headers :: pydict
  sc_allow_insecure :: pyval

text \<open>\<open>ServerConfig(name=..., transport=...)\<close> before \<open>__post_init__\<close>.\<close>

definition default_server_config :: "pyval \<Rightarrow> transport_type \<Rightarrow> server_config" where
  "default_server_config name transport =
     \<lparr>sc_name = name, sc_transport = transport, sc_url = PNone, sc_command = PNone, sc_args = [],
      sc_env = [], sc_max_restarts = 3, sc_restart_delay = 1, sc_timeout_seconds = 30,
      sc_max_retries = 2, sc_retry_delay_seconds = 1, sc_token_exchange = PBool False,
      sc_target_audience = PNone, sc_required_scopes = [], sc_headers = [],
      sc_allow_insecure = PBool False\<rparr>"

section \<open>Environment references\<close>

lemma drop_var_shorter [termination_simp]:
  "length (dropWhile P (tl cs)) - Suc 0 < Suc (length cs)"
  using length_dropWhile_le [of P "tl cs"] by simp

text \<open>\<open>_ENV_VAR_RE.sub(_expand, value)\<close>: the expanded text and the names of the unset variables.\<close>

fun expand_vars :: "(string \<Rightarrow> string option) \<Rightarrow> string \<Rightarrow> string \<times> string list" where
  "expand_vars env [] = ([], [])"
| "expand_vars env (c # cs) =
     (let body = takeWhile (\<lambda>d. d \<noteq> CHR ''}'') (tl cs);
          rest = dropWhile (\<lambda>d. d \<noteq> CHR ''}'') (tl cs)
      in if c = CHR ''$'' \<and> cs \<noteq> [] \<and> hd cs = CHR ''{'' \<and> body \<noteq> [] \<and> rest \<noteq> []
         then (case expand_vars env (tl rest) of (out, missing) \<Rightarrow>
                 (case env body of
                    Some v \<Rightarrow> (v @ out, missing)
                  | None \<Rightarrow> (out, body # missing)))
         else (case expand_vars env cs of (out, missing) \<Rightarrow> (c # out, missing)))"

fun expand_headers :: "(string \<Rightarrow> string option) \<Rightarrow> pyval \<Rightarrow> pydict \<Rightarrow> pydict res" where
  "expand_headers env name [] = Inr []"
| "expand_headers env name ((k, v) # d) =
     (case v of
        PStr s \<Rightarrow>
          (case expand_vars env s of (out, missing) \<Rightarrow>
             if missing \<noteq> [] then
               Inl (ValueError (''Header '' @ quoted k @ '' for server '' @ quoted (py_str name) @
                      '' references unset environment variable(s): '' @ join '', '' missing))
             else res_bind (expand_headers env name d) (\<lambda>d'. Inr ((k, PStr out) # d')))
      | _ \<Rightarrow> Inl (TypeError (''expected string or bytes-like object, got '' @ quoted (type_name v))))"

section \<open>The constructor\<close>

definition check_endpoint :: "server_config \<Rightarrow> unit res" where
  "check_endpoint c =
     (let name = quoted (py_str (sc_name c));
          url_check = (\<lambda>kind.
            if \<not> truthy (sc_url c) then
              Inl (ValueError (kind @ '' transport for '' @ name @ '' requires '' @ quoted ''url''))
            else if \<not> truthy (sc_allow_insecure c)
                 then require_https (sc_url c) (''url for '' @ name) else Inr ())
      in case sc_transport c of
           T_HTTP \<Rightarrow> url_check ''HTTP''
         | T_SSE \<Rightarrow> url_check ''SSE''
         | T_STDIO \<Rightarrow>
             if \<not> truthy (sc_command c) then
               Inl (ValueError (''stdio transport for '' @ name @ '' requires '' @ quoted ''command''))
             else Inr ())"

definition check_token_exchange :: "server_config \<Rightarrow> unit res" where
  "check_token_exchange c =
     (let name = quoted (py_str (sc_name c)) in
      if \<not> truthy (sc_token_exchange c) then Inr ()
      else if sc_transport c = T_STDIO then
        Inl (ValueError (''token_exchange is not supported for stdio transport ('' @ name @ '')''))
      else if \<not> truthy (sc_target_audience c) then
        Inl (ValueError (''token_exchange for '' @ name @ '' requires '' @ quoted ''target_audience''))
      else Inr ())"

definition make_server_config ::
    "(string \<Rightarrow> string option) \<Rightarrow> server_config \<Rightarrow> server_config res" where
  "make_server_config env c =
     res_bind (check_endpoint c) (\<lambda>_.
     res_bind
       (if sc_headers c = [] then Inr c
        else if sc_transport c = T_STDIO then
          Inl (ValueError (''headers are not supported for stdio transport ('' @
                 quoted (py_str (sc_name c)) @ '')''))
        else res_bind (expand_headers env (sc_name c) (sc_headers c))
               (\<lambda>expanded. Inr (c\<lparr>sc_headers := expanded\<rparr>))) (\<lambda>c'.
     res_bind (check_token_exchange c') (\<lambda>_. Inr c')))"

section \<open>From the policy file\<close>

text \<open>\<open>dict(v)\<close> on a mapping or a sequence of key-value pairs. Keys that are not strings, which
  Python accepts, are refused here.\<close>

fun dict_of_pairs :: "pyval list \<Rightarrow> pydict \<Rightarrow> pydict res" where
  "dict_of_pairs [] d = Inr d"
| "dict_of_pairs (x # xs) d =
     res_bind (py_iter x) (\<lambda>kv. case kv of
         [PStr k, v] \<Rightarrow> dict_of_pairs xs (dict_set k v d)
       | [k, v] \<Rightarrow> Inl (TypeError ''dictionary key is not a string'')
       | _ \<Rightarrow> Inl (ValueError ''dictionary update sequence element has wrong length; 2 is required''))"

definition py_dict :: "pyval \<Rightarrow> pydict res" where
  "py_dict v =
     (case v of PDict d \<Rightarrow> Inr d | _ \<Rightarrow> res_bind (py_iter v) (\<lambda>xs. dict_of_pairs xs []))"

definition convert_to_server_config ::
    "(string \<Rightarrow> string option) \<Rightarrow> server_definition \<Rightarrow> server_config res" where
  "convert_to_server_config env s =
     res_bind (transport_type_of (sd_transport s)) (\<lambda>t.
     res_bind (if truthy (sd_args s) then py_iter (sd_args s) else Inr []) (\<lambda>args.
     res_bind (if truthy (sd_env s) then py_dict (sd_env s) else Inr []) (\<lambda>envd.
     res_bind (if truthy (sd_headers s) then py_dict (sd_headers s) else Inr []) (\<lambda>headers.
     res_bind (if truthy (sd_required_scopes s) then py_iter (sd_required_scopes s) else Inr [])
       (\<lambda>scopes.
       make_server_config env
         ((default_server_config (sd_name s) t)
            \<lparr>sc_token_exchange := sd_token_exchange s, sc_allow_insecure := sd_allow_insecure s,
             sc_url := sd_url s, sc_command := sd_command s, sc_args := args, sc_env := envd,
             sc_headers := headers, sc_target_audience := sd_target_audience s,
             sc_required_scopes := scopes\<rparr>))))))"

definition convert_to_server_configs ::
    "(string \<Rightarrow> string option) \<Rightarrow> policy_config \<Rightarrow> server_config list res" where
  "convert_to_server_configs env pol = map_res (convert_to_server_config env) (pol_servers pol)"

section \<open>What the constructor guarantees\<close>

definition wf_server_config :: "server_config \<Rightarrow> bool" where
  "wf_server_config c \<longleftrightarrow>
     (sc_transport c \<noteq> T_STDIO \<longrightarrow>
        truthy (sc_url c) \<and> (truthy (sc_allow_insecure c) \<or> is_https (sc_url c))) \<and>
     (sc_transport c = T_STDIO \<longrightarrow>
        truthy (sc_command c) \<and> sc_headers c = [] \<and> \<not> truthy (sc_token_exchange c)) \<and>
     (truthy (sc_token_exchange c) \<longrightarrow> truthy (sc_target_audience c)) \<and>
     (\<forall>(k, v) \<in> set (sc_headers c). is_str v)"

lemma check_endpoint_ok:
  "check_endpoint c = Inr () \<longleftrightarrow>
     (case sc_transport c of
        T_STDIO \<Rightarrow> truthy (sc_command c)
      | _ \<Rightarrow> truthy (sc_url c) \<and> (truthy (sc_allow_insecure c) \<or> is_https (sc_url c)))"
  by (auto simp: check_endpoint_def Let_def require_https_ok split: transport_type.splits)

lemma check_token_exchange_ok:
  "check_token_exchange c = Inr () \<longleftrightarrow>
     (truthy (sc_token_exchange c) \<longrightarrow> sc_transport c \<noteq> T_STDIO \<and> truthy (sc_target_audience c))"
  by (auto simp: check_token_exchange_def Let_def)

lemma expand_headers_str:
  "expand_headers env name d = Inr d' \<Longrightarrow> (\<forall>(k, v) \<in> set d'. is_str v) \<and> map fst d' = map fst d"
proof (induction env name d arbitrary: d' rule: expand_headers.induct)
  case (2 env name k v d)
  then obtain s out missing where "v = PStr s" and e: "expand_vars env s = (out, missing)"
    by (cases v; cases "expand_vars env (case v of PStr s \<Rightarrow> s | _ \<Rightarrow> [])") auto
  with "2.prems" obtain d1 where "expand_headers env name d = Inr d1" "d' = (k, PStr out) # d1"
    and "missing = []"
    by (auto simp: res_simps split: if_splits)
  with "2.IH" \<open>v = PStr s\<close> e show ?case by auto
qed simp

lemma make_server_config_wf: "make_server_config env c = Inr c' \<Longrightarrow> wf_server_config c'"
  by (cases "sc_transport c")
    (auto simp: make_server_config_def res_simps check_endpoint_ok check_token_exchange_ok
      wf_server_config_def dest!: expand_headers_str split: if_splits)

lemma expand_vars_no_dollar: "CHR ''$'' \<notin> set s \<Longrightarrow> expand_vars env s = (s, [])"
  by (induction env s rule: expand_vars.induct) (auto simp: Let_def)

lemma convert_to_server_configs_wf:
  assumes "convert_to_server_configs env pol = Inr cs"
  shows "\<forall>c \<in> set cs. wf_server_config c"
proof
  fix c assume "c \<in> set cs"
  with assms obtain s where "convert_to_server_config env s = Inr c"
    by (auto simp: convert_to_server_configs_def dest: map_res_Inr_set)
  then show "wf_server_config c"
    by (auto simp: convert_to_server_config_def res_simps dest: make_server_config_wf)
qed



end
