(* ===== verification/Transport.thy ===== *)
theory Transport
  imports Transport_Config Context Effects
begin

text \<open>
  \<open>transport/base.py\<close>, \<open>http.py\<close>, \<open>sse.py\<close>, \<open>stdio.py\<close>, \<open>factory.py\<close>: the connection to one
  upstream server. The three transport classes share their state machine; they differ in what
  they open and in how they report a failure. The MCP SDK is the record \<open>mcp_sdk\<close> over the
  state \<open>'n\<close> of the world outside, \<open>'s\<close> is the type of its sessions. The background task that
  owns the connection is the flag \<open>mt_bg_task\<close> together with the session it published; the event
  \<open>Lost\<close> is its end without a request to stop (the SDK cancels it when the connection breaks).
\<close>

section \<open>State\<close>

datatype transport_state = DISCONNECTED | CONNECTING | CONNECTED | DISCONNECTING | ERROR

fun transport_state_value :: "transport_state \<Rightarrow> string" where
  "transport_state_value DISCONNECTED = ''disconnected''"
| "transport_state_value CONNECTING = ''connecting''"
| "transport_state_value CONNECTED = ''connected''"
| "transport_state_value DISCONNECTING = ''disconnecting''"
| "transport_state_value ERROR = ''error''"

record 's mcp_transport =
  mt_config :: server_config
  mt_state :: transport_state
  mt_session :: "'s option"
  mt_bg_task :: bool
  mt_stop_event :: bool
  mt_last_context :: "request_context option"

text \<open>A transport as the constructor of each of the three classes makes it.\<close>

definition create_transport :: "server_config \<Rightarrow> 's mcp_transport" where
  "create_transport cfg =
     \<lparr>mt_config = cfg, mt_state = DISCONNECTED, mt_session = None, mt_bg_task = False,
      mt_stop_event = False, mt_last_context = None\<rparr>"

text \<open>The factory. A registered class is code that may come from anywhere, so the registry and the
  construction are over any type of classes; the registry of the package has the three of its own.\<close>

datatype transport_class = StreamableHTTPTransport | SSETransport | StdioTransport

fun default_registry :: "transport_type \<Rightarrow> transport_class option" where
  "default_registry T_HTTP = Some StreamableHTTPTransport"
| "default_registry T_SSE = Some SSETransport"
| "default_registry T_STDIO = Some StdioTransport"

definition factory_create ::
    "(transport_type \<Rightarrow> 'c option) \<Rightarrow> ('c \<Rightarrow> server_config \<Rightarrow> 't) \<Rightarrow> server_config \<Rightarrow> 't res" where
  "factory_create registry new_transport cfg =
     (case registry (sc_transport cfg) of
        None \<Rightarrow> Inl (ValueError (''No transport registered for type '' @ quoted (transport_value (sc_transport cfg))))
      | Some cls \<Rightarrow> Inr (new_transport cls cfg))"

definition register_transport ::
    "transport_type \<Rightarrow> 'c \<Rightarrow> (transport_type \<Rightarrow> 'c option) \<Rightarrow> transport_type \<Rightarrow> 'c option" where
  "register_transport ty cls registry = registry(ty := Some cls)"

lemma factory_register:
  "factory_create (register_transport ty cls registry) new_transport cfg =
     (if sc_transport cfg = ty then Inr (new_transport cls cfg) else factory_create registry new_transport cfg)"
  by (simp add: factory_create_def register_transport_def)

lemma factory_default: "factory_create default_registry (\<lambda>_. create_transport) cfg = Inr (create_transport cfg)"
  by (cases "sc_transport cfg") (simp_all add: factory_create_def)

datatype endpoint =
    Remote (ep_url: pyval) (ep_headers: pydict) (ep_timeout: "rat option")
  | Local (ep_command: pyval) (ep_args: "pyval list") (ep_env: "pydict option")

record tool_result =
  tr_content :: "pyval list"
  tr_is_error :: pyval

text \<open>A tool of an upstream server: its name and its other attributes.\<close>

record mcp_tool =
  mt_name :: string
  mt_attributes :: pydict

record ('n, 's) mcp_sdk =
  sdk_check_params :: "endpoint \<Rightarrow> unit res"
  sdk_open :: "transport_type \<Rightarrow> endpoint \<Rightarrow> ('n, 's) prog"
  sdk_close :: "'s \<Rightarrow> 'n \<Rightarrow> 'n"
  sdk_list_tools :: "'s \<Rightarrow> rat \<Rightarrow> ('n, mcp_tool list) prog"
  sdk_call_tool :: "'s \<Rightarrow> string \<Rightarrow> pyval \<Rightarrow> rat \<Rightarrow> ('n, tool_result) prog"
  sdk_sleep :: "rat \<Rightarrow> 'n \<Rightarrow> 'n"
  sdk_validate :: "string \<Rightarrow> pyval \<Rightarrow> pyval res"

section \<open>Connecting\<close>

definition trace_entries :: "string \<Rightarrow> string \<Rightarrow> request_context \<Rightarrow> pydict \<Rightarrow> pydict" where
  "trace_entries corr trace ctx d =
     (let d1 = dict_set corr (PStr (correlation_id ctx)) d
      in case trace_id ctx of None \<Rightarrow> d1 | Some t \<Rightarrow> dict_set trace (PStr t) d1)"

definition http_headers :: "server_config \<Rightarrow> request_context option \<Rightarrow> pyval \<Rightarrow> pydict" where
  "http_headers cfg context auth_token =
     (let h1 = (case context of
                  None \<Rightarrow> sc_headers cfg
                | Some ctx \<Rightarrow> trace_entries ''X-Correlation-ID'' ''X-Trace-ID'' ctx (sc_headers cfg))
      in if truthy auth_token
         then dict_set ''Authorization'' (PStr (''Bearer '' @ py_str auth_token)) h1 else h1)"

definition stdio_env :: "server_config \<Rightarrow> request_context option \<Rightarrow> pydict option" where
  "stdio_env cfg context =
     (let base = (if sc_env cfg = [] then None else Some (sc_env cfg))
      in case (context, base) of
           (Some ctx, Some env) \<Rightarrow> Some (trace_entries ''MCP_CORRELATION_ID'' ''MCP_TRACE_ID'' ctx env)
         | (Some ctx, None) \<Rightarrow> Some (trace_entries ''MCP_CORRELATION_ID'' ''MCP_TRACE_ID'' ctx [])
         | (None, _) \<Rightarrow> base)"

text \<open>What each class hands to the SDK. The HTTP client of the streamable transport is made only when
  there are headers to send; without one the timeout of the configuration is not used.\<close>

definition http_endpoint :: "server_config \<Rightarrow> request_context option \<Rightarrow> pyval \<Rightarrow> endpoint" where
  "http_endpoint cfg context auth_token =
     (let headers = http_headers cfg context auth_token
      in Remote (sc_url cfg) headers (if headers = [] then None else Some (sc_timeout_seconds cfg)))"

definition sse_endpoint :: "server_config \<Rightarrow> request_context option \<Rightarrow> pyval \<Rightarrow> endpoint" where
  "sse_endpoint cfg context auth_token =
     Remote (sc_url cfg) (http_headers cfg context auth_token) (Some (sc_timeout_seconds cfg))"

definition stdio_params :: "server_config \<Rightarrow> request_context option \<Rightarrow> endpoint" where
  "stdio_params cfg context = Local (sc_command cfg) (sc_args cfg) (stdio_env cfg context)"

definition endpoint_of :: "server_config \<Rightarrow> request_context option \<Rightarrow> pyval \<Rightarrow> endpoint" where
  "endpoint_of cfg context auth_token =
     (case sc_transport cfg of
        T_STDIO \<Rightarrow> stdio_params cfg context
      | T_SSE \<Rightarrow> sse_endpoint cfg context auth_token
      | T_HTTP \<Rightarrow> http_endpoint cfg context auth_token)"

fun is_TransportConnectionError :: "exn \<Rightarrow> bool" where
  "is_TransportConnectionError (TransportConnectionError _ _ _) = True"
| "is_TransportConnectionError _ = False"

fun is_ProcessError :: "exn \<Rightarrow> bool" where
  "is_ProcessError (ProcessError _ _ _) = True"
| "is_ProcessError _ = False"

fun is_spawn_error :: "exn \<Rightarrow> bool" where
  "is_spawn_error (FileNotFoundError _) = True"
| "is_spawn_error (PermissionError _) = True"
| "is_spawn_error _ = False"

text \<open>The exception that \<open>connect\<close> raises for the one that the background task failed with.\<close>

definition remote_failure :: "server_config \<Rightarrow> string \<Rightarrow> exn \<Rightarrow> exn" where
  "remote_failure cfg cid e =
     (let name = py_str (sc_name cfg) in
      if is_TransportConnectionError e then e
      else if is_OSError e then
        TransportConnectionError (''Failed to connect to '' @ quoted name @ '' at '' @
          py_str (sc_url cfg) @ '': '' @ exn_str e) name cid
      else SessionError (''Session error for '' @ quoted name @ '': '' @ exn_str e) name cid)"

definition stdio_failure :: "server_config \<Rightarrow> string \<Rightarrow> exn \<Rightarrow> exn" where
  "stdio_failure cfg cid e =
     (let name = py_str (sc_name cfg) in
      if is_spawn_error e then
        ProcessError (''Failed to spawn '' @ quoted (py_str (sc_command cfg)) @ '' for '' @
          quoted name @ '': '' @ exn_str e) name cid
      else if is_TransportConnectionError e \<or> is_ProcessError e then e
      else if is_OSError e then
        TransportConnectionError (''Failed to connect to '' @ quoted name @ '': '' @ exn_str e) name cid
      else SessionError (''Session error for '' @ quoted name @ '': '' @ exn_str e) name cid)"

definition connect_failure :: "server_config \<Rightarrow> string \<Rightarrow> exn \<Rightarrow> exn" where
  "connect_failure cfg cid e =
     (if sc_transport cfg = T_STDIO then stdio_failure cfg cid e else remote_failure cfg cid e)"

text \<open>\<open>_cleanup_bg_task\<close>: the task ends, which clears the session it published and closes it.\<close>

definition cleanup_bg_task ::
    "('n, 's) mcp_sdk \<Rightarrow> 's mcp_transport \<times> 'n \<Rightarrow> 's mcp_transport \<times> 'n" where
  "cleanup_bg_task sdk = (\<lambda>(t, n).
     (t\<lparr>mt_session := (if mt_bg_task t then None else mt_session t),
        mt_bg_task := False, mt_stop_event := False\<rparr>,
      case mt_session t of Some s \<Rightarrow> if mt_bg_task t then sdk_close sdk s n else n | None \<Rightarrow> n))"

text \<open>Starting the background task and waiting until it is ready: it publishes its session, or it
  failed, and is cleaned up.\<close>

definition own_connection ::
    "(exn \<Rightarrow> exn) \<Rightarrow> 's mcp_transport \<Rightarrow> 's res \<times> 'n \<Rightarrow> unit res \<times> 's mcp_transport \<times> 'n" where
  "own_connection failure t opened =
     (case opened of
        (Inr s, n) \<Rightarrow> (Inr (), (t\<lparr>mt_session := Some s, mt_state := CONNECTED, mt_bg_task := True\<rparr>, n))
      | (Inl e, n) \<Rightarrow>
          (Inl (failure e), (t\<lparr>mt_session := None, mt_state := ERROR, mt_bg_task := False,
                              mt_stop_event := False\<rparr>, n)))"

definition context_cid :: "request_context option \<Rightarrow> string" where
  "context_cid context = (case context of None \<Rightarrow> [] | Some c \<Rightarrow> correlation_id c)"

definition http_connect ::
    "('n, 's) mcp_sdk \<Rightarrow> request_context option \<Rightarrow> pyval \<Rightarrow> ('s mcp_transport \<times> 'n, unit) prog" where
  "http_connect sdk context auth_token = (\<lambda>(t0, n0).
     if mt_state t0 = CONNECTED then (Inr (), (t0, n0))
     else
       (case cleanup_bg_task sdk (t0, n0) of (t1, n1) \<Rightarrow>
          let cfg = mt_config t1
          in own_connection (remote_failure cfg (context_cid context))
               (t1\<lparr>mt_state := CONNECTING, mt_stop_event := True\<rparr>)
               (sdk_open sdk T_HTTP (http_endpoint cfg context auth_token) n1)))"

definition sse_connect ::
    "('n, 's) mcp_sdk \<Rightarrow> request_context option \<Rightarrow> pyval \<Rightarrow> ('s mcp_transport \<times> 'n, unit) prog" where
  "sse_connect sdk context auth_token = (\<lambda>(t0, n0).
     if mt_state t0 = CONNECTED then (Inr (), (t0, n0))
     else
       (case cleanup_bg_task sdk (t0, n0) of (t1, n1) \<Rightarrow>
          let cfg = mt_config t1
          in own_connection (remote_failure cfg (context_cid context))
               (t1\<lparr>mt_state := CONNECTING, mt_stop_event := True\<rparr>)
               (sdk_open sdk T_SSE (sse_endpoint cfg context auth_token) n1)))"

definition stdio_connect ::
    "('n, 's) mcp_sdk \<Rightarrow> request_context option \<Rightarrow> pyval \<Rightarrow> ('s mcp_transport \<times> 'n, unit) prog" where
  "stdio_connect sdk context auth_token = (\<lambda>(t0, n0).
     if mt_state t0 = CONNECTED then (Inr (), (t0, n0))
     else
       (case cleanup_bg_task sdk (t0, n0) of (t1, n1) \<Rightarrow>
          let cfg = mt_config t1;
              t2 = (if context \<noteq> None then t1\<lparr>mt_last_context := context\<rparr> else t1);
              t3 = t2\<lparr>mt_state := CONNECTING, mt_stop_event := True\<rparr>;
              params = stdio_params cfg context
          in case sdk_check_params sdk params of
               Inl e \<Rightarrow> (Inl e, (t3, n1))
             | Inr _ \<Rightarrow> own_connection (stdio_failure cfg (context_cid context)) t3
                 (sdk_open sdk T_STDIO params n1)))"

text \<open>\<open>transport.connect(...)\<close>, by the class of the transport.\<close>

definition connect ::
    "('n, 's) mcp_sdk \<Rightarrow> request_context option \<Rightarrow> pyval \<Rightarrow> ('s mcp_transport \<times> 'n, unit) prog" where
  "connect sdk context auth_token = (\<lambda>(t, n).
     case sc_transport (mt_config t) of
       T_HTTP \<Rightarrow> http_connect sdk context auth_token (t, n)
     | T_SSE \<Rightarrow> sse_connect sdk context auth_token (t, n)
     | T_STDIO \<Rightarrow> stdio_connect sdk context auth_token (t, n))"

text \<open>The dispatch is the one of the default registry.\<close>

fun class_connect ::
    "transport_class \<Rightarrow> ('n, 's) mcp_sdk \<Rightarrow> request_context option \<Rightarrow> pyval \<Rightarrow>
     ('s mcp_transport \<times> 'n, unit) prog" where
  "class_connect StreamableHTTPTransport sdk = http_connect sdk"
| "class_connect SSETransport sdk = sse_connect sdk"
| "class_connect StdioTransport sdk = stdio_connect sdk"

lemma connect_by_class:
  assumes "default_registry (sc_transport (mt_config t)) = Some cls"
  shows "connect sdk context tok (t, n) = class_connect cls sdk context tok (t, n)"
  using assms by (cases "sc_transport (mt_config t)") (auto simp: connect_def)

lemma cleanup_config [simp]: "mt_config (fst (cleanup_bg_task sdk w)) = mt_config (fst w)"
  by (simp add: cleanup_bg_task_def split: prod.splits)

text \<open>The three classes in one equation, for the proofs that hold for all of them.\<close>

lemma connect_unfold:
  "connect sdk context auth_token = (\<lambda>(t0, n0).
     if mt_state t0 = CONNECTED then (Inr (), (t0, n0))
     else
       (case cleanup_bg_task sdk (t0, n0) of (t1, n1) \<Rightarrow>
          let cfg = mt_config t1;
              cid = (case context of None \<Rightarrow> [] | Some c \<Rightarrow> correlation_id c);
              t2 = t1\<lparr>mt_last_context := (if sc_transport cfg = T_STDIO \<and> context \<noteq> None then context
                                          else mt_last_context t1),
                      mt_state := CONNECTING, mt_stop_event := True\<rparr>;
              ep = endpoint_of cfg context auth_token
          in case (if sc_transport cfg = T_STDIO then sdk_check_params sdk ep else Inr ()) of
               Inl e \<Rightarrow> (Inl e, (t2, n1))
             | Inr _ \<Rightarrow>
                 (case sdk_open sdk (sc_transport cfg) ep n1 of
                    (Inr s, n2) \<Rightarrow>
                      (Inr (), (t2\<lparr>mt_session := Some s, mt_state := CONNECTED, mt_bg_task := True\<rparr>, n2))
                  | (Inl e, n2) \<Rightarrow>
                      (Inl (connect_failure cfg cid e),
                       (t2\<lparr>mt_session := None, mt_state := ERROR, mt_bg_task := False,
                           mt_stop_event := False\<rparr>, n2)))))" (is "_ = ?connected")
proof (rule ext)
  fix w :: "'a mcp_transport \<times> 'b"
  obtain t n t1 n1 where w: "w = (t, n)" and clean: "cleanup_bg_task sdk (t, n) = (t1, n1)"
    by (metis surj_pair)
  have cfg: "mt_config t1 = mt_config t" using cleanup_config [of sdk "(t, n)"] clean by simp
  note defs = connect_def http_connect_def sse_connect_def stdio_connect_def own_connection_def
    context_cid_def connect_failure_def endpoint_of_def Let_def
  show "connect sdk context auth_token w = ?connected w"
  proof (cases "sc_transport (mt_config t)")
    case T_STDIO
    then show ?thesis by (cases "context") (simp_all add: w clean cfg defs split: sum.split prod.split)
  qed (simp_all add: w clean cfg defs split: sum.split prod.split)
qed

text \<open>Each class has its own \<open>disconnect\<close>; the three bodies are the same.\<close>

definition http_disconnect :: "('n, 's) mcp_sdk \<Rightarrow> ('s mcp_transport \<times> 'n, unit) prog" where
  "http_disconnect sdk = (\<lambda>(t, n).
     if mt_state t \<noteq> CONNECTED \<and> mt_state t \<noteq> ERROR then (Inr (), (t, n))
     else
       (case cleanup_bg_task sdk (t\<lparr>mt_state := DISCONNECTING\<rparr>, n) of (t', n') \<Rightarrow>
          (Inr (), (t'\<lparr>mt_session := None, mt_state := DISCONNECTED\<rparr>, n'))))"

definition sse_disconnect :: "('n, 's) mcp_sdk \<Rightarrow> ('s mcp_transport \<times> 'n, unit) prog" where
  "sse_disconnect sdk = (\<lambda>(t, n).
     if mt_state t \<noteq> CONNECTED \<and> mt_state t \<noteq> ERROR then (Inr (), (t, n))
     else
       (case cleanup_bg_task sdk (t\<lparr>mt_state := DISCONNECTING\<rparr>, n) of (t', n') \<Rightarrow>
          (Inr (), (t'\<lparr>mt_session := None, mt_state := DISCONNECTED\<rparr>, n'))))"

definition stdio_disconnect :: "('n, 's) mcp_sdk \<Rightarrow> ('s mcp_transport \<times> 'n, unit) prog" where
  "stdio_disconnect sdk = (\<lambda>(t, n).
     if mt_state t \<noteq> CONNECTED \<and> mt_state t \<noteq> ERROR then (Inr (), (t, n))
     else
       (case cleanup_bg_task sdk (t\<lparr>mt_state := DISCONNECTING\<rparr>, n) of (t', n') \<Rightarrow>
          (Inr (), (t'\<lparr>mt_session := None, mt_state := DISCONNECTED\<rparr>, n'))))"

definition disconnect :: "('n, 's) mcp_sdk \<Rightarrow> ('s mcp_transport \<times> 'n, unit) prog" where
  "disconnect sdk = (\<lambda>(t, n).
     case sc_transport (mt_config t) of
       T_HTTP \<Rightarrow> http_disconnect sdk (t, n)
     | T_SSE \<Rightarrow> sse_disconnect sdk (t, n)
     | T_STDIO \<Rightarrow> stdio_disconnect sdk (t, n))"

lemma disconnect_unfold:
  "disconnect sdk = (\<lambda>(t, n).
     if mt_state t \<noteq> CONNECTED \<and> mt_state t \<noteq> ERROR then (Inr (), (t, n))
     else
       (case cleanup_bg_task sdk (t\<lparr>mt_state := DISCONNECTING\<rparr>, n) of (t', n') \<Rightarrow>
          (Inr (), (t'\<lparr>mt_session := None, mt_state := DISCONNECTED\<rparr>, n'))))"
  by (auto simp: fun_eq_iff disconnect_def http_disconnect_def sse_disconnect_def stdio_disconnect_def
      split: transport_type.split)

definition active_session :: "'s mcp_transport \<Rightarrow> 's res" where
  "active_session t =
     (case mt_session t of
        Some s \<Rightarrow>
          if mt_state t = CONNECTED then Inr s
          else Inl (TransportClosedError (''Transport to '' @ quoted (py_str (sc_name (mt_config t))) @
                 '' is not connected (state='' @ transport_state_value (mt_state t) @ '')'')
                 (py_str (sc_name (mt_config t))) [])
      | None \<Rightarrow>
          Inl (TransportClosedError (''Transport to '' @ quoted (py_str (sc_name (mt_config t))) @
                 '' is not connected (state='' @ transport_state_value (mt_state t) @ '')'')
                 (py_str (sc_name (mt_config t))) []))"

definition is_healthy :: "'s mcp_transport \<Rightarrow> bool" where
  "is_healthy t \<longleftrightarrow> mt_state t = CONNECTED \<and> mt_session t \<noteq> None"

definition reconnect ::
    "('n, 's) mcp_sdk \<Rightarrow> request_context option \<Rightarrow> ('s mcp_transport \<times> 'n, unit) prog" where
  "reconnect sdk context =
     bind (disconnect sdk) (\<lambda>_.
     bind (gets (mt_last_context \<circ> fst)) (\<lambda>last.
       connect sdk (case context of Some c \<Rightarrow> Some c | None \<Rightarrow> last) PNone))"

text \<open>\<open>async with transport: body\<close>.\<close>

definition with_transport ::
    "('n, 's) mcp_sdk \<Rightarrow> ('s mcp_transport \<times> 'n, 'a) prog \<Rightarrow> ('s mcp_transport \<times> 'n, 'a) prog" where
  "with_transport sdk body = bind (connect sdk None PNone) (\<lambda>_. finally_do body (disconnect sdk))"

text \<open>The background task ends on its own: the \<open>finally\<close> block clears the session, the state of
  the transport stays as it is.\<close>

definition connection_lost :: "'s mcp_transport \<Rightarrow> 's mcp_transport" where
  "connection_lost t = (if mt_bg_task t then t\<lparr>mt_session := None\<rparr> else t)"

section \<open>The state machine\<close>

inductive transport_step ::
    "('n, 's) mcp_sdk \<Rightarrow> 's mcp_transport \<times> 'n \<Rightarrow> 's mcp_transport \<times> 'n \<Rightarrow> bool" for sdk where
  Connect: "connect sdk context tok w = (r, w') \<Longrightarrow> transport_step sdk w w'"
| Disconnect: "disconnect sdk w = (r, w') \<Longrightarrow> transport_step sdk w w'"
| Lost: "transport_step sdk (t, n) (connection_lost t, n)"

inductive_cases transport_stepE: "transport_step sdk w w'"

inductive transport_reach :: "('n, 's) mcp_sdk \<Rightarrow> server_config \<Rightarrow> 's mcp_transport \<times> 'n \<Rightarrow> bool"
  for sdk cfg where
  Start: "transport_reach sdk cfg (create_transport cfg, n)"
| Step: "transport_reach sdk cfg w \<Longrightarrow> transport_step sdk w w' \<Longrightarrow> transport_reach sdk cfg w'"

text \<open>A session exists only while the transport is connected and its task runs; between operations
  the transport is never in the \<open>DISCONNECTING\<close> state.\<close>

definition transport_ok :: "server_config \<Rightarrow> 's mcp_transport \<Rightarrow> bool" where
  "transport_ok cfg t \<longleftrightarrow>
     mt_config t = cfg \<and> mt_state t \<noteq> DISCONNECTING \<and>
     (mt_session t \<noteq> None \<longrightarrow> mt_state t = CONNECTED \<and> mt_bg_task t) \<and>
     (mt_state t = CONNECTED \<longrightarrow> mt_bg_task t) \<and>
     (mt_state t = CONNECTING \<longrightarrow> sc_transport cfg = T_STDIO)"

lemma cleanup_fst:
  "fst (cleanup_bg_task sdk (t, n)) =
     t\<lparr>mt_session := (if mt_bg_task t then None else mt_session t), mt_bg_task := False,
       mt_stop_event := False\<rparr>"
  by (simp add: cleanup_bg_task_def)

lemma connect_cases:
  assumes "connect sdk context tok (t, n) = (r, (t', n'))"
  obtains (already) "mt_state t = CONNECTED" "t' = t" "n' = n" "r = Inr ()"
    | (refused) e where "mt_state t \<noteq> CONNECTED" "sc_transport (mt_config t) = T_STDIO" "r = Inl e"
        "mt_state t' = CONNECTING" "mt_config t' = mt_config t" "\<not> mt_bg_task t'"
        "mt_session t' = (if mt_bg_task t then None else mt_session t)"
    | (opened) s where "mt_state t \<noteq> CONNECTED" "r = Inr ()" "mt_state t' = CONNECTED"
        "mt_session t' = Some s" "mt_bg_task t'" "mt_config t' = mt_config t"
    | (failed) e where "mt_state t \<noteq> CONNECTED" "r = Inl (connect_failure (mt_config t)
          (case context of None \<Rightarrow> [] | Some c \<Rightarrow> correlation_id c) e)"
        "mt_state t' = ERROR" "mt_session t' = None" "\<not> mt_bg_task t'" "mt_config t' = mt_config t"
proof (cases "mt_state t = CONNECTED")
  case True
  with assms show ?thesis by (intro already) (simp_all add: connect_unfold)
next
  case False
  let ?ep = "endpoint_of (mt_config t) context tok"
  let ?n1 = "snd (cleanup_bg_task sdk (t, n))"
  let ?chk = "if sc_transport (mt_config t) = T_STDIO then sdk_check_params sdk ?ep else Inr ()"
  show ?thesis
  proof (cases ?chk)
    case (Inl e)
    with False assms show ?thesis
      by (intro refused [of e])
        (auto simp: connect_unfold Let_def cleanup_bg_task_def split: if_splits)
  next
    case (Inr u)
    obtain r2 n2 where o: "sdk_open sdk (sc_transport (mt_config t)) ?ep ?n1 = (r2, n2)" by fastforce
    show ?thesis
    proof (cases r2)
      case (Inl e)
      with False Inr o assms show ?thesis
        by (intro failed [of e]) (auto simp: connect_unfold Let_def cleanup_bg_task_def split: if_splits)
    next
      case (Inr s)
      with False \<open>?chk = Inr u\<close> o assms show ?thesis
        by (intro opened [of s]) (auto simp: connect_unfold Let_def cleanup_bg_task_def split: if_splits)
    qed
  qed
qed

lemma disconnect_cases:
  assumes "disconnect sdk (t, n) = (r, (t', n'))"
  shows "r = Inr () \<and> mt_config t' = mt_config t \<and>
    (if mt_state t = CONNECTED \<or> mt_state t = ERROR
     then mt_state t' = DISCONNECTED \<and> mt_session t' = None \<and> \<not> mt_bg_task t'
     else t' = t \<and> n' = n)"
  using assms by (auto simp: disconnect_unfold cleanup_bg_task_def split: if_splits)

lemma transport_step_ok:
  assumes "transport_step sdk (t, n) (t', n')" and "transport_ok cfg t"
  shows "transport_ok cfg t'"
  using assms(1)
proof (cases rule: transport_step.cases)
  case (Connect ctx tok r)
  then have "connect sdk ctx tok (t, n) = (r, (t', n'))" by simp
  then show ?thesis
    by (cases rule: connect_cases) (use assms(2) in \<open>auto simp: transport_ok_def\<close>)
next
  case (Disconnect r)
  then have "disconnect sdk (t, n) = (r, (t', n'))" by simp
  from disconnect_cases [OF this] assms(2) show ?thesis
    by (auto simp: transport_ok_def split: if_splits)
next
  case Lost
  with assms(2) show ?thesis by (auto simp: transport_ok_def connection_lost_def)
qed

lemma transport_reach_ok:
  "transport_reach sdk cfg w \<Longrightarrow> transport_ok cfg (fst w)"
proof (induction rule: transport_reach.induct)
  case (Start n)
  then show ?case by (simp add: transport_ok_def create_transport_def)
next
  case (Step w w')
  then show ?case by (cases w; cases w') (auto dest: transport_step_ok)
qed

text \<open>However a scope ends, it leaves no session behind.\<close>

lemma disconnect_no_session:
  assumes "disconnect sdk (t, n) = (r, (t', n'))" and "transport_ok cfg t"
  shows "mt_session t' = None \<and> mt_state t' \<noteq> CONNECTED"
  using disconnect_cases [OF assms(1)] assms(2) by (auto simp: transport_ok_def split: if_splits)

lemma scope_leaves_no_session:
  assumes "with_transport sdk body (t, n) = (r, (t', n'))" and "transport_ok cfg t"
    and "keeps (\<lambda>w. transport_ok cfg (fst w)) body"
  shows "mt_session t' = None"
proof -
  obtain rc t1 n1 where c: "connect sdk None PNone (t, n) = (rc, (t1, n1))"
    by (cases "connect sdk None PNone (t, n)") auto
  have ok: "transport_ok cfg t1" using transport_step_ok [OF transport_step.Connect [OF c] assms(2)] .
  show ?thesis
  proof (cases rc)
    case (Inl e)
    from c show ?thesis
      by (cases rule: connect_cases)
        (use Inl c assms(1,2) in \<open>auto simp: with_transport_def bind_apply transport_ok_def\<close>)
  next
    case (Inr u)
    obtain rb t2 n2 where b: "body (t1, n1) = (rb, (t2, n2))" by (cases "body (t1, n1)") auto
    obtain rd t3 n3 where d: "disconnect sdk (t2, n2) = (rd, (t3, n3))"
      by (cases "disconnect sdk (t2, n2)") auto
    have "transport_ok cfg t2" using keepsD [OF assms(3), of "(t1, n1)"] ok b by simp
    from disconnect_no_session [OF d this] show ?thesis
      using assms(1) c Inr b d
      by (auto simp: with_transport_def bind_apply finally_do_def split: sum.splits)
  qed
qed

section \<open>Properties\<close>

text \<open>An SDK whose sessions are the endpoints they were opened with; nothing listens on the server
  named \<open>down\<close>.\<close>

definition toy_sdk :: "(nat, endpoint) mcp_sdk" where
  "toy_sdk =
     \<lparr>sdk_check_params = (\<lambda>_. Inr ()),
      sdk_open = (\<lambda>_ ep n. case ep of
         Remote url _ _ \<Rightarrow> if url = PStr ''https://down'' then (Inl (OSError ''refused''), n) else (Inr ep, n)
       | Local _ _ _ \<Rightarrow> (Inr ep, n)),
      sdk_close = (\<lambda>_ n. n),
      sdk_list_tools = (\<lambda>_ _. ret [\<lparr>mt_name = ''read_file'', mt_attributes = []\<rparr>,
                                   \<lparr>mt_name = ''delete_file'', mt_attributes = []\<rparr>]),
      sdk_call_tool = (\<lambda>s tool args _ n.
         (Inr \<lparr>tr_content = [PDict [(''type'', PStr ''text''), (''text'', PStr tool)]],
               tr_is_error = PBool False\<rparr>, n + 1)),
      sdk_sleep = (\<lambda>_ n. n),
      sdk_validate = (\<lambda>_ v. Inr v)\<rparr>"

definition toy_server :: "string \<Rightarrow> server_config" where
  "toy_server name = (default_server_config (PStr name) T_HTTP)\<lparr>sc_url := PStr (''https://'' @ name)\<rparr>"

definition toy_connected :: "endpoint mcp_transport \<times> nat" where
  "toy_connected = snd (connect toy_sdk None PNone (create_transport (toy_server ''files''), 0))"

text \<open>C32: over every sequence of connects, disconnects and lost connections, a transport has a
  session only while it is connected and its background task runs, and it never rests in the
  state \<open>disconnecting\<close>.\<close>

theorem transport_state_invariant:
  assumes "transport_reach sdk cfg (t, n)"
  shows "mt_config t = cfg \<and> mt_state t \<noteq> DISCONNECTING \<and>
    (mt_session t \<noteq> None \<longrightarrow> mt_state t = CONNECTED \<and> mt_bg_task t) \<and>
    (mt_state t = CONNECTED \<longrightarrow> mt_bg_task t)"
  using transport_reach_ok [OF assms] by (simp add: transport_ok_def)

theorem transport_state_invariant_witness:
  "mt_state (fst toy_connected) = CONNECTED \<and> mt_bg_task (fst toy_connected)"
proof -
  have "connect toy_sdk None PNone (create_transport (toy_server ''files''), 0) =
      (fst (connect toy_sdk None PNone (create_transport (toy_server ''files''), 0)), toy_connected)"
    by (simp add: toy_connected_def)
  then have reach: "transport_reach toy_sdk (toy_server ''files'') toy_connected"
    by (blast intro: transport_reach.intros transport_step.intros)
  have "mt_state (fst toy_connected) = CONNECTED" by code_simp
  with transport_state_invariant [of toy_sdk "toy_server ''files''" "fst toy_connected" "snd toy_connected"]
    reach show ?thesis by simp
qed

text \<open>\<open>connect\<close> on a transport that is not connected either leaves it healthy, with a session to
  use, or raises: a transport error that names the server, and the transport in state \<open>error\<close>
  without a session (a stdio transport whose parameters the SDK rejects raises what the SDK does).\<close>

theorem connect_establishes_or_raises:
  assumes "transport_ok cfg t" and "mt_state t \<noteq> CONNECTED"
    and "connect sdk context tok (t, n) = (r, (t', n'))"
  shows "(r = Inr () \<and> is_healthy t' \<and> (\<exists>s. active_session t' = Inr s)) \<or>
    (\<exists>e. r = Inl (connect_failure cfg (case context of None \<Rightarrow> [] | Some c \<Rightarrow> correlation_id c) e) \<and>
       is_TransportError (connect_failure cfg (case context of None \<Rightarrow> [] | Some c \<Rightarrow> correlation_id c) e) \<and>
       mt_state t' = ERROR \<and> mt_session t' = None) \<or>
    (sc_transport cfg = T_STDIO \<and> (\<exists>e. r = Inl e) \<and> mt_state t' = CONNECTING \<and> mt_session t' = None)"
  using assms(3)
proof (cases rule: connect_cases)
  case already
  with assms(2) show ?thesis by simp
next
  case (refused e)
  with assms(1) show ?thesis by (auto simp: transport_ok_def)
next
  case (opened s)
  then show ?thesis by (simp add: is_healthy_def active_session_def)
next
  case (failed e)
  have "is_TransportError (connect_failure cfg c e)" for c
    by (cases e) (simp_all add: connect_failure_def stdio_failure_def remote_failure_def Let_def)
  with failed assms(1) show ?thesis by (auto simp: transport_ok_def)
qed

theorem connect_establishes_or_raises_witness:
  "is_healthy (fst toy_connected) \<or> mt_session (fst toy_connected) = None"
proof -
  have ok: "transport_ok (toy_server ''files'') (create_transport (toy_server ''files'') :: endpoint mcp_transport)"
    by (simp add: transport_ok_def create_transport_def)
  obtain r t n where c: "connect toy_sdk None PNone (create_transport (toy_server ''files''), 0) = (r, (t, n))"
    by (metis surj_pair)
  from connect_establishes_or_raises [OF ok _ c] show ?thesis
    by (auto simp: create_transport_def toy_connected_def c [unfolded create_transport_def])
qed

text \<open>A lost connection is not noticed. When the background task of a connected transport ends
  on its own, the state stays \<open>connected\<close> without a session: \<open>connect\<close> does nothing from then on,
  and every access to the session raises \<open>TransportClosedError\<close>, until someone disconnects.\<close>

theorem lost_connection_is_not_reopened:
  assumes "transport_ok cfg t" and "is_healthy t"
  shows "connect sdk context tok (connection_lost t, n) = (Inr (), (connection_lost t, n)) \<and>
    \<not> is_healthy (connection_lost t) \<and>
    (\<exists>m. active_session (connection_lost t) = Inl (TransportClosedError m (py_str (sc_name cfg)) []))"
  using assms
  by (auto simp: transport_ok_def is_healthy_def connection_lost_def connect_unfold active_session_def)

theorem lost_connection_is_not_reopened_witness:
  "\<exists>m. active_session (connection_lost (fst toy_connected)) = Inl (TransportClosedError m ''files'' [])"
proof -
  have "transport_ok (toy_server ''files'') (fst toy_connected)" "is_healthy (fst toy_connected)"
    by (code_simp, code_simp)
  from lost_connection_is_not_reopened [OF this, of toy_sdk None PNone 0] show ?thesis
    by (simp add: toy_server_def default_server_config_def)
qed

end
