(* ===== verification/Tool_Router.thy ===== *)
theory Tool_Router
  imports Transport
begin

text \<open>
  \<open>proxy/tool_router.py\<close>: the names under which the tools of the upstream servers are published.
  The lemmas characterise \<open>split(sep, 1)\<close> by the first occurrence of the separator.
\<close>

definition separator :: string where
  "separator = ''__''"

definition namespace_tool :: "string \<Rightarrow> string \<Rightarrow> string" where
  "namespace_tool srv tool = srv @ separator @ tool"

definition parse_tool :: "string \<Rightarrow> (string \<times> string) res" where
  "parse_tool name =
     (case split1 separator name of
        [srv, tool] \<Rightarrow>
          if srv = [] \<or> tool = [] then
            Inl (RoutingError (''Invalid namespaced tool name: '' @ quoted name @ '' (expected '' @
                   quoted ''server__tool'' @ '')'') [] [])
          else Inr (srv, tool)
      | _ \<Rightarrow> Inl (RoutingError (''Invalid namespaced tool name: '' @ quoted name @ '' (expected '' @
                quoted ''server__tool'' @ '')'') [] []))"

definition namespace_tools :: "string \<Rightarrow> mcp_tool list \<Rightarrow> mcp_tool list" where
  "namespace_tools srv tools = map (\<lambda>t. t\<lparr>mt_name := namespace_tool srv (mt_name t)\<rparr>) tools"

lemma prefix_butlast:
  assumes "prefix sep (c # a @ sep @ b)" and "sep \<noteq> []"
  shows "prefix sep (c # a @ butlast sep)"
proof -
  have "c # a @ sep @ b = (c # a @ butlast sep) @ last sep # b"
    using assms(2) by simp
  then have "prefix (c # a @ butlast sep) (c # a @ sep @ b)" by (metis prefixI)
  moreover have "length sep \<le> length (c # a @ butlast sep)" using assms(2) by simp
  ultimately show ?thesis using assms(1) by (blast intro: prefix_length_prefix)
qed

lemma split1_first:
  assumes "\<not> contains sep (a @ butlast sep)" and "sep \<noteq> []"
  shows "split1 sep (a @ sep @ b) = [a, b]"
  using assms(1)
proof (induction a)
  case Nil
  from assms(2) obtain x xs where "sep = x # xs" by (cases sep) auto
  then show ?case by simp
next
  case (Cons c a)
  from Cons.prems have no: "\<not> prefix sep (c # a @ butlast sep)" "\<not> contains sep (a @ butlast sep)"
    by (simp_all add: contains_def sublist_Cons_right)
  have "\<not> prefix sep (c # a @ sep @ b)"
    using no(1) prefix_butlast [of sep c a b] assms(2) by argo
  then show ?case by (simp only: append_Cons split1.simps if_False Cons.IH [OF no(2)] list.case)
qed

lemma split1_cases:
  assumes "sep \<noteq> []"
  shows "\<not> contains sep s \<and> split1 sep s = [s] \<or>
    (\<exists>a b. s = a @ sep @ b \<and> split1 sep s = [a, b] \<and> \<not> contains sep (a @ butlast sep))"
proof (induction s)
  case Nil
  from assms show ?case by (simp add: contains_def)
next
  case (Cons c s)
  show ?case
  proof (cases "prefix sep (c # s)")
    case True
    then obtain b where b: "c # s = sep @ b" by (auto simp: prefix_def)
    have "\<not> contains sep (butlast sep)"
      using assms sublist_length_le [of sep "butlast sep"] by (cases sep) (auto simp: contains_def)
    moreover have "split1 sep (c # s) = [[], b]"
      using True by (simp only: split1.simps if_True) (simp add: b)
    ultimately show ?thesis
      using b by (intro disjI2 exI [of _ "[]"] exI [of _ b] conjI) simp_all
  next
    case False
    from Cons.IH show ?thesis
    proof
      assume "\<not> contains sep s \<and> split1 sep s = [s]"
      with False show ?thesis by (simp add: contains_def sublist_Cons_right)
    next
      assume "\<exists>a b. s = a @ sep @ b \<and> split1 sep s = [a, b] \<and> \<not> contains sep (a @ butlast sep)"
      then obtain a b where ab: "s = a @ sep @ b" "split1 sep s = [a, b]"
        "\<not> contains sep (a @ butlast sep)" by blast
      have "\<not> prefix sep (c # a @ butlast sep)"
      proof
        assume "prefix sep (c # a @ butlast sep)"
        moreover have "c # s = (c # a @ butlast sep) @ last sep # b"
          using ab(1) assms by simp
        ultimately have "prefix sep (c # s)" by (metis prefix_prefix)
        with False show False ..
      qed
      with ab have "\<not> contains sep ((c # a) @ butlast sep)"
        by (simp add: contains_def sublist_Cons_right)
      with ab False show ?thesis
        by (intro disjI2 exI [of _ "c # a"] exI [of _ b]) simp
    qed
  qed
qed

lemma parse_tool_inverse:
  assumes "parse_tool name = Inr (srv, tool)"
  shows "name = namespace_tool srv tool \<and> srv \<noteq> [] \<and> tool \<noteq> [] \<and>
         split1 separator name = [srv, tool]"
proof -
  have "separator \<noteq> []" by (simp add: separator_def)
  from split1_cases [OF this, of name] assms show ?thesis
    by (auto simp: parse_tool_def namespace_tool_def split: if_splits)
qed

lemma parse_namespace:
  assumes "srv \<noteq> []" and "tool \<noteq> []" and "\<not> contains separator (srv @ ''_'')"
  shows "parse_tool (namespace_tool srv tool) = Inr (srv, tool)"
proof -
  have "butlast separator = ''_''" "separator \<noteq> []" by (simp_all add: separator_def)
  with assms show ?thesis
    by (simp add: parse_tool_def namespace_tool_def split1_first)
qed

text \<open>C33: routing round trip. A published name is parsed back to its server and tool exactly when
  both are non-empty and the server name neither contains the separator nor ends in an
  underscore; and whatever name parses, it is the published name of what it parses to.\<close>

theorem tool_name_round_trip:
  "(parse_tool (namespace_tool srv tool) = Inr (srv, tool) \<longleftrightarrow>
      srv \<noteq> [] \<and> tool \<noteq> [] \<and> \<not> contains separator (srv @ ''_'')) \<and>
   (\<forall>name. parse_tool name = Inr (srv, tool) \<longrightarrow> name = namespace_tool srv tool)"
proof (intro conjI iffI allI impI)
  assume p: "parse_tool (namespace_tool srv tool) = Inr (srv, tool)"
  show "srv \<noteq> []" "tool \<noteq> []" using parse_tool_inverse [OF p] by simp_all
  have sep: "separator \<noteq> []" "butlast separator = ''_''" by (simp_all add: separator_def)
  from split1_cases [OF sep(1), of "namespace_tool srv tool"] parse_tool_inverse [OF p] sep(2)
  show "\<not> contains separator (srv @ ''_'')" by auto
qed (auto intro: parse_namespace dest: parse_tool_inverse)

theorem tool_name_round_trip_witness:
  "parse_tool ''files__read__all'' = Inr (''files'', ''read__all'') \<and>
   namespace_tool ''files'' ''read__all'' = ''files__read__all''"
proof -
  have p: "parse_tool ''files__read__all'' = Inr (''files'', ''read__all'')" by code_simp
  with tool_name_round_trip [of "''files''" "''read__all''"] show ?thesis by metis
qed

end
