(* ===== verification/Keyed_Map.thy ===== *)
theory Keyed_Map
  imports PyOps
begin

text \<open>
  Dictionaries whose keys are dataclass instances with dynamic fields: two keys are the same
  key when Python's \<open>==\<close> says so. The locale \<open>key_equality\<close> is what the dictionaries need of
  that equality on the keys that occur; the token cache and the connection pool interpret it.
\<close>

fun lookup_by :: "('k \<Rightarrow> 'k \<Rightarrow> bool) \<Rightarrow> 'k \<Rightarrow> ('k \<times> 'v) list \<Rightarrow> 'v option" where
  "lookup_by eq k [] = None"
| "lookup_by eq k ((k', v) # m) = (if eq k' k then Some v else lookup_by eq k m)"

text \<open>\<open>d[k] = v\<close>: a key that is there keeps its place and its own representative.\<close>

fun update_by :: "('k \<Rightarrow> 'k \<Rightarrow> bool) \<Rightarrow> 'k \<Rightarrow> 'v \<Rightarrow> ('k \<times> 'v) list \<Rightarrow> ('k \<times> 'v) list" where
  "update_by eq k v [] = [(k, v)]"
| "update_by eq k v ((k', v') # m) =
     (if eq k' k then (k', v) # m else (k', v') # update_by eq k v m)"

text \<open>\<open>d.pop(k, None)\<close>.\<close>

fun delete_by :: "('k \<Rightarrow> 'k \<Rightarrow> bool) \<Rightarrow> 'k \<Rightarrow> ('k \<times> 'v) list \<Rightarrow> ('k \<times> 'v) list" where
  "delete_by eq k [] = []"
| "delete_by eq k ((k', v') # m) = (if eq k' k then m else (k', v') # delete_by eq k m)"

section \<open>Equality of hashable values\<close>

text \<open>The class of a hashable value under \<open>==\<close>.\<close>

fun canon :: "pyval \<Rightarrow> pyval" where
  "canon (PBool b) = PFloat (if b then 1 else 0)"
| "canon (PInt i) = PFloat (of_int i)"
| "canon v = v"

lemma py_eq_canon: "is_hashable a \<Longrightarrow> is_hashable b \<Longrightarrow> py_eq a b \<longleftrightarrow> canon a = canon b"
  by (cases a; cases b) auto

locale key_equality =
  fixes eq :: "'k \<Rightarrow> 'k \<Rightarrow> bool" and valid :: "'k \<Rightarrow> bool"
  assumes eq_refl: "valid k \<Longrightarrow> eq k k"
    and eq_sym: "valid j \<Longrightarrow> valid k \<Longrightarrow> eq j k \<Longrightarrow> eq k j"
    and eq_trans: "valid i \<Longrightarrow> valid j \<Longrightarrow> valid k \<Longrightarrow> eq i j \<Longrightarrow> eq j k \<Longrightarrow> eq i k"
begin

definition valid_keys :: "('k \<times> 'v) list \<Rightarrow> bool" where
  "valid_keys m \<longleftrightarrow> (\<forall>k \<in> fst ` set m. valid k)"

lemma valid_keys_simps [simp]:
  "valid_keys []"
  "valid_keys ((k, v) # m) \<longleftrightarrow> valid k \<and> valid_keys m"
  by (auto simp: valid_keys_def)

lemma valid_keys_update: "valid k \<Longrightarrow> valid_keys m \<Longrightarrow> valid_keys (update_by eq k v m)"
  by (induction m) auto

lemma valid_keys_delete: "valid_keys m \<Longrightarrow> valid_keys (delete_by eq k m)"
  by (induction m) auto

lemma eq_cong:
  "valid i \<Longrightarrow> valid j \<Longrightarrow> valid k \<Longrightarrow> eq i j \<Longrightarrow> eq i k \<longleftrightarrow> eq j k"
  by (blast intro: eq_sym eq_trans)

lemma lookup_update:
  assumes "valid j" and "valid k" and "valid_keys m"
  shows "lookup_by eq k (update_by eq j v m) = (if eq j k then Some v else lookup_by eq k m)"
  using assms(3)
proof (induction m)
  case Nil
  then show ?case by simp
next
  case (Cons p m)
  obtain i w where p: "p = (i, w)" by fastforce
  with Cons have i: "valid i" by simp
  have "eq i j \<Longrightarrow> eq i k \<longleftrightarrow> eq j k" and "eq j k \<Longrightarrow> eq i k \<longleftrightarrow> eq i j"
    using i assms(1,2) by (blast intro: eq_sym eq_trans)+
  with Cons p show ?case by auto
qed

lemma lookup_In: "lookup_by eq k m = Some v \<Longrightarrow> \<exists>j. (j, v) \<in> set m \<and> eq j k"
  by (induction m) (auto split: if_splits)

lemma update_In:
  "(i, w) \<in> set (update_by eq k v m) \<Longrightarrow> (i, w) \<in> set m \<or> w = v \<and> (i = k \<or> eq i k \<and> i \<in> fst ` set m)"
  by (induction m) (auto split: if_splits)

lemma delete_In: "p \<in> set (delete_by eq k m) \<Longrightarrow> p \<in> set m"
  by (induction m) (auto split: if_splits)

end

end
