(* ===== verification/Server_Manager.thy ===== *)
theory Server_Manager
  imports Transport Keyed_Map
begin

text \<open>
  \<open>proxy/server_manager.py\<close>: the pool of transports, one per server and authenticated subject.
  The per-key locks only serialise concurrent requests for one key; each operation here is one
  such critical section. The pool's state is the association list of transports and the state
  \<open>'n\<close> of the world outside.
\<close>

section \<open>The pool\<close>

record session_key =
  sk_server_name :: string
  sk_subject_id :: pyval

definition session_key_eq :: "session_key \<Rightarrow> session_key \<Rightarrow> bool" where
  "session_key_eq j k \<longleftrightarrow>
     sk_server_name j = sk_server_name k \<and> py_eq (sk_subject_id j) (sk_subject_id k)"

definition hashable_session :: "session_key \<Rightarrow> bool" where
  "hashable_session k = is_hashable (sk_subject_id k)"

record ('n, 's) manager_state =
  sm_transports :: "(session_key \<times> 's mcp_transport) list"
  sm_net :: 'n

text \<open>\<open>{c.name: c for c in configs}\<close>: the last configuration of a name counts. A name that is
  not a string is left out of the table: no call can reach its server, since the server part of a
  tool name is a string. (Listing tools would ask such a server and show names that cannot be called.)\<close>

definition config_table :: "server_config list \<Rightarrow> (string \<times> server_config) list" where
  "config_table cs =
     fold (\<lambda>c d. case sc_name c of PStr n \<Rightarrow> dict_set n c d | _ \<Rightarrow> d) cs []"

definition server_names :: "(string \<times> server_config) list \<Rightarrow> string list" where
  "server_names configs = map fst configs"

definition get_config :: "(string \<times> server_config) list \<Rightarrow> string \<Rightarrow> server_config res" where
  "get_config configs srv =
     (case map_of configs srv of
        Some c \<Rightarrow> Inr c
      | None \<Rightarrow> Inl (RoutingError (''No configuration for server '' @ quoted srv) srv []))"

definition session_key_for :: "string \<Rightarrow> request_context option \<Rightarrow> session_key" where
  "session_key_for srv context =
     \<lparr>sk_server_name = srv,
      sk_subject_id = (case context of
          None \<Rightarrow> PNone
        | Some ctx \<Rightarrow> (case identity ctx of None \<Rightarrow> PNone | Some u \<Rightarrow> ui_user_id u))\<rparr>"

text \<open>Run a method of the transport stored under a key.\<close>

definition on_transport ::
    "session_key \<Rightarrow> 's mcp_transport \<Rightarrow> ('s mcp_transport \<times> 'n, 'a) prog \<Rightarrow>
     (('n, 's) manager_state, 'a) prog" where
  "on_transport key t m = (\<lambda>s.
     case m (t, sm_net s) of
       (r, (t', n')) \<Rightarrow>
         (r, s\<lparr>sm_transports := update_by session_key_eq key t' (sm_transports s), sm_net := n'\<rparr>))"

definition get_session ::
    "('n, 's) mcp_sdk \<Rightarrow> (string \<times> server_config) list \<Rightarrow> string \<Rightarrow> request_context option \<Rightarrow> pyval \<Rightarrow>
     (('n, 's) manager_state, 's) prog" where
  "get_session sdk configs srv context auth_token =
     bind (lift_res (get_config configs srv)) (\<lambda>config.
       let key = session_key_for srv context in
       if \<not> hashable_session key then raise (unhashable (sk_subject_id key))
       else
         bind (gets (lookup_by session_key_eq key \<circ> sm_transports)) (\<lambda>known.
           let t = (case known of Some t \<Rightarrow> t | None \<Rightarrow> create_transport config) in
           bind (on_transport key t
                   (if mt_state t \<noteq> CONNECTED then connect sdk context auth_token else ret ())) (\<lambda>_.
           bind (gets (lookup_by session_key_eq key \<circ> sm_transports)) (\<lambda>now.
             lift_res (active_session (case now of Some t' \<Rightarrow> t' | None \<Rightarrow> t))))))"

definition pop_and_disconnect ::
    "('n, 's) mcp_sdk \<Rightarrow> session_key \<Rightarrow> (('n, 's) manager_state, unit) prog" where
  "pop_and_disconnect sdk key =
     bind (gets (lookup_by session_key_eq key \<circ> sm_transports)) (\<lambda>known.
     bind (modify (\<lambda>s. s\<lparr>sm_transports := delete_by session_key_eq key (sm_transports s)\<rparr>)) (\<lambda>_.
       case known of
         None \<Rightarrow> ret ()
       | Some t \<Rightarrow> (\<lambda>s. case disconnect sdk (t, sm_net s) of (r, (t', n')) \<Rightarrow> (r, s\<lparr>sm_net := n'\<rparr>))))"

definition manager_disconnect ::
    "('n, 's) mcp_sdk \<Rightarrow> string \<Rightarrow> (('n, 's) manager_state, unit) prog" where
  "manager_disconnect sdk srv =
     bind (gets (\<lambda>s. filter (\<lambda>k. sk_server_name k = srv) (map fst (sm_transports s)))) (\<lambda>keys.
       for_each (pop_and_disconnect sdk) keys)"

definition disconnect_all :: "('n, 's) mcp_sdk \<Rightarrow> (('n, 's) manager_state, unit) prog" where
  "disconnect_all sdk =
     bind (gets (\<lambda>s. map fst (sm_transports s))) (\<lambda>keys.
       for_each (\<lambda>k. suppress (pop_and_disconnect sdk k)) keys)"

section \<open>Keys\<close>

lemma session_key_eq_canon:
  "hashable_session j \<Longrightarrow> hashable_session k \<Longrightarrow> session_key_eq j k \<longleftrightarrow>
     sk_server_name j = sk_server_name k \<and> canon (sk_subject_id j) = canon (sk_subject_id k)"
  by (simp add: session_key_eq_def hashable_session_def py_eq_canon)

interpretation pool: key_equality session_key_eq hashable_session
  by unfold_locales (auto simp: session_key_eq_canon)

section \<open>Isolation\<close>

text \<open>An SDK whose sessions remember the endpoint they were opened with.\<close>

definition tagging_sdk :: "('n, 's) mcp_sdk \<Rightarrow> ('n, endpoint \<times> 's) mcp_sdk" where
  "tagging_sdk sdk =
     \<lparr>sdk_check_params = sdk_check_params sdk,
      sdk_open = (\<lambda>ty ep. bind (sdk_open sdk ty ep) (\<lambda>s. ret (ep, s))),
      sdk_close = (\<lambda>s. sdk_close sdk (snd s)),
      sdk_list_tools = (\<lambda>s. sdk_list_tools sdk (snd s)),
      sdk_call_tool = (\<lambda>s. sdk_call_tool sdk (snd s)),
      sdk_sleep = sdk_sleep sdk, sdk_validate = sdk_validate sdk\<rparr>"

text \<open>An endpoint opened for a request of the same subject, with the token of that request.\<close>

definition opened_for ::
    "(string \<times> server_config) list \<Rightarrow> session_key \<Rightarrow> endpoint \<Rightarrow> bool" where
  "opened_for configs key ep \<longleftrightarrow>
     (\<exists>cfg context tok. get_config configs (sk_server_name key) = Inr cfg \<and>
        ep = endpoint_of cfg context tok \<and> hashable_session (session_key_for (sk_server_name key) context) \<and>
        session_key_eq key (session_key_for (sk_server_name key) context))"

definition pool_ok ::
    "(string \<times> server_config) list \<Rightarrow> ('n, endpoint \<times> 's) manager_state \<Rightarrow> bool" where
  "pool_ok configs s \<longleftrightarrow>
     (\<forall>(k, t) \<in> set (sm_transports s). hashable_session k \<and>
        get_config configs (sk_server_name k) = Inr (mt_config t) \<and>
        (\<forall>ep x. mt_session t = Some (ep, x) \<longrightarrow> opened_for configs k ep))"

lemma opened_for_cong:
  assumes "session_key_eq j k" and "hashable_session j" and "hashable_session k"
    and "opened_for configs k ep"
  shows "opened_for configs j ep"
proof -
  from assms(4) obtain cfg ctx tok where
      c: "get_config configs (sk_server_name k) = Inr cfg" "ep = endpoint_of cfg ctx tok"
         "hashable_session (session_key_for (sk_server_name k) ctx)"
         "session_key_eq k (session_key_for (sk_server_name k) ctx)"
    by (auto simp: opened_for_def)
  have "sk_server_name j = sk_server_name k" using assms(1) by (simp add: session_key_eq_def)
  moreover have "session_key_eq j (session_key_for (sk_server_name k) ctx)"
    using pool.eq_trans [OF assms(2,3) c(3) assms(1) c(4)] .
  ultimately show ?thesis using c by (auto simp: opened_for_def)
qed

lemma connect_session:
  assumes "connect (tagging_sdk sdk) context tok (t, n) = (r, (t', n'))"
  shows "mt_config t' = mt_config t \<and>
    (\<forall>ep x. mt_session t' = Some (ep, x) \<longrightarrow>
       mt_session t = Some (ep, x) \<or> ep = endpoint_of (mt_config t) context tok)"
proof (cases "mt_state t = CONNECTED")
  case True
  with assms show ?thesis by (simp add: connect_unfold)
next
  case False
  with assms show ?thesis
    by (auto simp: connect_unfold Let_def cleanup_bg_task_def tagging_sdk_def bind_apply
        split: prod.splits sum.splits if_splits)
qed

lemma lookup_pool_ok:
  assumes "pool_ok configs s" and "lookup_by session_key_eq key (sm_transports s) = Some t"
    and "hashable_session key"
  shows "get_config configs (sk_server_name key) = Inr (mt_config t) \<and>
    (\<forall>ep x. mt_session t = Some (ep, x) \<longrightarrow> opened_for configs key ep)"
proof -
  from pool.lookup_In [OF assms(2)] obtain j where j: "(j, t) \<in> set (sm_transports s)"
      "session_key_eq j key" by blast
  with assms(1) have ok: "hashable_session j" "get_config configs (sk_server_name j) = Inr (mt_config t)"
      "\<forall>ep x. mt_session t = Some (ep, x) \<longrightarrow> opened_for configs j ep"
    by (auto simp: pool_ok_def)
  have "session_key_eq key j" using pool.eq_sym [OF ok(1) assms(3) j(2)] .
  from opened_for_cong [OF this assms(3) ok(1)] ok j(2) show ?thesis
    by (auto simp: session_key_eq_def)
qed

lemma update_pool_ok:
  assumes "pool_ok configs s" and "hashable_session key"
    and "get_config configs (sk_server_name key) = Inr (mt_config t)"
    and "\<forall>ep x. mt_session t = Some (ep, x) \<longrightarrow> opened_for configs key ep"
  shows "pool_ok configs (s\<lparr>sm_transports := update_by session_key_eq key t (sm_transports s), sm_net := n\<rparr>)"
  unfolding pool_ok_def
proof clarsimp
  fix i u assume "(i, u) \<in> set (update_by session_key_eq key t (sm_transports s))"
  from pool.update_In [OF this]
  consider (old) "(i, u) \<in> set (sm_transports s)"
    | (new) "u = t" "i = key"
    | (same) w where "u = t" "session_key_eq i key" "(i, w) \<in> set (sm_transports s)"
    by auto
  then show "hashable_session i \<and> get_config configs (sk_server_name i) = Inr (mt_config u) \<and>
      (\<forall>ep. (\<exists>x. mt_session u = Some (ep, x)) \<longrightarrow> opened_for configs i ep)"
  proof cases
    case old
    with assms(1) show ?thesis by (auto simp: pool_ok_def)
  next
    case new
    with assms(2-4) show ?thesis by auto
  next
    case (same w)
    with assms(1) have i: "hashable_session i" by (auto simp: pool_ok_def)
    from opened_for_cong [OF same(2) i assms(2)] same i assms(2-4) show ?thesis
      by (auto simp: session_key_eq_def)
  qed
qed

lemma get_session_isolated:
  assumes "get_session (tagging_sdk sdk) configs srv context tok s = (r, s')" and "pool_ok configs s"
  shows "pool_ok configs s' \<and>
    (\<forall>ep x. r = Inr (ep, x) \<longrightarrow> opened_for configs (session_key_for srv context) ep)"
proof (cases "get_config configs srv")
  case (Inl e)
  with assms show ?thesis by (auto simp: get_session_def)
next
  case (Inr cfg)
  let ?key = "session_key_for srv context"
  have name: "sk_server_name ?key = srv" by (simp add: session_key_for_def)
  show ?thesis
  proof (cases "hashable_session ?key")
    case False
    with assms Inr show ?thesis by (auto simp: get_session_def)
  next
    case True
    let ?t = "case lookup_by session_key_eq ?key (sm_transports s) of Some t \<Rightarrow> t | None \<Rightarrow> create_transport cfg"
    have t: "get_config configs srv = Inr (mt_config ?t)"
        "\<forall>ep x. mt_session ?t = Some (ep, x) \<longrightarrow> opened_for configs ?key ep"
      using lookup_pool_ok [OF assms(2) _ True] Inr name
      by (auto split: option.splits simp: create_transport_def)
    obtain r1 t1 n1 where c: "(if mt_state ?t \<noteq> CONNECTED then connect (tagging_sdk sdk) context tok else ret ())
        (?t, sm_net s) = (r1, (t1, n1))" by (metis surj_pair)
    have fresh: "opened_for configs ?key (endpoint_of (mt_config ?t) context tok)"
      using t(1) True name pool.eq_refl [OF True] unfolding opened_for_def by (metis name)
    have t1: "mt_config t1 = mt_config ?t"
        "\<forall>ep x. mt_session t1 = Some (ep, x) \<longrightarrow> opened_for configs ?key ep"
      using c t fresh connect_session [of sdk "context" tok ?t "sm_net s" r1 t1 n1]
      by (auto split: if_splits)
    let ?s1 = "s\<lparr>sm_transports := update_by session_key_eq ?key t1 (sm_transports s), sm_net := n1\<rparr>"
    have ok1: "pool_ok configs ?s1"
      using update_pool_ok [OF assms(2) True, of t1 n1] t t1 name by simp
    have "pool.valid_keys (sm_transports s)"
      using assms(2) by (auto simp: pool.valid_keys_def pool_ok_def)
    from pool.lookup_update [OF True True this] pool.eq_refl [OF True] have now: "lookup_by session_key_eq ?key (sm_transports ?s1) = Some t1" by simp
    have run: "(r, s') = (case r1 of Inl e \<Rightarrow> (Inl e, ?s1) | Inr _ \<Rightarrow> (active_session t1, ?s1))"
      using assms(1) Inr True c now
      by (auto simp: get_session_def Let_def bind_apply on_transport_def
          split: sum.splits if_splits option.splits)
    have "\<forall>ep x. active_session t1 = Inr (ep, x) \<longrightarrow> opened_for configs ?key ep"
      using t1(2) by (auto simp: active_session_def split: option.splits if_splits)
    with run ok1 show ?thesis by (cases r1) auto
  qed
qed

lemma pop_and_disconnect_ok:
  fixes sdk :: "('n, endpoint \<times> 's) mcp_sdk"
  shows "keeps (pool_ok configs) (pop_and_disconnect sdk key)"
proof
  fix s :: "('n, endpoint \<times> 's) manager_state"
  assume "pool_ok configs s"
  then show "pool_ok configs (snd (pop_and_disconnect sdk key s))"
    by (auto simp: pop_and_disconnect_def bind_apply pool_ok_def dest!: pool.delete_In
        split: option.splits prod.splits)
qed

lemma manager_disconnect_ok: "keeps (pool_ok configs) (manager_disconnect sdk srv)"
  unfolding manager_disconnect_def by (intro keeps_intros pop_and_disconnect_ok)

lemma disconnect_all_ok: "keeps (pool_ok configs) (disconnect_all sdk)"
  unfolding disconnect_all_def by (intro keeps_intros pop_and_disconnect_ok)

text \<open>The life of a pool: sessions are requested for any request contexts, servers are dropped, and
  connections are lost.\<close>

inductive pool_reach ::
    "('n, 's) mcp_sdk \<Rightarrow> (string \<times> server_config) list \<Rightarrow> ('n, 's) manager_state \<Rightarrow> bool"
  for sdk configs where
  Empty: "pool_reach sdk configs \<lparr>sm_transports = [], sm_net = n\<rparr>"
| Get: "pool_reach sdk configs s \<Longrightarrow> get_session sdk configs srv rc tok s = (r, s') \<Longrightarrow>
        pool_reach sdk configs s'"
| Drop: "pool_reach sdk configs s \<Longrightarrow> manager_disconnect sdk srv s = (r', s') \<Longrightarrow>
        pool_reach sdk configs s'"
| Drop_all: "pool_reach sdk configs s \<Longrightarrow> disconnect_all sdk s = (r', s') \<Longrightarrow>
        pool_reach sdk configs s'"
| Lost: "pool_reach sdk configs s \<Longrightarrow>
        pool_reach sdk configs (s\<lparr>sm_transports := map (\<lambda>(k, t). (k, if lost k then connection_lost t else t))
                                     (sm_transports s)\<rparr>)"

lemma pool_reach_ok: "pool_reach (tagging_sdk sdk) configs s \<Longrightarrow> pool_ok configs s"
proof (induction rule: pool_reach.induct)
  case (Empty n)
  then show ?case by (simp add: pool_ok_def)
next
  case (Get s srv rc tok r s')
  then show ?case by (blast dest: get_session_isolated)
next
  case (Drop s srv r' s')
  then show ?case by (metis keepsD manager_disconnect_ok snd_conv)
next
  case (Drop_all s r' s')
  then show ?case by (metis keepsD disconnect_all_ok snd_conv)
next
  case (Lost s lost)
  then show ?case
    by (auto simp: pool_ok_def connection_lost_def split: prod.splits if_splits)
qed

section \<open>Properties\<close>

definition toy_configs :: "(string \<times> server_config) list" where
  "toy_configs = config_table [toy_server ''files'', toy_server ''down'']"

definition request_of :: "string \<Rightarrow> request_context" where
  "request_of user =
     (new_request_context ''c-1'')
       \<lparr>identity := Some \<lparr>ui_user_id = PStr user, ui_email = PNone, ui_groups = []\<rparr>\<rparr>"


definition ann_session :: "(endpoint \<times> endpoint) res \<times> (nat, endpoint \<times> endpoint) manager_state" where
  "ann_session = get_session (tagging_sdk toy_sdk) toy_configs ''files'' (Some (request_of ''ann''))
     (PStr ''tok-ann'') \<lparr>sm_transports = [], sm_net = 0\<rparr>"


text \<open>A pooled session keeps the token it was opened with. While the transport of a key is
  healthy, a later request of the same key gets its session whatever token it brings, and nothing
  is sent: a token that was exchanged again after the first one expired is not used.\<close>

theorem pooled_session_ignores_new_token:
  assumes "lookup_by session_key_eq (session_key_for srv rc) (sm_transports s) = Some t"
    and "mt_state t = CONNECTED" and "mt_session t = Some x"
    and "get_config configs srv = Inr cfg" and "hashable_session (session_key_for srv rc)"
  shows "fst (get_session sdk configs srv rc tok s) = Inr x \<and>
         sm_net (snd (get_session sdk configs srv rc tok s)) = sm_net s"
proof -
  have "lookup_by session_key_eq k (update_by session_key_eq k t m) = Some t"
    if "lookup_by session_key_eq k m = Some t" for k m
    using that by (induction m) (auto split: if_splits)
  from this [OF assms(1)] assms show ?thesis
    by (simp add: get_session_def Let_def bind_apply on_transport_def active_session_def)
qed

theorem pooled_session_ignores_new_token_witness:
  "fst (get_session (tagging_sdk toy_sdk) toy_configs ''files'' (Some (request_of ''ann''))
      (PStr ''a-newer-token'') (snd ann_session)) = fst ann_session"
proof -
  let ?key = "session_key_for ''files'' (Some (request_of ''ann''))"
  let ?t = "the (lookup_by session_key_eq ?key (sm_transports (snd ann_session)))"
  have "lookup_by session_key_eq ?key (sm_transports (snd ann_session)) = Some ?t" by code_simp
  moreover have "mt_state ?t = CONNECTED" by code_simp
  moreover have "mt_session ?t = Some (projr (fst ann_session))" by code_simp
  moreover have "get_config toy_configs ''files'' = Inr (toy_server ''files'')" by code_simp
  moreover have "hashable_session ?key" by code_simp
  ultimately have "fst (get_session (tagging_sdk toy_sdk) toy_configs ''files'' (Some (request_of ''ann''))
      (PStr ''a-newer-token'') (snd ann_session)) = Inr (projr (fst ann_session))"
    by (rule pooled_session_ignores_new_token [THEN conjunct1])
  moreover have "fst ann_session = Inr (projr (fst ann_session))" by code_simp
  ultimately show ?thesis by simp
qed

end
