(* ===== verification/Obo.thy ===== *)
theory Obo
  imports Keyed_Map Policy_Loader Context Effects "HOL-Library.List_Lexorder" "HOL-Library.Char_ord"
begin

text \<open>
  \<open>identity/obo.py\<close>, \<open>proxy/auth.py\<close>, \<open>proxy/obo_auth.py\<close>: the token exchange client with its
  cache, and the providers of upstream tokens. The token endpoint and the clock are the fields of
  \<open>obo_env\<close> over the outside state \<open>'n\<close>; \<open>wait\<close> is the change other requests made to the client
  while this one waited for the lock of its key. Access tokens keep the dynamic type of the
  response; no token is \<open>PNone\<close>. The locale \<open>auth_provider\<close> is what the proxy relies on.
\<close>

section \<open>Configuration and cached tokens\<close>

record obo_config =
  oc_token_endpoint :: pyval
  oc_client_id :: pyval
  oc_client_secret :: pyval
  oc_cache_ttl :: rat
  oc_allow_insecure :: bool

definition make_obo_config :: "obo_config \<Rightarrow> obo_config res" where
  "make_obo_config c =
     (if \<not> truthy (oc_token_endpoint c) then Inl (ValueError ''token_endpoint is required'')
      else if \<not> truthy (oc_client_id c) then Inl (ValueError ''client_id is required'')
      else if \<not> truthy (oc_client_secret c) then Inl (ValueError ''client_secret is required'')
      else res_bind (if oc_allow_insecure c then Inr ()
                     else require_https (oc_token_endpoint c) ''token_endpoint'') (\<lambda>_. Inr c))"

record exchanged_token =
  et_access_token :: pyval
  et_token_type :: pyval
  et_expires_in :: int
  et_scope :: pyval
  et_issued_at :: rat

definition is_expired :: "rat \<Rightarrow> exchanged_token \<Rightarrow> rat \<Rightarrow> bool" where
  "is_expired now t ttl \<longleftrightarrow> now - et_issued_at t \<ge> of_int (et_expires_in t) - ttl"

record exchange_cache_key =
  eck_subject_id :: pyval
  eck_target_audience :: pyval
  eck_scopes :: "pyval list"

text \<open>\<open>sorted(xs)\<close>: strings among themselves and numbers among themselves. Lists, which Python
  orders too, could not be part of a key. The message leaves out the names of the two types, which
  depend on the order of comparisons.\<close>

fun str_of :: "pyval \<Rightarrow> string" where
  "str_of (PStr s) = s"
| "str_of _ = []"

definition py_sorted :: "pyval list \<Rightarrow> pyval list res" where
  "py_sorted xs =
     (if list_all is_str xs then Inr (map PStr (sort (map str_of xs)))
      else if list_all (\<lambda>x. num_val x \<noteq> None) xs then Inr (sort_key (\<lambda>x. the (num_val x)) xs)
      else if length xs \<le> 1 then Inr xs
      else Inl (TypeError (quoted ''<'' @ '' not supported between instances'')))"

definition key_from_params :: "pyval \<Rightarrow> pyval \<Rightarrow> pyval list \<Rightarrow> exchange_cache_key res" where
  "key_from_params subject_id audience scopes =
     res_bind (py_sorted scopes) (\<lambda>ss.
       Inr \<lparr>eck_subject_id = subject_id, eck_target_audience = audience, eck_scopes = ss\<rparr>)"

definition exchange_key_eq :: "exchange_cache_key \<Rightarrow> exchange_cache_key \<Rightarrow> bool" where
  "exchange_key_eq j k \<longleftrightarrow>
     py_eq (eck_subject_id j) (eck_subject_id k) \<and>
     py_eq (eck_target_audience j) (eck_target_audience k) \<and>
     list_all2 py_eq (eck_scopes j) (eck_scopes k)"

definition hashable_key :: "exchange_cache_key \<Rightarrow> bool" where
  "hashable_key k \<longleftrightarrow>
     is_hashable (eck_subject_id k) \<and> is_hashable (eck_target_audience k) \<and>
     list_all is_hashable (eck_scopes k)"

section \<open>The exchange client\<close>

record http_response =
  hr_status_code :: int
  hr_text :: string
  hr_json :: "pyval res"

record 'n obo_env =
  oe_post :: "pyval \<Rightarrow> pydict \<Rightarrow> pyval \<times> pyval \<Rightarrow> ('n, http_response) prog"
  oe_is_http_error :: "exn \<Rightarrow> bool"
  oe_monotonic :: "'n \<Rightarrow> rat"

record 'n obo_state =
  os_cache :: "(exchange_cache_key \<times> exchanged_token) list"
  os_net :: 'n

definition exchange_form :: "pyval \<Rightarrow> pyval \<Rightarrow> pyval list \<Rightarrow> pydict res" where
  "exchange_form subject_token audience scopes =
     (let data = [(''grant_type'', PStr ''urn:ietf:params:oauth:grant-type:token-exchange''),
                  (''subject_token'', subject_token),
                  (''subject_token_type'', PStr ''urn:ietf:params:oauth:token-type:access_token''),
                  (''audience'', audience)]
      in if scopes = [] then Inr data
         else if list_all is_str scopes
         then Inr (data @ [(''scope'', PStr (join '' '' (map str_of scopes)))])
         else Inl (TypeError ''sequence item: expected str instance''))"

definition perform_exchange ::
    "'n obo_env \<Rightarrow> obo_config \<Rightarrow> pyval \<Rightarrow> pyval \<Rightarrow> pyval list \<Rightarrow> ('n, exchanged_token) prog" where
  "perform_exchange env cfg subject_token audience scopes =
     bind (lift_res (exchange_form subject_token audience scopes)) (\<lambda>data.
     bind (handle (oe_post env (oc_token_endpoint cfg) data (oc_client_id cfg, oc_client_secret cfg))
             (\<lambda>e. if oe_is_http_error env e
                  then raise (TokenExchangeError (''Token exchange request failed: '' @ exn_str e)
                                (py_str audience))
                  else raise e)) (\<lambda>response.
       if hr_status_code response \<noteq> 200 then
         raise (TokenExchangeError (''Token exchange returned HTTP '' @ int_str (hr_status_code response) @
                  '': '' @ hr_text response) (py_str audience))
       else
         bind (lift_res (hr_json response)) (\<lambda>body.
         bind (lift_res (py_get body ''access_token'' PNone)) (\<lambda>access_token.
           if \<not> truthy access_token then
             raise (TokenExchangeError (''Token exchange response missing '' @ quoted ''access_token'')
                      (py_str audience))
           else
             bind (lift_res (py_get body ''token_type'' (PStr ''Bearer''))) (\<lambda>ty.
             bind (lift_res (res_bind (py_get body ''expires_in'' (PInt 3600)) py_int)) (\<lambda>expires.
             bind (lift_res (py_get body ''scope'' (PStr []))) (\<lambda>scope.
             bind (gets (oe_monotonic env)) (\<lambda>now.
               ret \<lparr>et_access_token = access_token, et_token_type = ty, et_expires_in = expires,
                    et_scope = scope, et_issued_at = now\<rparr>))))))))"

definition cached_token ::
    "'n obo_env \<Rightarrow> obo_config \<Rightarrow> exchange_cache_key \<Rightarrow> 'n obo_state \<Rightarrow> pyval option" where
  "cached_token env cfg key s =
     (case lookup_by exchange_key_eq key (os_cache s) of
        Some t \<Rightarrow>
          if \<not> is_expired (oe_monotonic env (os_net s)) t (oc_cache_ttl cfg)
          then Some (et_access_token t) else None
      | None \<Rightarrow> None)"

definition exchange_token ::
    "'n obo_env \<Rightarrow> obo_config \<Rightarrow> ('n obo_state \<Rightarrow> 'n obo_state) \<Rightarrow> pyval \<Rightarrow> pyval \<Rightarrow> pyval \<Rightarrow>
     pyval list \<Rightarrow> ('n obo_state, pyval) prog" where
  "exchange_token env cfg wait subject_token subject_id audience scopes =
     bind (lift_res (key_from_params subject_id audience scopes)) (\<lambda>key.
       if \<not> hashable_key key then raise (TypeError ''unhashable type'')
       else
         bind (gets (cached_token env cfg key)) (\<lambda>hit. case hit of
           Some tok \<Rightarrow> ret tok
         | None \<Rightarrow>
             bind (modify wait) (\<lambda>_.
             bind (gets (cached_token env cfg key)) (\<lambda>hit'. case hit' of
               Some tok \<Rightarrow> ret tok
             | None \<Rightarrow>
                 bind (zoom os_net (\<lambda>n s. s\<lparr>os_net := n\<rparr>)
                         (perform_exchange env cfg subject_token audience scopes)) (\<lambda>token.
                 bind (modify (\<lambda>s. s\<lparr>os_cache := update_by exchange_key_eq key token (os_cache s)\<rparr>)) (\<lambda>_.
                   ret (et_access_token token)))))))"

section \<open>Providers\<close>

record server_obo_settings =
  so_server_name :: pyval
  so_enabled :: bool
  so_target_audience :: pyval
  so_scopes :: "pyval list"

definition no_auth_get_token :: "string \<Rightarrow> request_context \<Rightarrow> ('s, pyval) prog" where
  "no_auth_get_token srv ctx = ret PNone"

definition obo_get_token ::
    "'n obo_env \<Rightarrow> obo_config \<Rightarrow> ('n obo_state \<Rightarrow> 'n obo_state) \<Rightarrow>
     (string \<times> server_obo_settings) list \<Rightarrow> string \<Rightarrow> request_context \<Rightarrow> ('n obo_state, pyval) prog" where
  "obo_get_token env cfg wait settings srv ctx =
     (case map_of settings srv of
        None \<Rightarrow> ret PNone
      | Some s \<Rightarrow>
          if \<not> so_enabled s then ret PNone
          else
            (case (case raw_token ctx of Some [] \<Rightarrow> None | t \<Rightarrow> t) of
               None \<Rightarrow>
                 raise (TokenExchangeError (''OBO exchange required for server '' @ quoted srv @
                   '' but no authenticated token available (identity pipeline may be disabled or '' @
                   ''misconfigured)'') (py_str (so_target_audience s)))
             | Some tok \<Rightarrow>
                 (case identity ctx of
                    None \<Rightarrow>
                      raise (TokenExchangeError (''OBO exchange required for server '' @ quoted srv @
                        '' but no authenticated identity available (identity pipeline may be disabled or '' @
                        ''misconfigured)'') (py_str (so_target_audience s)))
                  | Some u \<Rightarrow>
                      exchange_token env cfg wait (PStr tok) (ui_user_id u) (so_target_audience s)
                        (so_scopes s))))"

text \<open>
  The contract of a provider towards the proxy: a token is handed out only for a request that
  carries an authenticated identity.
\<close>

locale auth_provider =
  fixes get_token :: "string \<Rightarrow> request_context \<Rightarrow> ('w, pyval) prog"
  assumes token_needs_identity:
    "get_token server ctx w = (Inr tok, w') \<Longrightarrow> truthy tok \<Longrightarrow> identity ctx \<noteq> None"
begin

lemma anonymous_gets_no_token:
  "identity ctx = None \<Longrightarrow> get_token server ctx w = (Inr tok, w') \<Longrightarrow> \<not> truthy tok"
  using token_needs_identity by blast

end

interpretation no_auth: auth_provider no_auth_get_token
  by unfold_locales (auto simp: no_auth_get_token_def)

interpretation obo: auth_provider "obo_get_token env cfg wait settings" for env cfg wait settings
  by unfold_locales (auto simp: obo_get_token_def split: option.splits if_splits)

section \<open>The cache\<close>

lemma list_all2_py_eq_canon:
  "list_all is_hashable xs \<Longrightarrow> list_all is_hashable ys \<Longrightarrow>
     list_all2 py_eq xs ys \<longleftrightarrow> map canon xs = map canon ys"
proof (induction xs arbitrary: ys)
  case (Cons x xs)
  then show ?case by (cases ys) (auto simp: py_eq_canon)
qed simp

lemma exchange_key_eq_canon:
  "hashable_key j \<Longrightarrow> hashable_key k \<Longrightarrow> exchange_key_eq j k \<longleftrightarrow>
     canon (eck_subject_id j) = canon (eck_subject_id k) \<and>
     canon (eck_target_audience j) = canon (eck_target_audience k) \<and>
     map canon (eck_scopes j) = map canon (eck_scopes k)"
  by (simp add: exchange_key_eq_def hashable_key_def py_eq_canon list_all2_py_eq_canon)

interpretation obo_keys: key_equality exchange_key_eq hashable_key
  by unfold_locales (auto simp: exchange_key_eq_canon)

text \<open>Strings are hashable and sort by their texts.\<close>

lemma py_sorted_strs: "py_sorted (map PStr ss) = Inr (map PStr (sort ss))"
proof -
  have "map (str_of \<circ> PStr) ss = ss" by (simp add: comp_def)
  moreover have "list_all is_str (map PStr ss)" by (simp add: list_all_iff)
  ultimately show ?thesis by (simp add: py_sorted_def)
qed

section \<open>Where a token comes from\<close>

record exchange_call =
  xc_subject_token :: pyval
  xc_subject_id :: pyval
  xc_audience :: pyval
  xc_scopes :: "pyval list"

definition call_key :: "exchange_call \<Rightarrow> exchange_cache_key res" where
  "call_key c = key_from_params (xc_subject_id c) (xc_audience c) (xc_scopes c)"

text \<open>An exchange with the endpoint, at some time, for this very call.\<close>

definition exchanged_for :: "'n obo_env \<Rightarrow> obo_config \<Rightarrow> exchange_call \<Rightarrow> exchanged_token \<Rightarrow> bool" where
  "exchanged_for env cfg c t \<longleftrightarrow>
     (\<exists>n n'. perform_exchange env cfg (xc_subject_token c) (xc_audience c) (xc_scopes c) n = (Inr t, n'))"

definition same_key :: "exchange_call \<Rightarrow> exchange_call \<Rightarrow> bool" where
  "same_key c d \<longleftrightarrow>
     (\<exists>j k. call_key c = Inr j \<and> call_key d = Inr k \<and> hashable_key j \<and> hashable_key k \<and>
            exchange_key_eq j k)"

definition cache_from ::
    "'n obo_env \<Rightarrow> obo_config \<Rightarrow> exchange_call set \<Rightarrow> 'n obo_state \<Rightarrow> bool" where
  "cache_from env cfg past s \<longleftrightarrow>
     (\<forall>(k, t) \<in> set (os_cache s). hashable_key k \<and>
        (\<exists>c \<in> past. \<exists>j. call_key c = Inr j \<and> hashable_key j \<and> exchange_key_eq k j \<and>
           exchanged_for env cfg c t))"

definition do_exchange ::
    "'n obo_env \<Rightarrow> obo_config \<Rightarrow> exchange_call \<Rightarrow> ('n obo_state, pyval) prog" where
  "do_exchange env cfg c =
     exchange_token env cfg id (xc_subject_token c) (xc_subject_id c) (xc_audience c) (xc_scopes c)"

lemma cache_from_mono: "cache_from env cfg A s \<Longrightarrow> A \<subseteq> B \<Longrightarrow> cache_from env cfg B s"
  unfolding cache_from_def by fast

lemma cached_token_from:
  assumes "cached_token env cfg k s = Some tok" and "cache_from env cfg past s"
    and "call_key c = Inr k" and "hashable_key k"
  shows "\<exists>d \<in> past. same_key d c \<and> (\<exists>t. exchanged_for env cfg d t \<and> et_access_token t = tok)"
proof -
  from assms(1) obtain t where t: "lookup_by exchange_key_eq k (os_cache s) = Some t"
    and tok: "tok = et_access_token t"
    by (auto simp: cached_token_def split: option.splits if_splits)
  from obo_keys.lookup_In [OF t] obtain j where j: "(j, t) \<in> set (os_cache s)" "exchange_key_eq j k"
    by blast
  from assms(2) j(1) obtain d i where d: "d \<in> past" "call_key d = Inr i" "hashable_key i"
      "exchange_key_eq j i" "exchanged_for env cfg d t" "hashable_key j"
    by (auto simp: cache_from_def)
  with j(2) assms(4) have "exchange_key_eq i k" by (simp add: exchange_key_eq_canon)
  with d assms(3,4) tok show ?thesis by (auto simp: same_key_def)
qed

lemma do_exchange_step:
  assumes "do_exchange env cfg c s = (r, s')" and "cache_from env cfg past s"
  shows "cache_from env cfg (insert c past) s' \<and>
    (\<forall>tok. r = Inr tok \<longrightarrow>
       (\<exists>d \<in> insert c past. same_key d c \<and> (\<exists>t. exchanged_for env cfg d t \<and> et_access_token t = tok)))"
proof (cases "call_key c")
  case (Inl e)
  with assms show ?thesis
    by (auto simp: do_exchange_def exchange_token_def call_key_def intro: cache_from_mono)
next
  case (Inr k)
  note key = Inr
  have mono: "cache_from env cfg (insert c past) s" using assms(2) by (rule cache_from_mono) blast
  show ?thesis
  proof (cases "hashable_key k")
    case False
    with assms(1) key mono show ?thesis
      by (auto simp: do_exchange_def exchange_token_def call_key_def)
  next
    case True
    show ?thesis
    proof (cases "cached_token env cfg k s")
      case (Some tok)
      with assms(1) key True have "r = Inr tok" "s' = s"
        by (simp_all add: do_exchange_def exchange_token_def call_key_def bind_apply)
      with cached_token_from [OF Some assms(2) key True] mono show ?thesis by auto
    next
      case None
      obtain r1 n1 where p: "perform_exchange env cfg (xc_subject_token c) (xc_audience c)
          (xc_scopes c) (os_net s) = (r1, n1)" by fastforce
      show ?thesis
      proof (cases r1)
        case (Inl e)
        with assms(1) key True None p have "r = Inl e" "os_cache s' = os_cache s"
          by (auto simp: do_exchange_def exchange_token_def call_key_def bind_apply zoom_def)
        with mono show ?thesis by (simp add: cache_from_def)
      next
        case (Inr t)
        have ex: "exchanged_for env cfg c t" using p Inr by (auto simp: exchanged_for_def)
        have self: "exchange_key_eq k k" using True by (rule obo_keys.eq_refl)
        from assms(1) key True None p Inr
        have r: "r = Inr (et_access_token t)"
          and s': "os_cache s' = update_by exchange_key_eq k t (os_cache s)"
          by (auto simp: do_exchange_def exchange_token_def call_key_def bind_apply zoom_def)
        have "cache_from env cfg (insert c past) s'"
          unfolding cache_from_def s'
        proof clarify
          fix i u assume "(i, u) \<in> set (update_by exchange_key_eq k t (os_cache s))"
          from obo_keys.update_In [OF this] mono ex self True key
          show "hashable_key i \<and> (\<exists>d \<in> insert c past. \<exists>j. call_key d = Inr j \<and> hashable_key j \<and>
              exchange_key_eq i j \<and> exchanged_for env cfg d u)"
            by (auto simp: cache_from_def)
        qed
        moreover have "same_key c c" using key True self by (auto simp: same_key_def)
        ultimately show ?thesis using r ex by auto
      qed
    qed
  qed
qed

text \<open>The client over a history of calls.\<close>

fun run_exchanges ::
    "'n obo_env \<Rightarrow> obo_config \<Rightarrow> exchange_call list \<Rightarrow> 'n obo_state \<Rightarrow> pyval res list" where
  "run_exchanges env cfg [] s = []"
| "run_exchanges env cfg (c # cs) s =
     (case do_exchange env cfg c s of (r, s') \<Rightarrow> r # run_exchanges env cfg cs s')"

lemma run_exchanges_from:
  assumes "cache_from env cfg past s" and "i < length cs"
    and "run_exchanges env cfg cs s ! i = Inr tok"
  shows "\<exists>d \<in> past \<union> set (take (Suc i) cs).
           same_key d (cs ! i) \<and> (\<exists>t. exchanged_for env cfg d t \<and> et_access_token t = tok)"
  using assms
proof (induction cs arbitrary: past s i)
  case Nil
  then show ?case by simp
next
  case (Cons c cs)
  obtain r s' where c: "do_exchange env cfg c s = (r, s')" by fastforce
  note step = do_exchange_step [OF c Cons.prems(1)]
  show ?case
  proof (cases i)
    case 0
    with step Cons.prems(3) c show ?thesis by auto
  next
    case (Suc i')
    with Cons.IH [of "insert c past" s' i'] step Cons.prems c show ?thesis by auto
  qed
qed

section \<open>Properties\<close>

text \<open>An endpoint that hands the subject token back.\<close>

definition toy_obo_env :: "nat obo_env" where
  "toy_obo_env =
     \<lparr>oe_post = (\<lambda>_ form _ n.
        (Inr \<lparr>hr_status_code = 200, hr_text = [],
              hr_json = Inr (PDict [(''access_token'', dict_get form ''subject_token'' PNone)])\<rparr>, n + 1)),
      oe_is_http_error = (\<lambda>_. False), oe_monotonic = of_nat\<rparr>"

definition toy_obo_config :: obo_config where
  "toy_obo_config =
     \<lparr>oc_token_endpoint = PStr ''https://idp.example/token'', oc_client_id = PStr ''gw'',
      oc_client_secret = PStr ''x'', oc_cache_ttl = 300, oc_allow_insecure = False\<rparr>"

definition toy_calls :: "exchange_call list" where
  "toy_calls =
     [\<lparr>xc_subject_token = PStr ''tok-ann'', xc_subject_id = PStr ''ann'', xc_audience = PStr ''files'',
       xc_scopes = [PStr ''read'', PStr ''list'']\<rparr>,
      \<lparr>xc_subject_token = PStr ''tok-bob'', xc_subject_id = PStr ''bob'', xc_audience = PStr ''files'',
       xc_scopes = []\<rparr>,
      \<lparr>xc_subject_token = PStr ''tok-ann-2'', xc_subject_id = PStr ''ann'', xc_audience = PStr ''files'',
       xc_scopes = [PStr ''list'', PStr ''read'']\<rparr>]"

definition empty_obo :: "nat obo_state" where
  "empty_obo = \<lparr>os_cache = [], os_net = 0\<rparr>"

lemma toy_exchanges:
  "run_exchanges toy_obo_env toy_obo_config toy_calls empty_obo =
     [Inr (PStr ''tok-ann''), Inr (PStr ''tok-bob''), Inr (PStr ''tok-ann'')]"
  by code_simp



text \<open>The cache ignores the order of scopes, and a token from the cache is always valid for
  longer than the configured margin.\<close>

theorem cache_key_and_freshness:
  assumes "mset scopes = mset scopes'" and "cached_token env cfg k s = Some tok"
  shows "key_from_params u a (map PStr scopes) = key_from_params u a (map PStr scopes') \<and>
    (\<exists>t::exchanged_token. et_access_token t = tok \<and>
       oe_monotonic env (os_net s) < et_issued_at t + of_int (et_expires_in t) - oc_cache_ttl cfg)"
proof
  have "sort scopes = sort scopes'" using assms(1) by (metis mset_sort properties_for_sort sorted_sort)
  then show "key_from_params u a (map PStr scopes) = key_from_params u a (map PStr scopes')"
    by (simp add: key_from_params_def py_sorted_strs)
  show "\<exists>t::exchanged_token. et_access_token t = tok \<and>
       oe_monotonic env (os_net s) < et_issued_at t + of_int (et_expires_in t) - oc_cache_ttl cfg"
  proof -
    from assms(2) obtain t where "lookup_by exchange_key_eq k (os_cache s) = Some t"
      and "et_access_token t = tok"
      and "\<not> of_int (et_expires_in t) - oc_cache_ttl cfg \<le> oe_monotonic env (os_net s) - et_issued_at t"
      by (auto simp: cached_token_def is_expired_def split: option.splits if_splits)
    then have "et_access_token t = tok \<and> oe_monotonic env (os_net s) < et_issued_at t + of_int (et_expires_in t) - oc_cache_ttl cfg"
      by simp
    then show ?thesis by blast
  qed
qed

theorem cache_key_and_freshness_witness:
  "key_from_params (PStr ''ann'') (PStr ''files'') (map PStr [''read'', ''list'']) =
   key_from_params (PStr ''ann'') (PStr ''files'') (map PStr [''list'', ''read''])"
proof -
  let ?k = "\<lparr>eck_subject_id = PNone, eck_target_audience = PNone, eck_scopes = []\<rparr>"
  let ?s = "\<lparr>os_cache = [(?k, \<lparr>et_access_token = PStr ''t'', et_token_type = PNone, et_expires_in = 3600,
      et_scope = PNone, et_issued_at = 0\<rparr>)], os_net = 0\<rparr>"
  have "cached_token toy_obo_env toy_obo_config ?k ?s = Some (PStr ''t'')"
    by (simp add: cached_token_def exchange_key_eq_def is_expired_def toy_obo_env_def toy_obo_config_def)
  moreover have "mset [''read'', ''list''] = mset [''list'', ''read'']" by simp
  ultimately show ?thesis by (rule cache_key_and_freshness [THEN conjunct1, rotated])
qed

text \<open>A server that needs an exchanged token is never reached without one: with token exchange
  enabled, a request without a validated token or without an identity raises
  \<open>TokenExchangeError\<close> and changes nothing.\<close>

theorem obo_requires_identity:
  assumes "map_of settings srv = Some st" and "so_enabled st"
    and "raw_token ctx = None \<or> raw_token ctx = Some [] \<or> identity ctx = None"
  shows "\<exists>m. obo_get_token env cfg wait settings srv ctx s =
           (Inl (TokenExchangeError m (py_str (so_target_audience st))), s)"
  using assms by (auto simp: obo_get_token_def split: option.splits list.splits)

theorem obo_requires_identity_witness:
  "\<exists>m. obo_get_token toy_obo_env toy_obo_config id
     [(''files'', \<lparr>so_server_name = PStr ''files'', so_enabled = True,
        so_target_audience = PStr ''files'', so_scopes = []\<rparr>)] ''files'' (new_request_context ''c'') empty_obo =
     (Inl (TokenExchangeError m ''files''), empty_obo)"
  using obo_requires_identity [of "[(''files'', \<lparr>so_server_name = PStr ''files'', so_enabled = True,
        so_target_audience = PStr ''files'', so_scopes = []\<rparr>)]" "''files''"
      "\<lparr>so_server_name = PStr ''files'', so_enabled = True, so_target_audience = PStr ''files'', so_scopes = []\<rparr>"
      "new_request_context ''c''" toy_obo_env toy_obo_config id empty_obo]
  by (simp add: new_request_context_def)

end
