(* ===== verification/Proxy.thy ===== *)
theory Proxy
  imports Tool_Router Server_Manager Obo Policy_Engine Hook_Pipeline Governance_Hook
begin

text \<open>
  \<open>proxy/proxy_server.py\<close>: the two handlers of the gateway, listing tools and calling one. The
  state has three parts: the state \<open>'p\<close> of the pipeline's hooks, the state \<open>'o\<close> of the auth
  provider, and the pool of upstream connections. Every part of the record \<open>proxy_server\<close> is one
  the constructor receives. Content items are the dictionaries the SDK's models dump to;
  \<open>asyncio.gather\<close> over the servers is the sequence of its computations in server order.
\<close>

record ('p, 'o, 'n, 's) gateway =
  gw_pipeline :: 'p
  gw_auth :: 'o
  gw_manager :: "('n, 's) manager_state"

record ('p, 'o, 'n, 's) proxy_server =
  px_hooks :: "'p hook list option"
  px_now :: "'p \<Rightarrow> rat"
  px_get_token :: "string \<Rightarrow> request_context \<Rightarrow> ('o, pyval) prog"
  px_policy :: "policy_config option"
  px_configs :: "(string \<times> server_config) list"
  px_sdk :: "('n, 's) mcp_sdk"

abbreviation in_pipeline :: "('p, 'a) prog \<Rightarrow> (('p, 'o, 'n, 's) gateway, 'a) prog" where
  "in_pipeline m \<equiv> zoom gw_pipeline (\<lambda>p w. w\<lparr>gw_pipeline := p\<rparr>) m"

abbreviation in_auth :: "('o, 'a) prog \<Rightarrow> (('p, 'o, 'n, 's) gateway, 'a) prog" where
  "in_auth m \<equiv> zoom gw_auth (\<lambda>a w. w\<lparr>gw_auth := a\<rparr>) m"

abbreviation in_manager :: "(('n, 's) manager_state, 'a) prog \<Rightarrow> (('p, 'o, 'n, 's) gateway, 'a) prog" where
  "in_manager m \<equiv> zoom gw_manager (\<lambda>g w. w\<lparr>gw_manager := g\<rparr>) m"

definition in_net :: "('n, 'a) prog \<Rightarrow> (('n, 's) manager_state, 'a) prog" where
  "in_net m = zoom sm_net (\<lambda>n g. g\<lparr>sm_net := n\<rparr>) m"

definition text_content :: "string \<Rightarrow> pyval" where
  "text_content s = PDict [(''type'', PStr ''text''), (''text'', PStr s)]"

section \<open>Calling a tool\<close>

definition rebuild_item :: "('n, 's) mcp_sdk \<Rightarrow> pyval \<Rightarrow> pyval res" where
  "rebuild_item sdk item =
     res_bind (py_get item ''type'' PNone) (\<lambda>ty.
       if ty = PStr ''text'' then sdk_validate sdk ''TextContent'' item
       else if ty = PStr ''image'' then sdk_validate sdk ''ImageContent'' item
       else if ty = PStr ''resource'' then sdk_validate sdk ''EmbeddedResource'' item
       else Inr (text_content (py_str item)))"

definition rebuild_content :: "('n, 's) mcp_sdk \<Rightarrow> pydict \<Rightarrow> pyval list res" where
  "rebuild_content sdk payload =
     res_bind (py_iter (dict_get payload ''content'' (PList []))) (map_res (rebuild_item sdk))"

definition blocked_content :: "hook_context \<Rightarrow> pyval list" where
  "blocked_content ctx =
     [text_content (''Response blocked: output processing failed (correlation_id='' @
        correlation_id (request ctx) @ '')'')]"

definition denied_content :: "hook_context \<Rightarrow> pyval list" where
  "denied_content ctx =
     [text_content (''Access denied (correlation_id='' @ correlation_id (request ctx) @ '')'')]"

text \<open>The body of the \<open>try\<close> in the retry loop, with what it does to the upstream result.\<close>

definition process_result ::
    "('p, 'o, 'n, 's) proxy_server \<Rightarrow> hook_context \<Rightarrow> tool_result \<Rightarrow>
     (('p, 'o, 'n, 's) gateway, pyval list) prog" where
  "process_result px ctx result =
     (case px_hooks px of
        None \<Rightarrow> ret (tr_content result)
      | Some hooks \<Rightarrow>
          bind (in_pipeline (execute (px_now px) hooks
                  (ctx\<lparr>response_payload := [(''content'', PList (tr_content result)),
                                            (''is_error'', tr_is_error result)]\<rparr>))) (\<lambda>post.
            if \<not> plr_success post then ret (blocked_content ctx)
            else lift_res (rebuild_content (px_sdk px) (response_payload (plr_context post)))))"

definition upstream_attempt ::
    "('p, 'o, 'n, 's) proxy_server \<Rightarrow> string \<Rightarrow> string \<Rightarrow> server_config \<Rightarrow> hook_context \<Rightarrow> pyval \<Rightarrow> pyval \<Rightarrow>
     (('p, 'o, 'n, 's) gateway, pyval list) prog" where
  "upstream_attempt px srv tool config ctx auth_token args =
     bind (in_manager (get_session (px_sdk px) (px_configs px) srv (Some (request ctx)) auth_token)) (\<lambda>session.
     bind (in_manager (in_net (sdk_call_tool (px_sdk px) session tool args (sc_timeout_seconds config))))
       (process_result px ctx))"

fun is_TimeoutError :: "exn \<Rightarrow> bool" where
  "is_TimeoutError (TimeoutError _) = True"
| "is_TimeoutError _ = False"

fun is_reconnectable :: "exn \<Rightarrow> bool" where
  "is_reconnectable (TransportConnectionError _ _ _) = True"
| "is_reconnectable (TransportTimeoutError _ _ _) = True"
| "is_reconnectable _ = False"

text \<open>The \<open>except\<close> clauses: what is remembered as the last error, or the exception that escapes.\<close>

definition after_failure ::
    "('p, 'o, 'n, 's) proxy_server \<Rightarrow> string \<Rightarrow> server_config \<Rightarrow> hook_context \<Rightarrow> exn \<Rightarrow>
     (('p, 'o, 'n, 's) gateway, exn) prog" where
  "after_failure px srv config ctx e =
     (if is_TimeoutError e then
        ret (ProxyTimeoutError (''Upstream '' @ quoted srv @ '' timed out after '' @
               float_str (sc_timeout_seconds config) @ ''s'') srv (correlation_id (request ctx)))
      else if is_reconnectable e then
        bind (in_manager (manager_disconnect (px_sdk px) srv)) (\<lambda>_. ret e)
      else raise e)"

fun retry_loop ::
    "('p, 'o, 'n, 's) proxy_server \<Rightarrow> string \<Rightarrow> string \<Rightarrow> server_config \<Rightarrow> hook_context \<Rightarrow> pyval \<Rightarrow> pyval \<Rightarrow>
     nat list \<Rightarrow> exn option \<Rightarrow> (('p, 'o, 'n, 's) gateway, pyval list) prog" where
  "retry_loop px srv tool config ctx auth_token args [] last_error =
     raise (UpstreamError (''Upstream '' @ quoted srv @ '' failed after '' @
              nat_str (sc_max_retries config + 1) @ '' attempts: '' @
              (case last_error of None \<Rightarrow> ''None'' | Some e \<Rightarrow> exn_str e))
            srv (correlation_id (request ctx)))"
| "retry_loop px srv tool config ctx auth_token args (attempt # rest) last_error =
     handle (upstream_attempt px srv tool config ctx auth_token args) (\<lambda>e.
       bind (after_failure px srv config ctx e) (\<lambda>last.
       bind (if attempt < sc_max_retries config
             then in_manager (in_net (modify
                    (sdk_sleep (px_sdk px) (sc_retry_delay_seconds config * 2 ^ attempt))))
             else ret ()) (\<lambda>_.
         retry_loop px srv tool config ctx auth_token args rest (Some last))))"

fun is_TokenExchangeError :: "exn \<Rightarrow> bool" where
  "is_TokenExchangeError (TokenExchangeError _ _) = True"
| "is_TokenExchangeError _ = False"

text \<open>From the token to the answer: everything after the pre-pipeline.\<close>

definition forward_call ::
    "('p, 'o, 'n, 's) proxy_server \<Rightarrow> string \<Rightarrow> string \<Rightarrow> server_config \<Rightarrow> hook_context \<Rightarrow> pyval \<Rightarrow>
     (('p, 'o, 'n, 's) gateway, pyval list) prog" where
  "forward_call px srv tool config ctx args =
     bind (handle (bind (in_auth (px_get_token px srv (request ctx))) (\<lambda>t. ret (Some t)))
             (\<lambda>e. if is_TokenExchangeError e then ret None else raise e)) (\<lambda>token.
       case token of
         None \<Rightarrow> ret (denied_content ctx)
       | Some auth_token \<Rightarrow>
           retry_loop px srv tool config ctx auth_token args [0 ..< sc_max_retries config + 1] None)"

definition call_context ::
    "string \<Rightarrow> string \<Rightarrow> string \<Rightarrow> string \<Rightarrow> server_config \<Rightarrow> pyval \<Rightarrow> rat \<Rightarrow> hook_context" where
  "call_context uuid header srv tool config args now =
     (default_hook_context (new_request_context uuid) now)
       \<lparr>server_name := srv, tool_name := tool,
        request_payload := [(''arguments'', if truthy args then args else PDict [])],
        extras := [(''authorization'', PStr header)],
        transport := transport_value (sc_transport config)\<rparr>"

definition call_tool ::
    "('p, 'o, 'n, 's) proxy_server \<Rightarrow> string \<Rightarrow> string \<Rightarrow> string \<Rightarrow> pyval \<Rightarrow>
     (('p, 'o, 'n, 's) gateway, pyval list) prog" where
  "call_tool px uuid header name args =
     bind (lift_res (parse_tool name)) (\<lambda>(srv, tool).
     bind (lift_res (get_config (px_configs px) srv)) (\<lambda>config.
     bind (gets (\<lambda>w. call_context uuid header srv tool config args (px_now px (gw_pipeline w)))) (\<lambda>ctx.
       case px_hooks px of
         None \<Rightarrow> forward_call px srv tool config ctx args
       | Some hooks \<Rightarrow>
           bind (in_pipeline (execute (px_now px) hooks ctx)) (\<lambda>result.
             if policy_decision (plr_context result) = D_DENY
             then ret (denied_content (plr_context result))
             else forward_call px srv tool config (plr_context result) args))))"

section \<open>Listing tools\<close>

definition fetch_server_tools ::
    "('p, 'o, 'n, 's) proxy_server \<Rightarrow> string \<Rightarrow> (('p, 'o, 'n, 's) gateway, mcp_tool list) prog" where
  "fetch_server_tools px srv =
     bind (lift_res (get_config (px_configs px) srv)) (\<lambda>config.
       handle
         (bind (in_manager (get_session (px_sdk px) (px_configs px) srv None PNone)) (\<lambda>session.
          bind (in_manager (in_net (sdk_list_tools (px_sdk px) session (sc_timeout_seconds config)))) (\<lambda>tools.
            ret (namespace_tools srv tools))))
         (\<lambda>e. if is_Exception e then ret [] else raise e))"

definition fetch_all_tools ::
    "('p, 'o, 'n, 's) proxy_server \<Rightarrow> (('p, 'o, 'n, 's) gateway, mcp_tool list) prog" where
  "fetch_all_tools px =
     bind (map_prog (fetch_server_tools px) (server_names (px_configs px))) (\<lambda>ts. ret (concat ts))"

fun filter_tools_by_policy ::
    "policy_config \<Rightarrow> pyval \<Rightarrow> pyval list \<Rightarrow> mcp_tool list \<Rightarrow> mcp_tool list res" where
  "filter_tools_by_policy pol user groups [] = Inr []"
| "filter_tools_by_policy pol user groups (tool # tools) =
     (case split1 ''__'' (mt_name tool) of
        [srv, name] \<Rightarrow>
          res_bind (evaluate pol \<lparr>pi_user_id = user, pi_groups = groups, pi_mcp_server = srv, pi_tool = name\<rparr>)
            (\<lambda>result. res_bind (filter_tools_by_policy pol user groups tools) (\<lambda>rest.
              Inr (if er_effect result = ALLOW then tool # rest else rest)))
      | _ \<Rightarrow> filter_tools_by_policy pol user groups tools)"

text \<open>Step 1 of \<open>_list_tools\<close>: \<open>None\<close> when authentication failed, else the caller's identity.\<close>

definition authenticate_listing ::
    "('p, 'o, 'n, 's) proxy_server \<Rightarrow> string \<Rightarrow> string \<Rightarrow>
     (('p, 'o, 'n, 's) gateway, user_identity option option) prog" where
  "authenticate_listing px uuid header =
     (case px_hooks px of
        None \<Rightarrow> ret (Some None)
      | Some hooks \<Rightarrow>
          bind (gets (\<lambda>w. (default_hook_context (new_request_context uuid) (px_now px (gw_pipeline w)))
                            \<lparr>extras := [(''authorization'', PStr header)]\<rparr>)) (\<lambda>ctx.
            handle
              (bind (in_pipeline (execute_hook_point hooks PRE_VALIDATION ctx)) (\<lambda>ctx'.
                 ret (Some (identity (request ctx')))))
              (\<lambda>e. if is_ShortCircuit e \<or> is_HookError e then ret None else raise e)))"

definition list_tools ::
    "('p, 'o, 'n, 's) proxy_server \<Rightarrow> string \<Rightarrow> string \<Rightarrow> (('p, 'o, 'n, 's) gateway, mcp_tool list) prog" where
  "list_tools px uuid header =
     bind (authenticate_listing px uuid header) (\<lambda>auth. case auth of
       None \<Rightarrow> ret []
     | Some ident \<Rightarrow>
         bind (fetch_all_tools px) (\<lambda>tools. case px_policy px of
           None \<Rightarrow> ret tools
         | Some pol \<Rightarrow>
             lift_res (filter_tools_by_policy pol
               (case ident of Some u \<Rightarrow> ui_user_id u | None \<Rightarrow> PStr ''anonymous'')
               (case ident of Some u \<Rightarrow> ui_groups u | None \<Rightarrow> []) tools)))"

section \<open>The trace of upstream calls\<close>

text \<open>Any SDK, with the tool calls it was asked to make recorded beside its own state.\<close>

definition recording_sdk ::
    "('n, 's) mcp_sdk \<Rightarrow> ('n \<times> (string \<times> pyval) list, 's) mcp_sdk" where
  "recording_sdk sdk =
     \<lparr>sdk_check_params = sdk_check_params sdk,
      sdk_open = (\<lambda>ty ep (n, tr). case sdk_open sdk ty ep n of (r, n') \<Rightarrow> (r, (n', tr))),
      sdk_close = (\<lambda>s (n, tr). (sdk_close sdk s n, tr)),
      sdk_list_tools = (\<lambda>s t (n, tr). case sdk_list_tools sdk s t n of (r, n') \<Rightarrow> (r, (n', tr))),
      sdk_call_tool = (\<lambda>s tool args t (n, tr).
         case sdk_call_tool sdk s tool args t n of (r, n') \<Rightarrow> (r, (n', tr @ [(tool, args)]))),
      sdk_sleep = (\<lambda>d (n, tr). (sdk_sleep sdk d n, tr)),
      sdk_validate = sdk_validate sdk\<rparr>"

text \<open>What the retry loop needs to know of an SDK: only \<open>call_tool\<close> is a tool call.\<close>

locale traced_sdk =
  fixes sdk :: "('n, 's) mcp_sdk" and tool_calls :: "'n \<Rightarrow> (string \<times> pyval) list"
  assumes open_quiet: "tool_calls (snd (sdk_open sdk ty ep n)) = tool_calls n"
    and close_quiet: "tool_calls (sdk_close sdk s n) = tool_calls n"
    and list_quiet: "tool_calls (snd (sdk_list_tools sdk s t n)) = tool_calls n"
    and sleep_quiet: "tool_calls (sdk_sleep sdk d n) = tool_calls n"
    and call_traced: "tool_calls (snd (sdk_call_tool sdk s tool args t n)) = tool_calls n @ [(tool, args)]"
begin

abbreviation pool_calls :: "('n, 's) manager_state \<Rightarrow> (string \<times> pyval) list" where
  "pool_calls g \<equiv> tool_calls (sm_net g)"

abbreviation calls :: "('p, 'o, 'n, 's) gateway \<Rightarrow> (string \<times> pyval) list" where
  "calls w \<equiv> pool_calls (gw_manager w)"

lemma connect_quiet:
  "connect sdk rc tok (t, n) = (r, (t', n')) \<Longrightarrow> tool_calls n' = tool_calls n"
  using open_quiet close_quiet
  by (auto simp: connect_unfold Let_def cleanup_bg_task_def split: prod.splits sum.splits if_splits option.splits)
    (metis snd_conv)+

lemma disconnect_quiet:
  "disconnect sdk (t, n) = (r, (t', n')) \<Longrightarrow> tool_calls n' = tool_calls n"
  using close_quiet by (auto simp: disconnect_unfold cleanup_bg_task_def split: if_splits option.splits)

lemma get_session_quiet:
  "get_session sdk configs srv rc tok g = (r, g') \<Longrightarrow> pool_calls g' = pool_calls g"
  by (auto simp: get_session_def Let_def bind_apply on_transport_def
      split: prod.splits sum.splits if_splits dest: connect_quiet)

lemma pop_quiet: "keeps (\<lambda>g. pool_calls g = tr) (pop_and_disconnect sdk key)"
  by (auto simp: keeps_def pop_and_disconnect_def bind_apply split: option.splits prod.splits
      dest: disconnect_quiet)

lemma manager_disconnect_quiet: "keeps (\<lambda>g. pool_calls g = tr) (manager_disconnect sdk srv)"
  unfolding manager_disconnect_def by (intro keeps_intros pop_quiet)

end

context traced_sdk
begin

definition adds_calls :: "nat \<Rightarrow> string \<Rightarrow> pyval \<Rightarrow> (('p, 'o, 'n, 's) gateway, 'a) prog \<Rightarrow> bool" where
  "adds_calls k tool args m \<longleftrightarrow>
     (\<forall>w r w'. m w = (r, w') \<longrightarrow> (\<exists>j \<le> k. calls w' = calls w @ replicate j (tool, args)))"

lemma adds_callsD:
  "adds_calls k tool args m \<Longrightarrow> m w = (r, w') \<Longrightarrow> \<exists>j \<le> k. calls w' = calls w @ replicate j (tool, args)"
  by (auto simp: adds_calls_def)

lemma calls_bind:
  assumes "adds_calls i tool args m" and "\<And>x. adds_calls j tool args (f x)"
  shows "adds_calls (i + j) tool args (bind m f)"
  unfolding adds_calls_def
proof (intro allI impI)
  fix w r w' assume b: "bind m f w = (r, w')"
  obtain r1 w1 where m: "m w = (r1, w1)" by fastforce
  from adds_callsD [OF assms(1) m] obtain a where a: "a \<le> i" "calls w1 = calls w @ replicate a (tool, args)"
    by blast
  show "\<exists>k \<le> i + j. calls w' = calls w @ replicate k (tool, args)"
  proof (cases r1)
    case (Inl e)
    with m b a show ?thesis by (intro exI [of _ a]) (auto simp: bind_apply)
  next
    case (Inr x)
    with m b have "f x w1 = (r, w')" by (simp add: bind_apply)
    from adds_callsD [OF assms(2) this] obtain c where "c \<le> j"
      "calls w' = calls w1 @ replicate c (tool, args)" by blast
    with a show ?thesis by (intro exI [of _ "a + c"]) (simp add: replicate_add)
  qed
qed

lemma calls_handle:
  assumes "adds_calls i tool args m" and "\<And>e. adds_calls j tool args (h e)"
  shows "adds_calls (i + j) tool args (handle m h)"
  unfolding adds_calls_def
proof (intro allI impI)
  fix w r w' assume b: "handle m h w = (r, w')"
  obtain r1 w1 where m: "m w = (r1, w1)" by fastforce
  from adds_callsD [OF assms(1) m] obtain a where a: "a \<le> i" "calls w1 = calls w @ replicate a (tool, args)"
    by blast
  show "\<exists>k \<le> i + j. calls w' = calls w @ replicate k (tool, args)"
  proof (cases r1)
    case (Inr x)
    with m b a show ?thesis by (intro exI [of _ a]) (auto simp: handle_apply)
  next
    case (Inl e)
    with m b have "h e w1 = (r, w')" by (simp add: handle_apply)
    from adds_callsD [OF assms(2) this] obtain c where "c \<le> j"
      "calls w' = calls w1 @ replicate c (tool, args)" by blast
    with a show ?thesis by (intro exI [of _ "a + c"]) (simp add: replicate_add)
  qed
qed

lemma calls_bind0: "adds_calls 0 tool args m \<Longrightarrow> (\<And>x. adds_calls k tool args (f x)) \<Longrightarrow>
    adds_calls k tool args (bind m f)"
  using calls_bind [of 0 tool args m k f] by simp

lemma calls_pure [simp]:
  "adds_calls k tool args (ret x)" "adds_calls k tool args (raise e)"
  "adds_calls k tool args (lift_res q)" "adds_calls k tool args (gets g)"
  by (auto simp: adds_calls_def)

lemma calls_pipeline [simp]: "adds_calls k tool args (in_pipeline m)"
  by (auto simp: adds_calls_def zoom_def split: prod.splits)

lemma calls_auth [simp]: "adds_calls k tool args (in_auth m)"
  by (auto simp: adds_calls_def zoom_def split: prod.splits)

lemma calls_manager:
  assumes "\<And>g r g'. m g = (r, g') \<Longrightarrow> pool_calls g' = pool_calls g"
  shows "adds_calls k tool args (in_manager m)"
  using assms by (auto simp: adds_calls_def zoom_def split: prod.splits)

lemma calls_sleep: "adds_calls k tool args (in_manager (in_net (modify (sdk_sleep sdk d))))"
  by (rule calls_manager) (auto simp: in_net_def zoom_def sleep_quiet)

lemma calls_tool_call: "adds_calls 1 tool args (in_manager (in_net (sdk_call_tool sdk x tool args t)))"
proof -
  have "calls w' = calls w @ replicate 1 (tool, args)"
    if "in_manager (in_net (sdk_call_tool sdk x tool args t)) w = (r, w')"
    for w w' :: "('p, 'o, 'n, 's) gateway" and r
    using that call_traced [of x tool args t "sm_net (gw_manager w)"]
    by (cases "sdk_call_tool sdk x tool args t (sm_net (gw_manager w))")
      (auto simp: in_net_def zoom_def)
  then show ?thesis unfolding adds_calls_def by blast
qed

lemma calls_attempt:
  assumes "px_sdk px = sdk"
  shows "adds_calls 1 tool args (upstream_attempt px srv tool config ctx tok args)"
proof -
  have rest: "adds_calls 0 tool args (process_result px ctx res)" for res
    unfolding process_result_def by (auto split: option.splits intro!: calls_bind0)
  have "adds_calls (0 + (1 + 0)) tool args (upstream_attempt px srv tool config ctx tok args)"
    unfolding upstream_attempt_def assms
    by (intro calls_bind calls_manager calls_tool_call rest) (rule get_session_quiet)
  then show ?thesis by simp
qed

lemma calls_after_failure:
  assumes "px_sdk px = sdk"
  shows "adds_calls 0 tool args (after_failure px srv config ctx e)"
proof -
  have "adds_calls 0 tool args (in_manager (manager_disconnect sdk srv))"
  proof (rule calls_manager)
    fix g r g' assume "manager_disconnect sdk srv g = (r, g')"
    then show "pool_calls g' = pool_calls g"
      using keepsD [OF manager_disconnect_quiet [of "pool_calls g" srv], of g] by simp
  qed
  note q = calls_bind0 [OF this calls_pure(1)]
  show ?thesis
    unfolding after_failure_def assms by (simp add: q)
qed

lemma calls_retry_loop:
  assumes "px_sdk px = sdk"
  shows "adds_calls (length attempts) tool args
           (retry_loop px srv tool config ctx tok args attempts last_error)"
proof (induction attempts arbitrary: last_error)
  case Nil
  show ?case unfolding retry_loop.simps by (rule calls_pure)
next
  case (Cons a rest)
  have wait: "adds_calls 0 tool args (if a < sc_max_retries config
      then in_manager (in_net (modify (sdk_sleep (px_sdk px) d))) else ret ())" for d
    by (simp add: assms calls_sleep)
  have "adds_calls (1 + length rest) tool args
           (retry_loop px srv tool config ctx tok args (a # rest) last_error)"
    unfolding retry_loop.simps
    by (intro calls_handle calls_attempt [OF assms] calls_bind0 calls_after_failure [OF assms] wait Cons.IH)
  then show ?case by simp
qed

lemma calls_forward_call:
  assumes "px_sdk px = sdk"
  shows "adds_calls (sc_max_retries config + 1) tool args (forward_call px srv tool config ctx args)"
proof -
  have "adds_calls (0 + 0) tool args
      (handle (bind (in_auth m) (\<lambda>t. ret (Some t))) (\<lambda>e. if P e then ret None else raise e))" for m P
    by (intro calls_handle calls_bind0) auto
  moreover have "adds_calls (sc_max_retries config + 1) tool args
      (retry_loop px srv tool config ctx tok args [0 ..< sc_max_retries config + 1] None)" for tok
    using calls_retry_loop [OF assms, where attempts = "[0 ..< sc_max_retries config + 1]"]
    by (simp del: upt_Suc)
  ultimately show ?thesis
    unfolding forward_call_def by (intro calls_bind0) (auto split: option.splits simp del: upt_Suc)
qed

lemma call_tool_traced:
  assumes "call_tool px uuid header name args w = (r, w')" and "px_sdk px = sdk"
  shows "calls w' = calls w \<or>
    (\<exists>srv tool cfg j. parse_tool name = Inr (srv, tool) \<and> get_config (px_configs px) srv = Inr cfg \<and>
       j \<le> sc_max_retries cfg + 1 \<and> calls w' = calls w @ replicate j (tool, args))"
proof (cases "parse_tool name")
  case (Inl e)
  with assms show ?thesis by (simp add: call_tool_def)
next
  case (Inr st)
  obtain srv tool where st: "st = (srv, tool)" by fastforce
  show ?thesis
  proof (cases "get_config (px_configs px) srv")
    case (Inl e)
    with assms Inr st show ?thesis by (simp add: call_tool_def)
  next
    case (Inr cfg)
    have "adds_calls (sc_max_retries cfg + 1) tool args (call_tool px uuid header name args)"
      using \<open>parse_tool name = Inr st\<close> st Inr
      by (auto simp: call_tool_def simp del: One_nat_def split: option.splits
          intro!: calls_bind0 calls_forward_call [OF assms(2)])
    from adds_callsD [OF this assms(1)] \<open>parse_tool name = Inr st\<close> st Inr show ?thesis by auto
  qed
qed

end

interpretation recorded: traced_sdk "recording_sdk sdk" snd for sdk
  by unfold_locales (auto simp: recording_sdk_def split: prod.splits)

section \<open>What the handlers return\<close>

lemma call_tool_gate:
  assumes "parse_tool name = Inr (srv, tool)" and "get_config (px_configs px) srv = Inr cfg"
    and "px_hooks px = Some hooks"
  shows "call_tool px uuid header name args w =
     (case execute (px_now px) hooks (call_context uuid header srv tool cfg args (px_now px (gw_pipeline w)))
             (gw_pipeline w) of
        (Inl e, p) \<Rightarrow> (Inl e, w\<lparr>gw_pipeline := p\<rparr>)
      | (Inr result, p) \<Rightarrow>
          if policy_decision (plr_context result) = D_DENY
          then (Inr (denied_content (plr_context result)), w\<lparr>gw_pipeline := p\<rparr>)
          else forward_call px srv tool cfg (plr_context result) args (w\<lparr>gw_pipeline := p\<rparr>))"
  using assms by (auto simp: call_tool_def bind_apply zoom_def split: prod.splits sum.splits)

definition processed_response ::
    "('p, 'o, 'n, 's) proxy_server \<Rightarrow> 'p hook list \<Rightarrow> hook_context \<Rightarrow> pyval list \<Rightarrow> bool" where
  "processed_response px hooks ctx content \<longleftrightarrow>
     (\<exists>(res::tool_result) p post p'.
        execute (px_now px) hooks
          (ctx\<lparr>response_payload := [(''content'', PList (tr_content res)), (''is_error'', tr_is_error res)]\<rparr>) p =
          (Inr post, p') \<and>
        (if plr_success post
         then rebuild_content (px_sdk px) (response_payload (plr_context post)) = Inr content
         else content = blocked_content ctx))"

lemma attempt_processed:
  assumes "upstream_attempt px srv tool cfg ctx tok args w = (Inr content, w')"
    and "px_hooks px = Some hooks"
  shows "processed_response px hooks ctx content"
proof -
  from assms(1) obtain res w2 where "process_result px ctx res w2 = (Inr content, w')"
    unfolding upstream_attempt_def by (elim bind_Inr_elim)
  then show ?thesis
    unfolding processed_response_def
    by (intro exI [of _ res] exI [of _ "gw_pipeline w2"])
      (auto simp: process_result_def assms(2) bind_apply zoom_def split: prod.splits sum.splits if_splits)
qed

lemma retry_loop_processed:
  assumes "retry_loop px srv tool cfg ctx tok args attempts last_error w = (Inr content, w')"
    and "px_hooks px = Some hooks"
  shows "processed_response px hooks ctx content"
  using assms(1)
proof (induction attempts arbitrary: last_error w)
  case (Cons a rest)
  obtain r w1 where att: "upstream_attempt px srv tool cfg ctx tok args w = (r, w1)" by fastforce
  show ?case
  proof (cases r)
    case (Inr c)
    with att Cons.prems have "upstream_attempt px srv tool cfg ctx tok args w = (Inr content, w')"
      by (simp add: handle_apply)
    then show ?thesis using attempt_processed assms(2) by blast
  next
    case (Inl e)
    with att Cons.prems show ?thesis
      by (auto simp: handle_apply elim!: bind_Inr_elim dest: Cons.IH)
  qed
qed simp

lemma forward_call_processed:
  assumes "forward_call px srv tool cfg ctx args w = (Inr content, w')"
    and "px_hooks px = Some hooks"
  shows "content = denied_content ctx \<or> processed_response px hooks ctx content"
  using assms(1) unfolding forward_call_def
proof (rule bind_Inr_elim)
  fix token w1
  assume "(case token of None \<Rightarrow> ret (denied_content ctx)
     | Some auth_token \<Rightarrow> retry_loop px srv tool cfg ctx auth_token args
         [0..<sc_max_retries cfg + 1] None) w1 = (Inr content, w')"
  then show ?thesis
    using retry_loop_processed [OF _ assms(2)] by (cases token) (auto simp del: upt_Suc)
qed

text \<open>The filter of the listing, as a predicate on one tool.\<close>

definition visible :: "policy_config \<Rightarrow> pyval \<Rightarrow> pyval list \<Rightarrow> mcp_tool \<Rightarrow> bool" where
  "visible pol user groups tool =
     (case split1 ''__'' (mt_name tool) of
        [srv, name] \<Rightarrow> er_effect (decide pol \<lparr>pi_user_id = user, pi_groups = groups,
                                              pi_mcp_server = srv, pi_tool = name\<rparr>) = ALLOW
      | _ \<Rightarrow> False)"

lemma filter_tools_visible:
  "filter_tools_by_policy pol user groups tools = Inr (filter (visible pol user groups) tools)"
proof (induction tools)
  case (Cons tool tools)
  have "separator \<noteq> []" by (simp add: separator_def)
  from split1_cases [OF this, of "mt_name tool"] Cons.IH show ?case
    by (auto simp: visible_def evaluate_decide separator_def split: list.splits)
qed simp

lemma fetch_server_tools_ok:
  assumes "get_config (px_configs px) srv = Inr cfg" and "fetch_server_tools px srv w = (Inl e, w')"
  shows "\<not> is_Exception e"
  using assms by (auto simp: fetch_server_tools_def handle_apply split: prod.splits sum.splits if_splits)

section \<open>Properties\<close>

definition crashing_hook :: "unit hook" where
  "crashing_hook =
     (base_hook ''Crashing'')\<lparr>h_pre_validation := (\<lambda>_. raise (ValueError ''boom''))\<rparr>"

definition denying_hook :: "unit hook" where
  "denying_hook =
     (base_hook ''Denying'')\<lparr>h_post_validation := (\<lambda>_. raise (ShortCircuitError ''no'' True))\<rparr>"

definition toy_proxy :: "unit hook list \<Rightarrow> ('n, 's) mcp_sdk \<Rightarrow> (unit, unit, 'n, 's) proxy_server" where
  "toy_proxy hooks sdk =
     \<lparr>px_hooks = Some hooks, px_now = (\<lambda>_. 0), px_get_token = (\<lambda>_ _. ret PNone),
      px_policy = Some (embed_policy default_policy_config ALLOW sample_rules),
      px_configs = toy_configs, px_sdk = sdk\<rparr>"

definition toy_gateway :: "'n \<Rightarrow> (unit, unit, 'n, 's) gateway" where
  "toy_gateway n =
     \<lparr>gw_pipeline = (), gw_auth = (), gw_manager = \<lparr>sm_transports = [], sm_net = n\<rparr>\<rparr>"


definition crashed_run :: "pipeline_result res \<times> unit" where
  "crashed_run = execute (\<lambda>_. 0) [crashing_hook]
     (call_context ''c-1'' [] ''files'' ''read'' (toy_server ''files'') (PDict []) 0) ()"

definition crashed_call :: "pyval list res \<times> (unit, unit, nat \<times> (string \<times> pyval) list, endpoint) gateway" where
  "crashed_call = call_tool (toy_proxy [crashing_hook] (recording_sdk toy_sdk)) ''c-1'' [] ''files__read''
     (PDict []) (toy_gateway (0, []))"




text \<open>C10: no unprocessed response. With a pipeline, an answer is a denial, the notice that the
  response was blocked, or what a successful run of the whole pipeline made of the response; a run
  that failed in any way blocks it.\<close>

theorem response_is_processed_or_blocked:
  assumes "call_tool px uuid header name args w = (Inr content, w')" and "px_hooks px = Some hooks"
  shows "\<exists>ctx. content = denied_content ctx \<or> content = blocked_content ctx \<or>
    (\<exists>(res::tool_result) p post p'.
       execute (px_now px) hooks
         (ctx\<lparr>response_payload := [(''content'', PList (tr_content res)), (''is_error'', tr_is_error res)]\<rparr>) p =
         (Inr post, p') \<and> plr_success post \<and>
       rebuild_content (px_sdk px) (response_payload (plr_context post)) = Inr content)"
proof -
  from assms(1) obtain srv tool where parse: "parse_tool name = Inr (srv, tool)"
    by (cases "parse_tool name") (auto simp: call_tool_def)
  from assms(1) parse obtain cfg where cfg: "get_config (px_configs px) srv = Inr cfg"
    by (cases "get_config (px_configs px) srv") (auto simp: call_tool_def)
  from assms(1) call_tool_gate [OF parse cfg assms(2), of uuid header args w]
  obtain ctx w1 where "content = denied_content ctx \<or>
      forward_call px srv tool cfg ctx args w1 = (Inr content, w')"
    by (auto split: prod.splits sum.splits if_splits)
  with forward_call_processed [OF _ assms(2)]
  have "content = denied_content ctx \<or> processed_response px hooks ctx content" by blast
  then show ?thesis unfolding processed_response_def by (intro exI [of _ ctx]) (metis (full_types))
qed

definition denied_call :: "pyval list res \<times> (unit, unit, nat, endpoint) gateway" where
  "denied_call = call_tool (toy_proxy [denying_hook] toy_sdk) ''c-1'' [] ''files__read'' (PDict []) (toy_gateway 0)"

theorem response_is_processed_or_blocked_witness:
  "\<exists>ctx. [text_content ''Access denied (correlation_id=c-1)''] = denied_content ctx \<or>
     [text_content ''Access denied (correlation_id=c-1)''] = blocked_content ctx \<or>
    (\<exists>(res::tool_result) p post p'.
       execute (\<lambda>_. 0) [denying_hook]
         (ctx\<lparr>response_payload := [(''content'', PList (tr_content res)), (''is_error'', tr_is_error res)]\<rparr>) p =
         (Inr post, p') \<and> plr_success post \<and>
       rebuild_content toy_sdk (response_payload (plr_context post)) =
         Inr [text_content ''Access denied (correlation_id=c-1)''])"
proof -
  let ?px = "toy_proxy [denying_hook] toy_sdk"
  have "fst denied_call = Inr [text_content ''Access denied (correlation_id=c-1)'']" by code_simp
  then have call: "call_tool ?px ''c-1'' [] ''files__read'' (PDict []) (toy_gateway 0) =
      (Inr [text_content ''Access denied (correlation_id=c-1)''], snd denied_call)"
    unfolding denied_call_def by (metis prod.collapse)
  have "px_hooks ?px = Some [denying_hook]" by (simp add: toy_proxy_def)
  from response_is_processed_or_blocked [OF call this] show ?thesis by (simp add: toy_proxy_def)
qed


definition toy_listing :: "mcp_tool list res \<times> (unit, unit, nat, endpoint) gateway" where
  "toy_listing = list_tools (toy_proxy [denying_hook] toy_sdk) ''c-1'' [] (toy_gateway 0)"


text \<open>The listing isolates the servers. Whatever the servers and the SDK do, fetching the tools
  of all configured servers raises no exception that the code could catch: a server that fails
  contributes no tools.\<close>

theorem listing_isolates_servers:
  assumes "fetch_all_tools px w = (Inl e, w')"
  shows "\<not> is_Exception e"
proof -
  have "\<not> is_Exception e"
    if "map_prog (fetch_server_tools px) srvs w = (Inl e, w')"
      and "set srvs \<subseteq> set (server_names (px_configs px))" for srvs w
    using that
  proof (induction srvs arbitrary: w)
    case (Cons s srvs)
    then obtain cfg where "get_config (px_configs px) s = Inr cfg"
      by (force simp: server_names_def get_config_def split: option.splits dest: weak_map_of_SomeI)
    from fetch_server_tools_ok [OF this] Cons show ?case
      by (auto simp: bind_apply split: prod.splits sum.splits)
  qed simp
  with assms show ?thesis
    by (auto simp: fetch_all_tools_def bind_apply split: prod.splits sum.splits)
qed

definition failing_sdk :: "(nat, endpoint) mcp_sdk" where
  "failing_sdk = toy_sdk\<lparr>sdk_list_tools := (\<lambda>_ _. raise CancelledError)\<rparr>"

theorem listing_isolates_servers_witness:
  "\<not> is_Exception (projl (fst (fetch_all_tools (toy_proxy [] failing_sdk) (toy_gateway 0)))) \<and>
   fst (fetch_all_tools (toy_proxy [] toy_sdk) (toy_gateway 0)) =
     Inr [\<lparr>mt_name = ''files__read_file'', mt_attributes = []\<rparr>,
          \<lparr>mt_name = ''files__delete_file'', mt_attributes = []\<rparr>]"
proof -
  let ?w = "toy_gateway 0 :: (unit, unit, nat, endpoint) gateway"
  let ?run = "fetch_all_tools (toy_proxy [] failing_sdk) ?w"
  have "fst ?run = Inl CancelledError" by code_simp
  then have "?run = (Inl (projl (fst ?run)), snd ?run)" by (metis prod.collapse sum.sel(1))
  from listing_isolates_servers [OF this] have "\<not> is_Exception (projl (fst ?run))" .
  moreover have "fst (fetch_all_tools (toy_proxy [] toy_sdk) ?w) =
     Inr [\<lparr>mt_name = ''files__read_file'', mt_attributes = []\<rparr>,
          \<lparr>mt_name = ''files__delete_file'', mt_attributes = []\<rparr>]" by code_simp
  ultimately show ?thesis by (simp add: toy_gateway_def)
qed

end
