(* ===== verification/Gateway.thy ===== *)
theory Gateway
  imports Identity Governance_Hook Analytics Plugins Proxy
begin

text \<open>
  \<open>_build_pipeline\<close> of \<open>main.py\<close> and the pipeline it builds. The states of the hooks are the parts
  of \<open>pipeline_state\<close>; each hook is a \<open>zoom_hook\<close> on its part. The hooks of a gateway keep the
  call they judge (\<open>same_call\<close>) and never attach an identity that no token vouches for
  (\<open>genuine\<close>); with this they interpret the contract \<open>hook_contract\<close> of the pipeline, and what
  reaches an upstream was admitted.
\<close>

section \<open>The state and the parts\<close>

record ('n, 'k, 'm, 'r, 'w) pipeline_state =
  ps_identity :: "('n, 'k) jwks_state"
  ps_masking :: 'm
  ps_analytics :: "'r collector"
  ps_audit :: "'w audit_state"

text \<open>What the hooks are made of: the environment of the identity client, the clocks and buses.\<close>

record ('n, 'k, 'm, 'r, 'w) gateway_parts =
  gp_idp :: "('n, 'k) idp_env"
  gp_wait :: "('n, 'k) jwks_state \<Rightarrow> ('n, 'k) jwks_state"
  gp_queue_size :: int
  gp_monotonic :: "'r collector \<Rightarrow> rat"
  gp_time :: "'r collector \<Rightarrow> rat"
  gp_audit_monotonic :: "'w \<Rightarrow> rat"
  gp_audit_utc :: "'w \<Rightarrow> string"
  gp_stdout_tty :: bool

type_synonym ('n, 'k, 'm, 'r, 'w) gateway_hook = "('n, 'k, 'm, 'r, 'w) pipeline_state hook"

definition identity_stage ::
    "('n, 'k, 'm, 'r, 'w) gateway_parts \<Rightarrow> identity_config \<Rightarrow> ('n, 'k, 'm, 'r, 'w) gateway_hook" where
  "identity_stage gp ic =
     zoom_hook ps_identity (\<lambda>s w. w\<lparr>ps_identity := s\<rparr>)
       (identity_hook (validate_token (gp_idp gp) ic (gp_wait gp)))"

definition governance_stage :: "policy_config \<Rightarrow> bool \<Rightarrow> ('n, 'k, 'm, 'r, 'w) gateway_hook" where
  "governance_stage pol identity_required = governance_hook (evaluate pol) identity_required"

definition masking_stage ::
    "'m mask_text \<Rightarrow> presidio_config \<Rightarrow> ('n, 'k, 'm, 'r, 'w) gateway_hook" where
  "masking_stage eng cfg =
     zoom_hook ps_masking (\<lambda>s w. w\<lparr>ps_masking := s\<rparr>) (masking_hook eng cfg)"

definition analytics_stage ::
    "('n, 'k, 'm, 'r, 'w) gateway_parts \<Rightarrow> ('n, 'k, 'm, 'r, 'w) gateway_hook" where
  "analytics_stage gp =
     zoom_hook ps_analytics (\<lambda>s w. w\<lparr>ps_analytics := s\<rparr>)
       (analytics_hook (gp_queue_size gp) (gp_monotonic gp) (gp_time gp))"

definition audit_stage :: "'w audit_config \<Rightarrow> ('n, 'k, 'm, 'r, 'w) gateway_hook" where
  "audit_stage cfg = zoom_hook ps_audit (\<lambda>s w. w\<lparr>ps_audit := s\<rparr>) (audit_hook cfg)"

section \<open>Building the pipeline\<close>

definition getenv :: "(string \<Rightarrow> string option) \<Rightarrow> string \<Rightarrow> string \<Rightarrow> string" where
  "getenv env name dflt = (case env name of Some v \<Rightarrow> v | None \<Rightarrow> dflt)"

definition env_flag :: "string \<Rightarrow> bool" where
  "env_flag v = (lower (strip v) \<in> {''1'', ''true'', ''yes''})"

definition skip_tls_validation :: "(string \<Rightarrow> string option) \<Rightarrow> bool" where
  "skip_tls_validation env = env_flag (getenv env ''MCP_SKIP_TLS_VALIDATION'' [])"

text \<open>The identity configuration in force: the policy file's, or that of the environment.\<close>

definition effective_identity ::
    "(string \<Rightarrow> string option) \<Rightarrow> identity_config option \<Rightarrow> identity_config option res" where
  "effective_identity env ic =
     (case ic of
        Some c \<Rightarrow> Inr (Some c)
      | None \<Rightarrow>
          let issuer = getenv env ''OKTA_ISSUER'' []; audience = getenv env ''OKTA_AUDIENCE'' [] in
          if issuer \<noteq> [] \<and> audience \<noteq> [] then
            res_bind (make_identity_config
                \<lparr>ic_provider = PStr ''okta'', ic_issuer = PStr issuer, ic_audience = PStr audience,
                 ic_jwks_cache_ttl = 3600, ic_claim_mapping = default_claim_mapping,
                 ic_allow_insecure = PBool (skip_tls_validation env)\<rparr>) (\<lambda>c. Inr (Some c))
          else Inr None)"

abbreviation in_registry :: "('h registry, 'a) prog \<Rightarrow> (('o, 'h, 'e) plugin_world, 'a) prog" where
  "in_registry m \<equiv> zoom pw_registry (\<lambda>r w. w\<lparr>pw_registry := r\<rparr>) m"

definition build_pipeline ::
    "('n, 'k, 'm, 'r, 'w) gateway_parts \<Rightarrow> (string \<Rightarrow> string option) \<Rightarrow>
     (string \<times> ('o, ('n, 'k, 'm, 'r, 'w) gateway_hook, 'w event_handler) entry_point) list \<Rightarrow>
     identity_config option \<Rightarrow> policy_config option \<Rightarrow> bool \<Rightarrow>
     (('o, ('n, 'k, 'm, 'r, 'w) gateway_hook, 'w event_handler) plugin_world,
      ('n, 'k, 'm, 'r, 'w) gateway_hook list option) prog" where
  "build_pipeline gp env available identity_config policy analytics =
     bind (lift_res (effective_identity env identity_config)) (\<lambda>ic.
     bind (case ic of None \<Rightarrow> ret () | Some c \<Rightarrow> in_registry (register 10 (identity_stage gp c))) (\<lambda>_.
     bind (case policy of None \<Rightarrow> ret ()
           | Some pol \<Rightarrow> in_registry (register 50 (governance_stage pol (ic \<noteq> None)))) (\<lambda>_.
     bind (case policy of None \<Rightarrow> ret ()
           | Some pol \<Rightarrow> if pol_plugins pol = [] then ret () else load_plugins available (pol_plugins pol)) (\<lambda>_.
     bind (if analytics then in_registry (register 145 (analytics_stage gp)) else ret ()) (\<lambda>_.
     bind (gets pw_bus) (\<lambda>bus.
     bind (lift_res (make_audit_config (map_option pol_logging policy) 1000 (Some bus)
             (gp_audit_monotonic gp) (gp_audit_utc gp))) (\<lambda>ac.
     bind (in_registry (register 150 (audit_stage ac))) (\<lambda>_.
       if ic = None \<and> policy = None then ret None
       else
         bind (modify (\<lambda>w. w\<lparr>pw_registry := build (pw_registry w)\<rparr>)) (\<lambda>_.
         bind (gets (get_hooks \<circ> pw_registry)) (\<lambda>hooks.
         bind (lift_res hooks) (\<lambda>hs. ret (Some hs))))))))))))"

section \<open>Keys come from the identity provider\<close>

text \<open>A list of keys made from a response of the identity provider.\<close>

definition published :: "('n, 'k) idp_env \<Rightarrow> 'k list \<Rightarrow> bool" where
  "published env keys \<longleftrightarrow>
     (\<exists>url n data n'. ie_get_json env url n = (Inr data, n') \<and>
        res_bind (py_get data ''keys'' (PList []))
          (\<lambda>raw. res_bind (py_iter raw) (map_res (ie_make_key env))) = Inr keys)"

definition keys_ok :: "('n, 'k) idp_env \<Rightarrow> ('n, 'k) jwks_state \<Rightarrow> bool" where
  "keys_ok env s \<longleftrightarrow> js_keys s = [] \<or> published env (js_keys s)"

lemma keys_ok_frame [simp]:
  "keys_ok env (s\<lparr>js_uri := u\<rparr>) = keys_ok env s" "keys_ok env (s\<lparr>js_net := n\<rparr>) = keys_ok env s"
  "keys_ok env (s\<lparr>js_last_fetch := q\<rparr>) = keys_ok env s"
  by (simp_all add: keys_ok_def)

lemma get_json_keys:
  assumes "get_json env wrap url s = (r, s')"
  shows "js_keys s' = js_keys s \<and>
    (\<forall>data. r = Inr data \<longrightarrow> (\<exists>n n'. ie_get_json env url n = (Inr data, n')))"
  using assms
  by (auto simp: get_json_def handle_apply zoom_def split: prod.splits sum.splits if_splits)

lemma keeps_get_json: "keeps (keys_ok env) (get_json env wrap url)"
proof
  fix s assume "keys_ok env s"
  then show "keys_ok env (snd (get_json env wrap url s))"
    using get_json_keys [OF surjective_pairing, of env wrap url s] by (simp add: keys_ok_def)
qed

lemma keeps_discover: "keeps (keys_ok env) (discover_jwks_uri env issuer)"
  unfolding discover_jwks_uri_def Let_def by (intro keeps_intros keeps_get_json)

text \<open>The tail of \<open>_fetch_keys\<close>: what it stores was made from the response it received.\<close>

lemma keeps_store:
  assumes "ie_get_json env url n = (Inr data, n')"
  shows "keeps (keys_ok env) (bind (lift_res (py_get data ''keys'' (PList []))) (\<lambda>raw_keys.
       if \<not> truthy raw_keys then raise (f raw_keys)
       else bind (lift_res (res_bind (py_iter raw_keys) (map_res (ie_make_key env)))) (\<lambda>keys.
            bind (modify (\<lambda>s. s\<lparr>js_keys := keys\<rparr>)) (\<lambda>_.
              modify (\<lambda>s. s\<lparr>js_last_fetch := ie_monotonic env (js_net s)\<rparr>)))))"
proof -
  have "published env keys"
    if "py_get data ''keys'' (PList []) = Inr raw"
      and "res_bind (py_iter raw) (map_res (ie_make_key env)) = Inr keys" for raw keys
    unfolding published_def using assms that
    by (intro exI [of _ url] exI [of _ n] exI [of _ data] exI [of _ n']) simp
  then show ?thesis
    by (auto simp: keeps_def bind_apply keys_ok_def split: sum.splits prod.splits)
qed

lemma keeps_bind_result:
  assumes "keeps I m" and "\<And>w x w'. m w = (Inr x, w') \<Longrightarrow> keeps I (f x)"
  shows "keeps I (bind m f)"
proof
  fix w assume "I w"
  obtain r w1 where m: "m w = (r, w1)" by fastforce
  with assms(1) \<open>I w\<close> have "I w1" by (auto simp: keeps_def dest!: spec [of _ w])
  with m assms(2) show "I (snd (bind m f w))"
    by (cases r) (auto simp: bind_apply dest: keepsD)
qed

lemma keeps_fetch_keys: "keeps (keys_ok env) (fetch_keys env cfg)"
proof -
  have uri: "keeps (keys_ok env) (case known of Some uri \<Rightarrow> ret uri
      | None \<Rightarrow> bind (discover_jwks_uri env issuer) (\<lambda>uri.
               bind (modify (\<lambda>s. s\<lparr>js_uri := Some uri\<rparr>)) (\<lambda>_. ret uri)))" for known issuer
    by (cases known) (auto intro!: keeps_intros keeps_discover keeps_modify)
  have store: "keeps (keys_ok env) (bind (get_json env wrap uri) (\<lambda>jwks_data.
     bind (lift_res (py_get jwks_data ''keys'' (PList []))) (\<lambda>raw_keys.
       if \<not> truthy raw_keys then raise (f raw_keys)
       else bind (lift_res (res_bind (py_iter raw_keys) (map_res (ie_make_key env)))) (\<lambda>keys.
            bind (modify (\<lambda>s. s\<lparr>js_keys := keys\<rparr>)) (\<lambda>_.
              modify (\<lambda>s. s\<lparr>js_last_fetch := ie_monotonic env (js_net s)\<rparr>))))))" for wrap uri f
  proof (rule keeps_bind_result [OF keeps_get_json])
    fix w w' data
    assume "get_json env wrap uri w = (Inr data, w')"
    from get_json_keys [OF this] obtain n n' where get: "ie_get_json env uri n = (Inr data, n')" by blast
    show "keeps (keys_ok env) (bind (lift_res (py_get data ''keys'' (PList []))) (\<lambda>raw_keys.
       if \<not> truthy raw_keys then raise (f raw_keys)
       else bind (lift_res (res_bind (py_iter raw_keys) (map_res (ie_make_key env)))) (\<lambda>keys.
            bind (modify (\<lambda>s. s\<lparr>js_keys := keys\<rparr>)) (\<lambda>_.
              modify (\<lambda>s. s\<lparr>js_last_fetch := ie_monotonic env (js_net s)\<rparr>)))))"
      by (rule keeps_store [OF get])
  qed
  show ?thesis unfolding fetch_keys_def by (intro keeps_bind keeps_basic uri store)
qed

lemma keeps_validate_token:
  assumes "\<And>s. keys_ok env s \<Longrightarrow> keys_ok env (wait s)"
  shows "keeps (keys_ok env) (validate_token env cfg wait token)"
proof -
  have keys: "keeps (keys_ok env) (get_signing_keys env cfg wait force)" for force
    unfolding get_signing_keys_def
    by (intro keeps_intros keeps_modify keeps_fetch_keys assms)
  have decode: "keeps (keys_ok env) (decode_with_keys env cfg token ks)" for ks
    by (simp add: keeps_def decode_with_keys_def)
  show ?thesis
    unfolding validate_token_def by (intro keeps_intros keys decode)
qed

section \<open>What every hook of a gateway keeps\<close>

definition same_call :: "hook_context \<Rightarrow> hook_context \<Rightarrow> bool" where
  "same_call c c' \<longleftrightarrow>
     server_name c' = server_name c \<and> tool_name c' = tool_name c \<and> extras c' = extras c \<and>
     transport c' = transport c \<and> correlation_id (request c') = correlation_id (request c)"

text \<open>The user that a bearer token in the request's header stands for, with keys the identity
  provider published.\<close>

definition authentic ::
    "('n, 'k) idp_env \<Rightarrow> identity_config \<Rightarrow> hook_context \<Rightarrow> user_identity \<Rightarrow> bool" where
  "authentic env ic c u \<longleftrightarrow>
     (\<exists>header token n keys cl.
        dict_get (extras c) ''authorization'' (PStr []) = PStr header \<and>
        parse_bearer header = Some token \<and> published env keys \<and>
        vouched env ic n keys token cl \<and> truthy (tc_user_id cl) \<and>
        u = \<lparr>ui_user_id = tc_user_id cl, ui_email = tc_email cl, ui_groups = tc_groups cl\<rparr>)"

definition genuine :: "('n, 'k) idp_env \<Rightarrow> identity_config \<Rightarrow> hook_context \<Rightarrow> bool" where
  "genuine env ic c \<longleftrightarrow> (\<forall>u. identity (request c) = Some u \<longrightarrow> authentic env ic c u)"

definition kept_context :: "('n, 'k) idp_env \<Rightarrow> identity_config \<Rightarrow> hook_context \<Rightarrow> hook_context \<Rightarrow> bool" where
  "kept_context env ic c c' \<longleftrightarrow> same_call c c' \<and> (genuine env ic c \<longrightarrow> genuine env ic c')"

definition kept_state :: "('n, 'k) idp_env \<Rightarrow> ('n, 'k, 'm, 'r, 'w) pipeline_state \<Rightarrow> bool" where
  "kept_state env w \<longleftrightarrow> keys_ok env (ps_identity w)"

definition well_behaved ::
    "('n, 'k) idp_env \<Rightarrow> identity_config \<Rightarrow> ('n, 'k, 'm, 'r, 'w) gateway_hook \<Rightarrow> bool" where
  "well_behaved env ic h \<longleftrightarrow>
     (\<forall>p c w r w'. kept_state env w \<longrightarrow> method_at p h c w = (r, w') \<longrightarrow>
        kept_state env w' \<and> (\<forall>c'. r = Inr c' \<longrightarrow> kept_context env ic c c')) \<and>
     (\<forall>c e w r w'. kept_state env w \<longrightarrow> h_on_error h c e w = (r, w') \<longrightarrow> kept_state env w')"

lemma kept_context_refl [simp]: "kept_context env ic c c"
  by (simp add: kept_context_def same_call_def)

lemma same_request_kept:
  "same_call c c' \<Longrightarrow> request c' = request c \<Longrightarrow> kept_context env ic c c'"
  by (auto simp: kept_context_def genuine_def authentic_def same_call_def)

lemma kept_context_trans:
  "kept_context env ic c c' \<Longrightarrow> kept_context env ic c' c'' \<Longrightarrow> kept_context env ic c c''"
  by (auto simp: kept_context_def same_call_def)

lemma kept_context_mark [simp]: "kept_context env ic c (mark_short_circuit reason deny c)"
  by (rule same_request_kept) (auto simp: mark_short_circuit_def same_call_def Let_def)

lemma well_behaved_contract:
  assumes "\<forall>h \<in> set hooks. well_behaved env ic h"
  shows "hook_contract hooks (kept_state env) (kept_context env ic)"
proof unfold_locales
  show "kept_context env ic c c" for c by simp
  show "kept_context env ic c c' \<Longrightarrow> kept_context env ic c' c'' \<Longrightarrow> kept_context env ic c c''" for c c' c''
    by (rule kept_context_trans)
  show "kept_context env ic c (mark_short_circuit reason deny c)" for c reason deny by simp
next
  fix h p c w r w' assume "h \<in> set hooks" "kept_state env w" "method_at p h c w = (r, w')"
  with assms show "kept_state env w'" unfolding well_behaved_def by blast
next
  fix h p c w c' w' assume "h \<in> set hooks" "kept_state env w" "method_at p h c w = (Inr c', w')"
  with assms show "kept_context env ic c c'" unfolding well_behaved_def by blast
next
  fix h c e w r' w' assume "h \<in> set hooks" "kept_state env w" "h_on_error h c e w = (r', w')"
  with assms show "kept_state env w'" unfolding well_behaved_def by blast
qed

lemma method_at_zoom:
  "method_at p (zoom_hook get put h) c w =
     (if p = ON_ERROR then (Inl (KeyError ''on_error''), w)
      else zoom get put (method_at p h c) w)"
  by (cases p) (simp_all add: zoom_hook_def)

lemma zoom_keeps_identity:
  assumes "\<And>s w. ps_identity (put s w) = ps_identity w" and "zoom get put m w = (r, w')" and "kept_state env w"
  shows "kept_state env w'"
  using assms by (auto simp: zoom_def kept_state_def split: prod.splits)

text \<open>A stage whose state is not the identity client's and whose methods keep the request.\<close>

lemma well_behaved_stage:
  fixes get :: "('n, 'k, 'm, 'r, 'w) pipeline_state \<Rightarrow> 's"
  assumes put: "\<And>s w. ps_identity (put s w) = ps_identity w"
    and same: "\<And>p c s c' s'. method_at p h c s = (Inr c', s') \<Longrightarrow> same_call c c' \<and> request c' = request c"
  shows "well_behaved env ic (zoom_hook get put h)"
  unfolding well_behaved_def
proof (intro conjI allI impI)
  fix p c w r w' assume k: "kept_state env w" and m: "method_at p (zoom_hook get put h) c w = (r, w')"
  show "kept_state env w'"
  proof (cases "p = ON_ERROR")
    case True
    with m k show ?thesis by (simp add: method_at_zoom)
  next
    case False
    with m have "zoom get put (method_at p h c) w = (r, w')" by (simp add: method_at_zoom)
    with put show ?thesis using k by (rule zoom_keeps_identity)
  qed
  fix c' assume "r = Inr c'"
  with m have "\<exists>s s'. method_at p h c s = (Inr c', s')"
    by (auto simp: method_at_zoom zoom_def split: if_splits prod.splits)
  with same show "kept_context env ic c c'" by (blast intro: same_request_kept)
next
  fix c e w r w' assume k: "kept_state env w" and m: "h_on_error (zoom_hook get put h) c e w = (r, w')"
  from m have "zoom get put (h_on_error h c e) w = (r, w')" by (simp add: zoom_hook_def)
  with put show "kept_state env w'" using k by (rule zoom_keeps_identity)
qed

lemma masking_stage_ok: "well_behaved env ic (masking_stage eng cfg)"
  unfolding masking_stage_def
proof (rule well_behaved_stage)
  fix p c s c' s' assume "method_at p (masking_hook eng cfg) c s = (Inr c', s')"
  then show "same_call c c' \<and> request c' = request c"
    by (cases p)
      (auto simp: masking_hook_def base_hook_def on_pre_masking_def on_post_masking_def same_call_def
        elim!: bind_Inr_elim split: if_splits)
qed simp

lemma analytics_stage_ok: "well_behaved env ic (analytics_stage gp)"
  unfolding analytics_stage_def
proof (rule well_behaved_stage)
  fix p c s c' s'
  assume m: "method_at p (analytics_hook (gp_queue_size gp) (gp_monotonic gp) (gp_time gp)) c s = (Inr c', s')"
  have "c' = c"
    using m analytics_pre_audit_same [of "gp_queue_size gp" "gp_monotonic gp" "gp_time gp" c s]
    by (cases p) (auto simp: analytics_hook_def base_hook_def)
  then show "same_call c c' \<and> request c' = request c" by (simp add: same_call_def)
qed simp

lemma audit_stage_ok: "well_behaved env ic (audit_stage cfg)"
  unfolding audit_stage_def
proof (rule well_behaved_stage)
  fix p c s c' s' assume "method_at p (audit_hook cfg) c s = (Inr c', s')"
  then have "c' = c"
    by (cases p) (auto simp: audit_hook_def base_hook_def audit_pre_audit_def elim!: bind_Inr_elim)
  then show "same_call c c' \<and> request c' = request c" by (simp add: same_call_def)
qed simp

lemma governance_stage_ok:
  fixes env :: "('n, 'k) idp_env"
  shows "well_behaved env ic (governance_stage pol req :: ('n, 'k, 'm, 'r, 'w) gateway_hook)"
  unfolding well_behaved_def
proof (intro conjI allI impI)
  fix p c and w w' :: "('n, 'k, 'm, 'r, 'w) pipeline_state" and r
  assume k: "kept_state env w" and m: "method_at p (governance_stage pol req) c w = (r, w')"
  from engine.governance_method [OF m [unfolded governance_stage_def]] k
  show "kept_state env w'" by simp
  fix c' assume "r = Inr c'"
  with engine.governance_method [OF m [unfolded governance_stage_def]]
  show "kept_context env ic c c'"
    by (intro same_request_kept) (auto simp: same_call_def split: if_splits)
next
  fix c e and w w' :: "('n, 'k, 'm, 'r, 'w) pipeline_state" and r
  assume "kept_state env w" "h_on_error (governance_stage pol req) c e w = (r, w')"
  then show "kept_state env w'" by (simp add: governance_stage_def governance_hook_def base_hook_def)
qed

lemma identity_pass_authentic:
  assumes "identity_pre_validation (validate_token env ic wait) c s = (Inr c', s')" and "keys_ok env s'"
  shows "kept_context env ic c c' \<and> (\<exists>u. identity (request c') = Some u \<and> authentic env ic c' u)"
proof -
  from assms(1) have "h_pre_validation (identity_hook (validate_token env ic wait)) c s = (Inr c', s')"
    by (simp add: identity_hook_def)
  from identity_pass [OF this] obtain header token cl where
      h: "dict_get (extras c) ''authorization'' (PStr []) = PStr header" "parse_bearer header = Some token"
    and v: "vouched env ic (js_net s') (js_keys s') token cl" "truthy (tc_user_id cl)"
    and c': "c' = c\<lparr>request := (request c)\<lparr>
              identity := Some \<lparr>ui_user_id = tc_user_id cl, ui_email = tc_email cl,
                                ui_groups = tc_groups cl\<rparr>,
              raw_token := Some token\<rparr>\<rparr>" by blast
  from v(1) have "js_keys s' \<noteq> []" by (auto simp: vouched_def)
  with assms(2) have "published env (js_keys s')" by (simp add: keys_ok_def)
  with h v c' have "authentic env ic c' \<lparr>ui_user_id = tc_user_id cl, ui_email = tc_email cl, ui_groups = tc_groups cl\<rparr>"
    unfolding authentic_def by (intro exI [of _ header] exI [of _ token] exI conjI) auto
  with c' show ?thesis by (auto simp: kept_context_def genuine_def same_call_def)
qed

lemma keeps_identity_pre_validation:
  assumes "\<And>s. keys_ok env s \<Longrightarrow> keys_ok env (wait s)"
  shows "keeps (keys_ok env) (identity_pre_validation (validate_token env ic wait) c)"
  unfolding identity_pre_validation_def Let_def
  by (auto intro!: keeps_intros keeps_validate_token assms split: option.split)

lemma identity_stage_ok:
  assumes "\<And>s. keys_ok (gp_idp gp) s \<Longrightarrow> keys_ok (gp_idp gp) (gp_wait gp s)"
  shows "well_behaved (gp_idp gp) ic (identity_stage gp ic)"
proof -
  let ?h = "identity_hook (validate_token (gp_idp gp) ic (gp_wait gp))"
  have keep: "keys_ok (gp_idp gp) s' \<and> (\<forall>c'. r = Inr c' \<longrightarrow> kept_context (gp_idp gp) ic c c')"
    if "p \<noteq> ON_ERROR" "keys_ok (gp_idp gp) s" and m: "method_at p ?h c s = (r, s')" for p c s r s'
  proof (cases "p = PRE_VALIDATION")
    case True
    with m have run: "identity_pre_validation (validate_token (gp_idp gp) ic (gp_wait gp)) c s = (r, s')"
      by (simp add: identity_hook_def)
    with keepsD [OF keeps_identity_pre_validation that(2), of "gp_wait gp" ic c] assms
    have "keys_ok (gp_idp gp) s'" by simp
    with run identity_pass_authentic show ?thesis by blast
  next
    case False
    with that show ?thesis by (cases p) (auto simp: identity_hook_def base_hook_def)
  qed
  show ?thesis
    unfolding well_behaved_def identity_stage_def method_at_zoom
    by (auto simp: kept_state_def zoom_def zoom_hook_def identity_hook_def base_hook_def
        split: if_splits prod.splits dest: keep [unfolded identity_hook_def base_hook_def])
qed

section \<open>The gateway's hooks keep the contract\<close>

text \<open>The hooks of a gateway with identity, policy, the masking plugin and auditing, in the order of
  their priorities.\<close>

definition standard_hooks ::
    "('n, 'k, 'm, 'r, 'w) gateway_parts \<Rightarrow> identity_config \<Rightarrow> policy_config \<Rightarrow> 'm mask_text \<Rightarrow>
     presidio_config \<Rightarrow> bool \<Rightarrow> 'w audit_config \<Rightarrow> ('n, 'k, 'm, 'r, 'w) gateway_hook list" where
  "standard_hooks gp ic pol eng mcfg analytics ac =
     [identity_stage gp ic, governance_stage pol True, masking_stage eng mcfg] @
     (if analytics then [analytics_stage gp] else []) @ [audit_stage ac]"

definition sound_wait :: "('n, 'k, 'm, 'r, 'w) gateway_parts \<Rightarrow> bool" where
  "sound_wait gp \<longleftrightarrow> (\<forall>s. keys_ok (gp_idp gp) s \<longrightarrow> keys_ok (gp_idp gp) (gp_wait gp s))"

lemma standard_hooks_ok:
  "sound_wait gp \<Longrightarrow> h \<in> set (standard_hooks gp ic pol eng mcfg analytics ac) \<Longrightarrow>
     well_behaved (gp_idp gp) ic h"
  by (auto simp: standard_hooks_def sound_wait_def
      intro: identity_stage_ok governance_stage_ok masking_stage_ok analytics_stage_ok audit_stage_ok
      split: if_splits)

text \<open>Without interference from other requests the client only ever holds published keys.\<close>

interpretation gateway: hook_contract
    "standard_hooks (gp\<lparr>gp_wait := id\<rparr>) ic pol eng mcfg analytics ac"
    "kept_state (gp_idp gp)" "kept_context (gp_idp gp) ic"
  for gp :: "('n, 'k, 'm, 'r, 'w) gateway_parts" and ic pol eng mcfg analytics ac
proof (rule well_behaved_contract, rule ballI)
  fix h assume "h \<in> set (standard_hooks (gp\<lparr>gp_wait := id\<rparr>) ic pol eng mcfg analytics ac)"
  from standard_hooks_ok [OF _ this] show "well_behaved (gp_idp gp) ic h" by (simp add: sound_wait_def)
qed

section \<open>Admission\<close>

lemma authentic_same_call: "same_call c c' \<Longrightarrow> authentic env ic c' u \<longleftrightarrow> authentic env ic c u"
  by (simp add: authentic_def same_call_def)

lemma success_is_admitted:
  fixes hooks :: "('n, 'k, 'm, 'r, 'w) gateway_hook list"
  assumes "\<forall>h \<in> set hooks. well_behaved env ic h" and "governance_stage pol True \<in> set hooks"
    and "execute now hooks ctx p = (Inr result, p')" and "plr_success result"
    and "kept_state env p" and "identity (request ctx) = None"
  shows "\<exists>u. authentic env ic ctx u \<and>
    er_effect (decide pol \<lparr>pi_user_id = ui_user_id u, pi_groups = ui_groups u,
                           pi_mcp_server = server_name ctx, pi_tool = tool_name ctx\<rparr>) = ALLOW"
proof -
  from engine.success_was_admitted [OF well_behaved_contract [OF assms(1)] assms(3,4,5)
      assms(2) [unfolded governance_stage_def]]
  obtain c where kept: "kept_context env ic ctx c" and adm: "engine.admits pol True c" by blast
  have "genuine env ic ctx" using assms(6) by (simp add: genuine_def)
  with kept have same: "same_call ctx c" and gen: "genuine env ic c" by (simp_all add: kept_context_def)
  from adm obtain u where u: "identity (request c) = Some u"
    and allow: "er_effect (decide pol (governance_input c)) = ALLOW"
    by (auto simp: admits_iff)
  from gen u same have "authentic env ic ctx u" by (simp add: genuine_def authentic_same_call)
  with allow u same show ?thesis by (auto simp: governance_input_def same_call_def)
qed

section \<open>Properties\<close>

text \<open>What reaches an upstream was passed by a run of the pipeline that succeeded, or that failed
  without a denial.\<close>

lemma reached_upstream_run:
  fixes px :: "('p, 'o, 'x \<times> (string \<times> pyval) list, 's) proxy_server"
  assumes "px_hooks px = Some hooks" and "px_sdk px = recording_sdk sdk"
    and "call_tool px uuid header name args w = (r, w')"
    and "snd (sm_net (gw_manager w')) \<noteq> snd (sm_net (gw_manager w))"
  obtains srv tool cfg result p' where "name = namespace_tool srv tool"
    and "execute (px_now px) hooks (call_context uuid header srv tool cfg args (px_now px (gw_pipeline w)))
           (gw_pipeline w) = (Inr result, p')"
    and "\<not> plr_success result \<Longrightarrow>
           \<exists>e. plr_error result = Some e \<and> (is_HookError e \<or> (\<exists>reason. e = ShortCircuitError reason False))"
    and "\<exists>j. snd (sm_net (gw_manager w')) = snd (sm_net (gw_manager w)) @ replicate j (tool, args)"
proof -
  from recorded.call_tool_traced [OF assms(3,2)] assms(4) obtain srv tool cfg j where
    parse: "parse_tool name = Inr (srv, tool)" and cfg: "get_config (px_configs px) srv = Inr cfg"
    and sent: "snd (sm_net (gw_manager w')) = snd (sm_net (gw_manager w)) @ replicate j (tool, args)" by blast
  let ?ctx = "call_context uuid header srv tool cfg args (px_now px (gw_pipeline w))"
  obtain q p' where run: "execute (px_now px) hooks ?ctx (gw_pipeline w) = (q, p')" by fastforce
  from call_tool_gate [OF parse cfg assms(1), of uuid header args w] run assms(3,4)
  obtain result where q: "q = Inr result" and dec: "policy_decision (plr_context result) \<noteq> D_DENY"
    by (cases q) (auto split: if_splits)
  note run = run [unfolded q]
  have "\<exists>e. plr_error result = Some e \<and> (is_HookError e \<or> (\<exists>reason. e = ShortCircuitError reason False))"
    if "\<not> plr_success result"
    using run that dec
    by (cases rule: execute_cases) (auto simp: mark_short_circuit_def Let_def split: if_splits)
  with that run parse_tool_inverse [OF parse] sent show ?thesis by blast
qed

lemma call_context_simps [simp]:
  "extras (call_context uuid header srv tool cfg args now) = [(''authorization'', PStr header)]"
  "server_name (call_context uuid header srv tool cfg args now) = srv"
  "tool_name (call_context uuid header srv tool cfg args now) = tool"
  "identity (request (call_context uuid header srv tool cfg args now)) = None"
  "request_payload (call_context uuid header srv tool cfg args now) =
     [(''arguments'', if truthy args then args else PDict [])]"
  by (simp_all add: call_context_def default_hook_context_def new_request_context_def)

lemma reached_upstream_admitted:
  fixes px :: "(('n, 'k, 'm, 'r, 'w) pipeline_state, 'o, 'x \<times> (string \<times> pyval) list, 's) proxy_server"
  assumes "px_hooks px = Some hooks" and "\<forall>h \<in> set hooks. well_behaved env ic h"
    and "governance_stage pol True \<in> set hooks" and "kept_state env (gw_pipeline w)"
    and "px_sdk px = recording_sdk sdk" and "call_tool px uuid header name args w = (r, w')"
    and "snd (sm_net (gw_manager w')) \<noteq> snd (sm_net (gw_manager w))"
  shows "\<exists>srv tool ctx result p'. name = namespace_tool srv tool \<and>
    (\<exists>j. snd (sm_net (gw_manager w')) = snd (sm_net (gw_manager w)) @ replicate j (tool, args)) \<and>
    extras ctx = [(''authorization'', PStr header)] \<and>
    execute (px_now px) hooks ctx (gw_pipeline w) = (Inr result, p') \<and>
    (if plr_success result
     then \<exists>u. authentic env ic ctx u \<and>
       er_effect (decide pol \<lparr>pi_user_id = ui_user_id u, pi_groups = ui_groups u,
                              pi_mcp_server = srv, pi_tool = tool\<rparr>) = ALLOW
     else \<exists>e. plr_error result = Some e \<and> (is_HookError e \<or> (\<exists>reason. e = ShortCircuitError reason False)))"
proof -
  from reached_upstream_run [OF assms(1,5-7)] obtain srv tool cfg result p' where
    name: "name = namespace_tool srv tool"
    and run: "execute (px_now px) hooks (call_context uuid header srv tool cfg args (px_now px (gw_pipeline w)))
           (gw_pipeline w) = (Inr result, p')"
    and failed: "\<not> plr_success result \<Longrightarrow>
           \<exists>e. plr_error result = Some e \<and> (is_HookError e \<or> (\<exists>reason. e = ShortCircuitError reason False))"
    and sent: "\<exists>j. snd (sm_net (gw_manager w')) = snd (sm_net (gw_manager w)) @ replicate j (tool, args)"
    by blast
  let ?ctx = "call_context uuid header srv tool cfg args (px_now px (gw_pipeline w))"
  from success_is_admitted [OF assms(2,3) run _ assms(4)] name run failed sent show ?thesis
    by (intro exI [of _ srv] exI [of _ tool] exI [of _ ?ctx] exI [of _ result] exI [of _ p'] conjI) auto
qed

text \<open>C2: the gate of the whole gateway. Whatever reaches an upstream, in a gateway whose
  hooks keep the contract and include governance with a required identity, is the called tool with
  the arguments of the caller, and either the pipeline
  succeeded, and then the caller's header carries a bearer token that published keys of the identity
  provider vouch for and the policy allows that user the tool; or the pipeline failed without a
  denial, by an exception that a hook did not turn into one.\<close>

theorem upstream_only_when_admitted:
  fixes px :: "(('n, 'k, 'm, 'r, 'w) pipeline_state, 'o, 'x \<times> (string \<times> pyval) list, 's) proxy_server"
  assumes "px_hooks px = Some hooks" and "\<forall>h \<in> set hooks. well_behaved env ic h"
    and "governance_stage pol True \<in> set hooks" and "kept_state env (gw_pipeline w)"
    and "px_sdk px = recording_sdk sdk" and "call_tool px uuid header name args w = (r, w')"
    and "snd (sm_net (gw_manager w')) \<noteq> snd (sm_net (gw_manager w))"
  shows "\<exists>srv tool ctx result p'. name = namespace_tool srv tool \<and>
    (\<exists>j. snd (sm_net (gw_manager w')) = snd (sm_net (gw_manager w)) @ replicate j (tool, args)) \<and>
    extras ctx = [(''authorization'', PStr header)] \<and>
    execute (px_now px) hooks ctx (gw_pipeline w) = (Inr result, p') \<and>
    (if plr_success result
     then \<exists>u. authentic env ic ctx u \<and>
       er_effect (decide pol \<lparr>pi_user_id = ui_user_id u, pi_groups = ui_groups u,
                              pi_mcp_server = srv, pi_tool = tool\<rparr>) = ALLOW
     else \<exists>e. plr_error result = Some e \<and> (is_HookError e \<or> (\<exists>reason. e = ShortCircuitError reason False)))"
  using reached_upstream_admitted [OF assms] .

definition sample_parts :: "(nat, string, (unit, unit) presidio_state, unit, unit) gateway_parts" where
  "sample_parts =
     \<lparr>gp_idp = sample_idp, gp_wait = id, gp_queue_size = 10, gp_monotonic = (\<lambda>_. 0), gp_time = (\<lambda>_. 0),
      gp_audit_monotonic = (\<lambda>_. 0), gp_audit_utc = (\<lambda>_. ''now''),
      gp_stdout_tty = False\<rparr>"

definition devs_policy :: policy_config where
  "devs_policy = embed_policy default_policy_config DENY
     [\<lparr>tr_id = ''devs'', tr_description = ''devs may read'', tr_effect = ALLOW, tr_users = [],
       tr_groups = [''devs''], tr_access = [(''files'', [''read''])]\<rparr>]"

definition sample_hooks :: "(nat, string, (unit, unit) presidio_state, unit, unit) gateway_parts \<Rightarrow>
    (nat, string, (unit, unit) presidio_state, unit, unit) gateway_hook list" where
  "sample_hooks gp = standard_hooks gp sample_identity_config devs_policy
     (presidio_mask_text toy_presidio) masking_on True quiet_audit"

definition sample_proxy :: "(nat, string, (unit, unit) presidio_state, unit, unit) gateway_parts \<Rightarrow>
    ((nat, string, (unit, unit) presidio_state, unit, unit) pipeline_state, unit,
     nat \<times> (string \<times> pyval) list, endpoint) proxy_server" where
  "sample_proxy gp =
     \<lparr>px_hooks = Some (sample_hooks gp), px_now = (\<lambda>_. 0), px_get_token = (\<lambda>_ _. ret PNone),
      px_policy = Some devs_policy, px_configs = toy_configs, px_sdk = recording_sdk toy_sdk\<rparr>"

definition sample_gateway :: "((nat, string, (unit, unit) presidio_state, unit, unit) pipeline_state, unit,
     nat \<times> (string \<times> pyval) list, endpoint) gateway" where
  "sample_gateway =
     \<lparr>gw_pipeline = \<lparr>ps_identity = new_jwks_state 0, ps_masking = new_presidio,
                     ps_analytics = new_collector 0 (), ps_audit = empty_audit\<rparr>,
      gw_auth = (), gw_manager = \<lparr>sm_transports = [], sm_net = (0, [])\<rparr>\<rparr>"

definition sample_call where
  "sample_call gp header = call_tool (sample_proxy gp) ''c-1'' header ''files__read'' (PDict []) sample_gateway"

lemma sample_hooks_ok:
  assumes "sound_wait gp"
  shows "\<forall>h \<in> set (sample_hooks gp). well_behaved (gp_idp gp) sample_identity_config h"
  using standard_hooks_ok [OF assms] by (auto simp: sample_hooks_def)

theorem upstream_only_when_admitted_witness:
  "snd (sm_net (gw_manager (snd (sample_call sample_parts ''Bearer token-by-k2'')))) = [(''read'', PDict [])] \<and>
   (\<exists>srv tool ctx result p'. ''files__read'' = namespace_tool srv tool \<and>
      extras ctx = [(''authorization'', PStr ''Bearer token-by-k2'')] \<and>
      execute (\<lambda>_. 0) (sample_hooks sample_parts) ctx (gw_pipeline sample_gateway) = (Inr result, p'))"
proof -
  let ?px = "sample_proxy sample_parts" and ?call = "sample_call sample_parts ''Bearer token-by-k2''"
  have hooks: "px_hooks ?px = Some (sample_hooks sample_parts)" and sdk: "px_sdk ?px = recording_sdk toy_sdk"
    by (simp_all add: sample_proxy_def)
  have ok: "\<forall>h \<in> set (sample_hooks sample_parts). well_behaved sample_idp sample_identity_config h"
    using sample_hooks_ok [of sample_parts] by (simp add: sample_parts_def sound_wait_def)
  have gov: "governance_stage devs_policy True \<in> set (sample_hooks sample_parts)"
    by (simp add: sample_hooks_def standard_hooks_def)
  have state: "kept_state sample_idp (gw_pipeline sample_gateway)"
    by (simp add: sample_gateway_def kept_state_def keys_ok_def new_jwks_state_def)
  have call: "call_tool ?px ''c-1'' ''Bearer token-by-k2'' ''files__read'' (PDict []) sample_gateway =
      (fst ?call, snd ?call)" by (simp add: sample_call_def)
  have tr: "snd (sm_net (gw_manager (snd ?call))) = [(''read'', PDict [])]" by code_simp
  then have "snd (sm_net (gw_manager (snd ?call))) \<noteq> snd (sm_net (gw_manager sample_gateway))"
    by (simp add: sample_gateway_def)
  from upstream_only_when_admitted [OF hooks ok gov state sdk call this] obtain srv tool ctx result p' where
      "''files__read'' = namespace_tool srv tool" "extras ctx = [(''authorization'', PStr ''Bearer token-by-k2'')]"
      "execute (px_now ?px) (sample_hooks sample_parts) ctx (gw_pipeline sample_gateway) = (Inr result, p')"
    by (elim exE conjE)
  moreover have "px_now ?px = (\<lambda>_. 0)" by (simp add: sample_proxy_def)
  ultimately show ?thesis using tr by metis
qed

text \<open>C15: a failed check that is not an \<open>IdentityError\<close> opens the gateway: when validating the
  token raises any other exception, such as that of a published key the JWT library cannot read, the
  call is forwarded unauthenticated and undecided, and governance is never asked.\<close>

theorem crashed_authentication_is_forwarded:
  fixes px :: "(('n, 'k, 'm, 'r, 'w) pipeline_state, 'o, 'x, 's) proxy_server"
  assumes "px_hooks px = Some (identity_stage gp ic # rest)"
    and "parse_tool name = Inr (srv, tool)" and "get_config (px_configs px) srv = Inr cfg"
    and "parse_bearer header = Some token"
    and "validate_token (gp_idp gp) ic (gp_wait gp) token (ps_identity (gw_pipeline w)) = (Inl e, s')"
    and "is_Exception e" and "\<not> is_IdentityError e" and "\<not> is_ShortCircuit e"
    and "\<forall>h \<in> set rest. \<forall>c e. ordinary (h_on_error h c e)"
  shows "\<exists>ctx p. identity (request ctx) = None \<and> policy_decision ctx = D_PENDING \<and>
    call_tool px uuid header name args w = forward_call px srv tool cfg ctx args (w\<lparr>gw_pipeline := p\<rparr>)"
proof -
  let ?hooks = "identity_stage gp ic # rest" and ?p = "gw_pipeline w"
  let ?ctx = "call_context uuid header srv tool cfg args (px_now px ?p)"
  have "header \<noteq> []" using assms(4) by (auto simp: parse_bearer_def split_ws1_def)
  moreover have "dict_get (extras ?ctx) ''authorization'' (PStr []) = PStr header"
    by (simp add: call_context_def dict_get_def)
  ultimately have crash: "identity_pre_validation (validate_token (gp_idp gp) ic (gp_wait gp)) ?ctx
      (ps_identity ?p) = (Inl e, s')"
    using assms(4,5,7) by (simp add: identity_pre_validation_def bind_apply handle_apply Let_def)
  have m: "method_at PRE_VALIDATION (identity_stage gp ic) ?ctx ?p = (Inl e, ?p\<lparr>ps_identity := s'\<rparr>)"
    unfolding identity_stage_def method_at_zoom using crash by (simp add: zoom_def identity_hook_def)
  then obtain n pt ex where run: "run_points ?hooks hook_sequence ?ctx [] ?p =
      (Some (HookError (exn_str e) n pt), ?ctx, ex, ?p\<lparr>ps_identity := s'\<rparr>)"
    using assms(6,8) by (simp add: hook_sequence_def execute_hook_point_into_def Let_def)
  have "\<forall>h \<in> set ?hooks. ordinary (h_on_error h ?ctx (HookError (exn_str e) n pt))"
    using assms(9)
    by (simp add: identity_stage_def zoom_hook_def identity_hook_def base_hook_def ordinary_def zoom_def)
  from fire_error_hooks_fold [OF this] run obtain result p where
    "execute (px_now px) ?hooks ?ctx ?p = (Inr result, p)" "plr_context result = ?ctx"
    by (simp add: execute_def failed_def bind_apply)
  moreover have "identity (request ?ctx) = None" "policy_decision ?ctx = D_PENDING"
    by (simp_all add: call_context_def default_hook_context_def new_request_context_def)
  ultimately show ?thesis
    using call_tool_gate [OF assms(2,3,1), of uuid header args w]
    by (intro exI [of _ ?ctx] exI [of _ p]) simp
qed

definition bad_key_parts :: "(nat, string, (unit, unit) presidio_state, unit, unit) gateway_parts" where
  "bad_key_parts = sample_parts\<lparr>gp_idp := sample_idp\<lparr>ie_make_key :=
     (\<lambda>_. Inl (OtherException ''PyJWKError'' ''Unable to find an algorithm for key''))\<rparr>\<rparr>"

lemma stages_report_quietly:
  "ordinary (h_on_error (governance_stage pol req :: ('n, 'k, 'm, 'r, 'w) gateway_hook) c e)"
  "ordinary (h_on_error (masking_stage eng mcfg :: ('n, 'k, 'm, 'r, 'w) gateway_hook) c e)"
  "ordinary (h_on_error (analytics_stage gp :: ('n, 'k, 'm, 'r, 'w) gateway_hook) c e)"
  "ordinary (h_on_error (audit_stage quiet_audit :: ('n, 'k, 'm, 'r, unit) gateway_hook) c e)"
  by (simp_all add: governance_stage_def governance_hook_def masking_stage_def zoom_hook_def zoom_def
      masking_hook_def analytics_stage_def analytics_hook_def analytics_on_error_quiet case_prod_beta audit_stage_def
      audit_hook_def audit_on_error_def build_event_now_def audit_emit_def to_json_dict_def
      quiet_audit_def bind_apply base_hook_def ordinary_def)

theorem crashed_authentication_is_forwarded_witness:
  "\<exists>(ctx :: hook_context) p. identity (request ctx) = None \<and>
     sample_call bad_key_parts ''Bearer anything'' =
       forward_call (sample_proxy bad_key_parts) ''files'' ''read'' (toy_server ''files'') ctx (PDict [])
         (sample_gateway\<lparr>gw_pipeline := p\<rparr>)"
proof -
  let ?gp = "bad_key_parts" and ?px = "sample_proxy bad_key_parts"
  let ?rest = "tl (sample_hooks ?gp)"
  let ?run = "validate_token (gp_idp ?gp) sample_identity_config (gp_wait ?gp) ''anything'' (new_jwks_state 0)"
  have hooks: "px_hooks ?px = Some (identity_stage ?gp sample_identity_config # ?rest)"
    by (simp add: sample_proxy_def sample_hooks_def standard_hooks_def)
  have parse: "parse_tool ''files__read'' = Inr (''files'', ''read'')" by code_simp
  have cfg: "get_config (px_configs ?px) ''files'' = Inr (toy_server ''files'')" by code_simp
  have bearer: "parse_bearer ''Bearer anything'' = Some ''anything''" by code_simp
  have "fst ?run = Inl (OtherException ''PyJWKError'' ''Unable to find an algorithm for key'')" by code_simp
  then have run: "validate_token (gp_idp ?gp) sample_identity_config (gp_wait ?gp) ''anything''
      (ps_identity (gw_pipeline sample_gateway)) =
      (Inl (OtherException ''PyJWKError'' ''Unable to find an algorithm for key''), snd ?run)"
    by (metis (no_types, lifting) prod.collapse sample_gateway_def gateway.select_convs(1) pipeline_state.select_convs(1))
  have quiet: "\<forall>h \<in> set ?rest. \<forall>c e. ordinary (h_on_error h c e)"
    by (simp add: sample_hooks_def standard_hooks_def stages_report_quietly)
  show ?thesis
    using crashed_authentication_is_forwarded [OF hooks parse cfg bearer run _ _ _ quiet, of "''c-1''" "PDict []"]
    by (simp add: sample_call_def) blast
qed

text \<open>C14: what is shown can be called. A fetched tool is in the filtered listing exactly when the
  governance hook lets a call of it by the same caller pass.\<close>

theorem listing_agrees_with_calls:
  assumes "filter_tools_by_policy pol
      (case identity (request ctx) of Some u \<Rightarrow> ui_user_id u | None \<Rightarrow> PStr ''anonymous'')
      (case identity (request ctx) of Some u \<Rightarrow> ui_groups u | None \<Rightarrow> []) tools = Inr shown"
    and "t \<in> set tools" and "parse_tool (mt_name t) = Inr (server_name ctx, tool_name ctx)"
    and "identity (request ctx) = None \<longrightarrow> \<not> req"
  shows "t \<in> set shown \<longleftrightarrow> (\<exists>ctx'. governance_post_validation (evaluate pol) req ctx = Inr ctx')"
proof -
  have "split1 ''__'' (mt_name t) = [server_name ctx, tool_name ctx]"
    using parse_tool_inverse [OF assms(3), unfolded separator_def] by blast
  with assms(1,2) have "t \<in> set shown \<longleftrightarrow> er_effect (decide pol (governance_input ctx)) = ALLOW"
    by (auto simp: filter_tools_visible visible_def governance_input_def split: option.splits)
  with assms(4) governance_hook_fails_closed [of ctx req pol] show ?thesis
    by (auto split: if_splits)
qed

definition sample_tools :: "mcp_tool list" where
  "sample_tools = namespace_tools ''files'' [\<lparr>mt_name = ''read'', mt_attributes = []\<rparr>,
     \<lparr>mt_name = ''write'', mt_attributes = []\<rparr>]"

definition dev_context :: hook_context where
  "dev_context = (default_hook_context ((new_request_context ''c-1'')
      \<lparr>identity := Some \<lparr>ui_user_id = PStr ''u1'', ui_email = PNone, ui_groups = [PStr ''devs'']\<rparr>\<rparr>) 0)
      \<lparr>server_name := ''files'', tool_name := ''read''\<rparr>"

theorem listing_agrees_with_calls_witness:
  "\<exists>ctx'. governance_post_validation (evaluate devs_policy) True dev_context = Inr ctx'"
proof -
  have f: "filter_tools_by_policy devs_policy
      (case identity (request dev_context) of Some u \<Rightarrow> ui_user_id u | None \<Rightarrow> PStr ''anonymous'')
      (case identity (request dev_context) of Some u \<Rightarrow> ui_groups u | None \<Rightarrow> []) sample_tools =
    Inr [hd sample_tools]" by code_simp
  have t: "hd sample_tools \<in> set sample_tools" by (simp add: sample_tools_def namespace_tools_def)
  have p: "parse_tool (mt_name (hd sample_tools)) = Inr (server_name dev_context, tool_name dev_context)"
    by code_simp
  have i: "identity (request dev_context) = None \<longrightarrow> \<not> True"
    by (simp add: dev_context_def default_hook_context_def)
  from listing_agrees_with_calls [OF f t p i] show ?thesis by simp
qed

section \<open>The pipeline that is built\<close>

text \<open>What a plugin may do with the registry: add hooks to it.\<close>

definition extends_registry :: "'h registry \<Rightarrow> 'h registry \<Rightarrow> bool" where
  "extends_registry r r' \<longleftrightarrow> \<not> reg_frozen r' \<and> (\<exists>xs. reg_entries r' = reg_entries r @ xs)"

lemma extends_register:
  "register prio h r = (Inr (), r') \<Longrightarrow> extends_registry r r' \<and> (\<exists>c. (prio, c, h) \<in> set (reg_entries r'))"
  by (auto simp: register_def extends_registry_def split: if_splits)

lemma extends_trans: "extends_registry a b \<Longrightarrow> extends_registry b c \<Longrightarrow> extends_registry a c"
  by (auto simp: extends_registry_def)

lemma extends_keeps: "extends_registry r r' \<Longrightarrow> x \<in> set (reg_entries r) \<Longrightarrow> x \<in> set (reg_entries r')"
  by (auto simp: extends_registry_def)

text \<open>Two entries of different priority stand in the built list in the order of their priorities.\<close>

lemma build_order:
  assumes "(p, c, g) \<in> set (reg_entries r)" and "(q, d, h) \<in> set (reg_entries r)" and "p < q"
    and "get_hooks (build r) = Inr hs"
  shows "\<exists>xs ys zs. hs = xs @ g # ys @ h # zs"
proof -
  let ?key = "\<lambda>(p, c :: nat, _). (p :: int, c)"
  let ?l = "sort_key ?key (reg_entries r)"
  from assms(1) obtain xs rest where l: "?l = xs @ (p, c, g) # rest"
    by (metis set_sort split_list)
  have "sorted (map ?key ?l)" by (rule sorted_sort_key)
  with l have "\<forall>x \<in> set xs. ?key x \<le> (p, c)" by (auto simp: sorted_append)
  with assms(3) have "(q, d, h) \<notin> set xs" by (auto dest!: bspec)
  moreover have "(q, d, h) \<in> set ?l" using assms(2) by simp
  ultimately have "(q, d, h) \<in> set rest" using l assms(3) by auto
  then obtain ys zs where "rest = ys @ (q, d, h) # zs" by (metis split_list)
  with l assms(4) show ?thesis by (auto simp: get_hooks_def build_def)
qed

lemma build_contains:
  "(p, c, g) \<in> set (reg_entries r) \<Longrightarrow> get_hooks (build r) = Inr hs \<Longrightarrow> g \<in> set hs"
  by (force simp: get_hooks_def build_def)

text \<open>The registry after each step of \<open>build_pipeline\<close>: the entries that are there by then.\<close>

definition has_entry :: "int \<Rightarrow> 'h \<Rightarrow> 'h registry \<Rightarrow> bool" where
  "has_entry p h r \<longleftrightarrow> (\<exists>c. (p, c, h) \<in> set (reg_entries r))"

lemma in_registry_step:
  assumes "in_registry (register prio h) w = (Inr (), w')"
  shows "extends_registry (pw_registry w) (pw_registry w') \<and> has_entry prio h (pw_registry w')"
  using assms extends_register [of prio h "pw_registry w"]
  by (auto simp: zoom_def has_entry_def split: prod.splits)

lemma extends_has_entry: "extends_registry r r' \<Longrightarrow> has_entry p h r \<Longrightarrow> has_entry p h r'"
  by (auto simp: has_entry_def dest: extends_keeps)

lemma build_has_entry: "has_entry p h r \<Longrightarrow> get_hooks (build r) = Inr hs \<Longrightarrow> h \<in> set hs"
  by (auto simp: has_entry_def dest: build_contains)

text \<open>Plugins that do nothing else to the registry than to add hooks.\<close>

definition plugins_extend ::
    "(string \<times> ('o, ('n, 'k, 'm, 'r, 'w) gateway_hook, 'w event_handler) entry_point) list \<Rightarrow>
     policy_config option \<Rightarrow> bool" where
  "plugins_extend available policy \<longleftrightarrow>
     (\<forall>pol v v'. policy = Some pol \<longrightarrow> load_plugins available (pol_plugins pol) v = (Inr (), v') \<longrightarrow>
        \<not> reg_frozen (pw_registry v) \<longrightarrow> extends_registry (pw_registry v) (pw_registry v'))"

text \<open>Building registers the hooks, and returns the built list unless there is nothing to enforce.\<close>

lemma build_pipeline_registers:
  fixes gp :: "('n, 'k, 'm, 'r, 'w) gateway_parts"
  assumes "build_pipeline gp env available file_identity policy analytics w = (Inr res, w')"
    and "\<not> reg_frozen (pw_registry w)" and "plugins_extend available policy"
  shows "\<exists>ic ac reg. effective_identity env file_identity = Inr ic \<and>
    (\<forall>c. ic = Some c \<longrightarrow> has_entry 10 (identity_stage gp c) reg) \<and>
    (\<forall>pol. policy = Some pol \<longrightarrow> has_entry 50 (governance_stage pol (ic \<noteq> None)) reg) \<and>
    has_entry 150 (audit_stage ac) reg \<and>
    (if ic = None \<and> policy = None then res = None
     else \<exists>hs. res = Some hs \<and> get_hooks (build reg) = Inr hs)"
proof -
  from assms(1) obtain ic w1 w2 w3 w4 ac w5 where
      ic: "effective_identity env file_identity = Inr ic"
    and s1: "(case ic of None \<Rightarrow> ret () | Some c \<Rightarrow> in_registry (register 10 (identity_stage gp c))) w = (Inr (), w1)"
    and s2: "(case policy of None \<Rightarrow> ret ()
           | Some pol \<Rightarrow> in_registry (register 50 (governance_stage pol (ic \<noteq> None)))) w1 = (Inr (), w2)"
    and s3: "(case policy of None \<Rightarrow> ret ()
           | Some pol \<Rightarrow> if pol_plugins pol = [] then ret () else load_plugins available (pol_plugins pol)) w2 = (Inr (), w3)"
    and s4: "(if analytics then in_registry (register 145 (analytics_stage gp)) else ret ()) w3 = (Inr (), w4)"
    and s5: "in_registry (register 150 (audit_stage ac)) w4 = (Inr (), w5)"
    and fin: "(if ic = None \<and> policy = None then ret None
       else
         bind (modify (\<lambda>w. w\<lparr>pw_registry := build (pw_registry w)\<rparr>)) (\<lambda>_.
         bind (gets (get_hooks \<circ> pw_registry)) (\<lambda>hooks.
         bind (lift_res hooks) (\<lambda>hs. ret (Some hs))))) w5 = (Inr res, w')"
    unfolding build_pipeline_def by (elim bind_Inr_elim) auto
  have r1: "extends_registry (pw_registry w) (pw_registry w1)"
      "\<forall>c. ic = Some c \<longrightarrow> has_entry 10 (identity_stage gp c) (pw_registry w1)"
    using s1 assms(2) by (auto simp: extends_registry_def dest!: in_registry_step split: option.splits)
  have r2: "extends_registry (pw_registry w1) (pw_registry w2)"
      "\<forall>pol. policy = Some pol \<longrightarrow> has_entry 50 (governance_stage pol (ic \<noteq> None)) (pw_registry w2)"
    using s2 r1(1) by (auto simp: extends_registry_def dest!: in_registry_step split: option.splits)
  have r3: "extends_registry (pw_registry w2) (pw_registry w3)"
  proof -
    have live: "\<not> reg_frozen (pw_registry w2)" using r2(1) by (simp add: extends_registry_def)
    then have "extends_registry (pw_registry w2) (pw_registry w2)" by (simp add: extends_registry_def)
    with s3 live assms(3) show ?thesis
      by (auto simp: plugins_extend_def split: option.splits if_splits)
  qed
  have r4: "extends_registry (pw_registry w3) (pw_registry w4)"
    using s4 r3 by (auto simp: extends_registry_def dest!: in_registry_step split: if_splits)
  from in_registry_step [OF s5] have r5: "extends_registry (pw_registry w4) (pw_registry w5)"
    "has_entry 150 (audit_stage ac) (pw_registry w5)" by blast+
  have from2: "extends_registry (pw_registry w2) (pw_registry w5)"
    by (rule extends_trans [OF extends_trans [OF r3 r4] r5(1)])
  have id: "\<forall>c. ic = Some c \<longrightarrow> has_entry 10 (identity_stage gp c) (pw_registry w5)"
    using r1(2) extends_has_entry [OF extends_trans [OF r2(1) from2]] by simp
  have gov: "\<forall>pol. policy = Some pol \<longrightarrow> has_entry 50 (governance_stage pol (ic \<noteq> None)) (pw_registry w5)"
    using r2(2) extends_has_entry [OF from2] by simp
  show ?thesis
    using ic id gov r5(2) fin
    by (intro exI [of _ ic] exI [of _ ac] exI [of _ "pw_registry w5"])
      (auto simp: bind_apply split: sum.splits)
qed

lemma built_pipeline_guards:
  fixes gp :: "('n, 'k, 'm, 'r, 'w) gateway_parts"
  assumes "build_pipeline gp env available file_identity policy analytics w = (Inr res, w')"
    and "\<not> reg_frozen (pw_registry w)" and "plugins_extend available policy"
  shows "\<exists>ic. effective_identity env file_identity = Inr ic \<and>
    (case res of
       None \<Rightarrow> ic = None \<and> policy = None
     | Some hs \<Rightarrow> (ic \<noteq> None \<or> policy \<noteq> None) \<and>
         (\<forall>c. ic = Some c \<longrightarrow> identity_stage gp c \<in> set hs) \<and>
         (\<forall>pol. policy = Some pol \<longrightarrow> governance_stage pol (ic \<noteq> None) \<in> set hs) \<and>
         (\<forall>c pol. ic = Some c \<longrightarrow> policy = Some pol \<longrightarrow>
            (\<exists>xs ys zs. hs = xs @ identity_stage gp c # ys @ governance_stage pol True # zs)) \<and>
         (\<exists>ac. audit_stage ac \<in> set hs))"
proof -
  from build_pipeline_registers [OF assms] obtain ic ac reg where
      ic: "effective_identity env file_identity = Inr ic"
    and id: "\<forall>c. ic = Some c \<longrightarrow> has_entry 10 (identity_stage gp c) reg"
    and gov: "\<forall>pol. policy = Some pol \<longrightarrow> has_entry 50 (governance_stage pol (ic \<noteq> None)) reg"
    and audit: "has_entry 150 (audit_stage ac) reg"
    and res: "if ic = None \<and> policy = None then res = None
      else \<exists>hs. res = Some hs \<and> get_hooks (build reg) = Inr hs" by blast
  show ?thesis
  proof (cases "ic = None \<and> policy = None")
    case False
    with res obtain hs where hs: "res = Some hs" "get_hooks (build reg) = Inr hs" by auto
    have order: "\<exists>xs ys zs. hs = xs @ identity_stage gp c # ys @ governance_stage pol True # zs"
      if "ic = Some c" "policy = Some pol" for c pol
      using id gov that build_order [OF _ _ _ hs(2)] by (fastforce simp: has_entry_def)
    show ?thesis
      using ic False hs(1) id gov order build_has_entry [OF _ hs(2)] build_has_entry [OF audit hs(2)]
      by (intro exI [of _ ic]) auto
  qed (use ic res in auto)
qed

text \<open>C3: the guards of a gateway. When \<open>build_pipeline\<close> returns, with plugins that only add
  hooks, there is no pipeline exactly when there is neither an identity configuration (of the file or
  the environment) nor a policy. Otherwise the hooks it built contain the identity hook if there is
  one, the governance hook if there is a policy, which demands an identity exactly when
  tokens are checked, and the audit hook; and authentication comes before the decision.\<close>

theorem pipeline_has_its_guards:
  fixes gp :: "('n, 'k, 'm, 'r, 'w) gateway_parts"
  assumes "build_pipeline gp env available file_identity policy analytics w = (Inr res, w')"
    and "\<not> reg_frozen (pw_registry w)" and "plugins_extend available policy"
  shows "\<exists>ic. effective_identity env file_identity = Inr ic \<and>
    (case res of
       None \<Rightarrow> ic = None \<and> policy = None
     | Some hs \<Rightarrow> (ic \<noteq> None \<or> policy \<noteq> None) \<and>
         (\<forall>c. ic = Some c \<longrightarrow> identity_stage gp c \<in> set hs) \<and>
         (\<forall>pol. policy = Some pol \<longrightarrow> governance_stage pol (ic \<noteq> None) \<in> set hs) \<and>
         (\<forall>c pol. ic = Some c \<longrightarrow> policy = Some pol \<longrightarrow>
            (\<exists>xs ys zs. hs = xs @ identity_stage gp c # ys @ governance_stage pol True # zs)) \<and>
         (\<exists>ac. audit_stage ac \<in> set hs))"
  by (rule built_pipeline_guards [OF assms])

text \<open>The masking plugin only adds its hook.\<close>

definition masking_available ::
    "(presidio_config \<Rightarrow> 'h) \<Rightarrow> (string \<times> (presidio_plugin_state, 'h, 'e) entry_point) list" where
  "masking_available mk = discover
     [(''presidio-masking'', (\<lambda>_. (Inr (ret (Inr (presidio_masking_plugin mk))), new_presidio_plugin)))]"

lemma masking_available_only:
  assumes "loaded_from (masking_available mk) d p"
  shows "p = presidio_masking_plugin mk"
  using assms
  by (auto simp: loaded_from_def masking_available_def discover_def dict_set_def split: if_splits)

lemma masking_plugin_extends:
  assumes "load_and_register (masking_available mk) d v = (Inr (), v')" and "\<not> reg_frozen (pw_registry v)"
  shows "extends_registry (pw_registry v) (pw_registry v')"
proof -
  from assms(1) obtain p v1 v2 where
      one: "in_objects (load_one (masking_available mk) d) v = (Inr p, v1)"
    and reg: "with_registry (pn_register p) v1 = (Inr (), v2)"
    and rest: "bind (case pn_event_handlers p of None \<Rightarrow> ret () | Some f \<Rightarrow> with_bus f) (\<lambda>_.
       modify (\<lambda>w. w\<lparr>pw_plugins := pw_plugins w @ [p]\<rparr>)) v2 = (Inr (), v')"
    unfolding load_and_register_def by (elim bind_Inr_elim) (auto simp: bind_apply)
  from one have v1: "pw_registry v1 = pw_registry v" and "loaded_from (masking_available mk) d p"
    by (auto simp: zoom_def dest: load_one_ok split: prod.splits)
  then have p: "p = presidio_masking_plugin mk" by (simp add: masking_available_only)
  with rest have "pw_registry v' = pw_registry v2"
    by (auto simp: presidio_masking_plugin_def base_plugin_def bind_apply zoom_def)
  with reg v1 p assms(2) show ?thesis
    by (auto simp: presidio_masking_plugin_def presidio_register_def bind_apply zoom_def register_def
        extends_registry_def split: prod.splits sum.splits if_splits)
qed

lemma masking_plugins_extend: "plugins_extend (masking_available mk) policy"
proof -
  have "extends_registry (pw_registry v) (pw_registry v')"
    if "for_each (load_and_register (masking_available mk)) ds v = (Inr (), v')"
      and "\<not> reg_frozen (pw_registry v)" for ds v v'
    using that
  proof (induction ds arbitrary: v)
    case (Cons d ds)
    from Cons.prems(1) obtain v1 where one: "load_and_register (masking_available mk) d v = (Inr (), v1)"
      and rest: "for_each (load_and_register (masking_available mk)) ds v1 = (Inr (), v')"
      by (auto elim: bind_Inr_elim)
    from masking_plugin_extends [OF one Cons.prems(2)]
    have e: "extends_registry (pw_registry v) (pw_registry v1)" .
    then have "\<not> reg_frozen (pw_registry v1)" by (simp add: extends_registry_def)
    from extends_trans [OF e Cons.IH [OF rest this]] show ?case .
  qed (simp add: extends_registry_def)
  then show ?thesis by (auto simp: plugins_extend_def load_plugins_def)
qed

definition masked_policy :: policy_config where
  "masked_policy = devs_policy\<lparr>pol_plugins := [presidio_declaration (PList [PStr ''PERSON''])]\<rparr>"

definition sample_world ::
    "(presidio_plugin_state, (nat, string, (unit, unit) presidio_state, unit, unit) gateway_hook,
      unit event_handler) plugin_world" where
  "sample_world = \<lparr>pw_objects = new_presidio_plugin, pw_registry = new_registry, pw_bus = [], pw_plugins = []\<rparr>"

definition sample_build where
  "sample_build = build_pipeline sample_parts (\<lambda>_. None)
     (masking_available (masking_stage (presidio_mask_text toy_presidio)))
     (Some sample_identity_config) (Some masked_policy) True sample_world"

lemma masking_discovered: "masking_available mk = [(''presidio-masking'',
    (\<lambda>_. (Inr (ret (Inr (presidio_masking_plugin mk))), new_presidio_plugin)))]"
  by (simp add: masking_available_def discover_def dict_set_def)

lemma masking_plugin_loads:
  fixes w :: "(presidio_plugin_state, 'h, 'e) plugin_world"
  assumes "pw_registry w = r" and "\<not> reg_frozen r"
  shows "load_plugins (masking_available mk) [presidio_declaration (PList [PStr ''PERSON''])] w =
    (Inr (), w\<lparr>pw_objects := \<lparr>pps_entities = PList [PStr ''PERSON''], pps_priority = 75\<rparr>,
      pw_registry := r\<lparr>reg_entries := reg_entries r @ [(75, reg_insert_counter r,
         mk \<lparr>pc_enabled = PBool True, pc_entities = PList [PStr ''PERSON'']\<rparr>)],
         reg_insert_counter := reg_insert_counter r + 1\<rparr>,
      pw_plugins := pw_plugins w @ [presidio_masking_plugin mk]\<rparr>)"
  using assms
  by (simp add: load_plugins_def load_and_register_def masking_discovered load_one_def Let_def
      presidio_declaration_def entry_point_name_def wrap_load_error_def accept_plugin_def prog_simps
      zoom_def presidio_configure_def new_presidio_plugin_def default_priority_def
      presidio_register_def register_def presidio_masking_plugin_def base_plugin_def join_check_def
      dict_get_def enumerate_eq_zip)

lemma stage_names:
  "h_name (identity_stage gp ic) = ''IdentityHook''" "h_name (governance_stage pol req) = ''GovernanceHook''"
  "h_name (masking_stage eng mcfg) = ''MaskingHook''" "h_name (analytics_stage gp) = ''AnalyticsHook''"
  "h_name (audit_stage ac) = ''AuditHook''"
  by (simp_all add: identity_stage_def governance_stage_def masking_stage_def analytics_stage_def
      audit_stage_def zoom_hook_def base_hook_def identity_hook_def governance_hook_def masking_hook_def
      analytics_hook_def audit_hook_def)

theorem pipeline_has_its_guards_witness:
  "\<exists>hs. fst sample_build = Inr (Some hs) \<and> map h_name hs =
     [''IdentityHook'', ''GovernanceHook'', ''MaskingHook'', ''AnalyticsHook'', ''AuditHook''] \<and>
     (\<exists>xs ys zs. hs = xs @ identity_stage sample_parts sample_identity_config # ys @
        governance_stage masked_policy True # zs)"
proof -
  have events: "\<not> truthy (lc_include (pol_logging devs_policy))" by code_simp
  have names: "\<exists>hs. fst sample_build = Inr (Some hs) \<and> map h_name hs =
      [''IdentityHook'', ''GovernanceHook'', ''MaskingHook'', ''AnalyticsHook'', ''AuditHook'']"
    by (simp add: sample_build_def build_pipeline_def effective_identity_def prog_simps zoom_def
        register_def masked_policy_def masking_plugin_loads sample_world_def new_registry_def
        make_audit_config_def build_def get_hooks_def stage_names events)
  then obtain hs where run: "build_pipeline sample_parts (\<lambda>_. None)
      (masking_available (masking_stage (presidio_mask_text toy_presidio)))
      (Some sample_identity_config) (Some masked_policy) True sample_world = (Inr (Some hs), snd sample_build)"
    and n: "map h_name hs = [''IdentityHook'', ''GovernanceHook'', ''MaskingHook'', ''AnalyticsHook'', ''AuditHook'']"
    unfolding sample_build_def by (metis prod.collapse)
  have "\<not> reg_frozen (pw_registry sample_world)" by (simp add: sample_world_def new_registry_def)
  from pipeline_has_its_guards [OF run this masking_plugins_extend]
  have "\<exists>xs ys zs. hs = xs @ identity_stage sample_parts sample_identity_config # ys @
      governance_stage masked_policy True # zs"
    by (simp add: effective_identity_def)
  moreover have "fst sample_build = Inr (Some hs)" 
    unfolding sample_build_def by (subst run) simp
  ultimately show ?thesis using n by (intro exI [of _ hs]) simp
qed

end
