(* ===== verification/Json.thy ===== *)
theory Json
  imports PyOps
begin

text \<open>
  The JSON reader of the standard library, \<open>json.loads\<close>, on texts in Latin-1: a recursive descent
  over the text with the nesting depth as fuel, which the length of the text bounds. \<open>None\<close>
  stands for a \<open>JSONDecodeError\<close>; escapes above Latin-1, \<open>NaN\<close> and the infinities have no value in
  the model and are refused too. It reads back what \<open>json_dumps\<close> writes, which is what the
  components rely on: the interface \<open>json_reader\<close>.
\<close>

section \<open>Strings\<close>

definition hex_val :: "char \<Rightarrow> nat option" where
  "hex_val c =
     (let n = (of_char c :: nat)
      in if 48 \<le> n \<and> n \<le> 57 then Some (n - 48)
         else if 97 \<le> n \<and> n \<le> 102 then Some (n - 87)
         else if 65 \<le> n \<and> n \<le> 70 then Some (n - 55)
         else None)"

fun hex_vals :: "nat \<Rightarrow> string \<Rightarrow> nat option" where
  "hex_vals acc [] = Some acc"
| "hex_vals acc (c # cs) = (case hex_val c of None \<Rightarrow> None | Some h \<Rightarrow> hex_vals (16 * acc + h) cs)"

definition unescape :: "char \<Rightarrow> char option" where
  "unescape c =
     (let n = (of_char c :: nat)
      in if n = 34 \<or> n = 47 \<or> n = 92 then Some c
         else if n = 98 then Some (char_of (8::nat))
         else if n = 102 then Some (char_of (12::nat))
         else if n = 110 then Some (char_of (10::nat))
         else if n = 114 then Some (char_of (13::nat))
         else if n = 116 then Some (char_of (9::nat))
         else None)"

text \<open>The text after an opening quote: the string up to the closing one, and the rest.\<close>

function json_string :: "string \<Rightarrow> (string \<times> string) option" where
  "json_string [] = None"
| "json_string (c # cs) =
     (let n = (of_char c :: nat)
      in if n = 34 then Some ([], cs)
         else if n < 32 then None
         else if n \<noteq> 92 then map_option (apfst ((#) c)) (json_string cs)
         else case cs of
           [] \<Rightarrow> None
         | e # r \<Rightarrow>
             if e = CHR ''u'' then
               (case hex_vals 0 (take 4 r) of
                  Some k \<Rightarrow> if length r < 4 \<or> 256 \<le> k then None
                    else map_option (apfst ((#) (char_of k))) (json_string (drop 4 r))
                | None \<Rightarrow> None)
             else
               (case unescape e of
                  Some d \<Rightarrow> map_option (apfst ((#) d)) (json_string r)
                | None \<Rightarrow> None))"
  by pat_completeness auto
termination by (relation "measure length") auto

declare json_string.simps(2) [simp del]

section \<open>Numbers\<close>

definition is_digit :: "char \<Rightarrow> bool" where
  "is_digit c \<longleftrightarrow> 48 \<le> (of_char c :: nat) \<and> (of_char c :: nat) \<le> 57"

definition digit_val :: "char \<Rightarrow> nat" where
  "digit_val c = of_char c - 48"

definition nat_val :: "string \<Rightarrow> nat" where
  "nat_val = foldl (\<lambda>n c. 10 * n + digit_val c) 0"

fun frac_val :: "string \<Rightarrow> rat" where
  "frac_val [] = 0"
| "frac_val (c # cs) = (of_nat (digit_val c) + frac_val cs) / 10"

definition split_sign :: "string \<Rightarrow> bool \<times> string" where
  "split_sign s = (case s of c # cs \<Rightarrow> if c = CHR ''-'' then (True, cs) else (False, s) | [] \<Rightarrow> (False, s))"

text \<open>The integer part, without leading zeros; the fraction; the exponent.\<close>

definition int_part :: "string \<Rightarrow> string \<times> string" where
  "int_part s =
     (case s of
        c # cs \<Rightarrow> if c = CHR ''0'' then ([c], cs) else (takeWhile is_digit s, dropWhile is_digit s)
      | [] \<Rightarrow> ([], []))"

definition frac_part :: "string \<Rightarrow> string \<times> string" where
  "frac_part s =
     (case s of
        c # cs \<Rightarrow> if c = CHR ''.'' \<and> takeWhile is_digit cs \<noteq> []
          then (takeWhile is_digit cs, dropWhile is_digit cs) else ([], s)
      | [] \<Rightarrow> ([], []))"

definition exp_part :: "string \<Rightarrow> int option \<times> string" where
  "exp_part s =
     (case s of
        c # cs \<Rightarrow>
          if c = CHR ''e'' \<or> c = CHR ''E'' then
            (let plain = (case cs of d # ds \<Rightarrow> if d = CHR ''+'' then ds else cs | [] \<Rightarrow> []);
                 (neg, ds) = (if plain = cs then split_sign cs else (False, plain));
                 digits = takeWhile is_digit ds
             in if digits = [] then (None, s)
                else (Some (if neg then - int (nat_val digits) else int (nat_val digits)),
                      dropWhile is_digit ds))
          else (None, s)
      | [] \<Rightarrow> (None, []))"

definition power_of_ten :: "int \<Rightarrow> rat" where
  "power_of_ten e = (if 0 \<le> e then 10 ^ nat e else 1 / 10 ^ nat (- e))"

definition json_number :: "string \<Rightarrow> (pyval \<times> string) option" where
  "json_number s =
     (let (neg, t) = split_sign s; (ds, r) = int_part t; (fs, r') = frac_part r; (e, r'') = exp_part r'
      in if ds = [] then None
         else if fs = [] \<and> e = None then
           Some (PInt (if neg then - int (nat_val ds) else int (nat_val ds)), r'')
         else
           let v = (of_nat (nat_val ds) + frac_val fs) * (case e of None \<Rightarrow> 1 | Some k \<Rightarrow> power_of_ten k)
           in Some (PFloat (if neg then - v else v), r''))"

section \<open>Values\<close>

definition json_space :: "char \<Rightarrow> bool" where
  "json_space c \<longleftrightarrow> (of_char c :: nat) \<in> {9, 10, 13, 32}"

definition skip :: "string \<Rightarrow> string" where
  "skip = dropWhile json_space"

definition json_word :: "string \<Rightarrow> (pyval \<times> string) option" where
  "json_word s =
     (if prefix ''null'' s then Some (PNone, drop 4 s)
      else if prefix ''true'' s then Some (PBool True, drop 4 s)
      else if prefix ''false'' s then Some (PBool False, drop 5 s)
      else json_number s)"

fun json_value :: "nat \<Rightarrow> string \<Rightarrow> (pyval \<times> string) option" and
    json_items :: "nat \<Rightarrow> string \<Rightarrow> (pyval list \<times> string) option" and
    json_members :: "nat \<Rightarrow> pydict \<Rightarrow> string \<Rightarrow> (pydict \<times> string) option" where
  "json_value 0 s = None"
| "json_value (Suc n) s =
     (case s of
        [] \<Rightarrow> None
      | c # cs \<Rightarrow>
          if c = CHR 0x22 then map_option (apfst PStr) (json_string cs)
          else if c = CHR ''['' then
            (if prefix '']'' (skip cs) then Some (PList [], drop 1 (skip cs))
             else map_option (apfst PList) (json_items n (skip cs)))
          else if c = CHR ''{'' then
            (if prefix ''}'' (skip cs) then Some (PDict [], drop 1 (skip cs))
             else map_option (apfst PDict) (json_members n [] (skip cs)))
          else json_word s)"
| "json_items 0 s = None"
| "json_items (Suc n) s =
     (case json_value n s of
        None \<Rightarrow> None
      | Some (x, r) \<Rightarrow>
          if prefix '']'' (skip r) then Some ([x], drop 1 (skip r))
          else if prefix '','' (skip r)
          then map_option (apfst ((#) x)) (json_items n (skip (drop 1 (skip r))))
          else None)"
| "json_members 0 d s = None"
| "json_members (Suc n) d s =
     (if \<not> prefix [CHR 0x22] s then None
      else case json_string (drop 1 s) of
        None \<Rightarrow> None
      | Some (k, r) \<Rightarrow>
          if \<not> prefix '':'' (skip r) then None
          else case json_value n (skip (drop 1 (skip r))) of
            None \<Rightarrow> None
          | Some (v, r') \<Rightarrow>
              if prefix ''}'' (skip r') then Some (dict_set k v d, drop 1 (skip r'))
              else if prefix '','' (skip r')
              then json_members n (dict_set k v d) (skip (drop 1 (skip r')))
              else None)"

declare json_value.simps(2) [simp del] json_items.simps(2) [simp del] json_members.simps(2) [simp del]

definition json_loads :: "string \<Rightarrow> pyval res" where
  "json_loads s =
     (case json_value (length s + 1) (skip s) of
        Some (v, r) \<Rightarrow> if skip r = [] then Inr v else Inl (ValueError ''Extra data'')
      | None \<Rightarrow> Inl (ValueError ''Expecting value''))"

section \<open>Reading back what was written\<close>

lemma of_char_bound: "(of_char c :: nat) < 256"
  by simp

lemma char_eq: "of_char c = (n :: nat) \<Longrightarrow> c = char_of n"
  by auto

lemma hex_val_digit [simp]: "k < 16 \<Longrightarrow> hex_val (hex_digit k) = Some k"
  by (auto simp: hex_val_def hex_digit_def Let_def)

lemma hex_vals_hex2:
  "hex_vals 0 (CHR ''0'' # CHR ''0'' # hex2 c) = Some (of_char c)"
proof -
  have "hex_val (CHR ''0'') = Some 0" by code_simp
  moreover have "(of_char c :: nat) div 16 < 16" using of_char_bound [of c] by linarith
  ultimately show ?thesis by (simp add: hex2_def Let_def)
qed

lemma json_string_char:
  "json_string (json_char c @ r) = map_option (apfst ((#) c)) (json_string r)"
proof -
  let ?n = "of_char c :: nat"
  have c: "c = char_of ?n" by simp
  consider (short) "?n \<in> {34, 92, 10, 13, 9, 8, 12}"
    | (hex) "?n \<notin> {34, 92, 10, 13, 9, 8, 12}" "?n < 32 \<or> 127 \<le> ?n"
    | (plain) "?n \<notin> {34, 92}" "32 \<le> ?n" "?n < 127" by force
  then show ?thesis
  proof cases
    case short
    have eqs: "char_of (34::nat) = CHR 0x22" "char_of (92::nat) = CHR 0x5C" "char_of (10::nat) = CHR 0x0A"
      "char_of (13::nat) = CHR 0x0D" "char_of (9::nat) = CHR 0x09" "char_of (8::nat) = CHR 0x08"
      "char_of (12::nat) = CHR 0x0C" by code_simp+
    have "c \<in> {char_of (34::nat), char_of (92::nat), char_of (10::nat), char_of (13::nat),
        char_of (9::nat), char_of (8::nat), char_of (12::nat)}"
      using short by (auto dest: char_eq)
    then have "c \<in> {CHR 0x22, CHR 0x5C, CHR 0x0A, CHR 0x0D, CHR 0x09, CHR 0x08, CHR 0x0C}"
      by (simp only: eqs)
    then show ?thesis
      by (elim insertE emptyE)
        (simp_all add: json_char_def json_string.simps(2) unescape_def eqs del: char_of_quasi_inj)
  next
    case hex
    then have "json_char c = CHR 0x5C # CHR ''u'' # CHR ''0'' # CHR ''0'' # hex2 c"
      by (auto simp: json_char_def Let_def)
    moreover have "length (hex2 c) = 2" by (simp add: hex2_def Let_def)
    ultimately show ?thesis using of_char_bound [of c] hex_vals_hex2 [of c]
      by (simp add: json_string.simps(2) numeral_eq_Suc)
  next
    case plain
    then show ?thesis by (auto simp: json_char_def Let_def json_string.simps(2))
  qed
qed

lemma json_string_chars: "json_string (concat (map json_char s) @ CHR 0x22 # r) = Some (s, r)"
  by (induction s) (simp_all add: json_string_char json_string.simps(2))

lemma digit_char_is_digit: "k < 10 \<Longrightarrow> is_digit (digit_char k) \<and> digit_val (digit_char k) = k"
  by (simp add: is_digit_def digit_val_def digit_char_def)

lemma nat_val_append: "nat_val (s @ [c]) = 10 * nat_val s + digit_val c"
  by (simp add: nat_val_def)

lemma nat_str_reads: "(\<forall>c \<in> set (nat_str n). is_digit c) \<and> nat_val (nat_str n) = n \<and> nat_str n \<noteq> []"
proof (induction n rule: nat_str.induct)
  case (1 n)
  then show ?case
    by (cases "n < 10")
      (auto simp: nat_str.simps [of n] nat_val_append digit_char_is_digit, simp add: nat_val_def digit_char_is_digit)
qed

lemma nat_val_nat_str [simp]: "nat_val (nat_str n) = n" "nat_str n \<noteq> []"
  using nat_str_reads [of n] by simp_all

lemma nat_str_head: "hd (nat_str n) = CHR ''0'' \<longleftrightarrow> n = 0"
proof (induction n rule: nat_str.induct)
  case (1 n)
  show ?case
  proof (cases "n < 10")
    case True
    have "CHR ''0'' = char_of (48::nat)" by code_simp
    then have "digit_char n = CHR ''0'' \<longleftrightarrow> (48 + n) mod 256 = 48 mod 256"
      by (simp only: digit_char_def char_of_quasi_inj)
    with True show ?thesis by (simp add: nat_str.simps [of n])
  next
    case False
    with 1 nat_str_reads [of "n div 10"] show ?thesis by (simp add: nat_str.simps [of n])
  qed
qed

text \<open>What may follow a number.\<close>

definition stops :: "string \<Rightarrow> bool" where
  "stops r \<longleftrightarrow> (case r of [] \<Rightarrow> True
     | c # _ \<Rightarrow> \<not> is_digit c \<and> c \<noteq> CHR ''.'' \<and> c \<noteq> CHR ''e'' \<and> c \<noteq> CHR ''E'')"

lemma digits_then:
  assumes "\<forall>c \<in> set s. is_digit c" and "case r of [] \<Rightarrow> True | c # _ \<Rightarrow> \<not> is_digit c"
  shows "takeWhile is_digit (s @ r) = s" "dropWhile is_digit (s @ r) = r"
  using assms by (auto simp: takeWhile_append dropWhile_append split: list.splits)

lemma int_part_nat_str:
  assumes "case r of [] \<Rightarrow> True | c # _ \<Rightarrow> \<not> is_digit c"
  shows "int_part (nat_str n @ r) = (nat_str n, r)"
proof -
  obtain c cs where s: "nat_str n = c # cs" using nat_str_reads [of n] by (cases "nat_str n") auto
  show ?thesis
  proof (cases "c = CHR ''0''")
    case True
    with s nat_str_head [of n] have "n = 0" by simp
    with s have "cs = []" by (simp add: nat_str.simps [of 0])
    with s True show ?thesis by (simp add: int_part_def)
  next
    case False
    with digits_then [of "nat_str n" r] assms nat_str_reads [of n] s show ?thesis
      by (simp add: int_part_def)
  qed
qed

lemma is_digit_chars [simp]:
  "\<not> is_digit (CHR ''-'')" "\<not> is_digit (CHR ''.'')" "\<not> is_digit (CHR '']'')" "\<not> is_digit (CHR '','')"
  "\<not> is_digit (CHR ''}'')" "\<not> is_digit (CHR ''n'')" "\<not> is_digit (CHR ''t'')" "\<not> is_digit (CHR ''f'')"
  by (simp_all add: is_digit_def)

lemma split_sign_nat_str [simp]: "split_sign (nat_str n @ r) = (False, nat_str n @ r)"
  using nat_str_reads [of n] by (cases "nat_str n") (auto simp: split_sign_def)

lemma split_sign_int_str:
  "split_sign (int_str i @ r) = (i < 0, nat_str (nat (abs i)) @ r)"
  by (cases "i < 0") (simp_all add: int_str_def, simp add: split_sign_def)

lemma stopped_parts:
  assumes "stops r"
  shows "frac_part r = ([], r)" "exp_part r = (None, r)"
  using assms by (auto simp: stops_def frac_part_def exp_part_def split: list.splits)

lemma stops_no_digit: "stops r \<Longrightarrow> case r of [] \<Rightarrow> True | c # _ \<Rightarrow> \<not> is_digit c"
  by (simp add: stops_def split: list.splits)

lemma json_number_int:
  assumes "stops r"
  shows "json_number (int_str i @ r) = Some (PInt i, r)"
  using int_part_nat_str [OF stops_no_digit [OF assms], of "nat (abs i)"]
  by (simp add: json_number_def split_sign_int_str stopped_parts [OF assms])

text \<open>A float is written in full when its expansion has at most seventeen decimals.\<close>

definition short_float :: "rat \<Rightarrow> bool" where
  "short_float q \<longleftrightarrow> (q * 10 ^ 17 = of_int (floor (q * 10 ^ 17)))"

lemma frac_digits_val:
  assumes "0 \<le> q" "q < 1" "q * 10 ^ n = of_int k"
  shows "frac_val (frac_digits n q) = q \<and> (\<forall>c \<in> set (frac_digits n q). is_digit c)"
  using assms
proof (induction n arbitrary: q k)
  case 0
  then have "k = 0" by simp
  with 0 show ?case by simp
next
  case (Suc n)
  let ?d = "floor (10 * q)"
  have d: "0 \<le> ?d" "?d < 10" using Suc.prems(1,2) by (simp_all add: floor_less_iff)
  have "(10 * q - of_int ?d) * 10 ^ n = of_int (k - ?d * 10 ^ n)"
    using Suc.prems(3) by (simp add: algebra_simps)
  moreover have "0 \<le> 10 * q - of_int ?d" "10 * q - of_int ?d < 1" by linarith+
  ultimately have IH: "frac_val (frac_digits n (10 * q - of_int ?d)) = 10 * q - of_int ?d"
    "\<forall>c \<in> set (frac_digits n (10 * q - of_int ?d)). is_digit c" using Suc.IH by blast+
  have "(of_nat (nat ?d) :: rat) = of_int ?d" using d by simp
  with IH d digit_char_is_digit [of "nat ?d"] show ?case by (auto simp: nat_less_iff)
qed

lemma json_number_float:
  assumes "stops r" and "short_float q"
  shows "json_number (float_str q @ r) = Some (PFloat q, r)"
proof -
  let ?a = "abs q" and ?i = "nat (floor (abs q))"
  let ?f = "frac_digits 17 (?a - of_int (floor ?a))"
  define fs where "fs = (if ?f = [] then ''0'' else ?f)"
  obtain k where k: "q * 10 ^ 17 = of_int k" using assms(2) unfolding short_float_def by blast
  then have "?a * 10 ^ 17 = of_int (abs k)" by (simp add: abs_if split: if_splits)
  then have "(?a - of_int (floor ?a)) * 10 ^ 17 = of_int (abs k - floor ?a * 10 ^ 17)"
    by (simp add: algebra_simps)
  moreover have "0 \<le> ?a - of_int (floor ?a)" "?a - of_int (floor ?a) < 1" by linarith+
  ultimately have f: "frac_val ?f = ?a - of_int (floor ?a)" "\<forall>c \<in> set ?f. is_digit c"
    using frac_digits_val by blast+
  have fs: "frac_val fs = ?a - of_int (floor ?a)" "\<forall>c \<in> set fs. is_digit c" "fs \<noteq> []"
    using f by (auto simp: fs_def is_digit_def digit_val_def)
  have frac: "frac_part (CHR ''.'' # fs @ r) = (fs, r)"
    using digits_then [OF fs(2) stops_no_digit [OF assms(1)]] fs(3) by (simp add: frac_part_def)
  have int: "int_part (nat_str ?i @ CHR ''.'' # fs @ r) = (nat_str ?i, CHR ''.'' # fs @ r)"
    by (rule int_part_nat_str) simp
  have sign: "split_sign (float_str q @ r) = (q < 0, nat_str ?i @ CHR ''.'' # fs @ r)"
    by (cases "q < 0") (simp_all add: float_str_def Let_def int_str_def fs_def, simp add: split_sign_def)
  have "of_nat ?i + frac_val fs = ?a" using fs(1) by simp
  then have "json_number (float_str q @ r) = Some (PFloat (if q < 0 then - ?a else ?a), r)"
    using fs(3) by (simp add: json_number_def sign int frac stopped_parts [OF assms(1)] del: if_split)
  then show ?thesis by (simp add: abs_if split: if_splits)
qed

text \<open>The values that can be written and read back: the keys of a dictionary differ, and floats
  are written in full.\<close>

fun writable :: "pyval \<Rightarrow> bool" where
  "writable (PFloat q) = short_float q"
| "writable (PList xs) = (\<forall>x \<in> set xs. writable x)"
| "writable (PDict d) = (distinct (map fst d) \<and> (\<forall>e \<in> set d. writable (snd e)))"
| "writable _ = True"

lemma join_Cons: "join sep (x # xs) = x @ (if xs = [] then [] else sep @ join sep xs)"
  by (cases xs) simp_all

lemma json_list_empty [simp]: "json_list xs = [] \<longleftrightarrow> xs = []" "json_dict d = [] \<longleftrightarrow> d = []"
  by (cases xs, simp_all) (cases d, auto)

lemma number_head:
  "\<exists>c cs. int_str i = c # cs \<and> (c = CHR ''-'' \<or> is_digit c)"
  "\<exists>c cs. float_str q = c # cs \<and> (c = CHR ''-'' \<or> is_digit c)"
proof -
  have nat: "\<exists>c cs. nat_str n = c # cs \<and> is_digit c" for n
    using nat_str_reads [of n] by (cases "nat_str n") auto
  from nat show int: "\<exists>c cs. int_str i = c # cs \<and> (c = CHR ''-'' \<or> is_digit c)" for i
    by (fastforce simp: int_str_def)
  from int [of "floor (abs q)"] show "\<exists>c cs. float_str q = c # cs \<and> (c = CHR ''-'' \<or> is_digit c)"
    by (auto simp: float_str_def Let_def)
qed

lemma dumps_head:
  "\<exists>c cs. json_dumps v = c # cs \<and> \<not> json_space c \<and> c \<noteq> CHR '']'' \<and> c \<noteq> CHR ''}''"
proof -
  have head: "\<not> json_space c \<and> c \<noteq> CHR '']'' \<and> c \<noteq> CHR ''}''" if "c = CHR ''-'' \<or> is_digit c" for c
    using that by (auto simp: json_space_def is_digit_def)
  show ?thesis
  proof (cases v)
    case (PInt i)
    with number_head(1) [of i] head show ?thesis by auto
  next
    case (PFloat q)
    with number_head(2) [of q] head show ?thesis by auto
  qed (simp_all add: json_str_def json_space_def)
qed

lemma skip_dumps [simp]: "skip (json_dumps v @ r) = json_dumps v @ r"
  using dumps_head [of v] by (auto simp: skip_def)

lemma skip_simps [simp]:
  "skip [] = []" "skip (CHR '' '' # r) = skip r"
  "skip (CHR '']'' # r) = CHR '']'' # r" "skip (CHR '','' # r) = CHR '','' # r"
  "skip (CHR ''}'' # r) = CHR ''}'' # r" "skip (CHR '':'' # r) = CHR '':'' # r"
  "skip (CHR 0x22 # r) = CHR 0x22 # r"
  by (simp_all add: skip_def json_space_def)

lemma skip_join:
  "xs \<noteq> [] \<Longrightarrow> skip (join '', '' (json_list xs) @ r) = join '', '' (json_list xs) @ r"
  "d \<noteq> [] \<Longrightarrow> skip (join '', '' (json_dict d) @ r) = join '', '' (json_dict d) @ r"
  by (cases xs, simp_all add: join_Cons) (cases d, auto simp: join_Cons json_str_def)

lemma stops_simps [simp]: "stops []" "stops (CHR '']'' # r)" "stops (CHR '','' # r)" "stops (CHR ''}'' # r)"
  by (simp_all add: stops_def)

lemma json_value_word:
  assumes "json_word (c # s) = Some (v, r)" and "c = CHR ''-'' \<or> is_digit c \<or> c \<in> set ''ntf''"
  shows "json_value (Suc n) (c # s) = Some (v, r)"
  using assms by (auto simp: json_value.simps(2) is_digit_def)

lemma json_word_number:
  assumes "json_number (c # s) = x" and "c = CHR ''-'' \<or> is_digit c"
  shows "json_word (c # s) = x"
  using assms by (auto simp: json_word_def)

lemma json_value_number:
  assumes "json_number (s @ r) = Some (v, r)" and "\<exists>c cs. s = c # cs \<and> (c = CHR ''-'' \<or> is_digit c)"
  shows "json_value (Suc n) (s @ r) = Some (v, r)"
proof -
  obtain c cs where s: "s = c # cs" and c: "c = CHR ''-'' \<or> is_digit c" using assms(2) by blast
  with assms(1) json_word_number [of c "cs @ r"] have "json_word (c # cs @ r) = Some (v, r)" by simp
  with json_value_word [of c "cs @ r"] s c show ?thesis by auto
qed

lemma dict_set_new: "k \<notin> set (map fst d) \<Longrightarrow> dict_set k v d = d @ [(k, v)]"
  by (induction d) (auto simp: dict_set_def)

lemma json_reads_back:
  "writable v \<Longrightarrow> stops r \<Longrightarrow> length (json_dumps v) \<le> n \<Longrightarrow> json_value (Suc n) (json_dumps v @ r) = Some (v, r)"
  "xs \<noteq> [] \<Longrightarrow> \<forall>x \<in> set xs. writable x \<Longrightarrow> length (join '', '' (json_list xs)) < n \<Longrightarrow>
     json_items (Suc n) (join '', '' (json_list xs) @ CHR '']'' # r) = Some (xs, r)"
  "es \<noteq> [] \<Longrightarrow> \<forall>e \<in> set es. writable (snd e) \<Longrightarrow> distinct (map fst (d @ es)) \<Longrightarrow>
     length (join '', '' (json_dict es)) < n \<Longrightarrow>
     json_members (Suc n) d (join '', '' (json_dict es) @ CHR ''}'' # r) = Some (d @ es, r)"
proof (induction v and xs and es arbitrary: n r and n r and n r d rule: pyval_split_induct)
  case PNone
  then show ?case using json_value_word [of "CHR ''n''" "''ull'' @ r"] by (simp add: json_word_def)
next
  case (PBool b)
  then show ?case
    using json_value_word [of "CHR ''t''" "''rue'' @ r"] json_value_word [of "CHR ''f''" "''alse'' @ r"]
    by (simp add: json_word_def)
next
  case (PInt i)
  then show ?case using json_value_number [OF json_number_int number_head(1)] by simp
next
  case (PFloat q)
  then show ?case using json_value_number [OF json_number_float number_head(2)] by simp
next
  case (PStr s)
  then show ?case by (simp add: json_str_def json_value.simps(2) json_string_chars)
next
  case (PList xs)
  show ?case
  proof (cases "xs = []")
    case False
    then obtain y ys where xs: "xs = y # ys" by (cases xs) auto
    obtain c cs where c: "json_dumps y = c # cs" "\<not> json_space c" "c \<noteq> CHR '']''"
      using dumps_head [of y] by blast
    obtain m where n: "n = Suc m" using PList.prems(3) by (cases n) auto
    from PList.IH [of m r] PList.prems False n have
      "json_items n (join '', '' (json_list xs) @ CHR '']'' # r) = Some (xs, r)" by auto
    with c xs show ?thesis by (simp add: json_value.simps(2) join_Cons skip_def)
  qed (simp add: json_value.simps(2))
next
  case (PDict d)
  show ?case
  proof (cases "d = []")
    case False
    then obtain k y ys where d: "d = (k, y) # ys" by (cases d) auto
    obtain m where n: "n = Suc m" using PDict.prems(3) by (cases n) auto
    from PDict.IH [of "[]" m r] PDict.prems False n have
      "json_members n [] (join '', '' (json_dict d) @ CHR ''}'' # r) = Some (d, r)" by auto
    with d show ?thesis by (simp add: json_value.simps(2) join_Cons json_str_def)
  qed (simp add: json_value.simps(2))
next
  case (list_cons x xs)
  then obtain m where n: "n = Suc m" by (cases n) auto
  from list_cons.prems n have len: "length (json_dumps x) \<le> m" by (simp add: join_Cons)
  with list_cons.IH(1) list_cons.prems n have
    x: "stops s \<Longrightarrow> json_value n (json_dumps x @ s) = Some (x, s)" for s by simp
  show ?case
  proof (cases "xs = []")
    case True
    with x show ?thesis by (simp add: json_items.simps(2))
  next
    case False
    with list_cons.prems n have "length (join '', '' (json_list xs)) < m" by (auto simp: join_Cons)
    with list_cons.IH(2) list_cons.prems n False have
      "json_items n (join '', '' (json_list xs) @ CHR '']'' # r) = Some (xs, r)" by auto
    with x skip_join(1) [OF False] False show ?thesis by (simp add: json_items.simps(2) join_Cons)
  qed
next
  case (dict_cons k v es)
  then obtain m where n: "n = Suc m" by (cases n) auto
  from dict_cons.prems n have len: "length (json_dumps v) \<le> m" by (simp add: join_Cons)
  with dict_cons.IH(1) dict_cons.prems n have
    v: "stops s \<Longrightarrow> json_value n (json_dumps v @ s) = Some (v, s)" for s by simp
  from dict_cons.prems have new: "dict_set k v d = d @ [(k, v)]" by (intro dict_set_new) auto
  show ?case
  proof (cases "es = []")
    case True
    with v new show ?thesis by (simp add: json_members.simps(2) json_str_def json_string_chars)
  next
    case False
    with dict_cons.prems n have "length (join '', '' (json_dict es)) < m" by (auto simp: join_Cons)
    with dict_cons.IH(2) [of "d @ [(k, v)]" m r] dict_cons.prems n False have
      "json_members n (d @ [(k, v)]) (join '', '' (json_dict es) @ CHR ''}'' # r) = Some (d @ (k, v) # es, r)"
      by auto
    with v new skip_join(2) [OF False] False show ?thesis
      by (simp add: json_members.simps(2) join_Cons json_str_def json_string_chars)
  qed
qed simp_all

lemma json_round_trip:
  assumes "writable v"
  shows "json_loads (json_dumps v) = Inr v"
  using json_reads_back(1) [OF assms, of "[]" "length (json_dumps v)"] skip_dumps [of v "[]"]
  by (simp add: json_loads_def)

section \<open>What is written is one line\<close>

definition printable :: "char \<Rightarrow> bool" where
  "printable c \<longleftrightarrow> 32 \<le> (of_char c :: nat) \<and> (of_char c :: nat) < 128"

lemma printable_digit: "is_digit c \<Longrightarrow> printable c"
  by (simp add: is_digit_def printable_def)

lemma printable_json_char: "\<forall>d \<in> set (json_char c). printable d"
proof -
  have "printable (hex_digit k)" if "k < 16" for k
    using that by (simp add: hex_digit_def printable_def)
  moreover have "(of_char c :: nat) div 16 < 16" using of_char_bound [of c] by linarith
  ultimately have "\<forall>d \<in> set (hex2 c). printable d" by (simp add: hex2_def Let_def)
  then show ?thesis by (auto simp: json_char_def Let_def printable_def split: if_splits)
qed

lemma printable_join:
  "\<forall>s \<in> set ss. \<forall>c \<in> set s. printable c \<Longrightarrow> c \<in> set (join '', '' ss) \<Longrightarrow> printable c"
  by (induction ss) (auto simp: join_Cons printable_def split: if_splits)

lemma printable_int_str: "c \<in> set (int_str i) \<Longrightarrow> printable c"
  using nat_str_reads [of "nat i"] nat_str_reads [of "nat (- i)"]
  by (auto simp: int_str_def printable_digit split: if_splits) (simp add: printable_def)

lemma frac_digits_digits: "0 \<le> q \<Longrightarrow> q < 1 \<Longrightarrow> c \<in> set (frac_digits n q) \<Longrightarrow> is_digit c"
proof (induction n arbitrary: q)
  case (Suc n)
  let ?d = "floor (10 * q)"
  have d: "0 \<le> ?d" "?d < 10" using Suc.prems(1,2) by (simp_all add: floor_less_iff)
  moreover have "0 \<le> 10 * q - of_int ?d" "10 * q - of_int ?d < 1" by linarith+
  ultimately show ?case
    using Suc.IH [of "10 * q - of_int ?d"] Suc.prems(3) digit_char_is_digit [of "nat ?d"]
    by (auto simp: nat_less_iff split: if_splits)
qed simp

lemma printable_float_str: "c \<in> set (float_str q) \<Longrightarrow> printable c"
proof -
  have "0 \<le> abs q - of_int (floor (abs q))" "abs q - of_int (floor (abs q)) < 1" by linarith+
  then have "c \<in> set (frac_digits 17 (abs q - of_int (floor (abs q)))) \<Longrightarrow> printable c"
    by (intro printable_digit frac_digits_digits)
  then show "c \<in> set (float_str q) \<Longrightarrow> printable c"
    using printable_int_str
    by (auto simp: float_str_def Let_def printable_def split: if_splits)
qed

lemma printable_json_str: "c \<in> set (json_str s) \<Longrightarrow> printable c"
  using printable_json_char by (auto simp: json_str_def printable_def)

lemma json_dumps_printable:
  "\<forall>c \<in> set (json_dumps v). printable c"
  "\<forall>s \<in> set (json_list xs). \<forall>c \<in> set s. printable c"
  "\<forall>s \<in> set (json_dict d). \<forall>c \<in> set s. printable c"
proof (induction v and xs and d rule: pyval_split_induct)
  case (PInt i)
  then show ?case by (simp add: printable_int_str)
next
  case (PFloat q)
  then show ?case by (simp add: printable_float_str)
next
  case (PStr s)
  then show ?case by (simp add: printable_json_str)
next
  case (PList xs)
  then show ?case using printable_join [of "json_list xs"] by (auto simp: printable_def)
next
  case (PDict d)
  then show ?case using printable_join [of "json_dict d"] by (auto simp: printable_def)
next
  case (dict_cons k v d)
  have "printable CHR '':''" "printable CHR '' ''" by (simp_all add: printable_def)
  with dict_cons show ?case using printable_json_str [of _ k] by auto
qed (simp_all add: printable_def)

lemma json_dumps_one_line: "CHR 0x0A \<notin> set (json_dumps v)"
proof -
  have "\<not> printable (CHR 0x0A)" by (simp add: printable_def)
  then show ?thesis using json_dumps_printable(1) [of v] by blast
qed

section \<open>The interface\<close>

text \<open>A reader of JSON, as far as the components rely on it: it reads back what was written.\<close>

locale json_reader =
  fixes loads :: "string \<Rightarrow> pyval res"
  assumes reads_back: "writable v \<Longrightarrow> loads (json_dumps v) = Inr v"
begin

lemma dumps_injective:
  assumes "writable v" and "writable w" and "json_dumps v = json_dumps w"
  shows "v = w"
proof -
  have "Inr v = loads (json_dumps v)" by (rule reads_back [OF assms(1), symmetric])
  also have "\<dots> = Inr w" unfolding assms(3) by (rule reads_back [OF assms(2)])
  finally show ?thesis by (rule sum.inject(2) [THEN iffD1])
qed

end

interpretation stdlib: json_reader json_loads
  by unfold_locales (rule json_round_trip)

end
