(* ===== verification/Logging.thy ===== *)
theory Logging
  imports Json Audit_Trail
begin

text \<open>
  \<open>logging.py\<close>: the two formatters, the handler that flushes, and the configuration of the root
  logger. A record holds what the code reads of Python's: its message is the formatted one, the
  time of its creation is in seconds, and an attached exception is its class, its text and its
  rendered trace. The rendering of a time in ISO format and the JSON reader are arguments. The
  box characters of coloured lines stand in their UTF-8 bytes.
\<close>

record exc_info =
  xi_type :: string
  xi_message :: string
  xi_traceback :: string

record log_record =
  lr_name :: string
  lr_level :: string
  lr_levelno :: int
  lr_message :: string
  lr_created :: rat
  lr_exc_info :: "exc_info option"

definition service_name :: string where
  "service_name = ''mcp-gateway''"

definition rstrip :: "string \<Rightarrow> string" where
  "rstrip s = rev (dropWhile is_space (rev s))"

section \<open>JSON lines\<close>

definition try_parse_json :: "(string \<Rightarrow> pyval res) \<Rightarrow> string \<Rightarrow> pydict option res" where
  "try_parse_json loads msg =
     (case msg of
        [] \<Rightarrow> Inr None
      | c # _ \<Rightarrow>
          if c \<noteq> CHR ''{'' then Inr None
          else case loads msg of
            Inr (PDict d) \<Rightarrow> Inr (Some d)
          | Inr _ \<Rightarrow> Inr None
          | Inl e \<Rightarrow> if is_ValueError e then Inr None else Inl e)"

definition set_default :: "string \<Rightarrow> pyval \<Rightarrow> pydict \<Rightarrow> pydict" where
  "set_default k v d = (if map_of d k = None then dict_set k v d else d)"

definition error_field :: "exc_info \<Rightarrow> pyval" where
  "error_field xi =
     PDict [(''type'', PStr (xi_type xi)), (''message'', PStr (xi_message xi)),
            (''traceback'', PStr (rstrip (xi_traceback xi)))]"

definition json_object :: "(rat \<Rightarrow> string) \<Rightarrow> log_record \<Rightarrow> pydict option \<Rightarrow> pydict" where
  "json_object iso_time r parsed =
     (let obj = (case parsed of
          Some d \<Rightarrow> dict_set ''level'' (PStr (lr_level r)) (set_default ''service'' (PStr service_name) d)
        | None \<Rightarrow>
            [(''service'', PStr service_name), (''level'', PStr (lr_level r)),
             (''timestamp'', PStr (iso_time (lr_created r))), (''logger'', PStr (lr_name r)),
             (''message'', PStr (lr_message r))])
      in case lr_exc_info r of None \<Rightarrow> obj | Some xi \<Rightarrow> dict_set ''error'' (error_field xi) obj)"

definition json_format :: "(string \<Rightarrow> pyval res) \<Rightarrow> (rat \<Rightarrow> string) \<Rightarrow> log_record \<Rightarrow> string res" where
  "json_format loads iso_time r =
     res_bind (try_parse_json loads (lr_message r)) (\<lambda>parsed.
       Inr (json_dumps (PDict (json_object iso_time r parsed))))"

section \<open>Text lines\<close>

definition ansi :: "string \<Rightarrow> string" where
  "ansi code = [CHR 0x1B, CHR ''[''] @ code @ ''m''"

definition in_style :: "bool \<Rightarrow> string \<Rightarrow> string \<Rightarrow> string" where
  "in_style color style s = (if color then style @ s @ ansi ''0'' else s)"

definition level_styles :: "(string \<times> string \<times> string) list" where
  "level_styles =
     [(''DEBUG'', ansi ''2'', ''DEBUG''),
      (''INFO'', ansi ''32'', ''INFO ''),
      (''WARNING'', ansi ''33'' @ ansi ''1'', ''WARN ''),
      (''ERROR'', ansi ''31'' @ ansi ''1'', ''ERROR''),
      (''CRITICAL'', ansi ''41'' @ ansi ''37'' @ ansi ''1'', ''FATAL'')]"

definition audit_labels :: "(string \<times> string) list" where
  "audit_labels =
     [(''mcp_tool_invocation'', ''TOOL_CALL''), (''policy_decision'', ''POLICY''),
      (''masking_event'', ''MASKING''), (''error'', ''ERROR'')]"

definition ljust :: "nat \<Rightarrow> string \<Rightarrow> string" where
  "ljust n s = s @ replicate (n - length s) (CHR '' '')"

definition zfill :: "nat \<Rightarrow> string \<Rightarrow> string" where
  "zfill n s = replicate (n - length s) (CHR ''0'') @ s"

text \<open>Rounding as Python does it, half to even, and the format \<open>.nf\<close>.\<close>

definition half_even :: "rat \<Rightarrow> int" where
  "half_even q =
     (let f = floor q; d = q - of_int f
      in if d < 1 / 2 then f else if 1 / 2 < d then f + 1 else if even f then f else f + 1)"

definition fixed :: "nat \<Rightarrow> rat \<Rightarrow> string" where
  "fixed n q =
     (let k = nat (half_even (abs q * 10 ^ n))
      in (if q < 0 then ''-'' else []) @ nat_str (k div 10 ^ n) @
         (if n = 0 then [] else ''.'' @ zfill n (nat_str (k mod 10 ^ n))))"

text \<open>\<open>strftime("%H:%M:%S.%f")[:-3]\<close> of the time in UTC, which is kept in microseconds.\<close>

definition clock :: "rat \<Rightarrow> string" where
  "clock created =
     (let us = half_even (created * 1000000); s = us div 1000000 mod 86400;
          two = (\<lambda>k. zfill 2 (nat_str (nat k)))
      in two (s div 3600) @ '':'' @ two (s div 60 mod 60) @ '':'' @ two (s mod 60) @ ''.'' @
         zfill 3 (nat_str (nat (us mod 1000000 div 1000))))"

definition short_logger :: "string \<Rightarrow> string" where
  "short_logger name = (if prefix ''mcp_zero.'' name then drop 9 name else name)"

definition human_bytes :: "pyval \<Rightarrow> string res" where
  "human_bytes n =
     (case num_val n of
        None \<Rightarrow> Inl (TypeError (quoted ''<'' @ '' not supported between instances of '' @
          quoted (type_name n) @ '' and '' @ quoted ''int''))
      | Some q \<Rightarrow>
          if q < 1024 then Inr (py_str n @ ''B'')
          else if q < 1024 * 1024 then Inr (fixed 1 (q / 1024) @ ''K'')
          else Inr (fixed 1 (q / (1024 * 1024)) @ ''M''))"

text \<open>\<open>f"{v:.0f}"\<close>, \<open>v[:12]\<close> and \<open>v[k]\<close> for a key that is a string.\<close>

definition format_int :: "pyval \<Rightarrow> string res" where
  "format_int v =
     (case num_val v of
        Some q \<Rightarrow> Inr (fixed 0 q)
      | None \<Rightarrow>
          if is_str v
          then Inl (ValueError (''Unknown format code '' @ quoted ''f'' @ '' for object of type '' @ quoted ''str''))
          else Inl (TypeError (''unsupported format string passed to '' @ type_name v @ ''.__format__'')))"

definition not_subscriptable :: "pyval \<Rightarrow> exn" where
  "not_subscriptable v = TypeError (quoted (type_name v) @ '' object is not subscriptable'')"

fun first_twelve :: "pyval \<Rightarrow> pyval res" where
  "first_twelve (PStr s) = Inr (PStr (take 12 s))"
| "first_twelve (PList xs) = Inr (PList (take 12 xs))"
| "first_twelve (PDict d) = Inl (OtherException ''KeyError'' ''slice(None, 12, None)'')"
| "first_twelve v = Inl (not_subscriptable v)"

fun item_at :: "pyval \<Rightarrow> string \<Rightarrow> pyval res" where
  "item_at (PDict d) k = (case map_of d k of Some v \<Rightarrow> Inr v | None \<Rightarrow> Inl (KeyError k))"
| "item_at (PList xs) k = Inl (TypeError ''list indices must be integers or slices, not str'')"
| "item_at (PStr s) k = Inl (TypeError (''string indices must be integers, not '' @ quoted ''str''))"
| "item_at v k = Inl (not_subscriptable v)"

definition shown :: "string \<Rightarrow> pyval \<Rightarrow> string list" where
  "shown label v = (if truthy v then [label @ py_str v] else [])"

definition shown_size :: "string \<Rightarrow> pyval \<Rightarrow> string list res" where
  "shown_size label v =
     (if truthy v then res_bind (human_bytes v) (\<lambda>s. Inr [label @ s]) else Inr [])"

definition shown_user :: "pyval \<Rightarrow> string list" where
  "shown_user user = (case user of PDict u \<Rightarrow> shown ''user='' (dict_get u ''user_id'' PNone) | _ \<Rightarrow> [])"

definition masked_entry :: "pyval \<Rightarrow> string res" where
  "masked_entry e =
     res_bind (item_at e ''count'') (\<lambda>n.
     res_bind (item_at e ''entity_type'') (\<lambda>t. Inr (py_str n @ ''x '' @ py_str t)))"

definition shown_masking :: "pyval \<Rightarrow> string list res" where
  "shown_masking v =
     (if truthy v then
        res_bind (py_iter v) (\<lambda>es. res_bind (map_res masked_entry es) (\<lambda>ss.
          Inr [''masked=['' @ join '', '' ss @ '']'']))
      else Inr [])"

definition audit_label :: "pyval \<Rightarrow> string res" where
  "audit_label event_type =
     res_bind (str_method ''upper'' event_type upper) (\<lambda>up.
       Inr (case map_of audit_labels (py_str event_type) of Some label \<Rightarrow> label | None \<Rightarrow> up))"

definition format_audit :: "bool \<Rightarrow> pydict \<Rightarrow> string res" where
  "format_audit color obj =
     (let got = (\<lambda>k. dict_get obj k (PStr [])) in
      res_bind (audit_label (dict_get obj ''event_type'' (PStr ''unknown''))) (\<lambda>label.
      res_bind (if truthy (got ''correlation_id'')
                then res_bind (first_twelve (got ''correlation_id'')) (\<lambda>v. Inr [''cid='' @ py_str v])
                else Inr []) (\<lambda>cid.
      res_bind (case dict_get obj ''duration_ms'' PNone of PNone \<Rightarrow> Inr []
                | v \<Rightarrow> res_bind (format_int v) (\<lambda>s. Inr [s @ ''ms''])) (\<lambda>duration.
      res_bind (shown_size ''req='' (dict_get obj ''request_size_bytes'' PNone)) (\<lambda>req.
      res_bind (shown_size ''resp='' (dict_get obj ''response_size_bytes'' PNone)) (\<lambda>resp.
      res_bind (shown_masking (dict_get obj ''masking_events'' (PList []))) (\<lambda>masked.
        let parts = shown ''server='' (got ''server_name'') @ shown ''tool='' (got ''tool_name'') @
              shown_user (dict_get obj ''user'' (PDict [])) @
              shown ''decision='' (got ''policy_decision'') @
              (if truthy (got ''short_circuit_reason'')
               then [''reason='' @ [CHR 0x22] @ py_str (got ''short_circuit_reason'') @ [CHR 0x22]] else []) @
              cid @ duration @ req @ resp @ masked @
              (if truthy (got ''error_type'')
               then [''error='' @ py_str (got ''error_type'') @ '': '' @ py_str (got ''error_message'')] else []);
            bar = [CHR 0xE2, CHR 0x94, CHR 0x80]
        in Inr (if color
            then ansi ''1'' @ bar @ bar @ '' '' @ label @ '' '' @ bar @ bar @ ansi ''0'' @ '' '' @ join '' '' parts
            else ''-- '' @ label @ '' -- '' @ join '' '' parts))))))))"

text \<open>\<open>s.split(sep)\<close> with a separator of one character.\<close>

fun split_on :: "char \<Rightarrow> string \<Rightarrow> string list" where
  "split_on sep [] = [[]]"
| "split_on sep (c # cs) =
     (if c = sep then [] # split_on sep cs
      else case split_on sep cs of [] \<Rightarrow> [[c]] | l # ls \<Rightarrow> (c # l) # ls)"

definition format_exception :: "bool \<Rightarrow> exc_info \<Rightarrow> string" where
  "format_exception color xi =
     (let indent = replicate 15 (CHR '' '');
          ls = filter (\<lambda>l. strip l \<noteq> []) (butlast (split_on (CHR 0x0A) (rstrip (xi_traceback xi))));
          title = xi_type xi @ '': '' @ xi_message xi;
          header = (if color
            then indent @ ansi ''31'' @ [CHR 0xE2, CHR 0x95, CHR 0xB0, CHR 0xE2, CHR 0x94, CHR 0x80] @ '' '' @
                 title @ ansi ''0''
            else indent @ ''+-- '' @ title);
          body = join [CHR 0x0A] (map (\<lambda>l. if color
            then indent @ ''   '' @ ansi ''2'' @ l @ ansi ''0'' else indent @ ''    '' @ l) ls)
      in if body \<noteq> [] then header @ [CHR 0x0A] @ body else header)"

definition gutter :: "bool \<Rightarrow> int \<Rightarrow> string" where
  "gutter color levelno =
     (if 40 \<le> levelno then in_style color (ansi ''31'') ''!'' @ '' ''
      else if 30 \<le> levelno then in_style color (ansi ''33'') ''!'' @ '' ''
      else ''  '')"

definition level_tag :: "bool \<Rightarrow> string \<Rightarrow> string" where
  "level_tag color name =
     (let (style, label) = (case map_of level_styles name of Some p \<Rightarrow> p | None \<Rightarrow> ([], ljust 5 name))
      in in_style color style label)"

definition text_format :: "(string \<Rightarrow> pyval res) \<Rightarrow> bool \<Rightarrow> log_record \<Rightarrow> string res" where
  "text_format loads color r =
     res_bind (try_parse_json loads (lr_message r)) (\<lambda>parsed.
     res_bind (case parsed of Some d \<Rightarrow> format_audit color d | None \<Rightarrow> Inr (lr_message r)) (\<lambda>body.
       let shown_body = (if 40 \<le> lr_levelno r then in_style color (ansi ''31'') body
             else if 30 \<le> lr_levelno r then in_style color (ansi ''33'') body else body);
           line = in_style color (ansi ''2'') (clock (lr_created r)) @ '' '' @
             gutter color (lr_levelno r) @ level_tag color (lr_level r) @ '' '' @
             in_style color (ansi ''2'') (''['' @ short_logger (lr_name r) @ '']'') @ '' '' @ shown_body
       in Inr (case lr_exc_info r of None \<Rightarrow> line
               | Some xi \<Rightarrow> line @ [CHR 0x0A] @ format_exception color xi)))"

section \<open>The root logger\<close>

datatype formatter = Json_Lines | Text_Lines bool

definition format_record ::
    "(string \<Rightarrow> pyval res) \<Rightarrow> (rat \<Rightarrow> string) \<Rightarrow> formatter \<Rightarrow> log_record \<Rightarrow> string res" where
  "format_record loads iso_time f r =
     (case f of Json_Lines \<Rightarrow> json_format loads iso_time r | Text_Lines color \<Rightarrow> text_format loads color r)"

text \<open>The handler writes a line and flushes, so what was emitted is on the stream. An exception of
  the formatter is reported elsewhere and the record dropped, except for \<open>RecursionError\<close>.\<close>

definition handler_emit ::
    "(string \<Rightarrow> pyval res) \<Rightarrow> (rat \<Rightarrow> string) \<Rightarrow> formatter \<Rightarrow> log_record \<Rightarrow> (string, unit) prog" where
  "handler_emit loads iso_time f r =
     (case format_record loads iso_time f r of
        Inr line \<Rightarrow> modify (\<lambda>out. out @ line @ [CHR 0x0A])
      | Inl e \<Rightarrow> if is_Exception e \<and> exn_class e \<noteq> ''RecursionError'' then ret () else raise e)"

text \<open>The root logger: its handlers, by their formatters, and its level. \<open>setLevel\<close> accepts the
  names of the logging module only.\<close>

record root_logger =
  rl_handlers :: "formatter list"
  rl_level :: string

definition level_names :: "string list" where
  "level_names = [''CRITICAL'', ''FATAL'', ''ERROR'', ''WARN'', ''WARNING'', ''INFO'', ''DEBUG'', ''NOTSET'']"

definition set_level :: "string \<Rightarrow> (root_logger, unit) prog" where
  "set_level name =
     (if name \<in> set level_names then modify (\<lambda>l. l\<lparr>rl_level := name\<rparr>)
      else raise (ValueError (''Unknown level: '' @ repr_str name)))"

definition chosen_formatter :: "(string \<Rightarrow> string option) \<Rightarrow> bool \<Rightarrow> pyval \<Rightarrow> formatter" where
  "chosen_formatter env tty fmt =
     (if fmt = PStr ''text'' then
        let force = lower (strip (case env ''FORCE_COLOR'' of Some v \<Rightarrow> v | None \<Rightarrow> []))
        in Text_Lines (if force \<in> {''1'', ''true'', ''yes''} then True
                       else if force \<in> {''0'', ''false'', ''no''} then False else tty)
      else Json_Lines)"

definition configure_logging ::
    "(string \<Rightarrow> string option) \<Rightarrow> bool \<Rightarrow> string \<Rightarrow> pyval \<Rightarrow> (root_logger, unit) prog" where
  "configure_logging env tty level fmt =
     bind (modify (\<lambda>l. l\<lparr>rl_handlers := [chosen_formatter env tty fmt]\<rparr>)) (\<lambda>_. set_level level)"

definition configure_json_logging ::
    "(string \<Rightarrow> string option) \<Rightarrow> bool \<Rightarrow> string \<Rightarrow> (root_logger, unit) prog" where
  "configure_json_logging env tty level = configure_logging env tty level (PStr ''json'')"

section \<open>What the log keeps\<close>

lemma split_on_line:
  "sep \<notin> set l \<Longrightarrow> split_on sep (l @ sep # s) = l # split_on sep s"
  by (induction l) auto

lemma split_on_not_Nil [simp]: "split_on sep s \<noteq> []"
  by (induction s) (auto split: list.splits)

lemma json_format_one_line: "json_format loads iso_time r = Inr line \<Longrightarrow> CHR 0x0A \<notin> set line"
  by (auto simp: json_format_def res_simps json_dumps_one_line simp del: json_dumps.simps)

lemma map_of_set_default: "map_of (set_default k v d) = (\<lambda>j. if j = k \<and> map_of d k = None then Some v else map_of d j)"
  by (auto simp: set_default_def)

lemma distinct_set_default: "distinct (map fst d) \<Longrightarrow> distinct (map fst (set_default k v d))"
  by (simp add: set_default_def distinct_dict_set)

lemma writable_dict_set:
  assumes "writable (PDict d)" and "writable v"
  shows "writable (PDict (dict_set k v d))"
proof -
  have "writable (snd e)" if "e \<in> set (dict_set k v d)" for e
    using that assms by (induction d) (auto simp: dict_set_def split: if_splits)
  with assms show ?thesis by (simp add: distinct_dict_set)
qed

lemma writable_envelope: "distinct (map fst d) \<Longrightarrow> list_all (\<lambda>e. is_str (snd e)) d \<Longrightarrow> writable (PDict d)"
  by (auto simp: list_all_iff elim!: is_str.elims(2))

lemma writable_json_object:
  assumes "\<And>d. parsed = Some d \<Longrightarrow> writable (PDict d)"
  shows "writable (PDict (json_object iso_time r parsed))"
proof -
  have "writable (error_field xi)" for xi by (simp add: error_field_def)
  moreover have "writable (PDict (set_default k (PStr s) d))" if "writable (PDict d)" for k s d
    using that writable_dict_set by (simp add: set_default_def del: writable.simps(3))
  ultimately show ?thesis using assms
    by (cases parsed; cases "lr_exc_info r")
      (simp_all add: json_object_def writable_dict_set writable_envelope del: writable.simps(3))
qed

context json_reader
begin

text \<open>A line reads back as the object that was built for the record.\<close>

lemma line_reads_back:
  assumes "json_format loads iso_time r = Inr line"
    and "\<And>d. try_parse_json loads (lr_message r) = Inr (Some d) \<Longrightarrow> writable (PDict d)"
  shows "\<exists>parsed. try_parse_json loads (lr_message r) = Inr parsed \<and>
    loads line = Inr (PDict (json_object iso_time r parsed))"
  using assms reads_back [OF writable_json_object] by (auto simp: json_format_def res_simps)

lemma parse_written:
  assumes "writable (PDict d)"
  shows "try_parse_json loads (json_dumps (PDict d)) = Inr (Some d)"
  using reads_back [OF assms] by (simp add: try_parse_json_def)

end

lemma writable_fields:
  assumes "writable (ae_user_id ev)" and "\<forall>g \<in> set (ae_user_groups ev). writable g"
    and "writable (ae_policy_rule_id ev)" and "short_float (ae_duration_ms ev)"
    and "to_json_dict wanted ev = Inr d"
  shows "writable (PDict d)" and "map_of d ''level'' = None" and "map_of d ''service'' = None"
proof -
  from assms(5) have d: "\<exists>P. d = filter P (all_fields ev)"
    by (auto simp: to_json_dict_def split: option.splits intro: exI [of _ "\<lambda>_. True"])
  have "distinct (map fst (all_fields ev))" by (simp add: all_fields_def)
  moreover have "\<forall>e \<in> set (all_fields ev). writable (snd e)"
    using assms by (auto simp: all_fields_def split: option.splits)
  moreover have "''level'' \<notin> fst ` set (all_fields ev)" "''service'' \<notin> fst ` set (all_fields ev)"
    by (simp_all add: all_fields_def)
  ultimately show "writable (PDict d)" "map_of d ''level'' = None" "map_of d ''service'' = None"
    using d by (auto simp: distinct_map_filter map_of_eq_None_iff)
qed

section \<open>Properties\<close>

text \<open>C38: audit events arrive in the log as they were emitted. When the writer's values are of the
  kind JSON keeps, the line that the JSON formatter makes of the message of an audit event reads
  back as an object with every field of the event, and the service and the level beside them.\<close>

theorem audit_events_reach_the_log:
  assumes "json_reader loads"
    and "to_json_dict wanted ev = Inr d"
    and "writable (ae_user_id ev)" and "\<forall>g \<in> set (ae_user_groups ev). writable g"
    and "writable (ae_policy_rule_id ev)" and "short_float (ae_duration_ms ev)"
    and "lr_message r = json_dumps (PDict d)" and "lr_exc_info r = None"
  shows "\<exists>line d'. json_format loads iso_time r = Inr line \<and> CHR 0x0A \<notin> set line \<and>
    loads line = Inr (PDict d') \<and>
    map_of d' = (map_of d)(''service'' \<mapsto> PStr service_name, ''level'' \<mapsto> PStr (lr_level r))"
proof -
  note fields = writable_fields [OF assms(3-6,2)]
  have parsed: "try_parse_json loads (lr_message r) = Inr (Some d)"
    unfolding assms(7) by (rule json_reader.parse_written [OF assms(1) fields(1)])
  then obtain line where line: "json_format loads iso_time r = Inr line"
    by (simp add: json_format_def del: json_dumps.simps)
  have "loads line = Inr (PDict (json_object iso_time r (Some d)))"
    using json_reader.line_reads_back [OF assms(1) line] parsed fields(1) by auto
  moreover have "map_of (json_object iso_time r (Some d)) =
      (map_of d)(''service'' \<mapsto> PStr service_name, ''level'' \<mapsto> PStr (lr_level r))"
    using fields(3) by (auto simp: json_object_def assms(8) set_default_def)
  ultimately show ?thesis using line json_format_one_line [OF line] by blast
qed

definition plain_event :: audit_event where
  "plain_event = (build_event 1 ''now'' sample_context POLICY_DECISION)
     \<lparr>ae_user_id := PStr ''ann'', ae_user_groups := [PStr ''dev''], ae_policy_rule_id := PStr ''r-1'',
      ae_short_circuit_reason := ''no'' @ [CHR 0x0A] @ ''entry'', ae_duration_ms := 3 / 2\<rparr>"

definition info_record :: "string \<Rightarrow> log_record" where
  "info_record msg =
     \<lparr>lr_name = ''mcp_zero.audit.hook'', lr_level = ''INFO'', lr_levelno = 20, lr_message = msg,
      lr_created = 1, lr_exc_info = None\<rparr>"

theorem audit_events_reach_the_log_witness:
  "\<exists>line d'. json_format json_loads (\<lambda>_. ''now'')
      (info_record (json_dumps (PDict (all_fields plain_event)))) = Inr line \<and>
    CHR 0x0A \<notin> set line \<and> json_loads line = Inr (PDict d') \<and>
    map_of d' ''short_circuit_reason'' = Some (PStr (''no'' @ [CHR 0x0A] @ ''entry'')) \<and>
    map_of d' ''service'' = Some (PStr service_name)"
proof -
  have "json_reader json_loads" by unfold_locales (rule json_round_trip)
  moreover have "short_float (3 / 2)" by (simp add: short_float_def)
  ultimately have "\<exists>line d'. json_format json_loads (\<lambda>_. ''now'')
      (info_record (json_dumps (PDict (all_fields plain_event)))) = Inr line \<and> CHR 0x0A \<notin> set line \<and>
    json_loads line = Inr (PDict d') \<and>
    map_of d' = (map_of (all_fields plain_event))
      (''service'' \<mapsto> PStr service_name,
       ''level'' \<mapsto> PStr (lr_level (info_record (json_dumps (PDict (all_fields plain_event))))))"
    by (intro audit_events_reach_the_log [where ev = plain_event and wanted = None])
      (simp_all add: plain_event_def info_record_def to_json_dict_def del: json_dumps.simps)
  then show ?thesis by (auto simp: all_fields_def plain_event_def)
qed

lemma handler_emit_apply:
  "format_record loads iso_time f r = Inr l \<Longrightarrow>
    handler_emit loads iso_time f r out = (Inr (), out @ l @ [CHR 0x0A])"
  "format_record loads iso_time f r = Inl e \<Longrightarrow> handler_emit loads iso_time f r out =
    (if is_Exception e \<and> exn_class e \<noteq> ''RecursionError'' then Inr () else Inl e, out)"
  by (simp_all add: handler_emit_def ret_def raise_def)

lemma emitted_json:
  assumes "for_each (handler_emit loads iso_time Json_Lines) rs out = (Inr (), out')"
  shows "\<exists>s. out' = out @ s \<and> split_on (CHR 0x0A) s =
    List.map_filter (\<lambda>r. case json_format loads iso_time r of Inr l \<Rightarrow> Some l | Inl _ \<Rightarrow> None) rs @ [[]]"
  using assms
proof (induction rs arbitrary: out)
  case (Cons r rs)
  show ?case
  proof (cases "json_format loads iso_time r")
    case (Inl e)
    with Cons show ?thesis
      by (auto simp: handler_emit_apply format_record_def bind_apply List.map_filter_simps split: if_splits)
  next
    case (Inr l)
    with Cons.prems have "for_each (handler_emit loads iso_time Json_Lines) rs (out @ l @ [CHR 0x0A]) =
        (Inr (), out')" by (simp add: handler_emit_apply format_record_def bind_apply)
    from Cons.IH [OF this] obtain s where s: "out' = (out @ l @ [CHR 0x0A]) @ s"
      "split_on (CHR 0x0A) s =
        List.map_filter (\<lambda>r. case json_format loads iso_time r of Inr l \<Rightarrow> Some l | Inl _ \<Rightarrow> None) rs @ [[]]"
      by blast
    with Inr split_on_line [OF json_format_one_line [OF Inr], of s]
    show ?thesis by (intro exI [of _ "l @ CHR 0x0A # s"]) (simp add: List.map_filter_simps)
  qed
qed (simp add: List.map_filter_simps)

text \<open>C39: the stream of the JSON handler has one line per record. What was emitted, split at line
  breaks, is the list of the lines of the records that could be formatted, whatever the messages,
  names and exceptions of the records hold: no record can look like two, or like another.\<close>

theorem json_stream_lines:
  assumes "for_each (handler_emit loads iso_time Json_Lines) rs [] = (Inr (), out)"
  shows "split_on (CHR 0x0A) out =
    List.map_filter (\<lambda>r. case json_format loads iso_time r of Inr l \<Rightarrow> Some l | Inl _ \<Rightarrow> None) rs @ [[]]"
  using emitted_json [OF assms] by auto

theorem json_stream_lines_witness:
  "length (split_on (CHR 0x0A) (snd (for_each (handler_emit json_loads (\<lambda>_. ''now'') Json_Lines)
      [info_record (''two'' @ [CHR 0x0A] @ ''lines''), info_record ''one''] []))) = 3"
proof -
  let ?f = "json_format json_loads (\<lambda>_. ''now'')"
  let ?rs = "[info_record (''two'' @ [CHR 0x0A] @ ''lines''), info_record ''one'']"
  have ok: "\<exists>l1 l2. map ?f ?rs = [Inr l1, Inr l2]"
    by (simp add: json_format_def try_parse_json_def info_record_def del: json_dumps.simps)
  then have "for_each (handler_emit json_loads (\<lambda>_. ''now'') Json_Lines) ?rs [] =
      (Inr (), snd (for_each (handler_emit json_loads (\<lambda>_. ''now'') Json_Lines) ?rs []))"
    by (auto simp: handler_emit_apply format_record_def bind_apply)
  from json_stream_lines [OF this] ok show ?thesis by (auto simp: List.map_filter_simps)
qed

text \<open>Text lines are not protected. A message that is not JSON is shown as it is, so a message that
  holds a line break and a line of the log after it gives the very stream of two records, the
  second one forged.\<close>

theorem text_records_can_be_forged:
  assumes "lr_exc_info r = None" and "msg \<noteq> []" and "hd msg \<noteq> CHR ''{''"
    and "text_format loads False forged = Inr line"
  shows "handler_emit loads iso_time (Text_Lines False) (r\<lparr>lr_message := msg @ CHR 0x0A # line\<rparr>) out =
    bind (handler_emit loads iso_time (Text_Lines False) (r\<lparr>lr_message := msg\<rparr>))
      (\<lambda>_. handler_emit loads iso_time (Text_Lines False) forged) out"
proof -
  have "try_parse_json loads (msg @ s) = Inr None" for s
    using assms(2,3) by (cases msg) (simp_all add: try_parse_json_def)
  from this [of "[]"] this [of "CHR 0x0A # line"] assms show ?thesis
    by (simp add: handler_emit_def format_record_def text_format_def bind_apply in_style_def)
qed

theorem text_records_can_be_forged_witness:
  "handler_emit json_loads (\<lambda>_. []) (Text_Lines False)
      (info_record (''tool x'' @ CHR 0x0A # projr (text_format json_loads False (info_record ''allowed'')))) [] =
   for_each (handler_emit json_loads (\<lambda>_. []) (Text_Lines False))
     [info_record ''tool x'', info_record ''allowed''] []"
proof -
  have allowed: "text_format json_loads False (info_record ''allowed'') =
      Inr (projr (text_format json_loads False (info_record ''allowed'')))"
    by (simp add: text_format_def try_parse_json_def info_record_def)
  have record_of: "info_record []\<lparr>lr_message := m\<rparr> = info_record m" for m by (simp add: info_record_def)
  have "bind m ret s = m s" for m :: "(string, unit) prog" and s
    by (simp add: bind_def ret_def split: prod.splits sum.splits)
  with text_records_can_be_forged [OF _ _ _ allowed, of "info_record []" "''tool x''" "\<lambda>_. []" "[]"]
  show ?thesis unfolding record_of by (simp add: info_record_def bind_def ret_def split: prod.splits sum.splits)
qed

end
