(* ===== verification/Startup.thy ===== *)
theory Startup
  imports Gateway Logging
begin

text \<open>
  \<open>main.py\<close>: how the gateway is put together from the environment and the policy file, and when
  it refuses to start. \<open>run\<close> has two parts here: \<open>prepare\<close>, a computation over the state the plugins
  change, and \<open>assemble\<close>, which checks the guards and returns what is handed to the web server; both
  raise \<open>SystemExit 78\<close> where the code calls \<open>sys.exit(78)\<close>. The whole of \<open>run\<close>, with the exit
  handler and the server, is in the theory \<open>Serving\<close>. The environment is a function, reading the
  policy file is the loader's environment; of the log lines only the summary is modelled.
\<close>

section \<open>Reading the environment\<close>

definition relax_startup_checks :: "(string \<Rightarrow> string option) \<Rightarrow> bool" where
  "relax_startup_checks env = env_flag (getenv env ''MCP_RELAX_STARTUP_CHECKS'' [])"

definition is_strict_security :: "(string \<Rightarrow> string option) \<Rightarrow> bool" where
  "is_strict_security env = env_flag (getenv env ''MCP_STRICT_SECURITY'' [])"

definition env_bool :: "(string \<Rightarrow> string option) \<Rightarrow> string \<Rightarrow> pyval \<Rightarrow> pyval" where
  "env_bool env name dflt =
     (let val = lower (strip (getenv env name [])) in
      if val = [] then dflt else PBool (val \<in> {''1'', ''true'', ''yes''}))"

definition load_server_configs :: "(string \<Rightarrow> string option) \<Rightarrow> server_config list res" where
  "load_server_configs env =
     (let url = getenv env ''MCP_UPSTREAM_URL'' [] in
      if url = [] then Inr []
      else res_bind (make_server_config env
             ((default_server_config (PStr ''default'') T_HTTP)
                \<lparr>sc_url := PStr url, sc_allow_insecure := PBool (skip_tls_validation env)\<rparr>)) (\<lambda>c.
           Inr [c]))"

definition load_policy_and_configs ::
    "loader_env \<Rightarrow> (string \<Rightarrow> string option) \<Rightarrow>
     (server_config list \<times> identity_config option \<times> policy_config option) res" where
  "load_policy_and_configs loader env =
     (let policy_file = getenv env ''MCP_POLICY_FILE'' [] in
      if policy_file = [] then res_bind (load_server_configs env) (\<lambda>cs. Inr (cs, None, None))
      else
        res_bind (load_policy_file loader policy_file) (\<lambda>policy.
        res_bind (convert_to_server_configs env policy) (\<lambda>configs.
        res_bind (convert_to_identity_config policy) (\<lambda>ic. Inr (configs, ic, Some policy)))))"

section \<open>Analytics and CORS\<close>

definition build_analytics_config ::
    "string \<Rightarrow> (string \<Rightarrow> string option) \<Rightarrow> policy_config option \<Rightarrow> analytics_config option res" where
  "build_analytics_config uuid_hex env policy =
     (let config = Option.bind policy pol_analytics;
          redis_url = getenv env ''ANALYTICS_REDIS_URL'' [];
          or_env = (\<lambda>name dflt. case env name of Some v \<Rightarrow> PStr v | None \<Rightarrow> dflt)
      in if redis_url = [] \<and> (case config of None \<Rightarrow> True | Some c \<Rightarrow> \<not> truthy (rc_url (ac_redis c)))
         then Inr None
         else
           let base = (case config of Some c \<Rightarrow> ac_redis c | None \<Rightarrow> default_redis_config);
               redis = base\<lparr>rc_url := (if redis_url \<noteq> [] then PStr redis_url else rc_url base),
                            rc_cluster := env_bool env ''ANALYTICS_REDIS_CLUSTER'' (rc_cluster base),
                            rc_password := or_env ''ANALYTICS_REDIS_PASSWORD'' (rc_password base)\<rparr>;
               environment = (case config of Some c \<Rightarrow> ac_environment c | None \<Rightarrow> PStr ''default'');
               gateway = (case config of Some c \<Rightarrow> ac_gateway_id c | None \<Rightarrow> PStr []);
               key_prefix = (case config of Some c \<Rightarrow> ac_key_prefix c | None \<Rightarrow> PStr ''mcpgw'');
               retention = (case config of Some c \<Rightarrow> ac_retention_seconds c | None \<Rightarrow> 3600)
           in res_bind (py_int (or_env ''ANALYTICS_RETENTION_SECONDS'' (PStr (int_str retention)))) (\<lambda>secs.
                Inr (Some (make_analytics_config uuid_hex
                  \<lparr>ac_redis = redis,
                   ac_environment = or_env ''ANALYTICS_ENVIRONMENT'' environment,
                   ac_gateway_id = or_env ''ANALYTICS_GATEWAY_ID'' gateway,
                   ac_key_prefix = or_env ''ANALYTICS_KEY_PREFIX'' key_prefix,
                   ac_bucket_seconds = (case config of Some c \<Rightarrow> ac_bucket_seconds c | None \<Rightarrow> 60),
                   ac_retention_seconds = secs,
                   ac_heartbeat_seconds = (case config of Some c \<Rightarrow> ac_heartbeat_seconds c | None \<Rightarrow> 30),
                   ac_queue_size = (case config of Some c \<Rightarrow> ac_queue_size c | None \<Rightarrow> 10000),
                   ac_flush_interval = (case config of Some c \<Rightarrow> ac_flush_interval c | None \<Rightarrow> 1)\<rparr>))))"

definition default_cors_config :: cors_config where
  "default_cors_config =
     \<lparr>cc_allow_origins = PList [],
      cc_allow_methods = PList [PStr ''GET'', PStr ''POST'', PStr ''OPTIONS''],
      cc_allow_headers = PList [PStr ''Authorization'', PStr ''Content-Type''],
      cc_allow_credentials = PBool False, cc_max_age = 600, cc_expose_headers = PList []\<rparr>"

definition build_cors_config ::
    "(string \<Rightarrow> string option) \<Rightarrow> policy_config option \<Rightarrow> cors_config option res" where
  "build_cors_config env policy =
     (let base = Option.bind policy pol_cors;
          env_origins = strip (getenv env ''MCP_CORS_ORIGINS'' []);
          origins = (if env_origins = [] then None
                     else Some (filter (\<lambda>o'. o' \<noteq> []) (map strip (split_on CHR '','' env_origins))));
          env_creds = lower (strip (getenv env ''MCP_CORS_ALLOW_CREDENTIALS'' []));
          env_max_age = strip (getenv env ''MCP_CORS_MAX_AGE'' [])
      in if origins = None \<and> base = None then Inr None
         else
           let start = (case base of Some b \<Rightarrow> b | None \<Rightarrow> default_cors_config) in
           res_bind (if env_max_age \<noteq> [] then py_int (PStr env_max_age) else Inr (cc_max_age start)) (\<lambda>age.
           res_bind (make_cors_config
               (start\<lparr>cc_allow_origins :=
                        (case origins of Some os \<Rightarrow> PList (map PStr os) | None \<Rightarrow> cc_allow_origins start),
                      cc_allow_credentials :=
                        (if env_creds \<noteq> [] then PBool (env_creds \<in> {''1'', ''true'', ''yes''})
                         else cc_allow_credentials start),
                      cc_max_age := age\<rparr>)) (\<lambda>c. Inr (Some c))))"

section \<open>Token exchange\<close>

text \<open>The settings are a dictionary; a name that is not a string is refused by the log call that
  joins the names (\<open>join_check\<close>).\<close>

definition obo_settings :: "server_config list \<Rightarrow> (string \<times> server_obo_settings) list" where
  "obo_settings configs =
     fold (\<lambda>c d. if truthy (sc_token_exchange c) \<and> truthy (sc_target_audience c)
                 then (case sc_name c of
                         PStr n \<Rightarrow> dict_set n \<lparr>so_server_name = sc_name c, so_enabled = True,
                                     so_target_audience = sc_target_audience c,
                                     so_scopes = sc_required_scopes c\<rparr> d
                       | _ \<Rightarrow> d)
                 else d) configs []"

definition build_obo_provider ::
    "(string \<Rightarrow> string option) \<Rightarrow> server_config list \<Rightarrow> bool \<Rightarrow>
     (obo_config \<times> (string \<times> server_obo_settings) list) option res" where
  "build_obo_provider env configs identity_on =
     (let token_endpoint = getenv env ''OKTA_TOKEN_ENDPOINT'' [];
          client_id = getenv env ''OKTA_CLIENT_ID'' [];
          client_secret = getenv env ''OKTA_CLIENT_SECRET'' [];
          obo_servers = filter (\<lambda>c. truthy (sc_token_exchange c)) configs;
          covered = filter (\<lambda>c. truthy (sc_target_audience c)) obo_servers
      in if obo_servers \<noteq> [] \<and> \<not> identity_on \<and> \<not> relax_startup_checks env then Inl (SystemExit 78)
         else if token_endpoint = [] \<or> client_id = [] \<or> client_secret = [] then Inr None
         else if covered = [] then Inr None
         else
           res_bind (make_obo_config
               \<lparr>oc_token_endpoint = PStr token_endpoint, oc_client_id = PStr client_id,
                oc_client_secret = PStr client_secret, oc_cache_ttl = 300,
                oc_allow_insecure = skip_tls_validation env\<rparr>) (\<lambda>c.
           res_bind (join_check (PList (map sc_name covered))) (\<lambda>_.
             Inr (Some (c, obo_settings configs)))))"

section \<open>Starting\<close>

datatype posture = ENFORCING | DEGRADED | UNPROTECTED | UNREPORTED

record 'p started =
  st_configs :: "(string \<times> server_config) list"
  st_hooks :: "'p hook list option"
  st_obo :: "(obo_config \<times> (string \<times> server_obo_settings) list) option"
  st_policy :: "policy_config option"
  st_identity_required :: bool
  st_sse_enabled :: bool
  st_cors :: "cors_config option"
  st_analytics :: "analytics_config option"
  st_host :: string
  st_port :: int
  st_posture :: posture
  st_logging :: root_logger

text \<open>The root logger, as the environment and then the policy configure it. The first configuration
  starts from Python's default.\<close>

definition logger_after :: "(root_logger, unit) prog \<Rightarrow> root_logger \<Rightarrow> root_logger res" where
  "logger_after m l = (case m l of (Inl e, _) \<Rightarrow> Inl e | (Inr _, l') \<Rightarrow> Inr l')"

definition startup_logging :: "(string \<Rightarrow> string option) \<Rightarrow> bool \<Rightarrow> root_logger res" where
  "startup_logging env tty =
     logger_after (configure_logging env tty (upper (getenv env ''LOG_LEVEL'' ''INFO''))
         (PStr (lower (strip (getenv env ''LOG_FORMAT'' ''json'')))))
       \<lparr>rl_handlers = [], rl_level = ''WARNING''\<rparr>"

definition apply_logging ::
    "(string \<Rightarrow> string option) \<Rightarrow> bool \<Rightarrow> policy_config option \<Rightarrow> root_logger \<Rightarrow> root_logger res" where
  "apply_logging env tty policy l =
     (case policy of None \<Rightarrow> Inr l
      | Some pol \<Rightarrow>
          let lc = pol_logging pol in
          res_bind (str_method ''upper'' (lc_level lc) upper) (\<lambda>level.
            logger_after (bind (set_level level) (\<lambda>_.
              if lc_format lc \<noteq> PStr ''json'' then configure_logging env tty level (lc_format lc) else ret ())) l))"

definition identity_enabled :: "(string \<Rightarrow> string option) \<Rightarrow> identity_config option \<Rightarrow> bool" where
  "identity_enabled env ic \<longleftrightarrow>
     ic \<noteq> None \<or> getenv env ''OKTA_ISSUER'' [] \<noteq> [] \<and> getenv env ''OKTA_AUDIENCE'' [] \<noteq> []"

text \<open>The refusals between building the pipeline and building the token exchange.\<close>

definition startup_guards ::
    "(string \<Rightarrow> string option) \<Rightarrow> 'h list option \<Rightarrow> identity_config option \<Rightarrow> policy_config option \<Rightarrow>
     unit res" where
  "startup_guards env hooks ic policy =
     (if hooks = None \<and> \<not> relax_startup_checks env then Inl (SystemExit 78)
      else if policy \<noteq> None \<and> ic = None \<and> getenv env ''OKTA_ISSUER'' [] \<noteq> [] \<and>
              getenv env ''OKTA_AUDIENCE'' [] = [] \<and> \<not> relax_startup_checks env then Inl (SystemExit 78)
      else if is_strict_security env \<and> (\<not> identity_enabled env ic \<or> policy = None) then
        Inl (SystemExit 78)
      else if (case policy of None \<Rightarrow> False | Some pol \<Rightarrow> pol_default pol = ALLOW) \<and>
              \<not> identity_enabled env ic \<and> \<not> relax_startup_checks env then Inl (SystemExit 78)
      else Inr ())"

text \<open>What the summary at the end of \<open>run\<close> reports.\<close>

definition posture_of ::
    "(string \<Rightarrow> string option) \<Rightarrow> 'h list option \<Rightarrow> identity_config option \<Rightarrow> policy_config option \<Rightarrow>
     posture" where
  "posture_of env hooks ic policy =
     (let identity_active = (hooks \<noteq> None \<and> ic \<noteq> None) in
      if identity_active \<and> policy \<noteq> None then ENFORCING
      else if policy \<noteq> None \<and> \<not> identity_active then DEGRADED
      else if relax_startup_checks env then UNPROTECTED
      else UNREPORTED)"

text \<open>\<open>run\<close> up to \<open>_build_pipeline\<close>: the logger, the configurations and the hooks.\<close>

record 'p preparation =
  pp_configs :: "server_config list"
  pp_identity :: "identity_config option"
  pp_policy :: "policy_config option"
  pp_logging :: root_logger
  pp_analytics :: "analytics_config option"
  pp_hooks :: "'p hook list option"

definition collecting :: "analytics_config option \<Rightarrow> bool" where
  "collecting ac = (case ac of None \<Rightarrow> False | Some c \<Rightarrow> analytics_enabled c)"

definition collecting_parts ::
    "('n, 'k, 'm, 'r, 'w) gateway_parts \<Rightarrow> analytics_config option \<Rightarrow> ('n, 'k, 'm, 'r, 'w) gateway_parts" where
  "collecting_parts gp ac = (case ac of None \<Rightarrow> gp | Some c \<Rightarrow> gp\<lparr>gp_queue_size := ac_queue_size c\<rparr>)"

definition prepare ::
    "('n, 'k, 'm, 'r, 'w) gateway_parts \<Rightarrow> loader_env \<Rightarrow> (string \<Rightarrow> string option) \<Rightarrow>
     (string \<times> ('o, ('n, 'k, 'm, 'r, 'w) gateway_hook, 'w event_handler) entry_point) list \<Rightarrow>
     (('o, ('n, 'k, 'm, 'r, 'w) gateway_hook, 'w event_handler) plugin_world,
      ('n, 'k, 'm, 'r, 'w) pipeline_state preparation) prog" where
  "prepare gp loader env available =
     bind (lift_res (startup_logging env (gp_stdout_tty gp))) (\<lambda>first_log.
     bind (lift_res (case load_policy_and_configs loader env of
              Inl e \<Rightarrow> Inl (if is_ValueError e then SystemExit 78 else e)
            | Inr loaded \<Rightarrow> Inr loaded)) (\<lambda>(configs, ic, policy).
     bind (lift_res (apply_logging env (gp_stdout_tty gp) policy first_log)) (\<lambda>log.
     bind (lift_res (build_analytics_config (le_uuid_hex loader) env policy)) (\<lambda>ac.
     bind (build_pipeline (collecting_parts gp ac) env available ic policy (collecting ac)) (\<lambda>hooks.
       ret \<lparr>pp_configs = configs, pp_identity = ic, pp_policy = policy, pp_logging = log,
            pp_analytics = ac, pp_hooks = hooks\<rparr>)))))"

text \<open>The rest of \<open>run\<close> up to the summary: the refusals and the parts that depend on nothing else.\<close>

definition assemble :: "(string \<Rightarrow> string option) \<Rightarrow> 'p preparation \<Rightarrow> 'p started res" where
  "assemble env p =
     (let ic = pp_identity p; policy = pp_policy p; configs = pp_configs p in
      res_bind (startup_guards env (pp_hooks p) ic policy) (\<lambda>_.
      res_bind (build_obo_provider env configs (identity_enabled env ic)) (\<lambda>obo.
      res_bind (build_cors_config env policy) (\<lambda>cors.
      res_bind (py_int (PStr (getenv env ''MCP_PORT'' ''8080''))) (\<lambda>port.
        Inr \<lparr>st_configs = config_table configs, st_hooks = pp_hooks p, st_obo = obo, st_policy = policy,
             st_identity_required = identity_enabled env ic,
             st_sse_enabled = truthy (env_bool env ''MCP_SSE_ENABLED'' (PBool True)),
             st_cors = cors, st_analytics = pp_analytics p, st_host = getenv env ''MCP_HOST'' ''0.0.0.0'',
             st_port = port, st_posture = posture_of env (pp_hooks p) ic policy,
             st_logging = pp_logging p\<rparr>)))))"

definition start_gateway ::
    "('n, 'k, 'm, 'r, 'w) gateway_parts \<Rightarrow> loader_env \<Rightarrow> (string \<Rightarrow> string option) \<Rightarrow>
     (string \<times> ('o, ('n, 'k, 'm, 'r, 'w) gateway_hook, 'w event_handler) entry_point) list \<Rightarrow>
     (('o, ('n, 'k, 'm, 'r, 'w) gateway_hook, 'w event_handler) plugin_world,
      ('n, 'k, 'm, 'r, 'w) pipeline_state started) prog" where
  "start_gateway gp loader env available =
     bind (prepare gp loader env available) (\<lambda>p. lift_res (assemble env p))"

text \<open>The proxy server of a started gateway. The clock, the OBO environment and the MCP SDK are
  arguments.\<close>

definition started_proxy ::
    "('p \<Rightarrow> rat) \<Rightarrow> 'a obo_env \<Rightarrow> ('a obo_state \<Rightarrow> 'a obo_state) \<Rightarrow> ('n, 's) mcp_sdk \<Rightarrow> 'p started \<Rightarrow>
     ('p, 'a obo_state, 'n, 's) proxy_server" where
  "started_proxy now oe wait sdk st =
     \<lparr>px_hooks = st_hooks st, px_now = now,
      px_get_token = (case st_obo st of None \<Rightarrow> no_auth_get_token
                      | Some (cfg, settings) \<Rightarrow> obo_get_token oe cfg wait settings),
      px_policy = st_policy st, px_configs = st_configs st, px_sdk = sdk\<rparr>"

text \<open>The summary that is logged when the gateway is ready; \<open>plugins\<close> is the number of loaded plugins.\<close>

record startup_report =
  rd_servers :: nat
  rd_identity :: bool
  rd_rules :: "nat option"
  rd_analytics :: bool
  rd_plugins :: nat
  rd_sse :: bool
  rd_cors :: bool
  rd_log_format :: pyval
  rd_log_level :: int

definition level_number :: "string \<Rightarrow> int" where
  "level_number name =
     (if name \<in> {''CRITICAL'', ''FATAL''} then 50 else if name = ''ERROR'' then 40
      else if name \<in> {''WARN'', ''WARNING''} then 30 else if name = ''INFO'' then 20
      else if name = ''DEBUG'' then 10 else 0)"

definition ready_summary ::
    "(string \<Rightarrow> string option) \<Rightarrow> 'p preparation \<Rightarrow> 'p started \<Rightarrow> nat \<Rightarrow> startup_report" where
  "ready_summary env p st plugins =
     \<lparr>rd_servers = length (pp_configs p),
      rd_identity = (pp_hooks p \<noteq> None \<and> pp_identity p \<noteq> None),
      rd_rules = map_option (length \<circ> pol_policies) (pp_policy p),
      rd_analytics = collecting (pp_analytics p), rd_plugins = plugins,
      rd_sse = st_sse_enabled st, rd_cors = (st_cors st \<noteq> None),
      rd_log_format =
        (case pp_policy p of
           None \<Rightarrow> PStr (lower (strip (getenv env ''LOG_FORMAT'' ''json'')))
         | Some pol \<Rightarrow> lc_format (pol_logging pol)),
      rd_log_level = level_number (rl_level (pp_logging p))\<rparr>"

section \<open>What starting establishes\<close>

lemma effective_identity_enabled:
  assumes "effective_identity env ic = Inr eff"
  shows "eff \<noteq> None \<longleftrightarrow> identity_enabled env ic"
  using assms
  by (auto simp: effective_identity_def identity_enabled_def Let_def res_simps
      split: option.splits if_splits)

lemma collecting_parts_simps [simp]:
  "gp_idp (collecting_parts gp ac) = gp_idp gp" "gp_wait (collecting_parts gp ac) = gp_wait gp"
  "identity_stage (collecting_parts gp ac) ic = identity_stage gp ic"
  by (simp_all add: collecting_parts_def identity_stage_def split: option.split)

lemma start_parts:
  assumes "start_gateway gp loader env available w = (Inr st, w')"
  obtains configs ic where
    "load_policy_and_configs loader env = Inr (configs, ic, st_policy st)"
    and "build_pipeline (collecting_parts gp (st_analytics st)) env available ic (st_policy st)
           (collecting (st_analytics st)) w = (Inr (st_hooks st), w')"
    and "startup_guards env (st_hooks st) ic (st_policy st) = Inr ()"
    and "build_obo_provider env configs (identity_enabled env ic) = Inr (st_obo st)"
    and "build_cors_config env (st_policy st) = Inr (st_cors st)"
    and "st_identity_required st = identity_enabled env ic"
    and "st_configs st = config_table configs"
    and "st_posture st = posture_of env (st_hooks st) ic (st_policy st)"
    and "\<exists>l. startup_logging env (gp_stdout_tty gp) = Inr l \<and>
           apply_logging env (gp_stdout_tty gp) (st_policy st) l = Inr (st_logging st)"
proof -
  from assms obtain p where prep: "prepare gp loader env available w = (Inr p, w')"
    and asm: "assemble env p = Inr st"
    unfolding start_gateway_def by (elim bind_Inr_elim) auto
  from asm have parts: "startup_guards env (st_hooks st) (pp_identity p) (st_policy st) = Inr ()"
      "build_obo_provider env (pp_configs p) (identity_enabled env (pp_identity p)) = Inr (st_obo st)"
      "build_cors_config env (st_policy st) = Inr (st_cors st)"
      "st_identity_required st = identity_enabled env (pp_identity p)"
      "st_configs st = config_table (pp_configs p)"
      "st_posture st = posture_of env (st_hooks st) (pp_identity p) (st_policy st)"
    and eqs: "st_hooks st = pp_hooks p" "st_policy st = pp_policy p" "st_analytics st = pp_analytics p"
      "st_logging st = pp_logging p"
    by (auto simp: assemble_def Let_def res_simps simp del: py_int.simps)
  obtain configs ic policy where loaded: "load_policy_and_configs loader env = Inr (configs, ic, policy)"
    using prep unfolding prepare_def by (elim bind_Inr_elim) (auto split: sum.splits if_splits)
  with prep eqs parts that show ?thesis
    unfolding prepare_def by simp (elim bind_Inr_elim, auto)
qed

text \<open>A gateway that starts logs through one handler, whose format is that of the policy unless this
  is \<open>json\<close>: then the format of the environment stays, whatever the policy says.\<close>

lemma started_logging:
  assumes "start_gateway gp loader env available w = (Inr st, w')"
  shows "\<exists>fmt. rl_handlers (st_logging st) = [chosen_formatter env (gp_stdout_tty gp) fmt] \<and>
    fmt = (case st_policy st of
        Some pol \<Rightarrow> if lc_format (pol_logging pol) = PStr ''json''
          then PStr (lower (strip (getenv env ''LOG_FORMAT'' ''json''))) else lc_format (pol_logging pol)
      | None \<Rightarrow> PStr (lower (strip (getenv env ''LOG_FORMAT'' ''json''))))"
proof -
  from assms have "\<exists>l. startup_logging env (gp_stdout_tty gp) = Inr l \<and>
      apply_logging env (gp_stdout_tty gp) (st_policy st) l = Inr (st_logging st)" by (rule start_parts)
  then obtain first_log where first: "startup_logging env (gp_stdout_tty gp) = Inr first_log"
    and log: "apply_logging env (gp_stdout_tty gp) (st_policy st) first_log = Inr (st_logging st)" by blast
  have "configure_logging env tty level fmt l =
      (if level \<in> set level_names
       then (Inr (), l\<lparr>rl_handlers := [chosen_formatter env tty fmt], rl_level := level\<rparr>)
       else (Inl (ValueError (''Unknown level: '' @ repr_str level)),
             l\<lparr>rl_handlers := [chosen_formatter env tty fmt]\<rparr>))" for tty level fmt l
    by (simp add: configure_logging_def set_level_def bind_apply)
  with first log show ?thesis
    by (cases "st_logging st") (auto simp: startup_logging_def apply_logging_def logger_after_def Let_def res_simps set_level_def
        bind_apply split: option.splits if_splits)
qed

text \<open>The summary does not know this rule: with \<open>LOG_FORMAT=text\<close> and a policy that has the default
  format, it reports \<open>json\<close> in a log that is text.\<close>

lemma summary_misreports_format:
  assumes "prepare gp loader env available w = (Inr p, w')" and "assemble env p = Inr st"
    and "pp_policy p = Some pol" and "lc_format (pol_logging pol) = PStr ''json''"
    and "lower (strip (getenv env ''LOG_FORMAT'' ''json'')) = ''text''"
  shows "rd_log_format (ready_summary env p st n) = PStr ''json'' \<and>
    (\<exists>colours. rl_handlers (st_logging st) = [Text_Lines colours])"
proof -
  have "st_policy st = Some pol"
    using assms(2,3) by (auto simp: assemble_def Let_def res_simps simp del: py_int.simps)
  moreover have "start_gateway gp loader env available w = (Inr st, w')"
    using assms(1,2) by (simp add: start_gateway_def bind_apply)
  ultimately show ?thesis
    using assms(3-5) by (auto simp: ready_summary_def chosen_formatter_def Let_def dest!: started_logging)
qed

lemma startup_guards_ok:
  "startup_guards env hooks ic policy = Inr () \<longleftrightarrow>
     (relax_startup_checks env \<or>
        hooks \<noteq> None \<and>
        (policy \<noteq> None \<longrightarrow> getenv env ''OKTA_ISSUER'' [] \<noteq> [] \<longrightarrow> identity_enabled env ic) \<and>
        (\<forall>pol. policy = Some pol \<longrightarrow> pol_default pol = ALLOW \<longrightarrow> identity_enabled env ic)) \<and>
     (is_strict_security env \<longrightarrow> identity_enabled env ic \<and> policy \<noteq> None)"
  by (auto simp: startup_guards_def identity_enabled_def split: option.splits)

lemma config_table_from:
  assumes "get_config (config_table cs) srv = Inr c"
  shows "c \<in> set cs"
proof -
  have "map_of (fold (\<lambda>c d. case sc_name c of PStr n \<Rightarrow> dict_set n c d | _ \<Rightarrow> d) cs d) srv = Some c \<Longrightarrow>
      c \<in> set cs \<or> map_of d srv = Some c" for d
    by (induction cs arbitrary: d) (fastforce split: pyval.splits if_splits)+
  from this [of "[]"] assms show ?thesis
    by (auto simp: get_config_def config_table_def split: option.splits)
qed

text \<open>Everything in the built list satisfies what the stages satisfy and the plugins keep.\<close>

definition all_hooks :: "('h \<Rightarrow> bool) \<Rightarrow> ('o, 'h, 'e) plugin_world \<Rightarrow> bool" where
  "all_hooks Q w \<longleftrightarrow> (\<forall>(p, c, h) \<in> set (reg_entries (pw_registry w)). Q h)"

lemma keeps_all_register: "Q h \<Longrightarrow> keeps (all_hooks Q) (in_registry (register prio h))"
  by (auto simp: keeps_def all_hooks_def zoom_def register_def)

lemma build_pipeline_all:
  assumes "build_pipeline gp env available file_identity policy analytics w = (Inr (Some hs), w')"
    and "effective_identity env file_identity = Inr ic" and "\<And>c. ic = Some c \<Longrightarrow> Q (identity_stage gp c)"
    and "\<And>pol req. Q (governance_stage pol req)" and "Q (analytics_stage gp)" and "\<And>ac. Q (audit_stage ac)"
    and "\<And>pol :: policy_config. keeps (all_hooks Q) (load_plugins available (pol_plugins pol))"
    and "all_hooks Q w"
  shows "\<forall>h \<in> set hs. Q h"
proof -
  have "keeps (all_hooks Q) (modify (\<lambda>w. w\<lparr>pw_registry := build (pw_registry w)\<rparr>))"
    by (auto simp: keeps_def all_hooks_def build_def)
  then have "keeps (all_hooks Q) (build_pipeline gp env available file_identity policy analytics)"
    unfolding build_pipeline_def assms(2) bind_simps
    by (intro keeps_intros keeps_all_register assms(6))
      (auto intro!: keeps_intros keeps_all_register assms(3-5,7) split: option.split)
  with assms(1,8) have "all_hooks Q w'" by (metis keepsD snd_conv)
  moreover have "get_hooks (pw_registry w') = Inr hs"
    using assms(1) unfolding build_pipeline_def
    by (elim bind_Inr_elim) (auto simp: bind_apply split: if_splits sum.splits)
  ultimately show ?thesis by (auto simp: all_hooks_def get_hooks_def split: if_splits)
qed

section \<open>What strict security establishes\<close>

text \<open>Plugins that only add hooks which keep the contract of the pipeline.\<close>

definition plugins_behave ::
    "('n, 'k, 'm, 'r, 'w) gateway_parts \<Rightarrow>
     (string \<times> ('o, ('n, 'k, 'm, 'r, 'w) gateway_hook, 'w event_handler) entry_point) list \<Rightarrow> bool" where
  "plugins_behave gp available \<longleftrightarrow>
     (\<forall>policy. plugins_extend available policy) \<and>
     (\<forall>ic (pol :: policy_config).
        keeps (all_hooks (well_behaved (gp_idp gp) ic)) (load_plugins available (pol_plugins pol)))"

text \<open>The masking plugin is of this kind.\<close>

lemma masking_plugin_keeps:
  fixes mk :: "presidio_config \<Rightarrow> 'h"
  assumes "\<And>c. Q (mk c)"
  shows "keeps (all_hooks Q) (load_and_register (masking_available mk) d)"
  unfolding load_and_register_def
proof (rule keeps_bind_result)
  show "keeps (all_hooks Q) (in_objects (load_one (masking_available mk) d))"
    by (auto simp: keeps_def all_hooks_def zoom_def split: prod.splits)
next
  fix w p and w' :: "(presidio_plugin_state, 'h, 'e) plugin_world"
  assume "in_objects (load_one (masking_available mk) d) w = (Inr p, w')"
  then have "p = presidio_masking_plugin mk"
    by (auto simp: zoom_def dest!: load_one_ok masking_available_only split: prod.splits)
  then show "keeps (all_hooks Q) (bind (with_registry (pn_register p)) (\<lambda>_.
      bind (case pn_event_handlers p of None \<Rightarrow> ret () | Some f \<Rightarrow> with_bus f) (\<lambda>_.
        modify (\<lambda>w. w\<lparr>pw_plugins := pw_plugins w @ [p]\<rparr>))))"
    using assms
    by (auto intro!: keeps_bind keeps_modify simp: presidio_masking_plugin_def base_plugin_def
        keeps_def all_hooks_def zoom_def presidio_register_def bind_apply register_def
        split: prod.splits sum.splits)
qed

lemma masking_plugins_behave: "plugins_behave gp (masking_available (masking_stage eng))"
  by (auto simp: plugins_behave_def load_plugins_def masking_plugins_extend masking_stage_ok
      intro!: keeps_for_each masking_plugin_keeps)

text \<open>A start with strict security builds the hooks of both guards, and all of them keep the contract.\<close>

lemma strict_start:
  assumes "start_gateway gp loader env available w = (Inr st, w')" and "is_strict_security env"
    and "pw_registry w = new_registry" and "sound_wait gp" and "plugins_behave gp available"
  obtains configs file_ic ic pol hs where "st_policy st = Some pol" and "st_hooks st = Some hs"
    and "load_policy_and_configs loader env = Inr (configs, file_ic, Some pol)"
    and "effective_identity env file_ic = Inr (Some ic)"
    and "\<exists>xs ys zs. hs = xs @ identity_stage gp ic # ys @ governance_stage pol True # zs"
    and "\<forall>h \<in> set hs. well_behaved (gp_idp gp) ic h"
proof -
  let ?gp = "collecting_parts gp (st_analytics st)"
  from assms(1) obtain configs file_ic where
    loaded: "load_policy_and_configs loader env = Inr (configs, file_ic, st_policy st)"
    and built: "build_pipeline ?gp env available file_ic (st_policy st)
           (collecting (st_analytics st)) w = (Inr (st_hooks st), w')"
    and guards: "startup_guards env (st_hooks st) file_ic (st_policy st) = Inr ()"
    by (rule start_parts)
  have live: "\<not> reg_frozen (pw_registry w)" using assms(3) by (simp add: new_registry_def)
  from assms(5) have ext: "plugins_extend available (st_policy st)"
    and load: "\<And>ic (pol :: policy_config).
       keeps (all_hooks (well_behaved (gp_idp gp) ic)) (load_plugins available (pol_plugins pol))"
    by (simp_all add: plugins_behave_def)
  from guards assms(2) obtain pol where pol: "st_policy st = Some pol" and on: "identity_enabled env file_ic"
    by (auto simp: startup_guards_ok)
  from built_pipeline_guards [OF built live ext] obtain ic where
      eff: "effective_identity env file_ic = Inr ic"
    and res: "case st_hooks st of None \<Rightarrow> ic = None \<and> st_policy st = None
      | Some hs \<Rightarrow> (\<forall>c pol. ic = Some c \<longrightarrow> st_policy st = Some pol \<longrightarrow>
            (\<exists>xs ys zs. hs = xs @ identity_stage ?gp c # ys @ governance_stage pol True # zs))"
    by (auto split: option.splits)
  from effective_identity_enabled [OF eff] on obtain c where c: "ic = Some c" by auto
  with res pol obtain hs where hs: "st_hooks st = Some hs"
    and order: "\<exists>xs ys zs. hs = xs @ identity_stage gp c # ys @ governance_stage pol True # zs"
    by (auto split: option.splits)
  have id: "well_behaved (gp_idp gp) c (identity_stage ?gp c)"
    using identity_stage_ok [of gp c] assms(4) by (simp add: sound_wait_def)
  have "\<forall>h \<in> set hs. well_behaved (gp_idp gp) c h"
    by (rule build_pipeline_all [OF built [unfolded hs] eff])
      (use c id load assms(3) in \<open>auto simp: all_hooks_def new_registry_def
        intro: governance_stage_ok analytics_stage_ok audit_stage_ok\<close>)
  with that [OF pol hs] loaded eff pol c order show ?thesis by simp
qed

section \<open>A start under strict security\<close>

definition strict_env :: "string \<Rightarrow> string option" where
  "strict_env name =
     map_of [(''MCP_POLICY_FILE'', ''policy.yaml''), (''MCP_STRICT_SECURITY'', ''true'')] name"

text \<open>The sample policy file, with audit events that name the tool only.\<close>

definition strict_loader :: loader_env where
  "strict_loader = sample_loader_env\<lparr>le_yaml_load := (\<lambda>_. Inr (PDict (sample_policy_data @
     [(''logging'', PDict [(''include'', PList [PStr ''tool_name''])])])))\<rparr>"

definition sample_available where
  "sample_available = masking_available (masking_stage (presidio_mask_text toy_presidio))"

definition strict_policy :: policy_config where
  "strict_policy = default_policy_config
     \<lparr>pol_logging := default_logging_config\<lparr>lc_include := PList [PStr ''tool_name'']\<rparr>,
      pol_identity := Some \<lparr>ipc_provider = PStr ''okta'', ipc_issuer = PStr ''https://idp.example'',
        ipc_audience = PStr ''gateway'', ipc_claim_mapping = PDict [], ipc_allow_insecure = PBool False\<rparr>,
      pol_servers := [\<lparr>sd_name = PStr ''files'', sd_transport = PStr ''stdio'', sd_url = PNone,
        sd_command = PStr ''files-mcp'', sd_args = PList [], sd_env = PDict [], sd_headers = PDict [],
        sd_token_exchange = PBool False, sd_target_audience = PNone,
        sd_required_scopes = PList [], sd_allow_insecure = PBool False\<rparr>],
      pol_policies := [\<lparr>pr_id = PStr ''read'', pr_description = PStr ''devs may read'', pr_effect = ALLOW,
        pr_subjects = \<lparr>ps_users = PList [], ps_groups = PList [PStr ''devs'']\<rparr>,
        pr_mcp_servers = [\<lparr>psa_name = PStr ''files'', psa_tools = PList [PStr ''read_*'']\<rparr>]\<rparr>]\<rparr>"

definition strict_configs :: "server_config list" where
  "strict_configs = [(default_server_config (PStr ''files'') T_STDIO)\<lparr>sc_command := PStr ''files-mcp''\<rparr>]"

definition strict_identity :: identity_config where
  "strict_identity = sample_identity_config\<lparr>ic_issuer := PStr ''https://idp.example''\<rparr>"

definition strict_hooks :: "(nat, string, (unit, unit) presidio_state, unit, unit) gateway_hook list" where
  "strict_hooks =
     [identity_stage sample_parts strict_identity, governance_stage strict_policy True,
      audit_stage \<lparr>ah_maxlen = Some 1000, ah_include = Some [PStr ''tool_name''], ah_bus = Some [],
                   ah_monotonic = gp_audit_monotonic sample_parts, ah_utc_now = gp_audit_utc sample_parts\<rparr>]"

definition strict_started ::
    "(nat, string, (unit, unit) presidio_state, unit, unit) pipeline_state started" where
  "strict_started =
     \<lparr>st_configs = config_table strict_configs, st_hooks = Some strict_hooks, st_obo = None,
      st_policy = Some strict_policy, st_identity_required = True, st_sse_enabled = True,
      st_cors = None, st_analytics = None, st_host = ''0.0.0.0'', st_port = 8080,
      st_posture = ENFORCING, st_logging = \<lparr>rl_handlers = [Json_Lines], rl_level = ''INFO''\<rparr>\<rparr>"

lemma build_guards_only:
  assumes "pw_registry w = new_registry" and "pw_bus w = []" and "pol_plugins pol = []"
    and "lc_include (pol_logging pol) = PList [PStr ''tool_name'']"
  shows "\<exists>w'. build_pipeline gp env available (Some c) (Some pol) False w =
    (Inr (Some [identity_stage gp c, governance_stage pol True,
       audit_stage \<lparr>ah_maxlen = Some 1000, ah_include = Some [PStr ''tool_name''], ah_bus = Some [],
         ah_monotonic = gp_audit_monotonic gp, ah_utc_now = gp_audit_utc gp\<rparr>]), w')"
  using assms
  by (simp add: build_pipeline_def effective_identity_def prog_simps zoom_def register_def
      new_registry_def make_audit_config_def build_def get_hooks_def)

lemma strict_start_run: "\<exists>w'. start_gateway sample_parts strict_loader strict_env available sample_world = (Inr strict_started, w')"
proof -
  have load: "load_policy_and_configs strict_loader strict_env =
      Inr (strict_configs, Some strict_identity, Some strict_policy)" by code_simp
  let ?log = "\<lparr>rl_handlers = [Json_Lines], rl_level = ''INFO''\<rparr>"
  have level: "startup_logging strict_env (gp_stdout_tty sample_parts) = Inr ?log" by code_simp
  have logs: "apply_logging strict_env (gp_stdout_tty sample_parts) (Some strict_policy) ?log = Inr ?log"
    by code_simp
  have ac: "build_analytics_config (le_uuid_hex strict_loader) strict_env (Some strict_policy) = Inr None"
    by code_simp
  have obo: "build_obo_provider strict_env strict_configs True = Inr None" by code_simp
  have cors: "build_cors_config strict_env (Some strict_policy) = Inr None" by code_simp
  have port: "py_int (PStr (getenv strict_env ''MCP_PORT'' ''8080'')) = Inr 8080" by code_simp
  have flags: "truthy (env_bool strict_env ''MCP_SSE_ENABLED'' (PBool True))"
    "getenv strict_env ''MCP_HOST'' ''0.0.0.0'' = ''0.0.0.0''" by code_simp+
  have pol: "pol_plugins strict_policy = []" "lc_include (pol_logging strict_policy) = PList [PStr ''tool_name'']"
    "pol_default strict_policy = DENY" by code_simp+
  have w: "pw_registry sample_world = new_registry" "pw_bus sample_world = []"
    by (simp_all add: sample_world_def)
  from build_guards_only [OF w pol(1,2), of sample_parts strict_env available strict_identity] obtain w' where
    build: "build_pipeline sample_parts strict_env available (Some strict_identity) (Some strict_policy) False
       sample_world = (Inr (Some strict_hooks), w')" by (auto simp: strict_hooks_def)
  show ?thesis
    by (simp add: start_gateway_def prepare_def assemble_def level load logs ac build bind_apply cors port
        flags pol obo collecting_def collecting_parts_def startup_guards_def posture_of_def
        identity_enabled_def strict_started_def del: py_int.simps)
qed

section \<open>Properties\<close>





text \<open>The CORS configuration that is built never combines the wildcard origin with
  credentials, has a lifetime that is not negative, and takes the origins of the environment, without
  blank ones, when there are any.\<close>

theorem cors_config_is_safe:
  assumes "build_cors_config env policy = Inr (Some c)"
  shows "truthy (cc_allow_origins c) \<and> 0 \<le> cc_max_age c \<and>
    \<not> (py_in (PStr ''*'') (cc_allow_origins c) = Inr True \<and> truthy (cc_allow_credentials c)) \<and>
    (strip (getenv env ''MCP_CORS_ORIGINS'' []) \<noteq> [] \<longrightarrow>
       (\<exists>os. cc_allow_origins c = PList (map PStr os) \<and> [] \<notin> set os))"
proof -
  let ?env_origins = "strip (getenv env ''MCP_CORS_ORIGINS'' [])"
  let ?origins = "if ?env_origins = [] then None
    else Some (filter (\<lambda>o'. o' \<noteq> []) (map strip (split_on CHR '','' ?env_origins)))"
  let ?base = "Option.bind policy pol_cors"
  let ?start = "case ?base of Some b \<Rightarrow> b | None \<Rightarrow> default_cors_config"
  let ?creds = "lower (strip (getenv env ''MCP_CORS_ALLOW_CREDENTIALS'' []))"
  have "\<exists>age. make_cors_config (?start
      \<lparr>cc_allow_origins := (case ?origins of Some os \<Rightarrow> PList (map PStr os) | None \<Rightarrow> cc_allow_origins ?start),
       cc_allow_credentials := (if ?creds \<noteq> [] then PBool (?creds \<in> {''1'', ''true'', ''yes''})
                                else cc_allow_credentials ?start),
       cc_max_age := age\<rparr>) = Inr c"
  proof (cases "?origins = None \<and> ?base = None")
    case False
    then show ?thesis
      using assms unfolding build_cors_config_def Let_def
      by (simp only: if_False res_bind_eq_Inr sum.inject option.inject) blast
  qed (use assms in \<open>simp add: build_cors_config_def\<close>)
  then obtain start creds age where made: "make_cors_config
      (start\<lparr>cc_allow_origins := (case ?origins of Some os \<Rightarrow> PList (map PStr os) | None \<Rightarrow> cc_allow_origins start),
             cc_allow_credentials := creds, cc_max_age := age\<rparr>) = Inr c" by blast
  show ?thesis
    using made [unfolded make_cors_config_ok] by auto
qed

definition cors_env :: "string \<Rightarrow> string option" where
  "cors_env name = map_of [(''MCP_CORS_ORIGINS'', ''https://a.example, ,*''), (''MCP_CORS_MAX_AGE'', '' 60'')] name"

theorem cors_config_is_safe_witness:
  "\<exists>c. build_cors_config cors_env None = Inr (Some c) \<and> 0 \<le> cc_max_age c"
proof -
  let ?c = "default_cors_config\<lparr>cc_allow_origins := PList [PStr ''https://a.example'', PStr ''*''], cc_max_age := 60\<rparr>"
  have "build_cors_config cors_env None = Inr (Some ?c)" by code_simp
  with cors_config_is_safe [OF this] show ?thesis by blast
qed

end
