(* ===== verification/History.thy ===== *)
theory History
  imports Startup
begin

text \<open>
  The life of a started gateway: what its hooks keep of the shared state over every sequence of
  requests, and what the upstream servers were asked for in the end. A request is one step, with
  the waits inside it as arguments of the operations; between the requests the tasks in the
  background and the network may change the collector, the state of the auth provider and the
  connections, but only \<open>call_tool\<close> asks an upstream server to run a tool.
\<close>

section \<open>The handlers keep what the hooks keep\<close>

lemma keeps_in_pipeline: "keeps I m \<Longrightarrow> keeps (\<lambda>g. I (gw_pipeline g)) (in_pipeline m)"
  by (auto simp: keeps_def zoom_def split: prod.splits)

lemma keeps_in_others [keeps_intros]:
  "keeps (\<lambda>g. I (gw_pipeline g)) (in_auth a)" "keeps (\<lambda>g. I (gw_pipeline g)) (in_manager m)"
  by (auto simp: keeps_def zoom_def split: prod.splits)

lemma keeps_process_result:
  assumes "\<And>hooks ctx. px_hooks px = Some hooks \<Longrightarrow> keeps I (execute (px_now px) hooks ctx)"
  shows "keeps (\<lambda>g. I (gw_pipeline g)) (process_result px ctx result)"
  unfolding process_result_def
  by (auto intro!: keeps_intros keeps_in_pipeline assms split: option.split)

lemma keeps_retry_loop:
  assumes "\<And>hooks ctx. px_hooks px = Some hooks \<Longrightarrow> keeps I (execute (px_now px) hooks ctx)"
  shows "keeps (\<lambda>g. I (gw_pipeline g))
    (retry_loop px srv tool config ctx auth_token args attempts last_error)"
proof (induction attempts arbitrary: last_error)
  case (Cons a rest)
  show ?case
    unfolding retry_loop.simps upstream_attempt_def after_failure_def
    by (intro keeps_intros keeps_process_result [OF assms] Cons.IH)
qed simp

lemma keeps_call_tool:
  assumes "\<And>hooks ctx. px_hooks px = Some hooks \<Longrightarrow> keeps I (execute (px_now px) hooks ctx)"
  shows "keeps (\<lambda>g. I (gw_pipeline g)) (call_tool px uuid header name args)"
proof -
  have "keeps (\<lambda>g. I (gw_pipeline g)) (forward_call px srv tool config ctx args)" for srv tool config ctx
    unfolding forward_call_def
    by (intro keeps_intros) (auto intro!: keeps_intros keeps_retry_loop [OF assms] split: option.split)
  then show ?thesis
    unfolding call_tool_def
    by (intro keeps_intros)
      (auto intro!: keeps_intros keeps_in_pipeline assms split: prod.split option.split)
qed

lemma keeps_list_tools:
  assumes "\<And>hooks ctx. px_hooks px = Some hooks \<Longrightarrow> keeps I (execute_hook_point hooks PRE_VALIDATION ctx)"
  shows "keeps (\<lambda>g. I (gw_pipeline g)) (list_tools px uuid header)"
proof -
  have "keeps (\<lambda>g. I (gw_pipeline g)) (authenticate_listing px uuid header)"
    unfolding authenticate_listing_def
    by (auto intro!: keeps_intros keeps_in_pipeline assms split: option.split)
  moreover have "keeps (\<lambda>g. I (gw_pipeline g)) (fetch_all_tools px)"
    unfolding fetch_all_tools_def fetch_server_tools_def by (intro keeps_intros) 
  ultimately show ?thesis
    unfolding list_tools_def by (intro keeps_intros) (auto intro!: keeps_intros split: option.split)
qed

section \<open>Listing asks for no tool\<close>

context traced_sdk
begin

lemma calls_handle0: "adds_calls 0 tool args m \<Longrightarrow> (\<And>e. adds_calls 0 tool args (h e)) \<Longrightarrow>
    adds_calls 0 tool args (handle m h)"
  using calls_handle [of 0 tool args m 0 h] by simp

lemma calls_map_prog: "(\<And>x. adds_calls 0 tool args (f x)) \<Longrightarrow> adds_calls 0 tool args (map_prog f xs)"
  by (induction xs) (auto intro!: calls_bind0)

lemma calls_list_tools:
  assumes "list_tools px uuid header w = (r, w')" and "px_sdk px = sdk"
  shows "calls w' = calls w"
proof -
  have "adds_calls 0 tool args (in_manager (in_net (sdk_list_tools sdk s t)))" for tool args s t
  proof (rule calls_manager)
    fix g r and g' :: "('n, 's) manager_state"
    assume "in_net (sdk_list_tools sdk s t) g = (r, g')"
    then show "pool_calls g' = pool_calls g"
      using list_quiet [of s t "sm_net g"] by (auto simp: in_net_def zoom_def split: prod.splits)
  qed
  moreover have "adds_calls 0 tool args (in_manager (get_session sdk configs srv rc tok))"
    for tool args configs srv rc tok
    by (rule calls_manager) (rule get_session_quiet)
  ultimately have "adds_calls 0 tool args (fetch_server_tools px srv)" for tool args srv
    unfolding fetch_server_tools_def assms(2)
    by (intro calls_bind0 calls_handle0) auto
  then have fetch: "adds_calls 0 tool args (fetch_all_tools px)" for tool args
    unfolding fetch_all_tools_def by (intro calls_bind0 calls_map_prog) auto
  have auth: "adds_calls 0 tool args (authenticate_listing px uuid header)" for tool args
    unfolding authenticate_listing_def
    by (auto intro!: calls_bind0 calls_handle0 split: option.split)
  have "adds_calls 0 [] PNone (list_tools px uuid header)"
    unfolding list_tools_def
    by (intro calls_bind0 auth) (auto intro!: calls_bind0 fetch split: option.split)
  from adds_callsD [OF this assms(1)] show ?thesis by simp
qed

end

section \<open>The states of a gateway in service\<close>

text \<open>The trace of the tool calls that the upstream servers were asked to make.\<close>

abbreviation asked ::
    "('p, 'o, 'x \<times> (string \<times> pyval) list, 's) gateway \<Rightarrow> (string \<times> pyval) list" where
  "asked g \<equiv> snd (sm_net (gw_manager g))"

inductive served ::
    "(('n, 'k, 'm, 'r, 'w) pipeline_state, 'o, 'x \<times> (string \<times> pyval) list, 's) proxy_server \<Rightarrow>
     (('n, 'k, 'm, 'r, 'w) pipeline_state, 'o, 'x \<times> (string \<times> pyval) list, 's) gateway \<Rightarrow>
     (('n, 'k, 'm, 'r, 'w) pipeline_state, 'o, 'x \<times> (string \<times> pyval) list, 's) gateway \<Rightarrow> bool"
  for px g0 where
  Started: "served px g0 g0"
| Call: "served px g0 g \<Longrightarrow> call_tool px uuid header name args g = (r, g') \<Longrightarrow> served px g0 g'"
| Listing: "served px g0 g \<Longrightarrow> list_tools px uuid header g = (q, g') \<Longrightarrow> served px g0 g'"
| Background: "served px g0 g \<Longrightarrow> snd (sm_net m) = asked g \<Longrightarrow>
    served px g0 (g\<lparr>gw_pipeline := (gw_pipeline g)\<lparr>ps_analytics := c\<rparr>, gw_auth := a, gw_manager := m\<rparr>)"

text \<open>A call of a tool of a server, with a header, at a state of the pipeline: the pipeline admitted
  it, or failed without a denial by an exception.\<close>

definition let_through ::
    "('n, 'k) idp_env \<Rightarrow> identity_config \<Rightarrow> policy_config \<Rightarrow>
     (('n, 'k, 'm, 'r, 'w) pipeline_state \<Rightarrow> rat) \<Rightarrow> ('n, 'k, 'm, 'r, 'w) gateway_hook list \<Rightarrow>
     ('n, 'k, 'm, 'r, 'w) pipeline_state \<Rightarrow> string \<Rightarrow> string \<Rightarrow> string \<Rightarrow> bool" where
  "let_through idp ic pol now hooks p header srv tool \<longleftrightarrow>
     (\<exists>ctx result p'. extras ctx = [(''authorization'', PStr header)] \<and>
        execute now hooks ctx p = (Inr result, p') \<and>
        (if plr_success result
         then \<exists>u. authentic idp ic ctx u \<and>
           er_effect (decide pol \<lparr>pi_user_id = ui_user_id u, pi_groups = ui_groups u,
                                  pi_mcp_server = srv, pi_tool = tool\<rparr>) = ALLOW
         else \<exists>e. plr_error result = Some e \<and> (is_HookError e \<or> (\<exists>reason. e = ShortCircuitError reason False))))"

lemma served_keeps:
  assumes "served px g0 g" and "kept_state idp (gw_pipeline g0)"
    and "\<forall>h \<in> set hooks. well_behaved idp ic h" and "px_hooks px = Some hooks"
  shows "kept_state idp (gw_pipeline g)"
  using assms(1)
proof induction
  case Started
  show ?case by (rule assms(2))
next
  case (Call g uuid header name args r g')
  have "keeps (\<lambda>g. kept_state idp (gw_pipeline g)) (call_tool px uuid header name args)"
    by (rule keeps_call_tool)
      (use assms(4) hook_contract.keeps_execute [OF well_behaved_contract [OF assms(3)]] in auto)
  from keepsD [OF this Call.IH] Call.hyps(2) show ?case by simp
next
  case (Listing g uuid header q g')
  have "keeps (\<lambda>g. kept_state idp (gw_pipeline g)) (list_tools px uuid header)"
    by (rule keeps_list_tools)
      (use assms(4) hook_contract.keeps_execute_hook_point [OF well_behaved_contract [OF assms(3)]] in auto)
  from keepsD [OF this Listing.IH] Listing.hyps(2) show ?case by simp
next
  case (Background g m c a)
  then show ?case by (simp add: kept_state_def)
qed

lemma served_was_let_through:
  assumes "served px g0 g" and "kept_state idp (gw_pipeline g0)"
    and "\<forall>h \<in> set hooks. well_behaved idp ic h" and "px_hooks px = Some hooks"
    and "governance_stage pol True \<in> set hooks" and "px_sdk px = recording_sdk sdk"
  shows "\<exists>sent. asked g = asked g0 @ sent \<and>
    (\<forall>(tool, args) \<in> set sent. \<exists>g1 header srv. served px g0 g1 \<and>
       let_through idp ic pol (px_now px) hooks (gw_pipeline g1) header srv tool)"
  using assms(1)
proof induction
  case Started
  show ?case by simp
next
  case (Call g uuid header name args r g')
  from Call.IH obtain sent where sent: "asked g = asked g0 @ sent"
    and before: "\<forall>(tool, args) \<in> set sent. \<exists>g1 header srv. served px g0 g1 \<and>
       let_through idp ic pol (px_now px) hooks (gw_pipeline g1) header srv tool" by blast
  show ?case
  proof (cases "asked g' = asked g")
    case True
    with Call.IH show ?thesis by (simp only:)
  next
    case False
    from reached_upstream_admitted [OF assms(4,3,5) served_keeps [OF Call.hyps(1) assms(2,3,4)] assms(6)
        Call.hyps(2) False]
    obtain srv tool j where new: "asked g' = asked g @ replicate j (tool, args)"
      and adm: "let_through idp ic pol (px_now px) hooks (gw_pipeline g) header srv tool"
      unfolding let_through_def by blast
    from adm Call.hyps(1) have "\<exists>g1 header srv. served px g0 g1 \<and>
        let_through idp ic pol (px_now px) hooks (gw_pipeline g1) header srv tool" by blast
    then have "\<forall>(tool, args) \<in> set (replicate j (tool, args)). \<exists>g1 header srv. served px g0 g1 \<and>
        let_through idp ic pol (px_now px) hooks (gw_pipeline g1) header srv tool" by auto
    with before show ?thesis
      unfolding new sent by (intro exI [of _ "sent @ replicate j (tool, args)"]) (simp add: ball_Un)
  qed
next
  case (Listing g uuid header q g')
  have "asked g' = asked g" using recorded.calls_list_tools [OF Listing.hyps(2) assms(6)] .
  with Listing.IH show ?case by (simp only:)
next
  case (Background g m c a)
  then show ?case by simp
qed

section \<open>A gateway under strict security\<close>

definition strict_gateway ::
    "((nat, string, (unit, unit) presidio_state, unit, unit) pipeline_state, nat obo_state,
      nat \<times> (string \<times> pyval) list, endpoint) gateway" where
  "strict_gateway =
     \<lparr>gw_pipeline = gw_pipeline sample_gateway, gw_auth = \<lparr>os_cache = [], os_net = 0\<rparr>,
      gw_manager = gw_manager sample_gateway\<rparr>"

definition strict_proxy ::
    "((nat, string, (unit, unit) presidio_state, unit, unit) pipeline_state, nat obo_state,
      nat \<times> (string \<times> pyval) list, endpoint) proxy_server" where
  "strict_proxy =
     \<lparr>px_hooks = Some strict_hooks, px_now = (\<lambda>_. 0), px_get_token = no_auth_get_token,
      px_policy = Some strict_policy, px_configs = config_table strict_configs,
      px_sdk = recording_sdk toy_sdk\<rparr>"

definition strict_call where
  "strict_call header =
     call_tool strict_proxy ''c-1'' header ''files__read_file'' (PDict []) strict_gateway"



end
