(* ===== verification/Web.thy ===== *)
theory Web
  imports History
begin

text \<open>
  \<open>proxy/middleware.py\<close> and \<open>proxy/app.py\<close>: the middleware that hands the \<open>Authorization\<close> header
  to the proxy through a context variable, the one that reports rejected origins, and the lifespan
  of the application. The frameworks, that is the application behind the middleware, the CORS
  middleware of Starlette and the session manager of the MCP SDK, are arguments; routing is theirs.
  The bytes of a header are characters in Latin-1, so decoding them changes nothing.
\<close>

section \<open>The Authorization header\<close>

record scope =
  sp_type :: string
  sp_path :: string
  sp_headers :: "(string \<times> string) list"

definition auth_value :: "scope \<Rightarrow> string" where
  "auth_value sc = (case map_of (sp_headers sc) ''authorization'' of Some v \<Rightarrow> v | None \<Rightarrow> [])"

text \<open>The state is the context variable beside the state of the application.\<close>

definition auth_header_middleware :: "(string \<times> 'w, 'a) prog \<Rightarrow> scope \<Rightarrow> (string \<times> 'w, 'a) prog" where
  "auth_header_middleware app sc =
     (if sp_type sc \<noteq> ''http'' then app
      else
        bind (gets fst) (\<lambda>old.
        bind (modify (\<lambda>(_, w). (auth_value sc, w))) (\<lambda>_.
          finally_do app (modify (\<lambda>(_, w). (old, w))))))"

text \<open>A tool call as the proxy server makes it: the header is what the variable holds.\<close>

definition call_with_header ::
    "('p, 'o, 'n, 's) proxy_server \<Rightarrow> string \<Rightarrow> string \<Rightarrow> pyval \<Rightarrow>
     (string \<times> ('p, 'o, 'n, 's) gateway, pyval list) prog" where
  "call_with_header px uuid name args =
     bind (gets fst) (\<lambda>header. zoom snd (\<lambda>g w. (fst w, g)) (call_tool px uuid header name args))"

section \<open>Rejected origins\<close>

record message =
  ms_type :: string
  ms_headers :: "(string \<times> string) list"

text \<open>The number of warnings for the messages sent in answer to one request: only the first start of
  a response is looked at, and only for a request with an origin.\<close>

fun cors_warnings :: "bool \<Rightarrow> message list \<Rightarrow> nat" where
  "cors_warnings warned [] = 0"
| "cors_warnings warned (m # ms) =
     (if \<not> warned \<and> ms_type m = ''http.response.start'' then
        (if ''access-control-allow-origin'' \<notin> set (map fst (ms_headers m)) then 1 else 0) +
        cors_warnings True ms
      else cors_warnings warned ms)"

text \<open>Whether bytes are UTF-8, by the table that Python's strict decoder follows: no overlong forms,
  no surrogates, nothing above the last code point.\<close>

definition follows :: "nat \<Rightarrow> bool" where
  "follows b \<longleftrightarrow> 128 \<le> b \<and> b < 192"

definition second_byte :: "nat \<Rightarrow> nat \<Rightarrow> bool" where
  "second_byte b c \<longleftrightarrow> follows c \<and> (b = 224 \<longrightarrow> 160 \<le> c) \<and> (b = 237 \<longrightarrow> c < 160) \<and>
     (b = 240 \<longrightarrow> 144 \<le> c) \<and> (b = 244 \<longrightarrow> c < 144)"

fun is_utf8 :: "nat list \<Rightarrow> bool" where
  "is_utf8 [] = True"
| "is_utf8 (b # bs) =
     (if b < 128 then is_utf8 bs
      else if b < 194 then False
      else case bs of
        [] \<Rightarrow> False
      | c # cs \<Rightarrow> second_byte b c \<and>
          (if b < 224 then is_utf8 cs
           else case cs of
             [] \<Rightarrow> False
           | d # ds \<Rightarrow> follows d \<and>
               (if b < 240 then is_utf8 ds
                else b < 245 \<and> (case ds of [] \<Rightarrow> False | e # es \<Rightarrow> follows e \<and> is_utf8 es))))"

text \<open>The number of warnings for one request, or the exception of decoding its origin, which comes
  before the application is called.\<close>

definition rejected_origin_warnings :: "scope \<Rightarrow> message list \<Rightarrow> nat res" where
  "rejected_origin_warnings sc ms =
     (if sp_type sc \<noteq> ''http'' then Inr 0
      else case map_of (rev (sp_headers sc)) ''origin'' of
        None \<Rightarrow> Inr 0
      | Some origin \<Rightarrow>
          if \<not> is_utf8 (map of_char origin) then Inl (OtherException ''UnicodeDecodeError'' [])
          else if origin = [] then Inr 0
          else Inr (cors_warnings False ms))"

section \<open>The application\<close>

text \<open>The routes of \<open>create_app\<close>, in their order, with what answers them: the session manager of the
  SDK, the endpoint that opens an SSE stream, and the one that takes its messages.\<close>

datatype app_endpoint = Streamable | SSE_Stream | SSE_Messages

datatype app_route = Mount string app_endpoint | Route string app_endpoint

primrec route_endpoint :: "app_route \<Rightarrow> app_endpoint" where
  "route_endpoint (Mount _ h) = h"
| "route_endpoint (Route _ h) = h"

definition app_routes :: "bool \<Rightarrow> app_route list" where
  "app_routes sse_enabled =
     Mount ''/mcp'' Streamable #
     (if sse_enabled
      then [Route ''/mcp/sse'' SSE_Stream, Mount ''/mcp/sse/messages'' SSE_Messages] else [])"

text \<open>Starlette answers a request by the first route that matches its path; which routes match is its
  own matter.\<close>

definition dispatch :: "(app_route \<Rightarrow> string \<Rightarrow> bool) \<Rightarrow> app_route list \<Rightarrow> string \<Rightarrow> app_endpoint option" where
  "dispatch matches routes path = map_option route_endpoint (find (\<lambda>r. matches r path) routes)"

text \<open>The application with its middlewares: the header first, around it the CORS middleware if there
  is a configuration. \<open>serve\<close> answers a request at an endpoint or without one.\<close>

definition create_app ::
    "(app_route \<Rightarrow> string \<Rightarrow> bool) \<Rightarrow>
     (cors_config \<Rightarrow> (scope \<Rightarrow> (string \<times> 'w, 'a) prog) \<Rightarrow> scope \<Rightarrow> (string \<times> 'w, 'a) prog) \<Rightarrow>
     (app_endpoint option \<Rightarrow> scope \<Rightarrow> (string \<times> 'w, 'a) prog) \<Rightarrow> bool \<Rightarrow> cors_config option \<Rightarrow>
     scope \<Rightarrow> (string \<times> 'w, 'a) prog" where
  "create_app matches cors_middleware serve sse_enabled cors =
     (let app = (\<lambda>sc. serve (dispatch matches (app_routes sse_enabled) (sp_path sc)) sc);
          wrapped = (\<lambda>sc. auth_header_middleware (app sc) sc)
      in case cors of None \<Rightarrow> wrapped | Some c \<Rightarrow> cors_middleware c wrapped)"

text \<open>The side of the MCP SDK that faces the clients: the session manager of the streamable transport,
  the SSE transport with its context manager \<open>connect_sse\<close>, and the server that reads and answers
  the messages of one stream. Leaving the context manager gets the outcome of its body, and decides
  on the outcome of the whole, as \<open>__aexit__\<close> does. \<open>'c\<close> is an open connection, \<open>'t\<close> one of its
  two streams. What Starlette answers where no route matches is here too.\<close>

record ('v, 'c, 't) inbound =
  ib_handle_request :: "scope \<Rightarrow> ('v, unit) prog"
  ib_connect_sse :: "scope \<Rightarrow> ('v, 'c \<times> 't \<times> 't) prog"
  ib_leave_sse :: "'c \<Rightarrow> unit res \<Rightarrow> ('v, unit) prog"
  ib_run_server :: "'t \<Rightarrow> 't \<Rightarrow> ('v, unit) prog"
  ib_handle_post_message :: "scope \<Rightarrow> ('v, unit) prog"
  ib_not_found :: "scope \<Rightarrow> ('v, unit) prog"

definition handle_sse :: "('v, 'c, 't) inbound \<Rightarrow> scope \<Rightarrow> ('v, unit) prog" where
  "handle_sse ib sc =
     bind (ib_connect_sse ib sc) (\<lambda>(c, streams) w.
       case ib_run_server ib (fst streams) (snd streams) w of (r, w') \<Rightarrow> ib_leave_sse ib c r w')"

text \<open>What answers at each endpoint.\<close>

definition endpoint_handler ::
    "('v, 'c, 't) inbound \<Rightarrow> app_endpoint option \<Rightarrow> scope \<Rightarrow> ('v, unit) prog" where
  "endpoint_handler ib endpoint =
     (case endpoint of
        None \<Rightarrow> ib_not_found ib
      | Some Streamable \<Rightarrow> ib_handle_request ib
      | Some SSE_Stream \<Rightarrow> handle_sse ib
      | Some SSE_Messages \<Rightarrow> ib_handle_post_message ib)"

text \<open>However the server ends, an SSE connection that was opened is left, once, with that outcome.\<close>

lemma sse_connection_is_left:
  assumes "ib_connect_sse ib sc w = (Inr (c, rs, ws), w1)" and "ib_run_server ib rs ws w1 = (r, w2)"
  shows "handle_sse ib sc w = ib_leave_sse ib c r w2"
  using assms by (simp add: handle_sse_def bind_apply)

section \<open>The lifespan\<close>

type_synonym ('r, 'n, 's) server_world = "'r collector \<times> ('n, 's) manager_state"

fun is_exception_group :: "exn \<Rightarrow> bool" where
  "is_exception_group (OtherException c _) = (c \<in> {''BaseExceptionGroup'', ''ExceptionGroup''})"
| "is_exception_group _ = False"

abbreviation in_collector :: "('r collector, 'a) prog \<Rightarrow> (('r, 'n, 's) server_world, 'a) prog" where
  "in_collector m \<equiv> zoom fst (\<lambda>c w. (c, snd w)) m"

abbreviation in_pool :: "(('n, 's) manager_state, 'a) prog \<Rightarrow> (('r, 'n, 's) server_world, 'a) prog" where
  "in_pool m \<equiv> zoom snd (\<lambda>g w. (fst w, g)) m"

text \<open>What is done before serving and after it, and the frame around the session manager.\<close>

type_synonym 'r analytics_parts = "('r redis_env \<times> key_builder \<times> analytics_config \<times> rat) option"

definition lifespan_start :: "'r analytics_parts \<Rightarrow> (('r, 'n, 's) server_world, unit) prog" where
  "lifespan_start analytics =
     (case analytics of None \<Rightarrow> ret ()
      | Some (env, kb, cfg, now) \<Rightarrow> in_collector (collector_start env cfg now))"

definition lifespan_stop ::
    "'r analytics_parts \<Rightarrow> ('n, 's) mcp_sdk \<Rightarrow> (('r, 'n, 's) server_world, unit) prog" where
  "lifespan_stop analytics sdk =
     bind (case analytics of None \<Rightarrow> ret ()
           | Some (env, kb, cfg, now) \<Rightarrow> in_collector (collector_stop env kb cfg)) (\<lambda>_.
       in_pool (disconnect_all sdk))"

definition around_serving ::
    "('v, unit) prog \<Rightarrow> ('v, unit) prog \<Rightarrow> ('v, unit) prog \<Rightarrow> ('v, unit) prog" where
  "around_serving start stop serve =
     bind start (\<lambda>_.
       finally_do (handle serve (\<lambda>e. if is_exception_group e then ret () else raise e)) stop)"

definition lifespan ::
    "'r analytics_parts \<Rightarrow> ('n, 's) mcp_sdk \<Rightarrow>
     (('r, 'n, 's) server_world, unit) prog \<Rightarrow> (('r, 'n, 's) server_world, unit) prog" where
  "lifespan analytics sdk = around_serving (lifespan_start analytics) (lifespan_stop analytics sdk)"

lemma pop_head:
  assumes "sm_transports s = (k, t) # ts" and "hashable_session k"
  shows "\<exists>s'. pop_and_disconnect sdk k s = (Inr (), s') \<and> sm_transports s' = ts"
proof -
  obtain r t' n' where d: "disconnect sdk (t, sm_net s) = (r, (t', n'))"
    by (cases "disconnect sdk (t, sm_net s)") auto
  with disconnect_cases [OF d] pool.eq_refl [OF assms(2)] assms(1) show ?thesis
    by (simp add: pop_and_disconnect_def bind_apply)
qed

lemma disconnect_all_empties:
  assumes "\<forall>(k, t) \<in> set (sm_transports s). hashable_session k"
  shows "\<exists>s'. disconnect_all sdk s = (Inr (), s') \<and> sm_transports s' = []"
proof -
  have "\<exists>s'. for_each (\<lambda>k. suppress (pop_and_disconnect sdk k)) (map fst ts) s = (Inr (), s') \<and> sm_transports s' = []"
    if "sm_transports s = ts" "\<forall>(k, t) \<in> set ts. hashable_session k" for ts s
    using that
  proof (induction ts arbitrary: s)
    case (Cons p ts)
    obtain k t where p: "p = (k, t)" by fastforce
    with Cons.prems pop_head [of s k t ts sdk] obtain s1 where
      "pop_and_disconnect sdk k s = (Inr (), s1)" "sm_transports s1 = ts" by auto
    with Cons.IH [of s1] Cons.prems(2) p show ?case by (simp add: bind_apply suppress_apply)
  qed simp
  with assms show ?thesis by (simp add: disconnect_all_def bind_apply)
qed

section \<open>Properties\<close>



text \<open>A request with an origin is warned about exactly when its answer starts, and the first
  start lacks the header that allows the origin; and a request whose origin is not UTF-8 fails.\<close>

lemma cors_warnings_once: "cors_warnings True ms = 0"
  by (induction ms) simp_all

lemma cors_warnings_first:
  "cors_warnings False ms =
    (case find (\<lambda>m. ms_type m = ''http.response.start'') ms of
      None \<Rightarrow> 0
    | Some m \<Rightarrow> if ''access-control-allow-origin'' \<in> fst ` set (ms_headers m) then 0 else 1)"
  by (induction ms) (auto simp: cors_warnings_once)

lemma ascii_is_utf8: "\<forall>b \<in> set bs. b < 128 \<Longrightarrow> is_utf8 bs"
  by (induction bs) auto

theorem rejected_origin_reported_once:
  assumes "sp_type sc = ''http''" and "map_of (rev (sp_headers sc)) ''origin'' = Some origin"
    and "origin \<noteq> []"
  shows "rejected_origin_warnings sc ms =
    (if is_utf8 (map of_char origin)
     then Inr (case find (\<lambda>m. ms_type m = ''http.response.start'') ms of
         None \<Rightarrow> 0
       | Some m \<Rightarrow> if ''access-control-allow-origin'' \<in> fst ` set (ms_headers m) then 0 else 1)
     else Inl (OtherException ''UnicodeDecodeError'' []))"
  using assms by (simp add: rejected_origin_warnings_def cors_warnings_first)

theorem rejected_origin_reported_once_witness:
  "rejected_origin_warnings
      \<lparr>sp_type = ''http'', sp_path = ''/mcp/'', sp_headers = [(''origin'', ''https://evil.example'')]\<rparr>
      [\<lparr>ms_type = ''http.response.start'', ms_headers = [(''vary'', ''Origin'')]\<rparr>,
       \<lparr>ms_type = ''http.response.body'', ms_headers = []\<rparr>] = Inr 1 \<and>
   rejected_origin_warnings
      \<lparr>sp_type = ''http'', sp_path = ''/mcp/'', sp_headers = [(''origin'', [char_of (255::nat)])]\<rparr> [] =
     Inl (OtherException ''UnicodeDecodeError'' [])"
  by (subst rejected_origin_reported_once [where origin = "''https://evil.example''"], simp_all,
      subst rejected_origin_reported_once [where origin = "[char_of (255::nat)]"], simp_all)

text \<open>The mount at \<open>/mcp\<close> takes everything below it.\<close>

definition mounts_take_all :: "(app_route \<Rightarrow> string \<Rightarrow> bool) \<Rightarrow> bool" where
  "mounts_take_all matches \<longleftrightarrow> (\<forall>p h rest. matches (Mount p h) (p @ ''/'' @ rest))"


text \<open>Matching as Starlette does it: a mount takes what is below it, a route its own path.\<close>

fun starlette_matches :: "app_route \<Rightarrow> string \<Rightarrow> bool" where
  "starlette_matches (Mount p h) path = prefix (p @ ''/'') path"
| "starlette_matches (Route p h) path = (path = p)"




end
