(* ===== verification/Serving.thy ===== *)
theory Serving
  imports Web
begin

text \<open>
  \<open>run\<close> of \<open>main.py\<close> as a whole: the preparation, the exit handler that is registered after it, the
  refusals, and the web server with the application and its lifespan. What the process gets from
  outside is the record \<open>surroundings\<close>; its field \<open>sr_uvicorn\<close> is the web server, which receives the
  application, the lifespan as the frame around its serving, the address, and the seconds it may take
  to shut down. The state consists of that of the plugins, the context variable and the gateway.
  The console script and \<open>python -m mcp_zero\<close> (\<open>__main__.py\<close>) call \<open>run\<close> and end, so that the exit
  handlers run right after it.
\<close>

section \<open>The application of a started gateway\<close>

record ('p, 'r, 'a, 'x, 's, 'v, 'c, 't) surroundings =
  sr_now :: "'p \<Rightarrow> rat"
  sr_start_time :: rat
  sr_redis :: "'r redis_env"
  sr_obo :: "'a obo_env"
  sr_obo_wait :: "'a obo_state \<Rightarrow> 'a obo_state"
  sr_sdk :: "('x, 's) mcp_sdk"
  sr_inbound :: "('p, 'a obo_state, 'x, 's) proxy_server \<Rightarrow> ('v, 'c, 't) inbound"
  sr_matches :: "app_route \<Rightarrow> string \<Rightarrow> bool"
  sr_cors_middleware ::
    "cors_config \<Rightarrow> (scope \<Rightarrow> ('v, unit) prog) \<Rightarrow> scope \<Rightarrow> ('v, unit) prog"
  sr_uvicorn ::
    "(scope \<Rightarrow> ('v, unit) prog) \<Rightarrow> (('v, unit) prog \<Rightarrow> ('v, unit) prog) \<Rightarrow> string \<Rightarrow> int \<Rightarrow> nat \<Rightarrow>
     ('v, unit) prog"

type_synonym ('n, 'k, 'm, 'r, 'w, 'a, 'x, 's) served_state =
  "string \<times> (('n, 'k, 'm, 'r, 'w) pipeline_state, 'a obo_state, 'x, 's) gateway"

type_synonym ('n, 'k, 'm, 'r, 'w, 'a, 'x, 's, 'c, 't) process_surroundings =
  "(('n, 'k, 'm, 'r, 'w) pipeline_state, 'r, 'a, 'x, 's,
    ('n, 'k, 'm, 'r, 'w, 'a, 'x, 's) served_state, 'c, 't) surroundings"

definition gateway_application ::
    "('n, 'k, 'm, 'r, 'w, 'a, 'x, 's, 'c, 't) process_surroundings \<Rightarrow>
     ('n, 'k, 'm, 'r, 'w) pipeline_state started \<Rightarrow> scope \<Rightarrow>
     (('n, 'k, 'm, 'r, 'w, 'a, 'x, 's) served_state, unit) prog" where
  "gateway_application sr st =
     create_app (sr_matches sr) (sr_cors_middleware sr)
       (endpoint_handler (sr_inbound sr
          (started_proxy (sr_now sr) (sr_obo sr) (sr_obo_wait sr) (sr_sdk sr) st)))
       (st_sse_enabled st) (st_cors st)"

text \<open>The collector is part of the hooks' state, the pool is that of the gateway.\<close>

abbreviation in_served ::
    "(('r, 'x, 's) server_world, 'a) prog \<Rightarrow>
     (('n, 'k, 'm, 'r, 'w, 'b, 'x, 's) served_state, 'a) prog" where
  "in_served m \<equiv>
     zoom (\<lambda>(_, g). (ps_analytics (gw_pipeline g), gw_manager g))
       (\<lambda>(c, p) (v, g). (v, g\<lparr>gw_pipeline := (gw_pipeline g)\<lparr>ps_analytics := c\<rparr>, gw_manager := p\<rparr>)) m"

definition analytics_of ::
    "('p, 'r, 'a, 'x, 's, 'v, 'c, 't) surroundings \<Rightarrow> analytics_config option \<Rightarrow> 'r analytics_parts" where
  "analytics_of sr ac =
     (case ac of None \<Rightarrow> None
      | Some cfg \<Rightarrow>
          if collecting ac then Some (sr_redis sr, key_builder_of cfg, cfg, sr_start_time sr) else None)"

definition gateway_lifespan ::
    "('n, 'k, 'm, 'r, 'w, 'a, 'x, 's, 'c, 't) process_surroundings \<Rightarrow>
     ('n, 'k, 'm, 'r, 'w) pipeline_state started \<Rightarrow>
     (('n, 'k, 'm, 'r, 'w, 'a, 'x, 's) served_state, unit) prog \<Rightarrow>
     (('n, 'k, 'm, 'r, 'w, 'a, 'x, 's) served_state, unit) prog" where
  "gateway_lifespan sr st =
     (let analytics = analytics_of sr (st_analytics st) in
      around_serving (in_served (lifespan_start analytics)) (in_served (lifespan_stop analytics (sr_sdk sr))))"

definition serve_gateway ::
    "('n, 'k, 'm, 'r, 'w, 'a, 'x, 's, 'c, 't) process_surroundings \<Rightarrow>
     ('n, 'k, 'm, 'r, 'w) pipeline_state started \<Rightarrow>
     (('n, 'k, 'm, 'r, 'w, 'a, 'x, 's) served_state, unit) prog" where
  "serve_gateway sr st =
     sr_uvicorn sr (gateway_application sr st) (gateway_lifespan sr st) (st_host st) (st_port st) 5"

section \<open>The process\<close>

text \<open>\<open>atexit.register(c)\<close> before \<open>m\<close>: the handler runs when the interpreter ends, whatever \<open>m\<close> did,
  and an exception of it changes nothing.\<close>

definition at_exit :: "('w, unit) prog \<Rightarrow> ('w, 'a) prog \<Rightarrow> ('w, 'a) prog" where
  "at_exit c m = (\<lambda>w. case m w of (r, w') \<Rightarrow> (r, snd (c w')))"

definition run ::
    "('n, 'k, 'm, 'r, 'w) gateway_parts \<Rightarrow> loader_env \<Rightarrow> (string \<Rightarrow> string option) \<Rightarrow>
     (string \<times> ('o, ('n, 'k, 'm, 'r, 'w) gateway_hook, 'w event_handler) entry_point) list \<Rightarrow>
     ('n, 'k, 'm, 'r, 'w, 'a, 'x, 's, 'c, 't) process_surroundings \<Rightarrow>
     (('o, ('n, 'k, 'm, 'r, 'w) gateway_hook, 'w event_handler) plugin_world \<times>
        ('n, 'k, 'm, 'r, 'w, 'a, 'x, 's) served_state, unit) prog" where
  "run gp loader env available sr =
     bind (zoom fst (\<lambda>p w. (p, snd w)) (prepare gp loader env available)) (\<lambda>p.
       at_exit (zoom fst (\<lambda>p w. (p, snd w)) teardown_all)
         (bind (lift_res (assemble env p)) (\<lambda>st.
            zoom snd (\<lambda>v w. (fst w, v)) (serve_gateway sr st))))"

section \<open>The lifespan among the steps of a gateway in service\<close>

text \<open>Starting and stopping around the serving is no more than a change in the background: nothing
  of it asks an upstream server for a tool.\<close>

lemma served_in_served:
  assumes "served px g0 g" and "in_served m (v, g) = (r, (v', g'))"
    and "keeps (\<lambda>w. snd (sm_net (snd w)) = asked g) m"
  shows "served px g0 g'"
proof -
  obtain q c p where m: "m (ps_analytics (gw_pipeline g), gw_manager g) = (q, (c, p))" by (metis prod.collapse)
  with assms(2) have g': "g' = g\<lparr>gw_pipeline := (gw_pipeline g)\<lparr>ps_analytics := c\<rparr>, gw_auth := gw_auth g,
      gw_manager := p\<rparr>"
    by (cases g) (simp add: zoom_def)
  from keepsD [OF assms(3), of "(ps_analytics (gw_pipeline g), gw_manager g)"] m
  have "snd (sm_net p) = asked g" by simp
  with assms(1) show ?thesis unfolding g' by (rule served.Background)
qed

lemma keeps_in_collector [keeps_intros]: "keeps (\<lambda>w. I (snd w)) (in_collector m)"
  by (auto simp: keeps_def zoom_def split: prod.splits)

lemma disconnect_all_quiet:
  "keeps (\<lambda>w :: ('r, _, _) server_world. snd (sm_net (snd w)) = tr) (in_pool (disconnect_all (recording_sdk sdk)))"
proof -
  have "keeps (\<lambda>g. snd (sm_net g) = tr) (disconnect_all (recording_sdk sdk))"
    unfolding disconnect_all_def by (intro keeps_intros recorded.pop_quiet)
  then show ?thesis by (auto simp: keeps_def zoom_def split: prod.splits)
qed

theorem lifespan_is_background:
  assumes "served px g0 g"
  shows "in_served (lifespan_start analytics) (v, g) = (r, (v', g')) \<Longrightarrow> served px g0 g'"
    and "in_served (lifespan_stop analytics (recording_sdk sdk)) (v, g) = (r, (v', g')) \<Longrightarrow> served px g0 g'"
proof -
  have start: "keeps (\<lambda>w. snd (sm_net (snd w)) = asked g) (lifespan_start analytics)"
    unfolding lifespan_start_def by (auto intro!: keeps_intros split: option.split)
  show "in_served (lifespan_start analytics) (v, g) = (r, (v', g')) \<Longrightarrow> served px g0 g'"
    by (rule served_in_served [OF assms _ start])
  have stop: "keeps (\<lambda>w. snd (sm_net (snd w)) = asked g) (lifespan_stop analytics (recording_sdk sdk))"
    unfolding lifespan_stop_def
    by (intro keeps_intros disconnect_all_quiet) (auto intro!: keeps_intros split: option.split)
  show "in_served (lifespan_stop analytics (recording_sdk sdk)) (v, g) = (r, (v', g')) \<Longrightarrow> served px g0 g'"
    by (rule served_in_served [OF assms _ stop])
qed

section \<open>What the process leaves behind\<close>

lemma run_prepared:
  assumes "prepare gp loader env available w = (Inr p, w1)"
  shows "run gp loader env available sr (w, v) =
    (case (case assemble env p of Inl e \<Rightarrow> (Inl e, v) | Inr st \<Rightarrow> serve_gateway sr st v) of
       (r, v') \<Rightarrow> (r, (snd (teardown_all w1), v')))"
  using assms
  by (simp add: run_def bind_apply at_exit_def zoom_def split: sum.split prod.split)

lemma run_not_prepared:
  assumes "prepare gp loader env available w = (Inl e, w1)"
  shows "run gp loader env available sr (w, v) = (Inl e, (w1, v))"
  using assms by (simp add: run_def bind_apply zoom_def)

text \<open>The plugins of a policy.\<close>

definition declared_plugins :: "policy_config option \<Rightarrow> plugin_declaration list" where
  "declared_plugins policy = (case policy of None \<Rightarrow> [] | Some pol \<Rightarrow> pol_plugins pol)"

text \<open>A computation that, when it returns, has loaded plugins for these declarations.\<close>

definition loads ::
    "(string \<times> ('o, 'h, 'e) entry_point) list \<Rightarrow> plugin_declaration list \<Rightarrow>
     (('o, 'h, 'e) plugin_world, 'a) prog \<Rightarrow> bool" where
  "loads available ds m \<longleftrightarrow>
     (\<forall>w x w'. m w = (Inr x, w') \<longrightarrow>
        (\<exists>ps. pw_plugins w' = pw_plugins w @ ps \<and> list_all2 (loaded_from available) ds ps))"

lemma loads_basic [simp]:
  "loads available [] (ret x)" "loads available [] (lift_res q)" "loads available [] (gets f)"
  "loads available [] (in_registry m)"
  "loads available [] (modify (\<lambda>w. w\<lparr>pw_registry := g w\<rparr>))"
  by (auto simp: loads_def zoom_def split: prod.splits)

lemma loads_bind:
  assumes "loads available ds m" and "\<And>x. loads available es (f x)"
  shows "loads available (ds @ es) (bind m f)"
  unfolding loads_def
proof (intro allI impI)
  fix w y w' assume "bind m f w = (Inr y, w')"
  then obtain x w1 where m: "m w = (Inr x, w1)" and f: "f x w1 = (Inr y, w')" by (rule bind_Inr_elim)
  from assms m f obtain ps qs where
    "pw_plugins w1 = pw_plugins w @ ps" "list_all2 (loaded_from available) ds ps"
    "pw_plugins w' = pw_plugins w1 @ qs" "list_all2 (loaded_from available) es qs"
    unfolding loads_def by metis
  then show "\<exists>ps. pw_plugins w' = pw_plugins w @ ps \<and> list_all2 (loaded_from available) (ds @ es) ps"
    by (intro exI [of _ "ps @ qs"]) (simp add: list_all2_appendI)
qed

lemmas loads_after = loads_bind [where ds = "[]", simplified]
lemmas loads_before = loads_bind [where es = "[]", simplified]

lemma loads_declared:
  "loads available (declared_plugins policy) (case policy of None \<Rightarrow> ret ()
     | Some pol \<Rightarrow> if pol_plugins pol = [] then ret () else load_plugins available (pol_plugins pol))"
  using plugin_loading_is_complete [of available]
  by (auto simp: loads_def declared_plugins_def split: option.split)

lemma loads_build_pipeline:
  "loads available (declared_plugins policy) (build_pipeline gp env available file_identity policy analytics)"
proof -
  have ids: "loads available [] (case ic of None \<Rightarrow> ret () | Some c \<Rightarrow> in_registry (f c))" for ic f
    by (simp split: option.split)
  show ?thesis
    unfolding build_pipeline_def
    by (rule loads_after, simp, rule loads_after, rule ids, rule loads_after, rule ids,
        rule loads_before, rule loads_declared) (auto intro!: loads_after)
qed

lemma prepare_plugins:
  assumes "prepare gp loader env available w = (Inr p, w')"
  shows "\<exists>ps. pw_plugins w' = pw_plugins w @ ps \<and>
    list_all2 (loaded_from available) (declared_plugins (pp_policy p)) ps"
proof -
  from assms obtain ic policy ac hooks where
    built: "build_pipeline (collecting_parts gp ac) env available ic policy (collecting ac) w = (Inr hooks, w')"
    and "pp_policy p = policy"
    unfolding prepare_def by (elim bind_Inr_elim) (auto elim!: bind_Inr_elim)
  with loads_build_pipeline [of available policy "collecting_parts gp ac" env ic "collecting ac"] show ?thesis
    unfolding loads_def by blast
qed

section \<open>Plugins that record their end\<close>

definition closing_plugin :: "nat \<Rightarrow> (nat list, 'h, 'e) plugin" where
  "closing_plugin k = (base_plugin ''Closing'')\<lparr>pn_teardown := modify (\<lambda>ks. ks @ [k])\<rparr>"

definition closing_available :: "(string \<times> (nat list, 'h, 'e) entry_point) list" where
  "closing_available =
     [(''one'', ret (ret (Inr (closing_plugin 1)))), (''two'', ret (ret (Inr (closing_plugin 2))))]"

text \<open>The sample policy file without its identity section, with the two plugins; so a start under
  strict security is refused after they were loaded.\<close>

definition closing_loader :: loader_env where
  "closing_loader = sample_loader_env\<lparr>le_yaml_load := (\<lambda>_. Inr (PDict (take 3 sample_policy_data @
     [(''logging'', PDict [(''include'', PList [PStr ''tool_name''])]),
      (''plugins'', PList [PDict [(''name'', PStr ''one'')], PDict [(''name'', PStr ''two'')]])])))\<rparr>"

definition closing_declaration :: "string \<Rightarrow> plugin_declaration" where
  "closing_declaration name =
     \<lparr>pd_name = PStr name, pd_package = PStr name, pd_config = PDict [], pd_priority = PNone\<rparr>"

definition closing_policy :: policy_config where
  "closing_policy = strict_policy
     \<lparr>pol_identity := None,
      pol_plugins := [closing_declaration ''one'', closing_declaration ''two'']\<rparr>"

definition closing_world :: "(nat list, 'h, 'e) plugin_world" where
  "closing_world = \<lparr>pw_objects = [], pw_registry = new_registry, pw_bus = [], pw_plugins = []\<rparr>"

lemma loaded_closing:
  "\<forall>d q. loaded_from closing_available d q \<longrightarrow> ordinary (pn_teardown q)"
  by (auto simp: loaded_from_def closing_available_def closing_plugin_def base_plugin_def ordinary_def
      split: if_splits)

type_synonym sample_state = "(nat, string, (unit, unit) presidio_state, unit, unit) pipeline_state"

lemma closing_load:
  "load_policy_and_configs closing_loader strict_env = Inr (strict_configs, None, Some closing_policy)"
  by code_simp

lemma closing_registers:
  "load_and_register closing_available (closing_declaration ''one'') w =
     (Inr (), w\<lparr>pw_plugins := pw_plugins w @ [closing_plugin 1]\<rparr>)"
  "load_and_register closing_available (closing_declaration ''two'') w =
     (Inr (), w\<lparr>pw_plugins := pw_plugins w @ [closing_plugin 2]\<rparr>)"
  by (simp_all add: load_and_register_def load_one_def closing_declaration_def entry_point_name_def
      closing_available_def prog_simps zoom_def closing_plugin_def base_plugin_def accept_plugin_def
      wrap_load_error_def)

lemma closing_start:
  defines "l \<equiv> \<lparr>rl_handlers = [Json_Lines], rl_level = ''INFO''\<rparr>"
  shows "startup_logging strict_env (gp_stdout_tty sample_parts) = Inr l"
    and "apply_logging strict_env (gp_stdout_tty sample_parts) (Some closing_policy) l = Inr l"
    and "build_analytics_config (le_uuid_hex closing_loader) strict_env (Some closing_policy) = Inr None"
    and "effective_identity strict_env None = Inr None"
    and "pol_plugins closing_policy = [closing_declaration ''one'', closing_declaration ''two'']"
    and "lc_include (pol_logging closing_policy) = PList [PStr ''tool_name'']"
  unfolding l_def by (code_simp, code_simp, code_simp, code_simp, simp add: closing_policy_def, code_simp)

lemma closing_prepared:
  "\<exists>(p :: sample_state preparation) w1. prepare sample_parts closing_loader strict_env closing_available closing_world = (Inr p, w1) \<and>
     pp_policy p = Some closing_policy \<and> pw_objects w1 = [] \<and> assemble strict_env p = Inl (SystemExit 78)"
proof -
  have flags: "is_strict_security strict_env" "getenv strict_env ''OKTA_ISSUER'' [] = []" by code_simp+
  have "\<exists>(hs :: sample_state hook list option) w1. build_pipeline sample_parts strict_env closing_available None (Some closing_policy) False
      closing_world = (Inr hs, w1) \<and> pw_objects w1 = [] \<and> hs \<noteq> None"
    by (simp add: build_pipeline_def closing_start load_plugins_def closing_registers prog_simps zoom_def
        register_def closing_world_def new_registry_def make_audit_config_def build_def get_hooks_def)
  then obtain hs :: "sample_state hook list option" and w1 where built: "build_pipeline sample_parts strict_env closing_available None
      (Some closing_policy) False closing_world = (Inr hs, w1)" and w1: "pw_objects w1 = []" and hs: "hs \<noteq> None"
    by blast
  let ?p = "\<lparr>pp_configs = strict_configs, pp_identity = None, pp_policy = Some closing_policy,
    pp_logging = \<lparr>rl_handlers = [Json_Lines], rl_level = ''INFO''\<rparr>, pp_analytics = None, pp_hooks = hs\<rparr>"
  have "prepare sample_parts closing_loader strict_env closing_available closing_world = (Inr ?p, w1)"
    by (simp add: prepare_def closing_start closing_load bind_apply collecting_def collecting_parts_def built)
  moreover have "assemble strict_env ?p = Inl (SystemExit 78)"
    using hs by (simp add: assemble_def startup_guards_def identity_enabled_def flags Let_def)
  ultimately show ?thesis using w1 by (intro exI [of _ ?p] exI [of _ w1]) simp
qed

lemma closing_world_fresh: "pw_plugins closing_world = []"
  by (simp add: closing_world_def)

definition idle_surroundings ::
    "(nat, string, (unit, unit) presidio_state, unit, unit, nat, nat \<times> (string \<times> pyval) list, endpoint,
      unit, unit)
       process_surroundings" where
  "idle_surroundings =
     \<lparr>sr_now = (\<lambda>_. 0), sr_start_time = 0, sr_redis = \<lparr>re_import = Inr (), re_connect = (\<lambda>_. ret ()), re_pipeline = (\<lambda>_. ret ()), re_close = ret ()\<rparr>, sr_obo = toy_obo_env, sr_obo_wait = id,
      sr_sdk = recording_sdk toy_sdk,
      sr_inbound = (\<lambda>_. \<lparr>ib_handle_request = (\<lambda>_. ret ()), ib_connect_sse = (\<lambda>_. ret ((), (), ())),
        ib_leave_sse = (\<lambda>_. lift_res), ib_run_server = (\<lambda>_ _. ret ()),
        ib_handle_post_message = (\<lambda>_. ret ()), ib_not_found = (\<lambda>_. ret ())\<rparr>),
      sr_matches = starlette_matches, sr_cors_middleware = (\<lambda>_ app. app),
      sr_uvicorn = (\<lambda>app life host port grace. life (ret ()))\<rparr>"

section \<open>Properties\<close>

text \<open>C16: the process tears its plugins down. Once the preparation succeeded, however the process
  ends, refused by a guard, by an exception, or after serving, the plugins of the policy, which are
  all loaded, are torn down exactly once and in reverse order, on the state that loading left; and a
  start that is refused never serves. (An error while preparing is different, see below.)\<close>

theorem process_tears_plugins_down:
  assumes "prepare gp loader env available w = (Inr p, w1)" and "pw_plugins w = []"
    and "\<forall>d q. loaded_from available d q \<longrightarrow> ordinary (pn_teardown q)"
    and "run gp loader env available sr (w, v) = (r, (w2, v2))"
  shows "\<exists>ps. list_all2 (loaded_from available) (declared_plugins (pp_policy p)) ps \<and>
    pw_objects w2 = fold (\<lambda>q. snd \<circ> pn_teardown q) (rev ps) (pw_objects w1) \<and>
    (\<forall>e. assemble env p = Inl e \<longrightarrow> r = Inl e \<and> v2 = v)"
proof -
  from prepare_plugins [OF assms(1)] assms(2) obtain ps where ps: "pw_plugins w1 = ps"
    and loaded: "list_all2 (loaded_from available) (declared_plugins (pp_policy p)) ps" by auto
  from loaded assms(3) have "\<forall>q \<in> set ps. ordinary (pn_teardown q)"
    by (metis in_set_conv_nth list_all2_nthD2)
  with ps have "pw_objects (snd (teardown_all w1)) =
      fold (\<lambda>q. snd \<circ> pn_teardown q) (rev ps) (pw_objects w1)"
    by (simp add: plugins_torn_down_in_reverse)
  with assms(4) loaded show ?thesis
    unfolding run_prepared [OF assms(1)] by (intro exI [of _ ps]) (auto split: prod.splits)
qed

theorem process_tears_plugins_down_witness:
  "pw_objects (fst (snd (run sample_parts closing_loader strict_env closing_available idle_surroundings
      (closing_world, [], strict_gateway)))) = [2, 1] \<and>
   fst (run sample_parts closing_loader strict_env closing_available idle_surroundings (closing_world, [], strict_gateway)) =
     Inl (SystemExit 78)"
proof -
  let ?run = "run sample_parts closing_loader strict_env closing_available idle_surroundings (closing_world, [], strict_gateway)"
  from closing_prepared obtain p :: "sample_state preparation" and w1 where
    prep: "prepare sample_parts closing_loader strict_env closing_available closing_world = (Inr p, w1)"
    and pol: "pp_policy p = Some closing_policy" and w1: "pw_objects w1 = []"
    and refused: "assemble strict_env p = Inl (SystemExit 78)" by blast
  have "?run = (fst ?run, (fst (snd ?run), snd (snd ?run)))" by simp
  from process_tears_plugins_down [OF prep closing_world_fresh loaded_closing this] refused
  obtain ps :: "(nat list, sample_state hook, unit event_handler) plugin list" where
    ps: "list_all2 (loaded_from closing_available) (declared_plugins (pp_policy p)) ps"
    and objs: "pw_objects (fst (snd ?run)) = fold (\<lambda>q. snd \<circ> pn_teardown q) (rev ps) (pw_objects w1)"
    and r: "fst ?run = Inl (SystemExit 78)" by blast
  have "declared_plugins (pp_policy p) = [closing_declaration ''one'', closing_declaration ''two'']"
    by (simp add: pol declared_plugins_def closing_policy_def)
  with ps have "ps = [closing_plugin 1, closing_plugin 2]"
    by (auto simp: list_all2_Cons1 loaded_from_def closing_declaration_def entry_point_name_def
        closing_available_def split: if_splits)
  with objs w1 r show ?thesis by (simp add: closing_plugin_def)
qed

text \<open>The handler is registered after the pipeline was built. So when the second plugin of a policy
  cannot be loaded, the first one, which was loaded and configured, is not torn down.\<close>

lemma closing_second_missing:
  fixes w :: "(nat list, 'h, 'e) plugin_world"
  shows "load_and_register [hd closing_available] (closing_declaration ''one'') w =
      (Inr (), w\<lparr>pw_plugins := pw_plugins w @ [closing_plugin 1]\<rparr>)"
    and "load_and_register [hd closing_available] (closing_declaration ''two'') w =
      (Inl (not_available (closing_declaration ''two'') (PStr ''two'') [''one'']), w)"
  by (simp_all add: load_and_register_def load_one_def closing_declaration_def entry_point_name_def
      closing_available_def prog_simps zoom_def closing_plugin_def base_plugin_def accept_plugin_def
      wrap_load_error_def available_plugins_def Let_def)

theorem load_error_skips_tear_down:
  "\<exists>w1. run sample_parts closing_loader strict_env [hd closing_available] sr (closing_world, v) =
     (Inl (not_available (closing_declaration ''two'') (PStr ''two'') [''one'']), (w1, v)) \<and>
   pw_plugins w1 = [closing_plugin 1] \<and> pw_objects w1 = []"
proof -
  let ?e = "not_available (closing_declaration ''two'') (PStr ''two'') [''one'']"
  have "\<exists>w1. prepare sample_parts closing_loader strict_env [hd closing_available] closing_world = (Inl ?e, w1) \<and>
      pw_objects w1 = [] \<and> pw_plugins w1 = [closing_plugin 1]"
    by (simp add: prepare_def closing_load collecting_def collecting_parts_def build_pipeline_def
        closing_start load_plugins_def closing_second_missing prog_simps zoom_def register_def
        closing_world_def new_registry_def)
  then show ?thesis using run_not_prepared by blast
qed

end
