(* ===== verification/Repo_Filter.thy ===== *)
theory Repo_Filter
  imports Plugins "HOL-Library.Sublist"
begin

text \<open>
  \<open>plugins/github_repo_filter.py\<close>: the plugin that keeps requests and responses to allowed GitHub
  repositories. The two regular expressions and \<open>fnmatch\<close> are written out as functions;
  \<open>json.loads\<close> and \<open>json.dumps\<close> are the arguments \<open>loads\<close> and \<open>dumps\<close>. Log records are left
  out.
\<close>

section \<open>fnmatch\<close>

text \<open>What is between the brackets of a pattern: single characters and ranges.\<close>

fun class_items :: "string \<Rightarrow> (char \<times> char) list" where
  "class_items (a # b # c # cs) =
     (if b = CHR ''-'' then (a, c) # class_items cs else (a, a) # class_items (b # c # cs))"
| "class_items [a, b] = [(a, a), (b, b)]"
| "class_items [a] = [(a, a)]"
| "class_items [] = []"

definition in_class :: "string \<Rightarrow> char \<Rightarrow> bool" where
  "in_class body c =
     (let neg = (body \<noteq> [] \<and> hd body = CHR ''!'');
          items = class_items (if neg then tl body else body)
      in (\<exists>(a, b) \<in> set items. (of_char a :: nat) \<le> of_char c \<and> (of_char c :: nat) \<le> of_char b) \<noteq> neg)"

text \<open>The text after a \<open>[\<close> up to the bracket that closes it, and the rest. A \<open>]\<close> right at the
  start, or after \<open>!\<close>, does not close it.\<close>

definition split_class :: "string \<Rightarrow> (string \<times> string) option" where
  "split_class p =
     (let i = (if p \<noteq> [] \<and> hd p = CHR ''!'' then 1 else 0);
          j = (if i < length p \<and> p ! i = CHR '']'' then i + 1 else i);
          body = takeWhile (\<lambda>c. c \<noteq> CHR '']'') (drop j p);
          rest = dropWhile (\<lambda>c. c \<noteq> CHR '']'') (drop j p)
      in if rest = [] then None else Some (take j p @ body, tl rest))"

lemma split_class_shorter [termination_simp]:
  assumes "split_class p = Some (body, rest)"
  shows "length rest < length p"
proof -
  have le: "length (dropWhile P (drop j p)) \<le> length p" for P j
    using length_dropWhile_le [of P "drop j p"] by simp
  define j where "j = (let i = (if p \<noteq> [] \<and> hd p = CHR ''!'' then 1 else 0 :: nat)
    in if i < length p \<and> p ! i = CHR '']'' then i + 1 else i)"
  from assms have "dropWhile (\<lambda>c. c \<noteq> CHR '']'') (drop j p) \<noteq> []"
    and rest: "rest = tl (dropWhile (\<lambda>c. c \<noteq> CHR '']'') (drop j p))"
    unfolding split_class_def Let_def j_def by (simp_all only: option.inject prod.inject option.distinct split: if_split_asm)
  then have "length rest < length (dropWhile (\<lambda>c. c \<noteq> CHR '']'') (drop j p))" by simp
  also have "\<dots> \<le> length p" by (rule le)
  finally show ?thesis .
qed

function fnmatch :: "string \<Rightarrow> string \<Rightarrow> bool" where
  "fnmatch [] s = (s = [])"
| "fnmatch (c # p) s =
     (if c = CHR ''*'' then fnmatch p s \<or> (case s of [] \<Rightarrow> False | _ # xs \<Rightarrow> fnmatch (c # p) xs)
      else
        case s of [] \<Rightarrow> False
        | x # xs \<Rightarrow>
            if c = CHR ''?'' then fnmatch p xs
            else
              case (if c = CHR ''['' then split_class p else None) of
                None \<Rightarrow> x = c \<and> fnmatch p xs
              | Some (body, rest) \<Rightarrow> in_class body x \<and> fnmatch rest xs)"
  by pat_completeness auto
termination
  by (relation "measure (\<lambda>(p, s). length p + length s)")
    (auto dest: split_class_shorter split: if_splits)

section \<open>The regular expressions\<close>

text \<open>\<open>github\.com/([^/]+/[^/\s?#]+)\<close>: the group at the start of a text, and by search.\<close>

definition name_char :: "char \<Rightarrow> bool" where
  "name_char c \<longleftrightarrow> c \<noteq> CHR ''/'' \<and> \<not> is_space c \<and> c \<noteq> CHR ''?'' \<and> c \<noteq> CHR ''#''"

definition github_url_at :: "string \<Rightarrow> string option" where
  "github_url_at s =
     (if \<not> prefix ''github.com/'' s then None
      else
        let t = drop 11 s;
            owner = takeWhile (\<lambda>c. c \<noteq> CHR ''/'') t;
            rest = dropWhile (\<lambda>c. c \<noteq> CHR ''/'') t;
            repo = takeWhile name_char (tl rest)
        in if owner = [] \<or> rest = [] \<or> repo = [] then None else Some (owner @ ''/'' @ repo))"

fun github_url :: "string \<Rightarrow> string option" where
  "github_url [] = None"
| "github_url (c # cs) = (case github_url_at (c # cs) of Some r \<Rightarrow> Some r | None \<Rightarrow> github_url cs)"

text \<open>Word characters: letters, digits and the underscore, in Latin-1.\<close>

definition word_char :: "char \<Rightarrow> bool" where
  "word_char c =
     (let n = (of_char c :: nat)
      in 48 \<le> n \<and> n \<le> 57 \<or> 65 \<le> n \<and> n \<le> 90 \<or> n = 95 \<or> 97 \<le> n \<and> n \<le> 122 \<or>
         n \<in> {170, 178, 179, 181, 185, 186, 188, 189, 190} \<or>
         192 \<le> n \<and> n \<noteq> 215 \<and> n \<noteq> 247)"

text \<open>\<open>\brepo:([^\s]+)\<close> with \<open>IGNORECASE\<close>, by \<open>finditer\<close>: \<open>inword\<close> tells whether the previous
  character is a word character. A match takes all up to the next white space.\<close>

fun query_repos :: "bool \<Rightarrow> string \<Rightarrow> string list" where
  "query_repos inword [] = []"
| "query_repos inword (c # cs) =
     (let q = takeWhile (\<lambda>x. \<not> is_space x) (drop 5 (c # cs))
      in if \<not> inword \<and> map lower_char (take 5 (c # cs)) = ''repo:'' \<and> q \<noteq> []
         then q # query_repos (word_char (last q)) (drop (5 + length q) (c # cs))
         else query_repos (word_char c) cs)"

section \<open>The hook\<close>

definition list_tool_names :: "string list" where
  "list_tool_names =
     [''search_code'', ''search_repositories'', ''search_issues'', ''search_users'', ''list_issues'',
      ''list_pull_requests'', ''list_commits'', ''list_branches'', ''list_tags'',
      ''list_code_scanning_alerts'', ''list_secret_scanning_alerts'', ''list_notifications'']"

definition single_result_tools :: "string list" where
  "single_result_tools =
     [''get_file_contents'', ''get_issue'', ''get_pull_request'', ''get_pull_request_diff'',
      ''get_pull_request_files'', ''get_pull_request_reviews'', ''get_pull_request_comments'',
      ''get_pull_request_status'', ''get_issue_comments'', ''get_commit'', ''get_tag'',
      ''get_code_scanning_alert'', ''get_secret_scanning_alert'', ''get_notification_details'',
      ''create_issue'', ''create_pull_request'', ''create_branch'', ''create_or_update_file'',
      ''update_pull_request'', ''add_issue_comment'', ''merge_pull_request'', ''push_files'',
      ''fork_repository'', ''create_repository'']"

record repo_filter =
  rf_mode :: string
  rf_repos :: "string list"
  rf_servers :: "pyval list option"

definition matches_repo :: "repo_filter \<Rightarrow> string \<Rightarrow> bool" where
  "matches_repo f name \<longleftrightarrow> (\<exists>p \<in> set (rf_repos f). fnmatch (lower p) (lower name))"

definition should_keep :: "repo_filter \<Rightarrow> string \<Rightarrow> bool" where
  "should_keep f name =
     (if rf_mode f = ''allowlist'' then matches_repo f name else \<not> matches_repo f name)"

definition check_repo :: "repo_filter \<Rightarrow> string \<Rightarrow> string \<Rightarrow> unit res" where
  "check_repo f full_repo display_name =
     (let label = (if display_name = [] then full_repo else display_name) in
      if rf_mode f = ''allowlist'' \<and> \<not> matches_repo f full_repo then
        Inl (ShortCircuitError (''Repository '' @ quoted label @ '' is not in the allowlist'') True)
      else if rf_mode f = ''blocklist'' \<and> matches_repo f full_repo then
        Inl (ShortCircuitError (''Repository '' @ quoted label @ '' is blocked'') True)
      else Inr ())"

text \<open>A value that is a string with a slash.\<close>

definition slashed :: "pyval \<Rightarrow> string option" where
  "slashed v = (case v of PStr s \<Rightarrow> if CHR ''/'' \<in> set s then Some s else None | _ \<Rightarrow> None)"

definition first_url :: "pydict \<Rightarrow> string list \<Rightarrow> string list" where
  "first_url d keys =
     concat (map (\<lambda>k. case dict_get d k (PStr []) of
                        PStr url \<Rightarrow> (case github_url url of Some r \<Rightarrow> [r] | None \<Rightarrow> [])
                      | _ \<Rightarrow> []) keys)"

definition extract_repo_from_item :: "pydict \<Rightarrow> string option" where
  "extract_repo_from_item d =
     (case slashed (dict_get d ''full_name'' PNone) of
        Some s \<Rightarrow> Some s
      | None \<Rightarrow>
          (case (case dict_get d ''repository'' PNone of
                   PDict r \<Rightarrow> slashed (dict_get r ''full_name'' PNone)
                 | _ \<Rightarrow> None) of
             Some s \<Rightarrow> Some s
           | None \<Rightarrow>
               (case (dict_get d ''owner'' PNone, dict_get d ''name'' PNone) of
                  (PDict owner, PStr name) \<Rightarrow>
                    (case dict_get owner ''login'' PNone of
                       PStr login \<Rightarrow> Some (login @ ''/'' @ name)
                     | _ \<Rightarrow> (case first_url d [''repository_url'', ''html_url'', ''url''] of
                               [] \<Rightarrow> None | r # _ \<Rightarrow> Some r))
                | _ \<Rightarrow> (case first_url d [''repository_url'', ''html_url'', ''url''] of
                          [] \<Rightarrow> None | r # _ \<Rightarrow> Some r))))"

definition extract_repos_from_arguments :: "pydict \<Rightarrow> string list" where
  "extract_repos_from_arguments d =
     (let owner = dict_get d ''owner'' PNone;
          repo = dict_get d ''repo'' PNone;
          query = (let q = dict_get d ''query'' PNone in if truthy q then q else dict_get d ''q'' PNone)
      in (if truthy owner \<and> truthy repo then [py_str owner @ ''/'' @ py_str repo] else []) @
         (case slashed (dict_get d ''repository'' PNone) of Some s \<Rightarrow> [s] | None \<Rightarrow> []) @
         (case query of PStr s \<Rightarrow> filter (\<lambda>q. CHR ''/'' \<in> set q) (query_repos False s) | _ \<Rightarrow> []) @
         first_url d [''url'', ''html_url''])"

definition in_scope :: "repo_filter \<Rightarrow> string \<Rightarrow> bool" where
  "in_scope f srv =
     (case rf_servers f of None \<Rightarrow> True | Some ss \<Rightarrow> ss = [] \<or> (\<exists>s \<in> set ss. py_eq (PStr srv) s))"

definition filter_post_validation :: "repo_filter \<Rightarrow> hook_context \<Rightarrow> hook_context res" where
  "filter_post_validation f ctx =
     (if \<not> in_scope f (server_name ctx) then Inr ctx
      else case dict_get (request_payload ctx) ''arguments'' (PDict []) of
        PDict arguments \<Rightarrow>
          res_bind (each_res (\<lambda>r. check_repo f (lower r) r) (extract_repos_from_arguments arguments))
            (\<lambda>_. Inr ctx)
      | _ \<Rightarrow> Inr ctx)"

section \<open>Filtering responses\<close>

definition policy_message :: "string \<Rightarrow> pyval" where
  "policy_message s = PDict [(''type'', PStr ''text''), (''text'', PStr s)]"

fun keep_entry :: "repo_filter \<Rightarrow> pyval \<Rightarrow> bool" where
  "keep_entry f (PDict d) =
     (case extract_repo_from_item d of None \<Rightarrow> True | Some r \<Rightarrow> should_keep f r)"
| "keep_entry f v = True"

definition filter_list_response ::
    "(pyval \<Rightarrow> string) \<Rightarrow> repo_filter \<Rightarrow> pyval \<Rightarrow> pyval \<Rightarrow> pyval option" where
  "filter_list_response dumps f parsed content_item =
     (case parsed of
        PList items \<Rightarrow>
          (let kept = filter (keep_entry f) items in
           if kept = [] then None else Some (policy_message (dumps (PList kept))))
      | PDict d \<Rightarrow>
          (let kept = filter (keep_entry f) [PDict d] in
           if kept = [] then None else Some (policy_message (dumps (hd kept))))
      | _ \<Rightarrow> Some content_item)"

definition check_single_result_response :: "repo_filter \<Rightarrow> pyval \<Rightarrow> bool" where
  "check_single_result_response f parsed =
     (case parsed of
        PDict d \<Rightarrow> (case extract_repo_from_item d of None \<Rightarrow> True | Some r \<Rightarrow> should_keep f r)
      | _ \<Rightarrow> True)"

fun is_parse_error :: "exn \<Rightarrow> bool" where
  "is_parse_error (OtherException c _) = (c = ''JSONDecodeError'')"
| "is_parse_error (TypeError _) = True"
| "is_parse_error _ = False"

definition is_text_item :: "pyval \<Rightarrow> pydict option" where
  "is_text_item item =
     (case item of PDict d \<Rightarrow> if dict_get d ''type'' PNone = PStr ''text'' then Some d else None | _ \<Rightarrow> None)"

text \<open>The loop over the content items: it continues with the items kept so far, or returns with
  one policy message.\<close>

definition fail_closed_content :: "string \<Rightarrow> pyval list" where
  "fail_closed_content reason = [policy_message (''Response filtered: '' @ reason)]"

fun filter_content ::
    "(pyval \<Rightarrow> pyval res) \<Rightarrow> (pyval \<Rightarrow> string) \<Rightarrow> repo_filter \<Rightarrow> string \<Rightarrow> pyval list \<Rightarrow> pyval list \<Rightarrow>
     pyval list res" where
  "filter_content loads dumps f tool [] kept =
     Inr (if kept = [] then [policy_message ''All results were filtered by repository policy.''] else kept)"
| "filter_content loads dumps f tool (item # items) kept =
     (case is_text_item item of
        None \<Rightarrow> filter_content loads dumps f tool items (kept @ [item])
      | Some d \<Rightarrow>
          (case loads (dict_get d ''text'' (PStr [])) of
             Inl e \<Rightarrow>
               if is_parse_error e then
                 Inr (fail_closed_content ''unable to parse response for repository filtering.'')
               else Inl e
           | Inr parsed \<Rightarrow>
               if tool \<in> set list_tool_names then
                 filter_content loads dumps f tool items
                   (kept @ (case filter_list_response dumps f parsed item of None \<Rightarrow> [] | Some r \<Rightarrow> [r]))
               else if tool \<in> set single_result_tools \<and> \<not> check_single_result_response f parsed then
                 Inr [policy_message ''Response blocked by repository policy.'']
               else filter_content loads dumps f tool items (kept @ [item])))"

definition filter_post_masking ::
    "(pyval \<Rightarrow> pyval res) \<Rightarrow> (pyval \<Rightarrow> string) \<Rightarrow> repo_filter \<Rightarrow> hook_context \<Rightarrow> hook_context res" where
  "filter_post_masking loads dumps f ctx =
     (if \<not> in_scope f (server_name ctx) then Inr ctx
      else if tool_name ctx \<notin> set list_tool_names \<union> set single_result_tools then Inr ctx
      else case dict_get (response_payload ctx) ''content'' (PList []) of
        PList content \<Rightarrow>
          res_bind (filter_content loads dumps f (tool_name ctx) content []) (\<lambda>filtered.
            Inr (ctx\<lparr>response_payload :=
                   dict_set ''content'' (PList filtered) (response_payload ctx)\<rparr>))
      | _ \<Rightarrow> Inr ctx)"

definition repo_filter_hook ::
    "(pyval \<Rightarrow> pyval res) \<Rightarrow> (pyval \<Rightarrow> string) \<Rightarrow> repo_filter \<Rightarrow> 'w hook" where
  "repo_filter_hook loads dumps f =
     (base_hook ''GitHubRepoFilterHook'')
       \<lparr>h_post_validation := (\<lambda>ctx. lift_res (filter_post_validation f ctx)),
        h_post_masking := (\<lambda>ctx. lift_res (filter_post_masking loads dumps f ctx))\<rparr>"

section \<open>The plugin\<close>

record repo_plugin_state =
  rps_filter :: repo_filter
  rps_priority :: int

definition new_repo_plugin :: repo_plugin_state where
  "new_repo_plugin =
     \<lparr>rps_filter = \<lparr>rf_mode = [], rf_repos = [], rf_servers = None\<rparr>, rps_priority = 55\<rparr>"

fun check_repo_entries :: "pyval list \<Rightarrow> string list res" where
  "check_repo_entries [] = Inr []"
| "check_repo_entries (v # vs) =
     (case slashed v of
        None \<Rightarrow> Inl (ValueError (''github-repo-filter plugin: each repo must be a string containing '' @
                  quoted ''/'' @ '', got '' @ py_repr v))
      | Some s \<Rightarrow> res_bind (check_repo_entries vs) (\<lambda>ss. Inr (s # ss)))"

definition set_filter :: "(repo_filter \<Rightarrow> repo_filter) \<Rightarrow> (repo_plugin_state, unit) prog" where
  "set_filter g = modify (\<lambda>s. s\<lparr>rps_filter := g (rps_filter s)\<rparr>)"

definition repo_configure :: "pyval \<Rightarrow> (repo_plugin_state, unit) prog" where
  "repo_configure config =
     bind (lift_res (py_get config ''mode'' (PStr []))) (\<lambda>mode.
       if mode \<notin> {PStr ''allowlist'', PStr ''blocklist''} then
         raise (ValueError (''github-repo-filter plugin requires '' @ quoted ''mode'' @ '' to be '' @
           quoted ''allowlist'' @ '' or '' @ quoted ''blocklist'' @ '', got '' @ py_repr mode))
       else
         bind (set_filter (\<lambda>f. f\<lparr>rf_mode := py_str mode\<rparr>)) (\<lambda>_.
         bind (lift_res (py_get config ''repos'' (PList []))) (\<lambda>repos.
         bind (lift_res (case repos of
                 PList (r # rs) \<Rightarrow> check_repo_entries (r # rs)
               | _ \<Rightarrow> Inl (ValueError (''github-repo-filter plugin requires a non-empty '' @
                             quoted ''repos'' @ '' list in config'')))) (\<lambda>names.
         bind (set_filter (\<lambda>f. f\<lparr>rf_repos := names\<rparr>)) (\<lambda>_.
         bind (lift_res (py_get config ''servers'' PNone)) (\<lambda>servers.
         bind (case servers of
                 PNone \<Rightarrow> ret ()
               | PList ss \<Rightarrow> set_filter (\<lambda>f. f\<lparr>rf_servers := Some ss\<rparr>)
               | _ \<Rightarrow> raise (ValueError (''github-repo-filter plugin: '' @ quoted ''servers'' @
                               '' must be a list of strings''))) (\<lambda>_.
           case config of
             PDict d \<Rightarrow>
               (case map_of d ''priority'' of
                  None \<Rightarrow> ret ()
                | Some p \<Rightarrow> bind (lift_res (py_int p)) (\<lambda>n. modify (\<lambda>s. s\<lparr>rps_priority := n\<rparr>)))
           | _ \<Rightarrow> ret ())))))))"

definition repo_register ::
    "(repo_filter \<Rightarrow> 'h) \<Rightarrow> (repo_plugin_state \<times> 'h registry, unit) prog" where
  "repo_register mk =
     bind (gets fst) (\<lambda>s.
       zoom snd (\<lambda>r w. (fst w, r)) (register (rps_priority s) (mk (rps_filter s))))"

definition repo_filter_plugin :: "(repo_filter \<Rightarrow> 'h) \<Rightarrow> (repo_plugin_state, 'h, 'e) plugin" where
  "repo_filter_plugin mk =
     (base_plugin ''GitHubRepoFilterPlugin'')
       \<lparr>pn_name := ''github-repo-filter'', pn_configure := repo_configure,
        pn_register := repo_register mk\<rparr>"

section \<open>The language of a pattern\<close>

text \<open>A pattern stands for a sequence of parts: any text, or one character of a set.\<close>

datatype glob = Any_Text | One_Of "char \<Rightarrow> bool"

function glob_parts :: "string \<Rightarrow> glob list" where
  "glob_parts [] = []"
| "glob_parts (c # p) =
     (if c = CHR ''*'' then Any_Text # glob_parts p
      else if c = CHR ''?'' then One_Of (\<lambda>_. True) # glob_parts p
      else
        case (if c = CHR ''['' then split_class p else None) of
          None \<Rightarrow> One_Of (\<lambda>x. x = c) # glob_parts p
        | Some (body, rest) \<Rightarrow> One_Of (in_class body) # glob_parts rest)"
  by pat_completeness auto
termination
  by (relation "measure length") (auto dest: split_class_shorter split: if_splits)

primrec glob_language :: "glob list \<Rightarrow> string set" where
  "glob_language [] = {[]}"
| "glob_language (g # gs) =
     (case g of
        Any_Text \<Rightarrow> {a @ b | a b. b \<in> glob_language gs}
      | One_Of P \<Rightarrow> {x # b | x b. P x \<and> b \<in> glob_language gs})"

lemma any_text_step:
  "s \<in> {a @ b | a b. b \<in> L} \<longleftrightarrow> s \<in> L \<or> (case s of [] \<Rightarrow> False | x # xs \<Rightarrow> xs \<in> {a @ b | a b. b \<in> L})"
proof (cases s)
  case (Cons x xs)
  have "x # xs = a @ b \<longleftrightarrow> (a = [] \<and> b = x # xs) \<or> (\<exists>a'. a = x # a' \<and> xs = a' @ b)" for a b
    by (cases a) auto
  with Cons show ?thesis by auto
qed simp

lemma fnmatch_parts: "fnmatch p s \<longleftrightarrow> s \<in> glob_language (glob_parts p)"
proof (induction p s rule: fnmatch.induct)
  case (2 c p s)
  show ?case
  proof (cases "c = CHR ''*''")
    case True
    with 2 any_text_step [of s "glob_language (glob_parts p)"] show ?thesis
      by (auto split: list.split)
  next
    case False
    with 2 show ?thesis by (cases s) (auto split: option.splits prod.splits if_splits)
  qed
qed simp

section \<open>What passes\<close>

lemma lower_char_idem: "lower_char (lower_char c) = lower_char c"
proof -
  have "(of_char c :: nat) < 256" by simp
  then show ?thesis by (auto simp: lower_char_def Let_def)
qed

lemma matches_lower [simp]: "matches_repo f (lower r) = matches_repo f r"
  by (simp add: matches_repo_def lower_def comp_def lower_char_idem)

lemma check_repo_cases:
  assumes "rf_mode f \<in> {''allowlist'', ''blocklist''}"
  shows "if should_keep f r then check_repo f (lower r) r = Inr ()
    else \<exists>reason. check_repo f (lower r) r = Inl (ShortCircuitError reason True)"
  using assms by (auto simp: check_repo_def should_keep_def)

lemma check_repos_cases:
  assumes "rf_mode f \<in> {''allowlist'', ''blocklist''}"
  shows "if \<forall>r \<in> set rs. should_keep f r then each_res (\<lambda>r. check_repo f (lower r) r) rs = Inr ()
    else \<exists>reason. each_res (\<lambda>r. check_repo f (lower r) r) rs = Inl (ShortCircuitError reason True)"
proof (induction rs)
  case (Cons r rs)
  with check_repo_cases [OF assms, of r] show ?case by (auto split: if_splits)
qed simp

text \<open>What an agent may see: no entry of a list, and no single result, names a repository that is
  not to be kept.\<close>

definition clean_response :: "repo_filter \<Rightarrow> string \<Rightarrow> pyval \<Rightarrow> bool" where
  "clean_response f tool v \<longleftrightarrow>
     (case v of
        PList items \<Rightarrow> tool \<in> set list_tool_names \<longrightarrow> (\<forall>e \<in> set items. keep_entry f e)
      | _ \<Rightarrow> keep_entry f v)"

text \<open>Reading back what was written gives the value, for the values that the filter writes.\<close>

definition json_round :: "(pyval \<Rightarrow> pyval res) \<Rightarrow> (pyval \<Rightarrow> string) \<Rightarrow> bool" where
  "json_round loads dumps \<longleftrightarrow>
     (\<forall>t v. loads t = Inr v \<longrightarrow>
        (case v of
           PList vs \<Rightarrow> \<forall>ws. subseq ws vs \<longrightarrow> loads (PStr (dumps (PList ws))) = Inr (PList ws)
         | _ \<Rightarrow> loads (PStr (dumps v)) = Inr v))"

definition policy_texts :: "string list" where
  "policy_texts =
     [''All results were filtered by repository policy.'', ''Response blocked by repository policy.'',
      ''Response filtered: '' @ ''unable to parse response for repository filtering.'']"

definition clean_item :: "(pyval \<Rightarrow> pyval res) \<Rightarrow> repo_filter \<Rightarrow> string \<Rightarrow> pyval \<Rightarrow> bool" where
  "clean_item loads f tool item \<longleftrightarrow>
     (\<forall>d. is_text_item item = Some d \<longrightarrow>
        (\<exists>msg \<in> set policy_texts. item = policy_message msg) \<or>
        (\<exists>v. loads (dict_get d ''text'' (PStr [])) = Inr v \<and> clean_response f tool v))"

lemma text_policy_message [simp]:
  "is_text_item (policy_message s) = Some [(''type'', PStr ''text''), (''text'', PStr s)]"
  "dict_get [(''type'', PStr ''text''), (''text'', PStr s)] ''text'' v = PStr s"
  by (simp_all add: is_text_item_def policy_message_def dict_get_def)

lemma clean_message: "msg \<in> set policy_texts \<Longrightarrow> clean_item loads f tool (policy_message msg)"
  by (auto simp: clean_item_def)

lemma single_result_keeps: "check_single_result_response f v = keep_entry f v"
  by (cases v) (simp_all add: check_single_result_response_def)

lemma clean_list_response:
  assumes "json_round loads dumps" and "loads t = Inr v" and "is_text_item item = Some d"
    and "t = dict_get d ''text'' (PStr [])" and "filter_list_response dumps f v item = Some r"
    and "tool \<in> set list_tool_names"
  shows "clean_item loads f tool r"
proof -
  have round: "case v of
      PList vs \<Rightarrow> \<forall>ws. subseq ws vs \<longrightarrow> loads (PStr (dumps (PList ws))) = Inr (PList ws)
    | _ \<Rightarrow> loads (PStr (dumps v)) = Inr v"
    using assms(1,2) unfolding json_round_def by blast
  show ?thesis
  proof (cases v)
    case (PList items)
    with assms(5) have r: "r = policy_message (dumps (PList (filter (keep_entry f) items)))"
      by (auto simp: filter_list_response_def Let_def split: if_splits)
    from round PList have "loads (PStr (dumps (PList (filter (keep_entry f) items)))) =
        Inr (PList (filter (keep_entry f) items))" by simp
    then show ?thesis by (simp add: r clean_item_def clean_response_def)
  next
    case (PDict e)
    with assms(5) have "keep_entry f v" and r: "r = policy_message (dumps v)"
      by (auto simp: filter_list_response_def Let_def split: if_splits)
    with round PDict show ?thesis by (auto simp: clean_item_def clean_response_def)
  qed (use assms in \<open>auto simp: filter_list_response_def clean_item_def clean_response_def\<close>)
qed

lemma filter_content_clean:
  assumes "json_round loads dumps" and "filter_content loads dumps f tool items kept = Inr out"
    and "tool \<in> set list_tool_names \<union> set single_result_tools"
    and "\<forall>r \<in> set kept. clean_item loads f tool r"
  shows "out \<noteq> [] \<and> (\<forall>r \<in> set out. clean_item loads f tool r)"
  using assms(2,4)
proof (induction items arbitrary: kept)
  case Nil
  then show ?case by (auto intro!: clean_message simp: policy_texts_def split: if_splits)
next
  case (Cons item items)
  show ?case
  proof (cases "is_text_item item")
    case None
    then have item: "clean_item loads f tool item" by (simp add: clean_item_def)
    from Cons.prems(1) None have "filter_content loads dumps f tool items (kept @ [item]) = Inr out" by simp
    from Cons.IH [OF this] item Cons.prems(2) show ?thesis by simp
  next
    case (Some d)
    let ?t = "dict_get d ''text'' (PStr [])"
    show ?thesis
    proof (cases "loads ?t")
      case (Inl e)
      with Cons.prems(1) Some have "out = fail_closed_content ''unable to parse response for repository filtering.''"
        by (auto split: if_splits)
      then show ?thesis by (auto intro!: clean_message simp: policy_texts_def fail_closed_content_def)
    next
      case (Inr v)
      note list = clean_list_response [OF assms(1) Inr Some refl]
      have single: "clean_item loads f tool item"
        if "check_single_result_response f v" "tool \<notin> set list_tool_names"
        using that Some Inr
        by (cases v) (auto simp: clean_item_def clean_response_def single_result_keeps)
      show ?thesis
      proof (cases "tool \<in> set list_tool_names")
        case True
        let ?r = "case filter_list_response dumps f v item of None \<Rightarrow> [] | Some r \<Rightarrow> [r]"
        have r: "\<forall>r \<in> set ?r. clean_item loads f tool r" using list True by (auto split: option.splits)
        from Cons.prems(1) Some Inr True
        have "filter_content loads dumps f tool items (kept @ ?r) = Inr out" by simp
        from Cons.IH [OF this] r Cons.prems(2) show ?thesis by auto
      next
        case False
        with Cons.prems(1) Some Inr assms(3) have "check_single_result_response f v \<or>
            out = [policy_message ''Response blocked by repository policy.'']" by (auto split: if_splits)
        then show ?thesis
        proof
          assume ok: "check_single_result_response f v"
          with Cons.prems(1) Some Inr False
          have "filter_content loads dumps f tool items (kept @ [item]) = Inr out" by simp
          from Cons.IH [OF this] Cons.prems(2) single [OF ok False] show ?thesis by simp
        qed (auto intro!: clean_message simp: policy_texts_def)
      qed
    qed
  qed
qed

section \<open>Properties\<close>

text \<open>C37: the lists mean what glob patterns mean. A repository matches exactly when its name in
  lower case is in the language of one of the patterns; an allow list keeps these names, and any
  other mode the names in the language of none.\<close>

theorem kept_by_the_glob_language:
  "(matches_repo f name \<longleftrightarrow>
     lower name \<in> (\<Union>p \<in> set (rf_repos f). glob_language (glob_parts (lower p)))) \<and>
   (should_keep f name \<longleftrightarrow> (rf_mode f = ''allowlist'') =
     (lower name \<in> (\<Union>p \<in> set (rf_repos f). glob_language (glob_parts (lower p)))))"
  by (auto simp: matches_repo_def should_keep_def fnmatch_parts)

text \<open>Requests name kept repositories only. With a valid mode and in the scope of the plugin, a
  request passes unchanged exactly when every repository found in its arguments is to be kept;
  else it is denied.\<close>

theorem requests_name_kept_repositories:
  assumes "rf_mode f \<in> {''allowlist'', ''blocklist''}" and "in_scope f (server_name ctx)"
    and "dict_get (request_payload ctx) ''arguments'' (PDict []) = PDict args"
  shows "if \<forall>r \<in> set (extract_repos_from_arguments args). should_keep f r
    then filter_post_validation f ctx = Inr ctx
    else \<exists>reason. filter_post_validation f ctx = Inl (ShortCircuitError reason True)"
  using check_repos_cases [OF assms(1), of "extract_repos_from_arguments args"] assms(2,3)
  by (auto simp: filter_post_validation_def split: if_splits)

definition sample_filter :: repo_filter where
  "sample_filter = \<lparr>rf_mode = ''allowlist'', rf_repos = [''myorg/*''], rf_servers = None\<rparr>"

definition search_context :: "string \<Rightarrow> hook_context" where
  "search_context query =
     (default_hook_context (new_request_context ''c-1'') 0)
       \<lparr>tool_name := ''search_code'',
        request_payload := [(''arguments'', PDict [(''query'', PStr query)])]\<rparr>"

theorem requests_name_kept_repositories_witness:
  "filter_post_validation sample_filter (search_context ''repo:MyOrg/a x'') = Inr (search_context ''repo:MyOrg/a x'') \<and>
   (\<exists>reason. filter_post_validation sample_filter (search_context ''x Repo:other/b'') =
      Inl (ShortCircuitError reason True))"
proof -
  have mode: "rf_mode sample_filter \<in> {''allowlist'', ''blocklist''}"
    and scope: "in_scope sample_filter srv" for srv
    by (simp_all add: sample_filter_def in_scope_def)
  have args: "dict_get (request_payload (search_context q)) ''arguments'' (PDict []) = PDict [(''query'', PStr q)]" for q
    by (simp add: search_context_def dict_get_def)
  have "extract_repos_from_arguments [(''query'', PStr ''repo:MyOrg/a x'')] = [''MyOrg/a'']"
    "extract_repos_from_arguments [(''query'', PStr ''x Repo:other/b'')] = [''other/b'']"
    "should_keep sample_filter ''MyOrg/a''" "\<not> should_keep sample_filter ''other/b''" by code_simp+
  with requests_name_kept_repositories [OF mode scope args, of "''repo:MyOrg/a x''"]
    requests_name_kept_repositories [OF mode scope args, of "''x Repo:other/b''"]
  show ?thesis by simp
qed


text \<open>A JSON reader and writer that know the lists of two results.\<close>

definition our_result :: pyval where
  "our_result = PDict [(''full_name'', PStr ''MyOrg/a'')]"

definition their_result :: pyval where
  "their_result = PDict [(''full_name'', PStr ''other/b'')]"

definition toy_texts :: "(string \<times> pyval) list" where
  "toy_texts = [(''[]'', PList []), (''[a]'', PList [our_result]), (''[b]'', PList [their_result]),
     (''[a,b]'', PList [our_result, their_result])]"

definition toy_loads :: "pyval \<Rightarrow> pyval res" where
  "toy_loads v =
     (case v of PStr s \<Rightarrow> (case map_of toy_texts s of Some x \<Rightarrow> Inr x
                          | None \<Rightarrow> Inl (OtherException ''JSONDecodeError'' ''Expecting value''))
      | _ \<Rightarrow> Inl (TypeError ''the JSON object must be str''))"

definition toy_dumps :: "pyval \<Rightarrow> string" where
  "toy_dumps v = (case find (\<lambda>(s, x). x = v) toy_texts of Some (s, _) \<Rightarrow> s | None \<Rightarrow> [])"

lemma toy_json_round: "json_round toy_loads toy_dumps"
proof -
  have lists: "\<exists>vs. v = PList vs \<and> vs \<in> {[], [our_result], [their_result], [our_result, their_result]}"
    if "toy_loads t = Inr v" for t v
    using that by (auto simp: toy_loads_def toy_texts_def split: pyval.splits option.splits if_splits)
  have sub: "ws \<in> {[], [our_result], [their_result], [our_result, their_result]}"
    if "subseq ws vs" "vs \<in> {[], [our_result], [their_result], [our_result, their_result]}" for ws vs
  proof -
    have "ws \<in> set (subseqs vs)" using that(1) by simp
    with that(2) show ?thesis by (auto simp: Let_def simp del: in_set_subseqs)
  qed
  have "our_result \<noteq> their_result" by (simp add: our_result_def their_result_def)
  then have reread: "toy_loads (PStr (toy_dumps (PList ws))) = Inr (PList ws)"
    if "ws \<in> {[], [our_result], [their_result], [our_result, their_result]}" for ws
    using that by (auto simp: toy_loads_def toy_dumps_def toy_texts_def)
  show ?thesis
    unfolding json_round_def
  proof (intro allI impI)
    fix t v assume "toy_loads t = Inr v"
    from lists [OF this] obtain vs where v: "v = PList vs"
      and vs: "vs \<in> {[], [our_result], [their_result], [our_result, their_result]}" by blast
    have "toy_loads (PStr (toy_dumps (PList ws))) = Inr (PList ws)" if "subseq ws vs" for ws
      by (rule reread [OF sub [OF that vs]])
    then show "case v of
        PList vs \<Rightarrow> \<forall>ws. subseq ws vs \<longrightarrow> toy_loads (PStr (toy_dumps (PList ws))) = Inr (PList ws)
      | _ \<Rightarrow> toy_loads (PStr (toy_dumps v)) = Inr v" by (simp add: v)
  qed
qed

definition reply_context :: "string \<Rightarrow> hook_context" where
  "reply_context body =
     (search_context ''x'')\<lparr>response_payload := [(''content'', PList [policy_message body])]\<rparr>"


text \<open>A search reply as GitHub gives it, an object whose \<open>items\<close> are the results, is not filtered:
  the object itself names no repository, so it is returned whatever its items name.\<close>

theorem search_envelope_is_not_filtered:
  assumes "in_scope f (server_name ctx)" and "tool_name ctx \<in> set list_tool_names"
    and "response_payload ctx = [(''content'', PList [policy_message body])]"
    and "loads (PStr body) = Inr (PDict d)" and "extract_repo_from_item d = None"
  shows "filter_post_masking loads dumps f ctx =
    Inr (ctx\<lparr>response_payload := [(''content'', PList [policy_message (dumps (PDict d))])]\<rparr>)"
  using assms
  by (simp add: filter_post_masking_def dict_get_def filter_list_response_def dict_set_def
      policy_message_def is_text_item_def)

definition envelope :: pydict where
  "envelope = [(''total_count'', PInt 1), (''items'', PList [their_result])]"

theorem search_envelope_is_not_filtered_witness:
  "\<not> keep_entry sample_filter their_result \<and>
   filter_post_masking (\<lambda>_. Inr (PDict envelope)) (\<lambda>_. ''all of it'') sample_filter (reply_context ''{...}'') =
     Inr (reply_context ''all of it'')"
proof -
  have scope: "in_scope sample_filter (server_name (reply_context ''{...}''))"
    by (simp add: in_scope_def sample_filter_def)
  have tool: "tool_name (reply_context ''{...}'') \<in> set list_tool_names"
    by (simp add: reply_context_def search_context_def list_tool_names_def)
  have payload: "response_payload (reply_context ''{...}'') = [(''content'', PList [policy_message ''{...}''])]"
    by (simp add: reply_context_def)
  have none: "extract_repo_from_item envelope = None" by code_simp
  have "\<not> keep_entry sample_filter their_result" by code_simp
  with search_envelope_is_not_filtered [OF scope tool payload _ none, of "\<lambda>_. Inr (PDict envelope)" "\<lambda>_. ''all of it''"]
  show ?thesis by (simp add: reply_context_def)
qed

text \<open>The address of a repository in GitHub's API, the \<open>repository_url\<close> of an issue, is read as
  the repository \<open>repos/owner\<close>, whatever the name.\<close>

theorem api_url_names_another_repository:
  assumes "owner \<noteq> []" and "\<forall>c \<in> set owner. name_char c"
  shows "github_url (''https://api.github.com/repos/'' @ owner @ ''/'' @ name) = Some (''repos/'' @ owner)"
  using assms
  by (simp add: github_url_at_def name_char_def takeWhile_append)

theorem api_url_names_another_repository_witness:
  "extract_repo_from_item [(''repository_url'', PStr ''https://api.github.com/repos/evil/secrets'')] = Some ''repos/evil''"
proof -
  have "github_url (''https://api.github.com/repos/'' @ ''evil'' @ ''/'' @ ''secrets'') = Some (''repos/'' @ ''evil'')"
    by (rule api_url_names_another_repository) (simp_all add: name_char_def is_space_def)
  then show ?thesis
    by (simp add: extract_repo_from_item_def first_url_def dict_get_def slashed_def)
qed

end
