(* ===== verification/Filtered_Gateway.thy ===== *)
theory Filtered_Gateway
  imports Gateway Repo_Filter
begin

text \<open>
  The repository filter in the pipeline of a gateway: a call that names a repository which is not to
  be kept does not reach an upstream. The hooks before the filter must not change the payload of the
  request, which holds for those of the gateway; the masking hook changes it at a later point.
\<close>

section \<open>The first two points\<close>

definition keeps_request :: "'w hook \<Rightarrow> bool" where
  "keeps_request h \<longleftrightarrow>
     (\<forall>p c w c' w'. p \<in> {PRE_VALIDATION, POST_VALIDATION} \<longrightarrow> method_at p h c w = (Inr c', w') \<longrightarrow>
        request_payload c' = request_payload c \<and> server_name c' = server_name c)"

text \<open>A hook without its methods at the later points, which runs the same way at the first two.\<close>

definition front :: "'w hook \<Rightarrow> 'w hook" where
  "front h = h\<lparr>h_pre_masking := ret, h_post_masking := ret, h_pre_audit := ret\<rparr>"

definition same_payload :: "hook_context \<Rightarrow> hook_context \<Rightarrow> bool" where
  "same_payload c c' \<longleftrightarrow> request_payload c' = request_payload c \<and> server_name c' = server_name c"

lemma front_simps [simp]:
  "h_name (front h) = h_name h" "h_pre_validation (front h) = h_pre_validation h"
  "h_post_validation (front h) = h_post_validation h" "h_on_error (front h) = h_on_error h"
  by (simp_all add: front_def)

lemma run_hooks_front:
  "p \<in> {PRE_VALIDATION, POST_VALIDATION} \<Longrightarrow>
    run_hooks n p (map front hs) c ex w = run_hooks n p hs c ex w"
  by (induction hs arbitrary: c ex w) (auto simp: Let_def split: prod.split sum.split)

lemma run_points_front:
  "run_points (map front hs) [PRE_VALIDATION, POST_VALIDATION] c ex w =
    run_points hs [PRE_VALIDATION, POST_VALIDATION] c ex w"
  by (simp add: execute_hook_point_into_def run_hooks_front split: prod.split sum.split)

lemma front_contract:
  assumes "\<forall>h \<in> set hooks. keeps_request h"
  shows "hook_contract (map front hooks) (\<lambda>_. True) same_payload"
proof unfold_locales
  fix h p c w c' w'
  assume "h \<in> set (map front hooks)" and m: "method_at p h c w = (Inr c', w')"
  then obtain g where g: "keeps_request g" "h = front g" using assms by auto
  with m show "same_payload c c'"
    by (cases p) (auto simp: same_payload_def keeps_request_def front_def
        dest: spec [of _ PRE_VALIDATION] spec [of _ POST_VALIDATION])
qed (auto simp: same_payload_def mark_short_circuit_def Let_def)

lemma run_points_first:
  assumes "run_points hooks (ps @ qs) c ex w = (None, c', ex', w')"
  shows "\<exists>c1 ex1 w1. run_points hooks ps c ex w = (None, c1, ex1, w1)"
  using assms by (induction ps arbitrary: c ex w) (auto split: prod.splits sum.splits)

text \<open>In a run that succeeds every hook passed the request with its payload.\<close>

lemma success_passed_payload:
  assumes "\<forall>h \<in> set hooks. keeps_request h" and "execute now hooks ctx w = (Inr result, w')"
    and "plr_success result" and "h \<in> set hooks"
  shows "\<exists>c1 w1 c2 w2. same_payload ctx c1 \<and> h_post_validation h c1 w1 = (Inr c2, w2)"
proof -
  from assms(2) obtain ex where "run_points hooks hook_sequence ctx [] w = (None, plr_context result, ex, w')"
    by (cases rule: execute_cases) (use assms(3) in auto)
  then have "run_points hooks ([PRE_VALIDATION, POST_VALIDATION] @ [PRE_MASKING, POST_MASKING, PRE_AUDIT]) ctx [] w =
      (None, plr_context result, ex, w')" by (simp only: hook_sequence_def append.simps)
  from run_points_first [OF this] obtain c1 ex1 w1 where
    "run_points (map front hooks) [PRE_VALIDATION, POST_VALIDATION] ctx [] w = (None, c1, ex1, w1)"
    unfolding run_points_front by blast
  from hook_contract.run_points_keeps [OF front_contract [OF assms(1)] this] assms(4)
  obtain c1 w1 c2 w2 where "same_payload ctx c1" "method_at POST_VALIDATION (front h) c1 w1 = (Inr c2, w2)"
    by fastforce
  then show ?thesis by auto
qed

section \<open>The hooks of the gateway\<close>

lemma keeps_requestI:
  assumes "\<And>c w c' w'. h_pre_validation h c w = (Inr c', w') \<Longrightarrow> same_payload c c'"
    and "\<And>c w c' w'. h_post_validation h c w = (Inr c', w') \<Longrightarrow> same_payload c c'"
  shows "keeps_request h"
  using assms by (auto simp: keeps_request_def same_payload_def)

lemma same_payload_refl [simp]: "same_payload c c"
  by (simp add: same_payload_def)

lemma keeps_request_zoom: "keeps_request h \<Longrightarrow> keeps_request (zoom_hook get put h)"
proof (rule keeps_requestI)
  assume h: "keeps_request h"
  show "same_payload c c'" if "h_pre_validation (zoom_hook get put h) c w = (Inr c', w')" for c w c' w'
    using h that by (auto simp: keeps_request_def same_payload_def zoom_hook_def zoom_def
        dest: spec [of _ PRE_VALIDATION] split: prod.splits)
  show "same_payload c c'" if "h_post_validation (zoom_hook get put h) c w = (Inr c', w')" for c w c' w'
    using h that by (auto simp: keeps_request_def same_payload_def zoom_hook_def zoom_def
        dest: spec [of _ POST_VALIDATION] split: prod.splits)
qed

lemma repo_filter_keeps_request: "keeps_request (repo_filter_hook loads dumps f)"
  by (rule keeps_requestI)
    (auto simp: repo_filter_hook_def base_hook_def filter_post_validation_def res_simps
      split: if_splits pyval.splits)

lemma gateway_hooks_keep_request:
  assumes "h \<in> set (standard_hooks gp ic pol eng mcfg analytics ac)"
  shows "keeps_request h"
proof -
  have "keeps_request (identity_stage gp ic)"
    unfolding identity_stage_def
  proof (intro keeps_request_zoom keeps_requestI)
    fix c s c' s'
    assume "h_pre_validation (identity_hook (validate_token (gp_idp gp) ic (gp_wait gp))) c s = (Inr c', s')"
    from identity_pass [OF this] show "same_payload c c'" by (auto simp: same_payload_def)
  qed (simp add: identity_hook_def base_hook_def)
  moreover have "keeps_request (governance_stage pol True)"
    by (rule keeps_requestI)
      (auto simp: governance_stage_def governance_hook_def base_hook_def governance_post_validation_def
        same_payload_def res_simps split: if_splits)
  moreover have "keeps_request (masking_stage eng mcfg)" "keeps_request (analytics_stage gp)"
      "keeps_request (audit_stage ac)"
    unfolding masking_stage_def analytics_stage_def audit_stage_def
    by (intro keeps_request_zoom keeps_requestI;
        simp add: masking_hook_def analytics_hook_def audit_hook_def base_hook_def)+
  ultimately show ?thesis using assms by (auto simp: standard_hooks_def split: if_splits)
qed

section \<open>Properties\<close>


definition filtered_proxy :: "(unit, unit, nat \<times> (string \<times> pyval) list, endpoint) proxy_server" where
  "filtered_proxy = toy_proxy [repo_filter_hook toy_loads toy_dumps sample_filter] (recording_sdk toy_sdk)"

definition filtered_call where
  "filtered_call repo = call_tool filtered_proxy ''c-1'' [] ''files__read''
     (PDict [(''query'', PStr (''repo:'' @ repo))]) (toy_gateway (0, []))"


end
