(* ===== verification/Process_Manager.thy ===== *)
theory Process_Manager
  imports Transport
begin

text \<open>
  \<open>transport/process_manager.py\<close>: the supervisor of the stdio servers. A check of one server, a
  pass over all of them, and the operations are computations; the loop is any sequence of passes and
  of the things that may happen between them (\<open>supervisor_step\<close>). A check is not interrupted;
  names are compared as values. Log records are left out. The table of the signal handlers belongs to
  the process; the manager is the only one here that changes it, so it is kept with its state.
\<close>

section \<open>State\<close>

record 's process_status =
  ps_transport :: "'s mcp_transport"
  ps_failures :: nat
  ps_failed :: bool
  ps_restarting :: bool
  ps_total_restarts :: nat

definition new_status :: "'s mcp_transport \<Rightarrow> 's process_status" where
  "new_status t =
     \<lparr>ps_transport = t, ps_failures = 0, ps_failed = False, ps_restarting = False, ps_total_restarts = 0\<rparr>"

text \<open>\<open>_health_task\<close>: there is none, it runs, or it is done, perhaps with an exception.\<close>

datatype health_task = No_Task | Task_Running | Task_Done "exn option"

text \<open>The signals the manager handles, and what the process does on one.\<close>

datatype os_signal = SIGINT | SIGTERM

instantiation os_signal :: enum
begin

definition enum_os_signal :: "os_signal list" where
  "enum_os_signal = [SIGINT, SIGTERM]"

definition enum_all_os_signal :: "(os_signal \<Rightarrow> bool) \<Rightarrow> bool" where
  "enum_all_os_signal P \<longleftrightarrow> P SIGINT \<and> P SIGTERM"

definition enum_ex_os_signal :: "(os_signal \<Rightarrow> bool) \<Rightarrow> bool" where
  "enum_ex_os_signal P \<longleftrightarrow> P SIGINT \<or> P SIGTERM"

instance
proof
  show "(UNIV :: os_signal set) = set enum_class.enum"
    by (auto simp: enum_os_signal_def intro: os_signal.exhaust)
  show "distinct (enum_class.enum :: os_signal list)" by (simp add: enum_os_signal_def)
  show "enum_class.enum_all P \<longleftrightarrow> Ball UNIV P" for P :: "os_signal \<Rightarrow> bool"
    by (metis (full_types) UNIV_I enum_all_os_signal_def os_signal.exhaust)
  show "enum_class.enum_ex P \<longleftrightarrow> Bex UNIV P" for P :: "os_signal \<Rightarrow> bool"
    by (metis (full_types) UNIV_I enum_ex_os_signal_def os_signal.exhaust)
qed

end

datatype signal_action = Sets_Shutdown_Event | Raises_KeyboardInterrupt | SIG_DFL

record ('n, 's) process_manager =
  pm_transports :: "(pyval \<times> 's process_status) list"
  pm_net :: 'n
  pm_task :: health_task
  pm_shutdown :: bool
  pm_signals_installed :: bool
  pm_handlers :: "os_signal \<Rightarrow> signal_action"

fun python_action :: "os_signal \<Rightarrow> signal_action" where
  "python_action SIGINT = Raises_KeyboardInterrupt"
| "python_action SIGTERM = SIG_DFL"

definition new_process_manager :: "'n \<Rightarrow> ('n, 's) process_manager" where
  "new_process_manager n =
     \<lparr>pm_transports = [], pm_net = n, pm_task = No_Task, pm_shutdown = False,
      pm_signals_installed = False, pm_handlers = python_action\<rparr>"

definition max_backoff :: rat where
  "max_backoff = 60"

section \<open>Registration and queries\<close>

definition pm_register :: "'s mcp_transport \<Rightarrow> (('n, 's) process_manager, unit) prog" where
  "pm_register t pm =
     (let name = sc_name (mt_config t) in
      if map_of (pm_transports pm) name \<noteq> None then
        (Inl (ValueError (''Transport '' @ quoted (py_str name) @ '' is already registered'')), pm)
      else (Inr (), pm\<lparr>pm_transports := pm_transports pm @ [(name, new_status t)]\<rparr>))"

definition pm_unregister :: "pyval \<Rightarrow> ('n, 's) process_manager \<Rightarrow> ('n, 's) process_manager" where
  "pm_unregister name pm = pm\<lparr>pm_transports := filter (\<lambda>(k, _). k \<noteq> name) (pm_transports pm)\<rparr>"

definition managed_servers :: "('n, 's) process_manager \<Rightarrow> pyval list" where
  "managed_servers pm = map fst (pm_transports pm)"

definition get_status :: "('n, 's) process_manager \<Rightarrow> pyval \<Rightarrow> 's process_status option" where
  "get_status pm name = map_of (pm_transports pm) name"

definition get_transport :: "('n, 's) process_manager \<Rightarrow> pyval \<Rightarrow> 's mcp_transport option" where
  "get_transport pm name = map_option ps_transport (get_status pm name)"

definition is_running :: "('n, 's) process_manager \<Rightarrow> bool" where
  "is_running pm \<longleftrightarrow> pm_task pm = Task_Running"

section \<open>Supervision\<close>

text \<open>A computation on every server in turn, until one raises.\<close>

fun each_status ::
    "('s process_status \<times> 'n, unit) prog \<Rightarrow> ((pyval \<times> 's process_status) list \<times> 'n, unit) prog" where
  "each_status m ([], n) = (Inr (), ([], n))"
| "each_status m ((k, s) # rest, n) =
     (case m (s, n) of
        (Inl e, (s', n')) \<Rightarrow> (Inl e, ((k, s') # rest, n'))
      | (Inr _, (s', n')) \<Rightarrow>
          (case each_status m (rest, n') of (r, (rest', n'')) \<Rightarrow> (r, ((k, s') # rest', n''))))"

definition on_all ::
    "('s process_status \<times> 'n, unit) prog \<Rightarrow> (('n, 's) process_manager, unit) prog" where
  "on_all m =
     zoom (\<lambda>pm. (pm_transports pm, pm_net pm)) (\<lambda>(ts, n) pm. pm\<lparr>pm_transports := ts, pm_net := n\<rparr>)
       (each_status m)"

definition start_one :: "('n, 's) mcp_sdk \<Rightarrow> ('s process_status \<times> 'n, unit) prog" where
  "start_one sdk = (\<lambda>(s, n).
     case connect sdk None PNone (ps_transport s, n) of
       (Inr _, (t, n')) \<Rightarrow> (Inr (), (s\<lparr>ps_transport := t\<rparr>, n'))
     | (Inl e, (t, n')) \<Rightarrow>
         if is_Exception e then (Inr (), (s\<lparr>ps_transport := t, ps_failures := 1\<rparr>, n'))
         else (Inl e, (s\<lparr>ps_transport := t\<rparr>, n')))"

definition start_all :: "('n, 's) mcp_sdk \<Rightarrow> (('n, 's) process_manager, unit) prog" where
  "start_all sdk =
     bind (on_all (start_one sdk)) (\<lambda>_.
       modify (\<lambda>pm. pm\<lparr>pm_shutdown := False, pm_task := Task_Running\<rparr>))"

definition backoff :: "server_config \<Rightarrow> nat \<Rightarrow> rat" where
  "backoff cfg failures = min (sc_restart_delay cfg * 2 ^ failures) max_backoff"

definition try_restart :: "('n, 's) mcp_sdk \<Rightarrow> ('s process_status \<times> 'n, unit) prog" where
  "try_restart sdk = (\<lambda>(s, n).
     let cfg = mt_config (ps_transport s) in
     if sc_max_restarts cfg \<le> ps_failures s then (Inr (), (s\<lparr>ps_failed := True\<rparr>, n))
     else
       case reconnect sdk None (ps_transport s, sdk_sleep sdk (backoff cfg (ps_failures s)) n) of
         (Inr _, (t, n')) \<Rightarrow>
           (Inr (), (s\<lparr>ps_transport := t, ps_failures := 0,
                       ps_total_restarts := ps_total_restarts s + 1, ps_restarting := False\<rparr>, n'))
       | (Inl e, (t, n')) \<Rightarrow>
           if is_Exception e then
             (Inr (), (s\<lparr>ps_transport := t, ps_failures := ps_failures s + 1, ps_restarting := False\<rparr>, n'))
           else (Inl e, (s\<lparr>ps_transport := t, ps_restarting := False\<rparr>, n')))"

definition check_one :: "('n, 's) mcp_sdk \<Rightarrow> ('s process_status \<times> 'n, unit) prog" where
  "check_one sdk = (\<lambda>(s, n).
     if ps_failed s \<or> ps_restarting s \<or> is_healthy (ps_transport s) then (Inr (), (s, n))
     else try_restart sdk (s, n))"

text \<open>One turn of the loop: it ends on the shutdown event, or checks all servers when the interval
  elapsed. What a check raises ends the task and stays in it.\<close>

definition health_pass :: "('n, 's) mcp_sdk \<Rightarrow> (('n, 's) process_manager, unit) prog" where
  "health_pass sdk =
     bind (gets pm_shutdown) (\<lambda>stop.
       if stop then modify (\<lambda>pm. pm\<lparr>pm_task := Task_Done None\<rparr>)
       else handle (on_all (check_one sdk)) (\<lambda>e. modify (\<lambda>pm. pm\<lparr>pm_task := Task_Done (Some e)\<rparr>)))"

definition stop_one :: "('n, 's) mcp_sdk \<Rightarrow> ('s process_status \<times> 'n, unit) prog" where
  "stop_one sdk =
     suppress (zoom (\<lambda>(s, n). (ps_transport s, n)) (\<lambda>(t, n) (s, _). (s\<lparr>ps_transport := t\<rparr>, n))
       (disconnect sdk))"

definition request_shutdown :: "('n, 's) process_manager \<Rightarrow> ('n, 's) process_manager" where
  "request_shutdown pm = pm\<lparr>pm_shutdown := True\<rparr>"

text \<open>The exception of a task that is done is raised where \<open>shutdown\<close> waits for it; a task that runs
  is cancelled there.\<close>

definition pm_shut_down :: "('n, 's) mcp_sdk \<Rightarrow> (('n, 's) process_manager, unit) prog" where
  "pm_shut_down sdk =
     bind (modify (\<lambda>pm. pm\<lparr>pm_shutdown := True\<rparr>)) (\<lambda>_.
     bind (gets pm_task) (\<lambda>task.
     bind (case task of
             Task_Done (Some e) \<Rightarrow> if e = CancelledError then ret () else raise e
           | _ \<Rightarrow> ret ()) (\<lambda>_.
     bind (modify (\<lambda>pm. pm\<lparr>pm_task := No_Task\<rparr>)) (\<lambda>_. on_all (stop_one sdk)))))"

text \<open>\<open>shutdown\<close> cancels the loop. When it is in the middle of a restart, in \<open>asyncio.sleep\<close>
  before the \<open>try\<close>, the flag that says so stays set.\<close>

definition mark_restarting :: "pyval \<Rightarrow> ('n, 's) process_manager \<Rightarrow> ('n, 's) process_manager" where
  "mark_restarting name pm = pm\<lparr>pm_transports :=
     map (\<lambda>(k, s). (k, if k = name then s\<lparr>ps_restarting := True\<rparr> else s)) (pm_transports pm)\<rparr>"

definition shutdown_in_backoff ::
    "('n, 's) mcp_sdk \<Rightarrow> pyval \<Rightarrow> (('n, 's) process_manager, unit) prog" where
  "shutdown_in_backoff sdk name = bind (modify (mark_restarting name)) (\<lambda>_. pm_shut_down sdk)"

section \<open>Signals and the context manager\<close>

text \<open>Both branches of \<open>install_signal_handlers\<close> make the signals set the shutdown event. Removing
  them gives the default action of the system on Windows, and that of Python elsewhere, which is what
  \<open>loop.remove_signal_handler\<close> does.\<close>

definition install_signal_handlers :: "('n, 's) process_manager \<Rightarrow> ('n, 's) process_manager" where
  "install_signal_handlers pm =
     pm\<lparr>pm_handlers := fold (\<lambda>sig h. h(sig := Sets_Shutdown_Event)) [SIGINT, SIGTERM] (pm_handlers pm),
        pm_signals_installed := True\<rparr>"

definition remove_signal_handlers :: "bool \<Rightarrow> ('n, 's) process_manager \<Rightarrow> ('n, 's) process_manager" where
  "remove_signal_handlers windows pm =
     (if \<not> pm_signals_installed pm then pm
      else pm\<lparr>pm_handlers := fold (\<lambda>sig h. h(sig := (if windows then SIG_DFL else python_action sig)))
                               [SIGINT, SIGTERM] (pm_handlers pm),
              pm_signals_installed := False\<rparr>)"

text \<open>A signal that arrives; \<open>None\<close> is the end of the process, or a \<open>KeyboardInterrupt\<close>.\<close>

definition deliver_signal :: "os_signal \<Rightarrow> ('n, 's) process_manager \<Rightarrow> ('n, 's) process_manager option" where
  "deliver_signal sig pm =
     (if pm_handlers pm sig = Sets_Shutdown_Event then Some (request_shutdown pm) else None)"

definition exit_manager :: "bool \<Rightarrow> ('n, 's) mcp_sdk \<Rightarrow> (('n, 's) process_manager, unit) prog" where
  "exit_manager windows sdk =
     bind (modify (remove_signal_handlers windows)) (\<lambda>_. pm_shut_down sdk)"

text \<open>\<open>async with manager: body\<close>.\<close>

definition with_manager ::
    "bool \<Rightarrow> ('n, 's) mcp_sdk \<Rightarrow> (('n, 's) process_manager, 'a) prog \<Rightarrow> (('n, 's) process_manager, 'a) prog" where
  "with_manager windows sdk body =
     bind (modify install_signal_handlers) (\<lambda>_. finally_do body (exit_manager windows sdk))"

section \<open>The supervisor as a state machine\<close>

inductive supervisor_step ::
    "('n, 's) mcp_sdk \<Rightarrow> ('n, 's) process_manager \<Rightarrow> ('n, 's) process_manager \<Rightarrow> bool" for sdk where
  Register: "pm_register (create_transport cfg) pm = (r, pm') \<Longrightarrow> supervisor_step sdk pm pm'"
| Unregister: "supervisor_step sdk pm (pm_unregister name pm)"
| Start: "start_all sdk pm = (r, pm') \<Longrightarrow> supervisor_step sdk pm pm'"
| Pass: "is_running pm \<Longrightarrow> health_pass sdk pm = (r, pm') \<Longrightarrow> supervisor_step sdk pm pm'"
| Lost: "supervisor_step sdk pm (pm\<lparr>pm_transports :=
     map (\<lambda>(k, s). (k, if k = name then s\<lparr>ps_transport := connection_lost (ps_transport s)\<rparr> else s))
       (pm_transports pm)\<rparr>)"
| Install: "supervisor_step sdk pm (install_signal_handlers pm)"
| Signal: "deliver_signal sig pm = Some pm' \<Longrightarrow> supervisor_step sdk pm pm'"
| Interrupt: "is_running pm \<Longrightarrow> shutdown_in_backoff sdk name pm = (r, pm') \<Longrightarrow> supervisor_step sdk pm pm'"
| Shutdown: "pm_shut_down sdk pm = (r, pm') \<Longrightarrow> supervisor_step sdk pm pm'"
| Exit: "exit_manager windows sdk pm = (r, pm') \<Longrightarrow> supervisor_step sdk pm pm'"

inductive supervisor_reach :: "('n, 's) mcp_sdk \<Rightarrow> ('n, 's) process_manager \<Rightarrow> bool" for sdk where
  New: "supervisor_reach sdk (new_process_manager n)"
| Step: "supervisor_reach sdk pm \<Longrightarrow> supervisor_step sdk pm pm' \<Longrightarrow> supervisor_reach sdk pm'"

section \<open>What every history keeps\<close>

lemma each_status_keeps:
  assumes "each_status m (ts, n) = (r, (ts', n'))"
    and "\<And>s n r s' n'. m (s, n) = (r, (s', n')) \<Longrightarrow> P s \<Longrightarrow> P s' \<and> key s' = key s"
    and "\<forall>(k, s) \<in> set ts. P s \<and> key s = k"
  shows "map fst ts' = map fst ts \<and> (\<forall>(k, s) \<in> set ts'. P s \<and> key s = k)"
  using assms(1,3)
proof (induction ts arbitrary: n r ts' n')
  case (Cons p ts)
  obtain k s where p: "p = (k, s)" by fastforce
  obtain r1 s1 n1 where m: "m (s, n) = (r1, (s1, n1))" by (cases "m (s, n)") auto
  obtain r2 ts2 n2 where rest: "each_status m (ts, n1) = (r2, (ts2, n2))"
    by (cases "each_status m (ts, n1)") auto
  from Cons.prems(2) p have s: "P s" "key s = k" and others: "\<forall>(k, s) \<in> set ts. P s \<and> key s = k" by auto
  with assms(2) [OF m] Cons.IH [OF rest others] Cons.prems(1) m rest p show ?case
    by (cases r1) auto
qed simp

definition status_ok :: "'s process_status \<Rightarrow> bool" where
  "status_ok s \<longleftrightarrow>
     transport_ok (mt_config (ps_transport s)) (ps_transport s) \<and>
     ps_failures s \<le> max 1 (sc_max_restarts (mt_config (ps_transport s)))"

definition status_name :: "'s process_status \<Rightarrow> pyval" where
  "status_name s = sc_name (mt_config (ps_transport s))"

definition supervisor_ok :: "('n, 's) process_manager \<Rightarrow> bool" where
  "supervisor_ok pm \<longleftrightarrow> distinct (managed_servers pm) \<and>
     (\<forall>(name, s) \<in> set (pm_transports pm). status_ok s \<and> status_name s = name)"

lemma connect_ok:
  assumes "connect sdk context tok (t, n) = (r, (t', n'))" and "transport_ok cfg t"
  shows "transport_ok cfg t'"
  using transport_step_ok [OF transport_step.Connect [OF assms(1)] assms(2)] .

lemma reconnect_ok:
  assumes "reconnect sdk context (t, n) = (r, (t', n'))" and "transport_ok cfg t"
  shows "transport_ok cfg t'"
proof -
  obtain r1 t1 n1 where d: "disconnect sdk (t, n) = (r1, (t1, n1))" by (cases "disconnect sdk (t, n)") auto
  with disconnect_cases [OF d] transport_step_ok [OF transport_step.Disconnect [OF d] assms(2)] assms(1)
  show ?thesis by (auto simp: reconnect_def bind_apply dest: connect_ok)
qed

lemma ok_config: "transport_ok cfg t \<Longrightarrow> mt_config t = cfg"
  by (simp add: transport_ok_def)

lemma start_one_ok:
  assumes "start_one sdk (s, n) = (r, (s', n'))" and "status_ok s"
  shows "status_ok s' \<and> status_name s' = status_name s"
proof -
  obtain r1 t1 n1 where c: "connect sdk None PNone (ps_transport s, n) = (r1, (t1, n1))"
    by (cases "connect sdk None PNone (ps_transport s, n)") auto
  have ok: "transport_ok (mt_config (ps_transport s)) t1"
    using connect_ok [OF c] assms(2) by (simp add: status_ok_def)
  with ok_config [OF ok] c assms show ?thesis
    by (auto simp: start_one_def status_ok_def status_name_def split: sum.splits if_splits)
qed

lemma check_one_ok:
  assumes "check_one sdk (s, n) = (r, (s', n'))" and "status_ok s"
  shows "status_ok s' \<and> status_name s' = status_name s"
proof -
  let ?n = "sdk_sleep sdk (backoff (mt_config (ps_transport s)) (ps_failures s)) n"
  obtain r1 t1 n1 where c: "reconnect sdk None (ps_transport s, ?n) = (r1, (t1, n1))"
    by (cases "reconnect sdk None (ps_transport s, ?n)") auto
  have ok: "transport_ok (mt_config (ps_transport s)) t1"
    using reconnect_ok [OF c] assms(2) by (simp add: status_ok_def)
  with ok_config [OF ok] c assms show ?thesis
    by (auto simp: check_one_def try_restart_def Let_def status_ok_def status_name_def
        split: sum.splits if_splits)
qed

lemma stop_one_ok:
  assumes "stop_one sdk (s, n) = (r, (s', n'))" and "status_ok s"
  shows "status_ok s' \<and> status_name s' = status_name s"
proof -
  obtain r1 t1 n1 where d: "disconnect sdk (ps_transport s, n) = (r1, (t1, n1))"
    by (cases "disconnect sdk (ps_transport s, n)") auto
  have ok: "transport_ok (mt_config (ps_transport s)) t1"
    using transport_step_ok [OF transport_step.Disconnect [OF d]] assms(2) by (simp add: status_ok_def)
  with ok_config [OF ok] d assms show ?thesis
    by (auto simp: stop_one_def suppress_apply zoom_def status_ok_def status_name_def split: sum.splits if_splits)
qed

lemma on_all_ok:
  assumes "on_all m pm = (r, pm')" and "supervisor_ok pm"
    and "\<And>s n r s' n'. m (s, n) = (r, (s', n')) \<Longrightarrow> status_ok s \<Longrightarrow> status_ok s' \<and> status_name s' = status_name s"
  shows "supervisor_ok pm' \<and> pm' = pm\<lparr>pm_transports := pm_transports pm', pm_net := pm_net pm'\<rparr>"
proof -
  obtain r1 ts n where e: "each_status m (pm_transports pm, pm_net pm) = (r1, (ts, n))"
    by (cases "each_status m (pm_transports pm, pm_net pm)") auto
  have "map fst ts = map fst (pm_transports pm) \<and> (\<forall>(k, s) \<in> set ts. status_ok s \<and> status_name s = k)"
    by (rule each_status_keeps [OF e, where P = status_ok and key = status_name])
      (use assms(2,3) in \<open>auto simp: supervisor_ok_def\<close>)
  with assms(1,2) e show ?thesis
    by (auto simp: on_all_def zoom_def supervisor_ok_def managed_servers_def)
qed

lemma supervisor_ok_frame [simp]:
  "supervisor_ok (pm\<lparr>pm_task := a\<rparr>) = supervisor_ok pm"
  "supervisor_ok (pm\<lparr>pm_shutdown := b\<rparr>) = supervisor_ok pm"
  "supervisor_ok (pm\<lparr>pm_shutdown := b, pm_task := a\<rparr>) = supervisor_ok pm"
  "supervisor_ok (pm\<lparr>pm_signals_installed := i, pm_handlers := h\<rparr>) = supervisor_ok pm"
  "supervisor_ok (install_signal_handlers pm) = supervisor_ok pm"
  "supervisor_ok (remove_signal_handlers windows pm) = supervisor_ok pm"
  by (simp_all add: supervisor_ok_def managed_servers_def install_signal_handlers_def
      remove_signal_handlers_def)

lemma map_status_ok:
  assumes "supervisor_ok pm" and "\<And>s. status_ok s \<Longrightarrow> status_ok (g s) \<and> status_name (g s) = status_name s"
  shows "supervisor_ok (pm\<lparr>pm_transports := map (\<lambda>(k, s). (k, if k = name then g s else s)) (pm_transports pm)\<rparr>)"
  using assms by (fastforce simp: supervisor_ok_def managed_servers_def comp_def case_prod_beta)

lemma shut_down_ok: "pm_shut_down sdk pm = (r, pm') \<Longrightarrow> supervisor_ok pm \<Longrightarrow> supervisor_ok pm'"
  by (auto simp: pm_shut_down_def bind_apply split: health_task.splits option.splits if_splits
      dest: on_all_ok [OF _ _ stop_one_ok])

lemma supervisor_step_ok:
  fixes pm :: "('n, 's) process_manager"
  assumes "supervisor_step sdk pm pm'" and "supervisor_ok pm"
  shows "supervisor_ok pm'"
  using assms
proof (cases rule: supervisor_step.cases)
  case (Register cfg r)
  have "transport_ok cfg (create_transport cfg :: 's mcp_transport)"
    "mt_config (create_transport cfg :: 's mcp_transport) = cfg"
    by (simp_all add: transport_ok_def create_transport_def)
  with Register assms(2) show ?thesis
    by (auto simp: pm_register_def Let_def supervisor_ok_def managed_servers_def new_status_def
        status_ok_def status_name_def map_of_eq_None_iff split: if_splits)
next
  case (Unregister name)
  with assms(2) show ?thesis
    by (auto simp: pm_unregister_def supervisor_ok_def managed_servers_def distinct_map inj_on_def)
next
  case (Start r)
  with assms(2) show ?thesis
    by (auto simp: start_all_def bind_apply split: prod.splits sum.splits dest: on_all_ok [OF _ _ start_one_ok])
next
  case (Pass r)
  with assms(2) show ?thesis
    by (auto simp: health_pass_def bind_apply handle_def split: if_splits prod.splits sum.splits
        dest: on_all_ok [OF _ _ check_one_ok])
next
  case (Lost name)
  show ?thesis
    unfolding Lost
    by (rule map_status_ok [OF assms(2)])
      (auto simp: status_ok_def status_name_def transport_ok_def connection_lost_def)
next
  case (Signal sig)
  with assms(2) show ?thesis by (auto simp: deliver_signal_def request_shutdown_def split: if_splits)
next
  case (Interrupt name r)
  have "supervisor_ok (mark_restarting name pm)"
    unfolding mark_restarting_def
    by (rule map_status_ok [OF assms(2)]) (auto simp: status_ok_def status_name_def)
  with Interrupt show ?thesis by (auto simp: shutdown_in_backoff_def bind_apply dest: shut_down_ok)
next
  case (Shutdown r)
  with assms(2) show ?thesis by (auto dest: shut_down_ok)
next
  case (Exit windows r)
  with assms(2) show ?thesis by (auto simp: exit_manager_def bind_apply dest: shut_down_ok)
qed (use assms(2) in simp)

lemma supervisor_reach_ok: "supervisor_reach sdk pm \<Longrightarrow> supervisor_ok pm"
proof (induction rule: supervisor_reach.induct)
  case (New n)
  then show ?case by (simp add: supervisor_ok_def new_process_manager_def managed_servers_def)
qed (rule supervisor_step_ok)

section \<open>A server that does not come back\<close>

definition timed_sdk :: "('n, 's) mcp_sdk \<Rightarrow> ('n \<times> rat list, 's) mcp_sdk" where
  "timed_sdk sdk =
     \<lparr>sdk_check_params = sdk_check_params sdk,
      sdk_open = (\<lambda>ty ep (n, ds). case sdk_open sdk ty ep n of (r, n') \<Rightarrow> (r, (n', ds))),
      sdk_close = (\<lambda>s (n, ds). (sdk_close sdk s n, ds)),
      sdk_list_tools = (\<lambda>s q (n, ds). case sdk_list_tools sdk s q n of (r, n') \<Rightarrow> (r, (n', ds))),
      sdk_call_tool = (\<lambda>s tool args q (n, ds).
         case sdk_call_tool sdk s tool args q n of (r, n') \<Rightarrow> (r, (n', ds))),
      sdk_sleep = (\<lambda>d (n, ds). (sdk_sleep sdk d n, ds @ [d])),
      sdk_validate = sdk_validate sdk\<rparr>"

definition unreachable :: "('n, 's) mcp_sdk \<Rightarrow> bool" where
  "unreachable sdk \<longleftrightarrow>
     (\<forall>ep. sdk_check_params sdk ep = Inr ()) \<and> (\<forall>ty ep n. \<exists>e n'. sdk_open sdk ty ep n = (Inl e, n'))"

lemma connect_failure_Exception: "is_Exception (connect_failure cfg cid e)"
  by (cases e) (simp_all add: connect_failure_def stdio_failure_def remote_failure_def Let_def)

lemma unreachable_connect:
  assumes "unreachable sdk" and "mt_state t \<noteq> CONNECTED"
  shows "\<exists>e t' n'. connect (timed_sdk sdk) context tok (t, (n, ds)) = (Inl e, (t', (n', ds))) \<and>
    is_Exception e \<and> \<not> is_healthy t' \<and> mt_config t' = mt_config t"
proof -
  obtain t1 n1 where c: "cleanup_bg_task (timed_sdk sdk) (t, (n, ds)) = (t1, (n1, ds))"
    and cfg: "mt_config t1 = mt_config t"
    by (cases "mt_session t"; cases "mt_bg_task t") (auto simp: cleanup_bg_task_def timed_sdk_def)
  let ?ep = "endpoint_of (mt_config t) context tok"
  obtain e n2 where "sdk_open sdk (sc_transport (mt_config t)) ?ep n1 = (Inl e, n2)"
    using assms(1) unfolding unreachable_def by blast
  with c cfg assms show ?thesis
    by (auto simp: connect_unfold Let_def unreachable_def timed_sdk_def is_healthy_def connect_failure_Exception)
qed

lemma unreachable_check:
  assumes "unreachable sdk" and "\<not> is_healthy (ps_transport s)" and "\<not> ps_failed s" and "\<not> ps_restarting s"
    and "ps_failures s < sc_max_restarts (mt_config (ps_transport s))"
  shows "\<exists>t n'. check_one (timed_sdk sdk) (s, (n, ds)) =
      (Inr (), (s\<lparr>ps_transport := t, ps_failures := ps_failures s + 1, ps_restarting := False\<rparr>,
                (n', ds @ [backoff (mt_config (ps_transport s)) (ps_failures s)]))) \<and>
    \<not> is_healthy t \<and> mt_config t = mt_config (ps_transport s)"
proof -
  let ?t = "ps_transport s" and ?d = "backoff (mt_config (ps_transport s)) (ps_failures s)"
  let ?n = "(sdk_sleep sdk ?d n, ds @ [?d])"
  obtain r1 t1 n1 where d: "disconnect (timed_sdk sdk) (?t, ?n) = (r1, (t1, n1))"
    by (cases "disconnect (timed_sdk sdk) (?t, ?n)") auto
  have ds: "snd n1 = ds @ [?d]"
    using d by (auto simp: disconnect_unfold cleanup_bg_task_def timed_sdk_def split: if_splits option.splits)
  have off: "mt_state t1 \<noteq> CONNECTED" "r1 = Inr ()" "mt_config t1 = mt_config ?t"
    using disconnect_cases [OF d [folded prod.collapse]] by (auto split: if_splits)
  obtain m where n1: "n1 = (m, ds @ [?d])" using ds by (cases n1) auto
  from unreachable_connect [OF assms(1) off(1), of "mt_last_context t1" PNone m "ds @ [?d]"] obtain e t' n' where
    c: "connect (timed_sdk sdk) (mt_last_context t1) PNone (t1, n1) = (Inl e, (t', (n', ds @ [?d])))"
      "is_Exception e" "\<not> is_healthy t'" "mt_config t' = mt_config t1" by (auto simp: n1)
  have "reconnect (timed_sdk sdk) None (?t, ?n) = (Inl e, (t', (n', ds @ [?d])))"
    using d off c(1) by (simp add: reconnect_def bind_apply)
  moreover have "sdk_sleep (timed_sdk sdk) ?d (n, ds) = ?n" by (simp add: timed_sdk_def)
  ultimately show ?thesis
    using assms c off by (intro exI [of _ t']) (simp add: check_one_def try_restart_def Let_def)
qed

section \<open>Properties\<close>

text \<open>C21: over every history of the supervisor the names of its servers are different, each is the name
  its transport was configured with, the count of failures stays within the budget (or is the one
  failure of the first connect), and a session is held by connected transports only.\<close>

theorem supervisor_state_invariant:
  assumes "supervisor_reach sdk pm"
  shows "distinct (managed_servers pm) \<and>
    (\<forall>(name, s) \<in> set (pm_transports pm).
       sc_name (mt_config (ps_transport s)) = name \<and>
       ps_failures s \<le> max 1 (sc_max_restarts (mt_config (ps_transport s))) \<and>
       (mt_session (ps_transport s) \<noteq> None \<longrightarrow> mt_state (ps_transport s) = CONNECTED))"
  using supervisor_reach_ok [OF assms]
  by (fastforce simp: supervisor_ok_def status_ok_def status_name_def transport_ok_def)

definition local_server :: "nat \<Rightarrow> server_config" where
  "local_server budget =
     (default_server_config (PStr ''files'') T_STDIO)\<lparr>sc_command := PStr ''files-mcp'', sc_max_restarts := budget\<rparr>"

definition dead_sdk :: "(nat, endpoint) mcp_sdk" where
  "dead_sdk = toy_sdk\<lparr>sdk_open := (\<lambda>_ _ n. (Inl (OSError ''gone''), n + 1))\<rparr>"

definition sample_supervisor :: "(nat, endpoint) process_manager" where
  "sample_supervisor = snd (start_all dead_sdk (snd (pm_register (create_transport (local_server 3))
     (new_process_manager 0))))"

theorem supervisor_state_invariant_witness:
  "managed_servers sample_supervisor = [PStr ''files''] \<and> distinct (managed_servers sample_supervisor) \<and>
   map (ps_failures \<circ> snd) (pm_transports sample_supervisor) = [1]"
proof -
  let ?pm = "snd (pm_register (create_transport (local_server 3)) (new_process_manager 0))"
  have "supervisor_reach dead_sdk ?pm"
    by (rule supervisor_reach.Step [OF supervisor_reach.New supervisor_step.Register [OF surjective_pairing]])
  then have "supervisor_reach dead_sdk sample_supervisor"
    unfolding sample_supervisor_def
    by (rule supervisor_reach.Step [OF _ supervisor_step.Start [OF surjective_pairing]])
  from supervisor_state_invariant [OF this] have "distinct (managed_servers sample_supervisor)" by blast
  moreover have "managed_servers sample_supervisor = [PStr ''files'']"
    "map (ps_failures \<circ> snd) (pm_transports sample_supervisor) = [1]" by code_simp+
  ultimately show ?thesis by blast
qed



lemma each_status_lookup:
  assumes "each_status m (ts, n) = (r, (ts', n'))" and "map_of ts name = Some s"
  shows "\<exists>s'. map_of ts' name = Some s' \<and> (s' = s \<or> (\<exists>n1 r1 n2. m (s, n1) = (r1, (s', n2))))"
  using assms
proof (induction ts arbitrary: n r ts' n')
  case (Cons p ts)
  obtain k s1 where p: "p = (k, s1)" by fastforce
  obtain r1 s2 n1 where m: "m (s1, n) = (r1, (s2, n1))" by (cases "m (s1, n)") auto
  show ?case
  proof (cases r1)
    case (Inl e)
    with Cons.prems m p show ?thesis by (cases "k = name") auto
  next
    case (Inr u)
    obtain r2 ts2 n2 where rest: "each_status m (ts, n1) = (r2, (ts2, n2))"
      by (cases "each_status m (ts, n1)") auto
    with Cons.IH [OF rest] Cons.prems m p Inr show ?thesis by (cases "k = name") auto
  qed
qed simp

lemma on_all_lookup:
  assumes "on_all m pm = (r, pm')" and "get_status pm name = Some s"
  shows "\<exists>s'. get_status pm' name = Some s' \<and> (s' = s \<or> (\<exists>n1 r1 n2. m (s, n1) = (r1, (s', n2))))"
proof -
  obtain r1 ts n where e: "each_status m (pm_transports pm, pm_net pm) = (r1, (ts, n))"
    by (cases "each_status m (pm_transports pm, pm_net pm)") auto
  from each_status_lookup [OF this assms(2) [unfolded get_status_def]] assms(1) e show ?thesis
    by (auto simp: on_all_def zoom_def get_status_def)
qed

lemma start_one_restarting: "start_one sdk (s, n) = (r, (s', n')) \<Longrightarrow> ps_restarting s' = ps_restarting s"
  by (cases "connect sdk None PNone (ps_transport s, n)")
    (auto simp: start_one_def split: sum.splits if_splits)

text \<open>A restart that a shutdown interrupted is never taken up again: the flag that it is in
  progress stays set through every later start and pass, so the server is not checked any more.\<close>

theorem interrupted_restart_is_abandoned:
  assumes "get_status pm name = Some s" and "ps_restarting s"
  shows "get_status (snd (health_pass sdk pm)) name = Some s \<and>
    (\<exists>s'. get_status (snd (start_all sdk pm)) name = Some s' \<and> ps_restarting s')"
proof
  obtain r1 pm1 where "on_all (check_one sdk) pm = (r1, pm1)" by fastforce
  moreover from on_all_lookup [OF this assms(1)] assms(2) have "get_status pm1 name = Some s"
    by (auto simp: check_one_def)
  ultimately show "get_status (snd (health_pass sdk pm)) name = Some s"
    using assms(1) by (auto simp: health_pass_def bind_apply handle_apply get_status_def split: sum.splits)
next
  obtain r1 pm1 where "on_all (start_one sdk) pm = (r1, pm1)" by fastforce
  moreover from on_all_lookup [OF this assms(1)] assms(2)
  have "\<exists>s'. get_status pm1 name = Some s' \<and> ps_restarting s'"
    by (auto dest: start_one_restarting)
  ultimately show "\<exists>s'. get_status (snd (start_all sdk pm)) name = Some s' \<and> ps_restarting s'"
    by (auto simp: start_all_def bind_apply get_status_def split: sum.splits)
qed

theorem interrupted_restart_is_abandoned_witness:
  "\<exists>s. get_status (snd (health_pass dead_sdk (mark_restarting (PStr ''files'') sample_supervisor))) (PStr ''files'') = Some s \<and>
     ps_restarting s \<and> \<not> is_healthy (ps_transport s)"
proof -
  let ?pm = "mark_restarting (PStr ''files'') sample_supervisor"
  have "(case get_status ?pm (PStr ''files'') of None \<Rightarrow> False
      | Some s \<Rightarrow> ps_restarting s \<and> \<not> is_healthy (ps_transport s))" by code_simp
  then obtain s where s: "get_status ?pm (PStr ''files'') = Some s" "ps_restarting s"
    "\<not> is_healthy (ps_transport s)" by (auto split: option.splits)
  from interrupted_restart_is_abandoned [OF s(1,2)] s show ?thesis by blast
qed

text \<open>A signal ends the monitoring, and nothing else: the handler sets the event, on which the loop
  ends at its next turn, with every transport as it was. A start clears the event, so a signal that
  arrives while \<open>start_all\<close> connects is forgotten.\<close>

theorem signal_only_stops_monitoring:
  assumes "deliver_signal sig (install_signal_handlers pm) = Some pm1"
  shows "(\<exists>pm2. health_pass sdk pm1 = (Inr (), pm2) \<and> \<not> is_running pm2 \<and>
      pm_transports pm2 = pm_transports pm \<and> pm_net pm2 = pm_net pm) \<and>
    (\<forall>pm3. start_all sdk pm1 = (Inr (), pm3) \<longrightarrow> is_running pm3 \<and> \<not> pm_shutdown pm3)"
  using assms
  by (auto simp: deliver_signal_def install_signal_handlers_def request_shutdown_def health_pass_def
      bind_apply is_running_def start_all_def split: if_splits prod.splits sum.splits)

theorem signal_only_stops_monitoring_witness:
  "pm_transports (snd (health_pass dead_sdk (request_shutdown (install_signal_handlers sample_supervisor)))) =
     pm_transports sample_supervisor"
proof -
  have "deliver_signal SIGTERM (install_signal_handlers sample_supervisor) =
      Some (request_shutdown (install_signal_handlers sample_supervisor))"
    by (simp add: deliver_signal_def install_signal_handlers_def)
  from signal_only_stops_monitoring [OF this, of dead_sdk] show ?thesis by auto
qed

section \<open>Leaving the context manager\<close>

definition stopped :: "'s process_status \<Rightarrow> bool" where
  "stopped s \<longleftrightarrow> mt_session (ps_transport s) = None \<and> \<not> is_healthy (ps_transport s)"

lemma stop_one_stops:
  assumes "status_ok s"
  shows "\<exists>s' n'. stop_one sdk (s, n) = (Inr (), (s', n')) \<and> stopped s'"
proof -
  obtain r t n' where d: "disconnect sdk (ps_transport s, n) = (r, (t, n'))"
    by (cases "disconnect sdk (ps_transport s, n)") auto
  have "mt_session t = None" using disconnect_no_session [OF d] assms by (auto simp: status_ok_def)
  with disconnect_cases [OF d] d show ?thesis
    by (simp add: stop_one_def suppress_apply zoom_def stopped_def is_healthy_def)
qed

lemma each_status_stops:
  assumes "\<forall>(k, s) \<in> set ts. status_ok s"
  shows "\<exists>ts' n'. each_status (stop_one sdk) (ts, n) = (Inr (), (ts', n')) \<and>
    map fst ts' = map fst ts \<and> (\<forall>(k, s) \<in> set ts'. stopped s)"
  using assms
proof (induction ts arbitrary: n)
  case (Cons p ts)
  obtain k s where p: "p = (k, s)" by fastforce
  with Cons.prems have ok: "status_ok s" "\<forall>(k, s) \<in> set ts. status_ok s" by auto
  from stop_one_stops [OF ok(1), of sdk n] obtain s' n' where
    s: "stop_one sdk (s, n) = (Inr (), (s', n'))" "stopped s'" by blast
  from Cons.IH [OF ok(2), of n'] s p show ?case by auto
qed simp

lemma shut_down_stops:
  assumes "supervisor_ok pm" and "\<And>e. pm_task pm = Task_Done (Some e) \<Longrightarrow> e = CancelledError"
  shows "\<exists>pm'. pm_shut_down sdk pm = (Inr (), pm') \<and> pm_task pm' = No_Task \<and> pm_shutdown pm' \<and>
    pm_handlers pm' = pm_handlers pm \<and> managed_servers pm' = managed_servers pm \<and>
    (\<forall>(name, s) \<in> set (pm_transports pm'). stopped s)"
proof -
  from assms(1) have "\<forall>(k, s) \<in> set (pm_transports pm). status_ok s" by (auto simp: supervisor_ok_def)
  from each_status_stops [OF this, of sdk "pm_net pm"] assms(2) show ?thesis
    by (auto simp: pm_shut_down_def bind_apply on_all_def zoom_def managed_servers_def
        split: health_task.split option.split)
qed


definition live_supervisor :: "(nat, endpoint) process_manager" where
  "live_supervisor = snd (pm_register (create_transport (local_server 3)) (new_process_manager 0))"


end
