(* ===== verification/Spec2Isabelle.thy ===== *)
theory Spec2Isabelle
  imports Serving Filtered_Gateway Process_Manager
begin

text \<open>
  A model of the mcp-zero gateway and its correctness. All paths are below \<open>src/src/mcp_zero\<close>.

  \<^bold>\<open>The program.\<close> The gateway stands between MCP clients and a set of upstream MCP servers. A client
  sees the tools of all servers under names \<open>server__tool\<close>. For each call the proxy
  (\<open>proxy/proxy_server.py\<close>) builds a hook context, runs the pre part of a pipeline of hooks
  (identity, governance, masking, plugins, analytics, audit), refuses the call when a hook denied it,
  forwards it through a pooled connection (\<open>proxy/server_manager.py\<close>, \<open>transport/\<close>) with a
  bounded number of attempts, and runs the post part on the answer. \<open>main.py\<close> reads the policy file
  and the environment, builds the parts, refuses to start when guards are missing, and hands the
  proxy to a web server (\<open>proxy/app.py\<close>).

  \<^bold>\<open>How the code is translated.\<close> Python values that come from outside are \<open>pyval\<close>; a class is a
  record; an enumeration is a datatype; exceptions are the datatype \<open>exn\<close>, with one constructor per
  class the code raises or catches; a function that may raise returns \<open>'a res\<close>, a sum with the
  exception on the left; a method that updates an object is a \<open>('w, 'a) prog\<close>, a function from the
  state to a result and the new state, which is kept when the method raises. An \<open>await\<close> that lets
  others run is either the end of an operation, so that other operations come between, or an
  argument \<open>wait\<close> that may change the state as others would. Names are those of the code.

  \<^bold>\<open>Theories, in the order of their imports.\<close>
  \<^item> \<open>Prelude\<close>, \<open>PyOps\<close>, \<open>Effects\<close>: values, exceptions, Python's operations on strings and dynamic
    values, the result type, stateful computations with \<open>try\<close>, \<open>suppress\<close> and loops, and the
    predicate \<open>keeps\<close> for what a computation leaves invariant. The exception classes of
    \<open>*/errors.py\<close> are here.
  \<^item> \<open>Keyed_Map\<close>: dictionaries whose keys are compared by Python's equality; interface
    \<open>key_equality\<close>, interpreted for the two caches below.
  \<^item> \<open>Json\<close>: Python's JSON reader on Latin-1 texts, proved to read back everything \<open>json_dumps\<close>
    writes (\<open>json_round_trip\<close>); interface \<open>json_reader\<close>.
  \<^item> \<open>Context\<close> (\<open>context.py\<close>) and \<open>Policy_Config\<close> (\<open>governance/config.py\<close>, \<open>identity/config.py\<close>,
    \<open>analytics/config.py\<close>, \<open>url_validation.py\<close>): the data and the checks of the constructors.
  \<^item> \<open>Policy_Engine\<close> (\<open>governance/engine.py\<close>): matching and decision, and the specification \<open>decide\<close>
    on typed policies that \<open>evaluate\<close> refines; interface \<open>policy_decider\<close>.
  \<^item> \<open>Policy_Loader\<close> (\<open>governance/loader.py\<close>) and \<open>Transport_Config\<close> (\<open>transport/config.py\<close> and the
    conversion of the loader): from parsed YAML or JSON to a policy that is well formed, and to
    server configurations that are safe.
  \<^item> \<open>Hook_Pipeline\<close> (\<open>pipeline/\<close>): hook points, registry and pipeline, as a sequence of hook
    methods; interface \<open>hook_contract\<close> for what every hook keeps of the state and the context.
  \<^item> \<open>Governance_Hook\<close> (\<open>governance/hook.py\<close>), \<open>Identity\<close> (\<open>identity/jwks.py\<close>, \<open>jwt.py\<close>,
    \<open>hook.py\<close>; interface \<open>counted_requests\<close>), \<open>Masking\<close> (\<open>masking/\<close>; interface \<open>masking_engine\<close>,
    interpreted on the Presidio engine), \<open>Audit_Trail\<close> (\<open>audit/\<close>, \<open>events/\<close>), \<open>Analytics\<close>
    (\<open>analytics/\<close>): the hooks of the gateway with what they keep.
  \<^item> \<open>Plugins\<close> (\<open>plugin.py\<close>, \<open>plugin_manager.py\<close>, \<open>plugins/presidio_masking.py\<close>) and \<open>Repo_Filter\<close>
    (\<open>plugins/github_repo_filter.py\<close>): loading plugins, and the two that come with the gateway.
  \<^item> \<open>Transport\<close> (\<open>transport/\<close>), \<open>Process_Manager\<close> (\<open>transport/process_manager.py\<close>), \<open>Server_Manager\<close>
    (\<open>proxy/server_manager.py\<close>), \<open>Obo\<close> (\<open>identity/obo.py\<close>, \<open>proxy/auth.py\<close>, \<open>proxy/obo_auth.py\<close>;
    interface \<open>auth_provider\<close>): connections, their supervision, the pool of sessions, the exchange
    of tokens; each with a step relation and the invariant of its reachable states. The registry of
    the factory is a function from transport types to classes, the table of signal handlers one from
    signals to actions.
  \<^item> \<open>Tool_Router\<close> and \<open>Proxy\<close> (\<open>proxy/tool_router.py\<close>, \<open>proxy/proxy_server.py\<close>): the handlers for
    listing and calling tools; interface \<open>traced_sdk\<close>, interpreted on an SDK that records what it
    is asked, in which the statements on what reaches an upstream are made.
  \<^item> \<open>Filtered_Gateway\<close>: the repository filter in the pipeline of a gateway.
  \<^item> \<open>Gateway\<close> (\<open>_build_pipeline\<close> of \<open>main.py\<close>), \<open>Logging\<close> (\<open>logging.py\<close>), \<open>Startup\<close> (the rest of
    \<open>main.py\<close> up to the summary), \<open>History\<close> (the sequences of requests of a started gateway), \<open>Web\<close>
    (\<open>proxy/middleware.py\<close>, \<open>proxy/app.py\<close>) and \<open>Serving\<close> (\<open>run\<close> of \<open>main.py\<close> as a whole, with the exit
    handler and the application that the web server gets): the composition of all parts.

  \<^bold>\<open>What the lemmas show.\<close> The properties are numbered \<open>C1\<close>, \<open>C2\<close> and so on, in the order of their
  importance, in the text before each theorem. The first group follows calls through the
  whole composition: over every history of a strictly started gateway, what reaches an upstream was
  admitted by the keys of the identity provider and by the policy, except after an exception that no
  hook turned into a denial; the pipeline has its guards; listings agree with calls; a start without
  guards is refused, and whatever way the process ends, its plugins are torn down. The second group is on
  isolation: sessions and exchanged tokens never cross users, over every history. The third is on
  what leaves: masking covers every string, filtered repositories are neither asked for nor shown, audit events are
  free of payloads and arrive in the log as they were emitted, counters are exact. The others are the
  contracts of single components: refinement of the policy decision, well-formedness of loaded
  configurations, ordering of hooks, state invariants of transports and supervisor, restarts within
  their budget, scopes that leave no connection behind, round trips of names.
  Theorems without a number, such as \<open>scalar_tools_match_everything\<close>,
  \<open>search_envelope_is_not_filtered\<close>, \<open>signal_only_stops_monitoring\<close>, \<open>heartbeat_is_never_written\<close>,
  \<open>text_records_can_be_forged\<close>, \<open>load_error_skips_tear_down\<close> or \<open>summary_misreports_format\<close>, state behaviours that the code has and its authors may not expect.

  \<^bold>\<open>Bounds and termination.\<close> All loops of the code that run over a list are structural
  recursions. The loop of \<open>retry_loop\<close> runs over its list of attempts, the expansion of
  variables in headers and the pattern matcher terminate by the length of the text. The JSON reader
  takes the nesting depth as fuel; the length of the text is always enough
  (\<open>json_reads_back\<close>). The endless loops (flushing, heartbeat, health checks) are modelled by one
  pass, and their histories by step relations.

  \<^bold>\<open>Parameters.\<close> Not under \<open>src/\<close>, and therefore arguments of the definitions that use them, are the
  MCP SDK (\<open>mcp_sdk\<close>), HTTP and the JWT library (\<open>idp_env\<close>, \<open>obo_env\<close>), the Presidio libraries
  (\<open>presidio_env\<close>), Redis (\<open>redis_env\<close>), YAML (\<open>loader_env\<close>), the frameworks that serve the clients
  (\<open>inbound\<close>, \<open>surroundings\<close>), the entry points of plugins, clocks and the environment. What a property assumes of them is written in its hypotheses, and its witness
  discharges these on concrete functions.

  \<^bold>\<open>Differences to Python.\<close> Strings are sequences of Latin-1 characters; floats are rationals, so
  rounding, infinities and \<open>NaN\<close> are not modelled; the order of a set is that of its list of
  elements. The numbers of the code are not of fixed width, so \<open>int\<close> and \<open>nat\<close> are exact. The keys of
  the dictionaries that a policy file yields are strings, and a server whose name is not a string is
  left out of the table of servers (\<open>config_table\<close>), although listing tools would ask it. A request
  is one step of a history: what other requests do while it waits is the change that the arguments
  \<open>wait\<close> make, not an interleaving of two calls.

  \<^bold>\<open>Not modelled.\<close> The texts of log lines outside \<open>logging.py\<close>, apart from the summary of the
  start; the web server, Starlette and the side of the MCP SDK that faces the clients, which are
  parameters (\<open>surroundings\<close>, \<open>inbound\<close>); \<open>__main__.py\<close>, which is one call of \<open>run\<close>; the re-exports of
  the packages.
\<close>

end
